(* ===== verification/Prelude.thy ===== *)
theory Prelude
  imports Main "HOL-Library.Word" "HOL-Library.Sublist" "HOL-Library.List_Lexorder"
    "HOL-Library.Char_ord"
begin

text \<open>
  What every component of the model shares: Go strings as byte lists with the parts of the
  standard packages \<open>strings\<close>, \<open>strconv\<close> and \<open>fmt\<close> the source uses, Go errors as values, and
  effects as functions of an external state.

  Go strings are byte sequences and an Isabelle \<open>char\<close> is a byte, so \<open>string\<close> is exact.
  Case mapping and white space are modelled on ASCII (the source only applies them to MAC
  addresses, DNS names and the output of command line tools).

  An effect is a function of the state \<open>'s\<close> of the world outside the process. It returns its
  result, the time it took in milliseconds and the new state. Time is part of the result, so
  an operation can only move the clock forward and every polling loop with a deadline is a
  total function.
\<close>

named_theorems io_simps "unfolding of the effect combinators"
named_theorems inv_intros "preservation of the well-formedness invariants"

section \<open>Go errors\<close>

text \<open>
  \<open>Errorf f args\<close> is \<open>fmt.Errorf(f, args...)\<close> with the arguments already rendered, \<open>Wrapf f args e\<close>
  the same with \<open>%w\<close> bound to \<open>e\<close>, \<open>Joined\<close> is \<open>errors.Join\<close>. \<open>ExtErr t\<close> is an error made outside
  the repository whose text is \<open>t\<close>; the other constructors are the sentinels the source asks
  for with \<open>errors.Is\<close>.
\<close>

datatype error =
    Errorf string "string list"
  | Wrapf string "string list" error
  | Joined "error list"
  | ExtErr string
  | ErrNotExist
  | ErrCanceled
  | ErrExecNotFound

type_synonym 'a result = "error + 'a"

text \<open>\<open>fmt\<close> verbs: each \<open>%x\<close> takes the next rendered argument, \<open>%w\<close> the wrapped error's text.\<close>

fun render :: "string \<Rightarrow> string list \<Rightarrow> string \<Rightarrow> string" where
  "render [] args w = []"
| "render [c] args w = [c]"
| "render (c # v # f) args w =
     (if c \<noteq> CHR ''%'' then c # render (v # f) args w
      else if v = CHR ''%'' then v # render f args w
      else if v = CHR ''w'' then w @ render f args w
      else (case args of [] \<Rightarrow> c # v # render f [] w
                       | a # as \<Rightarrow> a @ render f as w))"

fun joined :: "string \<Rightarrow> string list \<Rightarrow> string" where
  "joined sep [] = []"
| "joined sep [x] = x"
| "joined sep (x # y # xs) = x @ sep @ joined sep (y # xs)"

fun error_text :: "error \<Rightarrow> string" where
  "error_text (Errorf f args) = render f args []"
| "error_text (Wrapf f args e) = render f args (error_text e)"
| "error_text (Joined es) = joined [CHR 0x0A] (map error_text es)"
| "error_text (ExtErr t) = t"
| "error_text ErrNotExist = ''file does not exist''"
| "error_text ErrCanceled = ''context canceled''"
| "error_text ErrExecNotFound = ''executable file not found in $PATH''"

text \<open>\<open>errors.Is\<close>: the target occurs along the chain of wrapped errors.\<close>

fun error_is :: "error \<Rightarrow> error \<Rightarrow> bool" where
  "error_is (Wrapf f args e) t \<longleftrightarrow> Wrapf f args e = t \<or> error_is e t"
| "error_is (Joined es) t \<longleftrightarrow> Joined es = t \<or> list_ex (\<lambda>e. error_is e t) es"
| "error_is e t \<longleftrightarrow> e = t"

section \<open>Go strings\<close>

abbreviation nl :: string where "nl \<equiv> [CHR 0x0A]"
abbreviation tab :: string where "tab \<equiv> [CHR 0x09]"
abbreviation emdash :: string where "emdash \<equiv> [CHR 0xE2, CHR 0x80, CHR 0x94]"

definition has_prefix :: "string \<Rightarrow> string \<Rightarrow> bool" where
  "has_prefix s p \<longleftrightarrow> take (length p) s = p"

definition has_suffix :: "string \<Rightarrow> string \<Rightarrow> bool" where
  "has_suffix s p \<longleftrightarrow> length p \<le> length s \<and> drop (length s - length p) s = p"

fun contains :: "string \<Rightarrow> string \<Rightarrow> bool" where
  "contains [] sub \<longleftrightarrow> sub = []"
| "contains (c # s) sub \<longleftrightarrow> has_prefix (c # s) sub \<or> contains s sub"

definition trim_prefix :: "string \<Rightarrow> string \<Rightarrow> string" where
  "trim_prefix s p = (if has_prefix s p then drop (length p) s else s)"

definition trim_suffix :: "string \<Rightarrow> string \<Rightarrow> string" where
  "trim_suffix s p = (if has_suffix s p then take (length s - length p) s else s)"

text \<open>\<open>strings.Split(s, sep)\<close> for a one-byte separator: never empty.\<close>

fun split_on :: "char \<Rightarrow> string \<Rightarrow> string list" where
  "split_on c [] = [[]]"
| "split_on c (d # s) =
     (if d = c then [] # split_on c s
      else (case split_on c s of [] \<Rightarrow> [[d]] | w # ws \<Rightarrow> (d # w) # ws))"

definition is_space :: "char \<Rightarrow> bool" where
  "is_space c \<longleftrightarrow> c = CHR '' '' \<or> c = CHR 0x09 \<or> c = CHR 0x0A \<or> c = CHR 0x0B \<or> c = CHR 0x0C \<or> c = CHR 0x0D"

definition trim_right_by :: "(char \<Rightarrow> bool) \<Rightarrow> string \<Rightarrow> string" where
  "trim_right_by p s = rev (dropWhile p (rev s))"

definition trim_by :: "(char \<Rightarrow> bool) \<Rightarrow> string \<Rightarrow> string" where
  "trim_by p s = trim_right_by p (dropWhile p s)"

definition trim_space :: "string \<Rightarrow> string" where
  "trim_space s = trim_by is_space s"

text \<open>\<open>strings.Fields\<close>: the maximal runs of non-space bytes.\<close>

function fields :: "string \<Rightarrow> string list" where
  "fields s =
     (case dropWhile is_space s of
        [] \<Rightarrow> []
      | c # r \<Rightarrow> (c # takeWhile (\<lambda>d. \<not> is_space d) r) # fields (dropWhile (\<lambda>d. \<not> is_space d) r))"
  by pat_completeness auto
termination
proof (relation "measure length")
  fix s c r assume "dropWhile is_space s = c # r"
  then have "length (c # r) \<le> length s" by (metis length_dropWhile_le)
  then show "(dropWhile (\<lambda>d. \<not> is_space d) r, s) \<in> measure length"
    using length_dropWhile_le [of "\<lambda>d. \<not> is_space d" r] by simp
qed simp

declare fields.simps [simp del]

definition to_lower_char :: "char \<Rightarrow> char" where
  "to_lower_char c = (if CHR ''A'' \<le> c \<and> c \<le> CHR ''Z'' then char_of (of_char c + (32 :: nat)) else c)"

definition to_upper_char :: "char \<Rightarrow> char" where
  "to_upper_char c = (if CHR ''a'' \<le> c \<and> c \<le> CHR ''z'' then char_of (of_char c - (32 :: nat)) else c)"

definition to_lower :: "string \<Rightarrow> string" where "to_lower s = map to_lower_char s"
definition to_upper :: "string \<Rightarrow> string" where "to_upper s = map to_upper_char s"

text \<open>\<open>%q\<close> and \<open>strconv.Quote\<close> on ASCII text without control bytes other than the common ones.\<close>

definition quote_char :: "char \<Rightarrow> string" where
  "quote_char c =
     (if c = CHR 0x22 then [CHR 0x5C, CHR 0x22]
      else if c = CHR 0x5C then [CHR 0x5C, CHR 0x5C]
      else if c = CHR 0x0A then [CHR 0x5C, CHR ''n'']
      else if c = CHR 0x09 then [CHR 0x5C, CHR ''t'']
      else if c = CHR 0x0D then [CHR 0x5C, CHR ''r'']
      else [c])"

definition quoted :: "string \<Rightarrow> string" where
  "quoted s = [CHR 0x22] @ concat (map quote_char s) @ [CHR 0x22]"

section \<open>Numbers in text\<close>

definition digit_char :: "nat \<Rightarrow> char" where
  "digit_char d = char_of (48 + d)"

fun nat_str :: "nat \<Rightarrow> string" where
  "nat_str n = (if n < 10 then [digit_char n] else nat_str (n div 10) @ [digit_char (n mod 10)])"

declare nat_str.simps [simp del]

definition int_str :: "int \<Rightarrow> string" where
  "int_str i = (if i < 0 then CHR ''-'' # nat_str (nat (- i)) else nat_str (nat i))"

definition bool_str :: "bool \<Rightarrow> string" where
  "bool_str b = (if b then ''true'' else ''false'')"

definition hex_digit :: "nat \<Rightarrow> char" where
  "hex_digit d = (if d < 10 then char_of (48 + d) else char_of (87 + d))"

text \<open>\<open>%02x\<close> of a byte.\<close>

definition hex2 :: "8 word \<Rightarrow> string" where
  "hex2 b = [hex_digit (unat b div 16), hex_digit (unat b mod 16)]"

definition is_digit :: "char \<Rightarrow> bool" where
  "is_digit c \<longleftrightarrow> CHR ''0'' \<le> c \<and> c \<le> CHR ''9''"

definition digit_val :: "char \<Rightarrow> nat" where
  "digit_val c = of_char c - 48"

text \<open>The value of a hexadecimal digit, \<open>None\<close> for any other byte.\<close>

definition hex_val :: "char \<Rightarrow> nat option" where
  "hex_val c =
     (if CHR ''0'' \<le> c \<and> c \<le> CHR ''9'' then Some (of_char c - 48)
      else if CHR ''a'' \<le> c \<and> c \<le> CHR ''f'' then Some (of_char c - 87)
      else if CHR ''A'' \<le> c \<and> c \<le> CHR ''F'' then Some (of_char c - 55)
      else None)"

text \<open>Decimal digits only, as \<open>strconv.ParseUint(s, 10, 64)\<close> before its range check.\<close>

definition parse_digits :: "string \<Rightarrow> nat option" where
  "parse_digits s =
     (if s \<noteq> [] \<and> list_all is_digit s
      then Some (foldl (\<lambda>n c. 10 * n + digit_val c) 0 s) else None)"

definition parse_uint64 :: "string \<Rightarrow> nat option" where
  "parse_uint64 s =
     (case parse_digits s of Some n \<Rightarrow> if n < 2 ^ 64 then Some n else None | None \<Rightarrow> None)"

text \<open>\<open>strconv.Atoi\<close>: an optional sign, then digits, within the range of a 64-bit \<open>int\<close>.\<close>

definition atoi :: "string \<Rightarrow> int option" where
  "atoi s =
     (let body = (case s of [] \<Rightarrow> [] | c # r \<Rightarrow> if c = CHR ''-'' \<or> c = CHR ''+'' then r else s);
          neg = (s \<noteq> [] \<and> hd s = CHR ''-'')
      in case parse_digits body of
           None \<Rightarrow> None
         | Some n \<Rightarrow> if neg then (if n \<le> 2 ^ 63 then Some (- int n) else None)
                     else (if n < 2 ^ 63 then Some (int n) else None))"

section \<open>Rendering of slices, base64\<close>

text \<open>\<open>%v\<close> of a \<open>[]string\<close>.\<close>

definition strs_text :: "string list \<Rightarrow> string" where
  "strs_text ss = ''['' @ joined '' '' ss @ '']''"

text \<open>\<open>base64.StdEncoding.EncodeToString\<close>.\<close>

definition b64_char :: "nat \<Rightarrow> char" where
  "b64_char n =
     (if n < 26 then char_of (65 + n) else if n < 52 then char_of (71 + n)
      else if n < 62 then char_of (n - 4) else if n = 62 then CHR ''+'' else CHR ''/'')"

fun base64 :: "string \<Rightarrow> string" where
  "base64 [] = []"
| "base64 [a] =
     (let x = of_char a in [b64_char (x div 4), b64_char (x mod 4 * 16), CHR ''='', CHR ''=''])"
| "base64 [a, b] =
     (let x = of_char a; y = of_char b in
      [b64_char (x div 4), b64_char (x mod 4 * 16 + y div 16), b64_char (y mod 16 * 4), CHR ''=''])"
| "base64 (a # b # c # r) =
     (let x = of_char a; y = of_char b; z = of_char c in
      b64_char (x div 4) # b64_char (x mod 4 * 16 + y div 16) # b64_char (y mod 16 * 4 + z div 64) #
      b64_char (z mod 64) # base64 r)"

text \<open>\<open>base64.StdEncoding.DecodeString\<close>: line breaks are skipped, padding is required.\<close>

definition b64_val :: "char \<Rightarrow> nat option" where
  "b64_val c =
     (if CHR ''A'' \<le> c \<and> c \<le> CHR ''Z'' then Some (of_char c - 65)
      else if CHR ''a'' \<le> c \<and> c \<le> CHR ''z'' then Some (of_char c - 71)
      else if CHR ''0'' \<le> c \<and> c \<le> CHR ''9'' then Some (of_char c + 4)
      else if c = CHR ''+'' then Some 62 else if c = CHR ''/'' then Some 63 else None)"

fun b64_groups :: "string \<Rightarrow> string option" where
  "b64_groups [] = Some []"
| "b64_groups (a # b # c # d # r) =
     (case (b64_val a, b64_val b) of
        (Some x, Some y) \<Rightarrow>
          (if d = CHR ''='' \<and> r = [] \<and> c = CHR ''='' then Some [char_of (x * 4 + y div 16)]
           else (case b64_val c of
             None \<Rightarrow> None
           | Some z \<Rightarrow>
               if d = CHR ''='' \<and> r = [] then Some [char_of (x * 4 + y div 16), char_of (y mod 16 * 16 + z div 4)]
               else (case b64_val d of
                 None \<Rightarrow> None
               | Some w \<Rightarrow>
                   map_option (\<lambda>s. char_of (x * 4 + y div 16) # char_of (y mod 16 * 16 + z div 4) #
                                   char_of (z mod 4 * 64 + w) # s) (b64_groups r))))
      | _ \<Rightarrow> None)"
| "b64_groups _ = None"

definition base64_decode :: "string \<Rightarrow> string option" where
  "base64_decode s = b64_groups (filter (\<lambda>c. c \<noteq> CHR 0x0A \<and> c \<noteq> CHR 0x0D) s)"

section \<open>Effects\<close>

type_synonym ('s, 'a) io = "'s \<Rightarrow> 'a \<times> nat \<times> 's"

definition io_ret :: "'a \<Rightarrow> ('s, 'a) io" where
  "io_ret x s = (x, 0, s)"

definition io_bind :: "('s, 'a) io \<Rightarrow> ('a \<Rightarrow> ('s, 'b) io) \<Rightarrow> ('s, 'b) io" where
  "io_bind m k s = (case m s of (x, t, s1) \<Rightarrow> (case k x s1 of (y, u, s2) \<Rightarrow> (y, t + u, s2)))"

text \<open>\<open>if err := m; err != nil { return err }; k\<close>, and the same for an operation with a value.\<close>

definition io_seq :: "('s, error option) io \<Rightarrow> ('s, error option) io \<Rightarrow> ('s, error option) io" where
  "io_seq m k = io_bind m (\<lambda>r. case r of Some e \<Rightarrow> io_ret (Some e) | None \<Rightarrow> k)"

definition io_try :: "('s, 'a result) io \<Rightarrow> ('a \<Rightarrow> ('s, 'b result) io) \<Rightarrow> ('s, 'b result) io" where
  "io_try m k = io_bind m (\<lambda>r. case r of Inl e \<Rightarrow> io_ret (Inl e) | Inr x \<Rightarrow> k x)"

text \<open>\<open>return fmt.Errorf(f, args..., err)\<close> on the error path of an operation.\<close>

definition wrap_err :: "string \<Rightarrow> string list \<Rightarrow> ('s, error option) io \<Rightarrow> ('s, error option) io" where
  "wrap_err f args m = io_bind m (\<lambda>r. io_ret (map_option (Wrapf f args) r))"

definition res :: "('s, 'a) io \<Rightarrow> 's \<Rightarrow> 'a" where "res m s = fst (m s)"
definition took :: "('s, 'a) io \<Rightarrow> 's \<Rightarrow> nat" where "took m s = fst (snd (m s))"
definition after :: "('s, 'a) io \<Rightarrow> 's \<Rightarrow> 's" where "after m s = snd (snd (m s))"

lemma io_ret_simp [io_simps]: "io_ret x s = (x, 0, s)"
  by (fact io_ret_def)

lemma io_split: "m s = (res m s, took m s, after m s)"
  by (simp add: res_def took_def after_def)

lemma res_ret [simp]: "res (io_ret x) s = x"
  and took_ret [simp]: "took (io_ret x) s = 0"
  and after_ret [simp]: "after (io_ret x) s = s"
  by (simp_all add: res_def took_def after_def io_ret_def)

lemma res_bind [simp]: "res (io_bind m k) s = res (k (res m s)) (after m s)"
  and took_bind [simp]: "took (io_bind m k) s = took m s + took (k (res m s)) (after m s)"
  and after_bind [simp]: "after (io_bind m k) s = after (k (res m s)) (after m s)"
  by (simp_all add: io_bind_def res_def took_def after_def split: prod.splits)

lemma io_bind_ret [simp]: "io_bind (io_ret x) k = k x"
  by (rule ext) (simp add: io_bind_def io_ret_def split: prod.splits)

lemma io_bind_ret_right [simp]: "io_bind m io_ret = m"
  by (rule ext) (simp add: io_bind_def io_ret_def split: prod.splits)

lemma io_bind_assoc: "io_bind (io_bind m k) h = io_bind m (\<lambda>x. io_bind (k x) h)"
  by (rule ext) (simp add: io_bind_def add.assoc split: prod.splits)

lemma io_eqI: "res m s = res n s \<Longrightarrow> took m s = took n s \<Longrightarrow> after m s = after n s \<Longrightarrow> m s = n s"
  by (simp add: io_split)

lemma res_seq [simp]:
  "res (io_seq m k) s = (case res m s of Some e \<Rightarrow> Some e | None \<Rightarrow> res k (after m s))"
  and after_seq [simp]:
  "after (io_seq m k) s = (case res m s of Some e \<Rightarrow> after m s | None \<Rightarrow> after k (after m s))"
  by (simp_all add: io_seq_def split: option.splits)

lemma res_try [simp]:
  "res (io_try m k) s = (case res m s of Inl e \<Rightarrow> Inl e | Inr x \<Rightarrow> res (k x) (after m s))"
  and after_try [simp]:
  "after (io_try m k) s = (case res m s of Inl e \<Rightarrow> after m s | Inr x \<Rightarrow> after (k x) (after m s))"
  by (simp_all add: io_try_def split: sum.splits)

lemma res_wrap_err [simp]: "res (wrap_err f args m) s = map_option (Wrapf f args) (res m s)"
  and after_wrap_err [simp]: "after (wrap_err f args m) s = after m s"
  by (simp_all add: wrap_err_def)

section \<open>Lemmas on strings\<close>

lemma split_on_nonempty [simp]: "split_on c s \<noteq> []"
  by (induction c s rule: split_on.induct) (auto split: list.splits)

lemma split_on_no_sep: "c \<notin> set s \<Longrightarrow> split_on c s = [s]"
  by (induction c s rule: split_on.induct) auto

lemma split_on_append: "c \<notin> set s \<Longrightarrow> split_on c (s @ c # r) = s # split_on c r"
  by (induction c s rule: split_on.induct) auto

lemma split_on_no_sep_in: "w \<in> set (split_on c s) \<Longrightarrow> c \<notin> set w"
  by (induction c s arbitrary: w rule: split_on.induct) (auto split: list.splits if_splits)

lemma joined_split: "joined [c] (split_on c s) = s"
proof (induction c s rule: split_on.induct)
  case (2 c d s)
  obtain w ws where w: "split_on c s = w # ws" by (cases "split_on c s") auto
  show ?case
  proof (cases "d = c")
    case True
    with 2 w show ?thesis by simp
  next
    case False
    with 2 w show ?thesis by (cases ws) auto
  qed
qed simp

lemma contains_iff: "contains s sub \<longleftrightarrow> (\<exists>a b. s = a @ sub @ b)"
proof (induction s)
  case (Cons c s)
  have "has_prefix (c # s) sub \<longleftrightarrow> (\<exists>b. c # s = sub @ b)"
    unfolding has_prefix_def by (metis append_eq_conv_conj append_take_drop_id)
  moreover have "(\<exists>a b. c # s = a @ sub @ b) \<longleftrightarrow>
      (\<exists>b. c # s = sub @ b) \<or> (\<exists>a b. s = a @ sub @ b)"
    by (metis append_Cons append_Nil list.exhaust list.inject)
  ultimately show ?case using Cons by simp
qed simp

lemma has_prefix_append [simp]: "has_prefix (p @ s) p"
  by (simp add: has_prefix_def)

lemma has_suffix_append [simp]: "has_suffix (s @ p) p"
  by (simp add: has_suffix_def)

lemma trim_space_spaces: "c \<in> set (trim_space s) \<Longrightarrow> c \<in> set s"
  unfolding trim_space_def trim_by_def trim_right_by_def
  by (metis set_dropWhileD set_rev)

text \<open>The decimal digits of a byte: one, two or three of them, no leading zero.\<close>

lemma nat_str_small: "n < 10 \<Longrightarrow> nat_str n = [digit_char n]"
  by (simp add: nat_str.simps)

lemma nat_str_two: "10 \<le> n \<Longrightarrow> n < 100 \<Longrightarrow> nat_str n = [digit_char (n div 10), digit_char (n mod 10)]"
  by (simp add: nat_str.simps [of n] nat_str_small)

lemma nat_str_three:
  "100 \<le> n \<Longrightarrow> n < 1000 \<Longrightarrow>
     nat_str n = [digit_char (n div 100), digit_char (n div 10 mod 10), digit_char (n mod 10)]"
  by (simp add: nat_str.simps [of n] nat_str_two div_mult2_eq [symmetric])

lemma nat_str_nonempty [simp]: "nat_str n \<noteq> []"
  by (simp add: nat_str.simps [of n])

lemma of_char_digit [simp]: "d < 10 \<Longrightarrow> of_char (digit_char d) = 48 + d"
  by (simp add: digit_char_def of_char_of)

lemma char_le_iff: "(c \<le> d) = ((of_char c :: nat) \<le> of_char d)"
  by (simp add: less_eq_char_def)

lemma is_digit_digit_char [simp]: "d < 10 \<Longrightarrow> is_digit (digit_char d)"
  by (simp add: is_digit_def char_le_iff)

lemma digit_val_digit_char [simp]: "d < 10 \<Longrightarrow> digit_val (digit_char d) = d"
  by (simp add: digit_val_def)

lemma nat_str_digits: "list_all is_digit (nat_str n)"
  by (induction n rule: nat_str.induct) (subst nat_str.simps, simp)

lemma not_digit_iff: "\<not> is_digit c \<Longrightarrow> c \<notin> set (nat_str n)"
  using nat_str_digits [of n] by (auto simp: list_all_iff)

lemma parse_digits_nat_str [simp]: "parse_digits (nat_str n) = Some n"
proof -
  have "foldl (\<lambda>n c. 10 * n + digit_val c) 0 (nat_str n) = n"
    by (induction n rule: nat_str.induct) (subst nat_str.simps, simp)
  then show ?thesis by (simp add: parse_digits_def nat_str_digits)
qed

lemma atoi_nat_str: "n < 2 ^ 63 \<Longrightarrow> atoi (nat_str n) = Some (int n)"
proof -
  assume n: "n < 2 ^ 63"
  obtain d ds where d: "nat_str n = d # ds" by (cases "nat_str n") auto
  have "is_digit d" using nat_str_digits [of n] d by simp
  then have "d \<noteq> CHR ''-''" "d \<noteq> CHR ''+''" by (auto simp: is_digit_def char_le_iff)
  then show ?thesis using n parse_digits_nat_str [of n] d by (simp add: atoi_def)
qed

lemma nat_str_inj: "nat_str m = nat_str n \<Longrightarrow> m = n"
  by (metis option.inject parse_digits_nat_str)

lemma hex_val_digit: "d < 16 \<Longrightarrow> hex_val (hex_digit d) = Some d"
  unfolding hex_val_def hex_digit_def by (auto simp: char_le_iff of_char_of)

lemma unat_byte_div: "unat (b :: 8 word) div 16 < 16"
proof -
  have "unat b < 2 ^ 8" using unsigned_less [of b] by simp
  then show ?thesis by (simp add: div_less_iff_less_mult)
qed


text \<open>Base64 reads back.\<close>

lemma b64_val_char: "n < 64 \<Longrightarrow> b64_val (b64_char n) = Some n"
  unfolding b64_val_def b64_char_def by (auto simp: char_le_iff of_char_of char_of_eq_iff)

lemma b64_char_plain: "n < 64 \<Longrightarrow> b64_char n \<noteq> CHR ''='' \<and> b64_char n \<noteq> CHR 0x0A \<and> b64_char n \<noteq> CHR 0x0D"
proof -
  assume n: "n < 64"
  have "b64_val (CHR ''='') = None" "b64_val (CHR 0x0A) = None" "b64_val (CHR 0x0D) = None" by code_simp+
  with b64_val_char [OF n] show ?thesis by auto
qed

lemma byte_split:
  fixes x y z :: nat
  assumes "x < 256" "y < 256" "z < 256"
  shows "x div 4 * 4 + (x mod 4 * 16 + y div 16) div 16 = x"
    "(x mod 4 * 16 + y div 16) mod 16 * 16 + (y mod 16 * 4 + z div 64) div 4 = y"
    "(y mod 16 * 4 + z div 64) mod 4 * 64 + z mod 64 = z"
    "x div 4 < 64" "x mod 4 * 16 + y div 16 < 64" "y mod 16 * 4 + z div 64 < 64" "z mod 64 < 64"
    "y div 16 mod 16 * 16 + y mod 16 = y" "z div 64 mod 4 * 64 + z mod 64 = z"
proof -
  have "y div 16 < 16" "z div 64 < 4" using assms by (simp_all add: div_less_iff_less_mult)
  moreover have "x mod 4 < 4" "y mod 16 < 16" by simp_all
  moreover have "x = x div 4 * 4 + x mod 4" "y = y div 16 * 16 + y mod 16" "z = z div 64 * 64 + z mod 64" by simp_all
  ultimately show "x div 4 * 4 + (x mod 4 * 16 + y div 16) div 16 = x"
    "(x mod 4 * 16 + y div 16) mod 16 * 16 + (y mod 16 * 4 + z div 64) div 4 = y"
    "(y mod 16 * 4 + z div 64) mod 4 * 64 + z mod 64 = z"
    "x mod 4 * 16 + y div 16 < 64" "y mod 16 * 4 + z div 64 < 64"
    "y div 16 mod 16 * 16 + y mod 16 = y" "z div 64 mod 4 * 64 + z mod 64 = z"
    by (simp_all add: div_add1_eq mod_add_eq)
  show "x div 4 < 64" "z mod 64 < 64" using assms by (simp_all add: div_less_iff_less_mult)
qed

lemma b64_groups_base64: "b64_groups (base64 s) = Some s"
proof (induction s rule: base64.induct)
  case (2 a)
  show ?case using byte_split [of "of_char a" 0 0] by (simp add: b64_val_char Let_def)
next
  case (3 a b)
  show ?case using byte_split [of "of_char a" "of_char b" 0]
    by (simp add: b64_val_char b64_char_plain Let_def)
next
  case (4 a b c r)
  show ?case using byte_split [of "of_char a" "of_char b" "of_char c"] 4
    by (simp add: b64_val_char b64_char_plain Let_def)
qed simp

lemma base64_plain: "\<forall>c \<in> set (base64 s). c \<noteq> CHR 0x0A \<and> c \<noteq> CHR 0x0D"
proof (induction s rule: base64.induct)
  case (2 a)
  show ?case using byte_split [of "of_char a" 0 0] by (simp add: b64_char_plain Let_def)
next
  case (3 a b)
  show ?case using byte_split [of "of_char a" "of_char b" 0] by (simp add: b64_char_plain Let_def)
next
  case (4 a b c r)
  show ?case using byte_split [of "of_char a" "of_char b" "of_char c"] 4 by (simp add: b64_char_plain Let_def)
qed simp

lemma split_on_last: "c \<notin> set w \<Longrightarrow> split_on c (s @ c # w) = split_on c s @ [w]"
proof (induction s)
  case Nil
  have "split_on c w = [w]" using Nil by (induction w) auto
  then show ?case by simp
next
  case (Cons d s)
  then show ?case by (cases "split_on c s") (auto split: list.splits)
qed

lemma joined_snoc: "ws \<noteq> [] \<Longrightarrow> joined sep (ws @ [w]) = joined sep ws @ sep @ w"
  by (induction sep ws rule: joined.induct) auto

lemma joined_file: "\<exists>p. joined sep (ws @ [w]) = p @ w"
  using joined_snoc [of ws sep w] by (cases ws) auto

lemma base64_decode_base64 [simp]: "base64_decode (base64 s) = Some s"
  using base64_plain [of s] by (simp add: base64_decode_def filter_True b64_groups_base64)

end
