(* ===== verification/NetAddr.thy ===== *)
theory NetAddr
  imports Prelude
begin

text \<open>
  The parts of Go's \<open>net\<close> and \<open>net/netip\<close> packages the source calls on addresses: \<open>ParseIP\<close>,
  \<open>IP.To4\<close>, \<open>ParseCIDR\<close>, \<open>IP.String\<close> (of four bytes) and \<open>ParseMAC\<close>, as byte-level parsers.
  An address is the list of its bytes, most significant first.
\<close>

section \<open>Parsing IP addresses\<close>

text \<open>
  \<open>parseIPv4Fields\<close>: \<open>v\<close> is the octet read so far, \<open>n\<close> how many digits it has, \<open>prev\<close> the
  byte before (\<open>None\<close> at the start) and \<open>acc\<close> the finished octets, last first.
\<close>

fun ipv4_fields :: "string \<Rightarrow> nat \<Rightarrow> nat \<Rightarrow> char option \<Rightarrow> nat list \<Rightarrow> nat list option" where
  "ipv4_fields [] v n prev acc = (if length acc < 3 then None else Some (rev (v # acc)))"
| "ipv4_fields (c # s) v n prev acc =
     (if is_digit c then
        (if n = 1 \<and> v = 0 then None
         else if v * 10 + digit_val c > 255 then None
         else ipv4_fields s (v * 10 + digit_val c) (Suc n) (Some c) acc)
      else if c = CHR ''.'' then
        (if prev = None \<or> s = [] \<or> prev = Some (CHR ''.'') then None
         else if length acc = 3 then None
         else ipv4_fields s 0 0 (Some c) (v # acc))
      else None)"

definition parse_ipv4 :: "string \<Rightarrow> nat list option" where
  "parse_ipv4 s = ipv4_fields s 0 0 None []"

text \<open>The hexadecimal group at the head of the text: its value, its length, the rest.\<close>

fun hex_group :: "string \<Rightarrow> nat \<Rightarrow> nat \<Rightarrow> (nat \<times> nat \<times> string) option" where
  "hex_group [] off acc = Some (acc, off, [])"
| "hex_group (c # s) off acc =
     (case hex_val c of
        None \<Rightarrow> Some (acc, off, c # s)
      | Some d \<Rightarrow> if off > 3 \<or> 16 * acc + d > 65535 then None
                  else hex_group s (Suc off) (16 * acc + d))"

text \<open>
  The loop of \<open>parseIPv6\<close>: \<open>ip\<close> holds the bytes read so far (so \<open>length ip\<close> is its \<open>i\<close>) and
  \<open>ell\<close> the position of the ellipsis. The result is what the loop leaves for the code after it;
  \<open>fuel\<close> bounds the eight groups.
\<close>

fun ipv6_groups :: "nat \<Rightarrow> string \<Rightarrow> nat option \<Rightarrow> nat list \<Rightarrow> (string \<times> nat option \<times> nat list) option" where
  "ipv6_groups 0 s ell ip = Some (s, ell, ip)"
| "ipv6_groups (Suc k) s ell ip =
     (if length ip \<ge> 16 then Some (s, ell, ip)
      else case hex_group s 0 0 of
        None \<Rightarrow> None
      | Some (acc, off, r) \<Rightarrow>
          if off = 0 then None
          else if r \<noteq> [] \<and> hd r = CHR ''.'' then
            (if ell = None \<and> length ip \<noteq> 12 then None
             else if length ip + 4 > 16 then None
             else (case parse_ipv4 s of
                     None \<Rightarrow> None
                   | Some v4 \<Rightarrow> Some ([], ell, ip @ v4)))
          else
            let ip' = ip @ [acc div 256, acc mod 256] in
            (case r of
               [] \<Rightarrow> Some ([], ell, ip')
             | c # r' \<Rightarrow>
                 if c \<noteq> CHR '':'' then None
                 else (case r' of
                         [] \<Rightarrow> None
                       | c' # r'' \<Rightarrow>
                           if c' = CHR '':'' then
                             (if ell \<noteq> None then None
                              else if r'' = [] then Some ([], Some (length ip'), ip')
                              else ipv6_groups k r'' (Some (length ip')) ip')
                           else ipv6_groups k r' ell ip')))"

definition parse_ipv6 :: "string \<Rightarrow> nat list option" where
  "parse_ipv6 s =
     (let lead = (take 2 s = ''::'');
          s1 = (if lead then drop 2 s else s)
      in if lead \<and> s1 = [] then Some (replicate 16 0)
         else case ipv6_groups 8 s1 (if lead then Some 0 else None) [] of
                None \<Rightarrow> None
              | Some (r, ell, ip) \<Rightarrow>
                  if r \<noteq> [] then None
                  else if length ip < 16 then
                    (case ell of
                       None \<Rightarrow> None
                     | Some e \<Rightarrow> Some (take e ip @ replicate (16 - length ip) 0 @ drop e ip))
                  else if ell \<noteq> None then None
                  else Some ip)"

text \<open>
  \<open>netip.ParseAddr\<close> without a zone, the only form \<open>net.ParseIP\<close> and \<open>net.ParseCIDR\<close> accept:
  the first of \<open>.\<close>, \<open>:\<close> and \<open>%\<close> decides the family.
\<close>

fun parse_addr_by :: "string \<Rightarrow> string \<Rightarrow> nat list option" where
  "parse_addr_by whole [] = None"
| "parse_addr_by whole (c # s) =
     (if c = CHR ''.'' then parse_ipv4 whole
      else if c = CHR '':'' then (if CHR ''%'' \<in> set whole then None else parse_ipv6 whole)
      else if c = CHR ''%'' then None
      else parse_addr_by whole s)"

definition parse_addr :: "string \<Rightarrow> nat list option" where
  "parse_addr s = parse_addr_by s s"

definition v4_in_v6_prefix :: "nat list" where
  "v4_in_v6_prefix = replicate 10 0 @ [255, 255]"

text \<open>\<open>net.ParseIP\<close> returns sixteen bytes, the IPv4 form mapped into IPv6.\<close>

definition to16 :: "nat list \<Rightarrow> nat list" where
  "to16 ip = (if length ip = 4 then v4_in_v6_prefix @ ip else ip)"

definition parse_ip :: "string \<Rightarrow> nat list option" where
  "parse_ip s = map_option to16 (parse_addr s)"

definition to4 :: "nat list \<Rightarrow> nat list option" where
  "to4 ip =
     (if length ip = 4 then Some ip
      else if length ip = 16 \<and> take 12 ip = v4_in_v6_prefix then Some (drop 12 ip)
      else None)"

text \<open>\<open>IP.String\<close> of four bytes.\<close>

definition ipv4_str :: "nat list \<Rightarrow> string" where
  "ipv4_str ip = joined ''.'' (map nat_str ip)"

section \<open>Parsing CIDRs\<close>

text \<open>\<open>net.CIDRMask(n, bits)\<close>: \<open>n\<close> ones, then zeroes, in bytes.\<close>

definition cidr_mask :: "nat \<Rightarrow> nat \<Rightarrow> nat list" where
  "cidr_mask n bits =
     map (\<lambda>i. if 8 * (i + 1) \<le> n then 255 else if n \<le> 8 * i then 0 else 256 - 2 ^ (8 - (n - 8 * i)))
       [0..<bits div 8]"

definition byte_and :: "nat \<Rightarrow> nat \<Rightarrow> nat" where
  "byte_and a b = unat (and (word_of_nat a :: 8 word) (word_of_nat b))"

text \<open>
  \<open>net.ParseCIDR\<close>: the masked network address (four bytes for an IPv4 CIDR) and the prefix
  length. \<open>dtoi\<close> reads digits up to \<open>0xFFFFFF\<close> and the whole mask text must be used.
\<close>

definition parse_cidr :: "string \<Rightarrow> (nat list \<times> nat) option" where
  "parse_cidr s =
     (let addr = takeWhile (\<lambda>c. c \<noteq> CHR ''/'') s;
          rest = dropWhile (\<lambda>c. c \<noteq> CHR ''/'') s
      in case rest of
           [] \<Rightarrow> None
         | _ # msk \<Rightarrow>
             (case parse_addr addr of
                None \<Rightarrow> None
              | Some ip \<Rightarrow>
                  (case parse_digits msk of
                     None \<Rightarrow> None
                   | Some n \<Rightarrow>
                       if n > 8 * length ip then None
                       else Some (map2 byte_and ip (cidr_mask n (8 * length ip)), n))))"

section \<open>Parsing MAC addresses\<close>

text \<open>\<open>xtoi2(s, e)\<close>: two hexadecimal digits, followed by \<open>e\<close> unless they end the text.\<close>

definition xtoi2 :: "string \<Rightarrow> char option \<Rightarrow> nat option" where
  "xtoi2 s e =
     (case s of
        a # b # r \<Rightarrow>
          if r \<noteq> [] \<and> e \<noteq> Some (hd r) then None
          else (case (hex_val a, hex_val b) of (Some x, Some y) \<Rightarrow> Some (16 * x + y) | _ \<Rightarrow> None)
      | _ \<Rightarrow> None)"

fun mac_colon :: "nat \<Rightarrow> char \<Rightarrow> string \<Rightarrow> nat list option" where
  "mac_colon 0 e s = Some []"
| "mac_colon (Suc n) e s =
     (case xtoi2 s (Some e) of
        None \<Rightarrow> None
      | Some b \<Rightarrow> map_option ((#) b) (mac_colon n e (drop 3 s)))"

fun mac_dot :: "nat \<Rightarrow> char \<Rightarrow> string \<Rightarrow> nat list option" where
  "mac_dot 0 e s = Some []"
| "mac_dot (Suc n) e s =
     (case (xtoi2 (take 2 s) None, xtoi2 (drop 2 s) (Some e)) of
        (Some a, Some b) \<Rightarrow> map_option (\<lambda>r. a # b # r) (mac_dot n e (drop 5 s))
      | _ \<Rightarrow> None)"

definition parse_mac :: "string \<Rightarrow> nat list option" where
  "parse_mac s =
     (if length s < 14 then None
      else if s ! 2 = CHR '':'' \<or> s ! 2 = CHR ''-'' then
        (let n = (length s + 1) div 3 in
         if (length s + 1) mod 3 \<noteq> 0 \<or> n \<notin> {6, 8, 20} then None
         else mac_colon n (s ! 2) s)
      else if s ! 4 = CHR ''.'' then
        (let n = 2 * (length s + 1) div 5 in
         if (length s + 1) mod 5 \<noteq> 0 \<or> n \<notin> {6, 8, 20} then None
         else mac_dot (n div 2) (s ! 4) s)
      else None)"

section \<open>Round trips\<close>

lemma ipv4_fields_octet:
  assumes "n < 256" and "r \<noteq> [] \<Longrightarrow> \<not> is_digit (hd r)"
  shows "ipv4_fields (nat_str n @ r) 0 0 prev acc =
         ipv4_fields r n (length (nat_str n)) (Some (digit_char (n mod 10))) acc"
proof -
  consider (one) "n < 10" | (two) "10 \<le> n" "n < 100" | (three) "100 \<le> n" by linarith
  then show ?thesis
  proof cases
    case one
    then show ?thesis by (simp add: nat_str_small)
  next
    case two
    define x y where "x = n div 10" and "y = n mod 10"
    have d: "x < 10" "x \<noteq> 0" "y < 10" "x * 10 + y = n" using two by (auto simp: x_def y_def)
    have s: "nat_str n = [digit_char x, digit_char y]" using two by (simp add: nat_str_two x_def y_def)
    have l: "\<not> 255 < n" "\<not> 255 < x" using assms(1) d by auto
    show ?thesis using d l by (simp add: s y_def [symmetric])
  next
    case three
    define x y z where "x = n div 100" and "y = n div 10 mod 10" and "z = n mod 10"
    have e: "x * 10 + y = n div 10"
      using div_mult_mod_eq [of "n div 10" 10] by (simp add: x_def y_def div_mult2_eq [symmetric])
    have d: "x < 10" "x \<noteq> 0" "y < 10" "z < 10" "(x * 10 + y) * 10 + z = n"
      using three assms(1) e by (auto simp: x_def y_def z_def)
    have s: "nat_str n = [digit_char x, digit_char y, digit_char z]"
      using three assms(1) by (simp add: nat_str_three x_def y_def z_def)
    have l: "\<not> 255 < n" "\<not> 255 < x" "\<not> 255 < x * 10 + y" using assms(1) d by auto
    show ?thesis using d l by (simp add: s z_def [symmetric])
  qed
qed

lemma parse_ipv4_str:
  assumes "a < 256" "b < 256" "c < 256" "d < 256"
  shows "parse_ipv4 (ipv4_str [a, b, c, d]) = Some [a, b, c, d]"
proof -
  have dot: "\<not> is_digit (CHR ''.'')" by (simp add: is_digit_def char_le_iff)
  have ne: "digit_char (x mod 10) \<noteq> CHR ''.''" for x
    by (metis dot is_digit_digit_char mod_less_divisor zero_less_numeral)
  have last: "ipv4_fields (nat_str d) 0 0 p acc =
      ipv4_fields [] d (length (nat_str d)) (Some (digit_char (d mod 10))) acc" for p acc
    using ipv4_fields_octet [OF assms(4), of "[]"] by simp
  show ?thesis
    by (simp add: parse_ipv4_def ipv4_str_def ipv4_fields_octet assms dot ne last)
qed

lemma parse_addr_by_digits:
  "list_all is_digit ds \<Longrightarrow> parse_addr_by w (ds @ CHR ''.'' # r) = parse_ipv4 w"
proof (induction ds)
  case (Cons c ds)
  then have "is_digit c" by simp
  then have "c \<noteq> CHR ''.''" "c \<noteq> CHR '':''" "c \<noteq> CHR ''%''"
    by (auto simp: is_digit_def char_le_iff)
  with Cons show ?case by simp
qed simp

lemma parse_ip_ipv4_str:
  assumes "a < 256" "b < 256" "c < 256" "d < 256"
  shows "parse_ip (ipv4_str [a, b, c, d]) = Some (v4_in_v6_prefix @ [a, b, c, d])"
proof -
  have "parse_addr (ipv4_str [a, b, c, d]) = parse_ipv4 (ipv4_str [a, b, c, d])"
    unfolding parse_addr_def
    by (subst (2) ipv4_str_def) (simp add: parse_addr_by_digits nat_str_digits)
  then show ?thesis
    using parse_ipv4_str [OF assms] by (simp add: parse_ip_def to16_def)
qed

lemma parse_addr_ipv4_str:
  assumes "a < 256" "b < 256" "c < 256" "d < 256"
  shows "parse_addr (ipv4_str [a, b, c, d]) = Some [a, b, c, d]"
  unfolding parse_addr_def using parse_ipv4_str [OF assms]
  by (subst (2) ipv4_str_def) (simp add: parse_addr_by_digits nat_str_digits)

lemma to4_mapped [simp]: "length ip = 4 \<Longrightarrow> to4 (v4_in_v6_prefix @ ip) = Some ip"
  by (simp add: to4_def v4_in_v6_prefix_def)

lemma xtoi2_hex2:
  "r = [] \<or> e = Some (hd r) \<Longrightarrow> xtoi2 (hex2 b @ r) e = Some (unat b)"
  by (auto simp: xtoi2_def hex2_def hex_val_digit unat_byte_div)

lemma ipv4_str_slash: "CHR ''/'' \<notin> set (ipv4_str [a, b, c, d])"
proof -
  have "CHR ''/'' \<notin> set (nat_str n)" for n
    by (rule not_digit_iff) (simp add: is_digit_def char_le_iff)
  then show ?thesis by (simp add: ipv4_str_def)
qed

lemma byte_and_255 [simp]: "a < 256 \<Longrightarrow> byte_and a 255 = a"
proof -
  assume a: "a < 256"
  have m: "(255 :: 8 word) = - 1" by simp
  have "and (word_of_nat a :: 8 word) (word_of_nat 255) = word_of_nat a"
    by (simp add: m)
  with a show ?thesis by (simp add: byte_and_def unat_of_nat)
qed

lemma byte_and_0 [simp]: "byte_and a 0 = 0"
  by (simp add: byte_and_def)

text \<open>A \<open>/24\<close> CIDR parses to its network address and prefix length.\<close>

lemma parse_cidr_24:
  assumes "a < 256" "b < 256" "c < 256" "d < 256"
  shows "parse_cidr (ipv4_str [a, b, c, d] @ ''/24'') = Some ([a, b, c, 0], 24)"
proof -
  let ?s = "ipv4_str [a, b, c, d]"
  have tw: "takeWhile (\<lambda>c. c \<noteq> CHR ''/'') (?s @ ''/24'') = ?s"
    and dw: "dropWhile (\<lambda>c. c \<noteq> CHR ''/'') (?s @ ''/24'') = ''/24''"
    by (subst takeWhile_append2 dropWhile_append2; use ipv4_str_slash [of a b c d] in force)+
  have pd: "parse_digits ''24'' = Some 24" by code_simp
  have m: "cidr_mask 24 32 = [255, 255, 255, 0]" by code_simp
  show ?thesis
    unfolding parse_cidr_def Let_def tw dw
    using assms by (simp add: parse_addr_ipv4_str pd m)
qed

end
