(* ===== verification/Config.thy ===== *)
theory Config
  imports NetAddr "HOL-Library.AList"
begin

text \<open>
  The package \<open>config\<close>: the persisted records (\<open>config.go\<close>), the address and naming rules of a
  cluster (\<open>cluster.go\<close>), the paths (\<open>paths.go\<close>, \<open>pullsecret.go\<close>) and \<open>arch.go\<close>. Go maps from
  strings are association lists with distinct keys; \<open>clusters\<close> holds pointers, modelled as
  references into a heap of cluster records, because the stages and the configuration share
  the same object.
\<close>

section \<open>Constants\<close>

abbreviation DefaultRelConfigDir :: string where "DefaultRelConfigDir \<equiv> ''.config/easyshift''"
abbreviation DefaultLogFile :: string where "DefaultLogFile \<equiv> ''easyshift.log''"
abbreviation DefaultPullSecret :: string where "DefaultPullSecret \<equiv> ''pull-secret''"
abbreviation DefaultWebPort :: int where "DefaultWebPort \<equiv> 9393"
abbreviation DefaultClustersMax :: nat where "DefaultClustersMax \<equiv> 3"

definition BaseNetworkRange :: string where "BaseNetworkRange = ''192.168.126''"
definition NetworkStart :: nat where "NetworkStart = 5"
definition NetworkEnd :: nat where "NetworkEnd = 20"
definition DHCPDynamicStart :: nat where "DHCPDynamicStart = 100"
definition DHCPDynamicEnd :: nat where "DHCPDynamicEnd = 254"
definition SharedNATNetwork :: string where "SharedNATNetwork = ''easyshift-nat''"

abbreviation OCPChannelStable :: string where "OCPChannelStable \<equiv> ''stable''"
abbreviation DefaultOCPVersion :: string where "DefaultOCPVersion \<equiv> OCPChannelStable"
abbreviation DefaultStoragePool :: string where "DefaultStoragePool \<equiv> ''default''"

abbreviation NetworkModeNAT :: string where "NetworkModeNAT \<equiv> ''nat''"
abbreviation NetworkModeBridge :: string where "NetworkModeBridge \<equiv> ''bridge''"
abbreviation MagicDNSAuto :: string where "MagicDNSAuto \<equiv> ''auto''"
abbreviation MagicDNSSslip :: string where "MagicDNSSslip \<equiv> ''sslip.io''"
abbreviation MagicDNSNip :: string where "MagicDNSNip \<equiv> ''nip.io''"
abbreviation MagicDNSOff :: string where "MagicDNSOff \<equiv> ''off''"

abbreviation ClusterStateCreating :: string where "ClusterStateCreating \<equiv> ''creating''"
abbreviation ClusterStateRunning :: string where "ClusterStateRunning \<equiv> ''running''"
abbreviation ClusterStateStopped :: string where "ClusterStateStopped \<equiv> ''stopped''"

abbreviation BakedImagesLabel :: string where "BakedImagesLabel \<equiv> ''baked-images''"
abbreviation BakedImagesMountPath :: string where "BakedImagesMountPath \<equiv> ''/var/lib/baked-images''"
abbreviation DNSProviderCloudflare :: string where "DNSProviderCloudflare \<equiv> ''cloudflare''"

section \<open>Records\<close>

record cluster_config =
  cName :: string
  cDomain :: string
  cOCPVersion :: string
  cMasterCount :: int
  cWorkerCount :: int
  cMasterRAM :: int
  cWorkerRAM :: int
  cMasterCPUs :: int
  cWorkerCPUs :: int
  cMasterDiskGB :: int
  cWorkerDiskGB :: int
  cNetworkMode :: string
  cBridge :: string
  cMasterMAC :: string
  cMasterIP :: string
  cMachineCIDR :: string
  cGateway :: string
  cDNS :: string
  cStoragePool :: string
  cDNSProvider :: string
  cDNSZone :: string
  cTLSEmail :: string
  cTLSStaging :: bool
  cMagicDNS :: string
  cBakeImages :: bool
  cODF :: bool
  cODFDiskGB :: int
  cNetworkSubnet :: string
  cIPAddresses :: "string list"
  cMACAddresses :: "string list"
  cState :: string
  cBootISOVolPath :: string
  cInstallKernelCmdline :: string
  cKubeconfigTarget :: string

text \<open>A Go \<open>map[string]bool\<close>: reading an absent key gives \<open>false\<close>.\<close>

type_synonym bool_map = "(string \<times> bool) list"

definition map_get :: "bool_map \<Rightarrow> string \<Rightarrow> bool" where
  "map_get m k \<longleftrightarrow> map_of m k = Some True"

text \<open>
  \<open>Config\<close> with its \<open>GlobalState\<close> inlined, as held in memory: \<open>Clusters\<close> is the slice of
  pointers and \<open>heap\<close> what they point to; \<open>next_ref\<close> is the next unused reference.
\<close>

record mem =
  ConfigDir :: string
  LogFile :: string
  WebPort :: int
  Debug :: bool
  Clusters :: "nat list"
  UsedIPs :: bool_map
  UsedMACs :: bool_map
  ActiveCluster :: string
  heap :: "nat \<Rightarrow> cluster_config"
  next_ref :: nat

text \<open>The JSON document \<open>config.json\<close>: \<open>GlobalState\<close> and its maps may be null in it.\<close>

record disk_config =
  dConfigDir :: string
  dLogFile :: string
  dWebPort :: int
  dDebug :: bool
  dClusters :: "cluster_config list"
  dGlobalState :: "(bool_map option \<times> bool_map option \<times> string) option"

definition cluster_list :: "mem \<Rightarrow> cluster_config list" where
  "cluster_list m = map (heap m) (Clusters m)"

definition set_cluster :: "nat \<Rightarrow> (cluster_config \<Rightarrow> cluster_config) \<Rightarrow> mem \<Rightarrow> mem" where
  "set_cluster r f m = m\<lparr>heap := (heap m)(r := f (heap m r))\<rparr>"

lemma set_cluster_simps [simp]:
  "ConfigDir (set_cluster r f m) = ConfigDir m" "LogFile (set_cluster r f m) = LogFile m"
  "Clusters (set_cluster r f m) = Clusters m" "UsedIPs (set_cluster r f m) = UsedIPs m"
  "UsedMACs (set_cluster r f m) = UsedMACs m" "next_ref (set_cluster r f m) = next_ref m"
  "heap (set_cluster r f m) r = f (heap m r)"
  "q \<noteq> r \<Longrightarrow> heap (set_cluster r f m) q = heap m q"
  by (simp_all add: set_cluster_def)

section \<open>Paths\<close>

text \<open>\<open>filepath.Clean\<close>: \<open>.\<close> dropped, \<open>..\<close> resolved; and \<open>filepath.Join\<close>, \<open>filepath.Dir\<close>, \<open>filepath.Base\<close>.\<close>

fun clean_step :: "bool \<Rightarrow> string list \<Rightarrow> string \<Rightarrow> string list" where
  "clean_step rooted st w =
     (if w = [] \<or> w = ''.'' then st
      else if w = ''..'' then
        (case st of
           [] \<Rightarrow> if rooted then [] else [''..'']
         | t # st' \<Rightarrow> if t = ''..'' then ''..'' # st else st')
      else w # st)"

definition path_clean :: "string \<Rightarrow> string" where
  "path_clean p =
     (let rooted = (p \<noteq> [] \<and> hd p = CHR ''/'');
          out = joined ''/'' (rev (foldl (clean_step rooted) [] (split_on (CHR ''/'') p)))
      in if rooted then CHR ''/'' # out else if out = [] then ''.'' else out)"

definition path_join :: "string list \<Rightarrow> string" where
  "path_join es =
     (let ne = filter (\<lambda>e. e \<noteq> []) es in if ne = [] then [] else path_clean (joined ''/'' ne))"

definition path_dir :: "string \<Rightarrow> string" where
  "path_dir p = path_clean (rev (dropWhile (\<lambda>c. c \<noteq> CHR ''/'') (rev p)))"

definition path_base :: "string \<Rightarrow> string" where
  "path_base p = rev (takeWhile (\<lambda>c. c \<noteq> CHR ''/'') (rev p))"

lemma path_clean_file:
  assumes "CHR ''/'' \<notin> set w" "w \<noteq> []" "w \<noteq> ''.''" "w \<noteq> ''..''"
  shows "\<exists>p. path_clean (s @ ''/'' @ w) = p @ w"
proof -
  let ?rooted = "hd (s @ CHR ''/'' # w) = CHR ''/''"
  let ?st = "foldl (clean_step ?rooted) [] (split_on CHR ''/'' s)"
  obtain p where p: "joined ''/'' (rev ?st @ [w]) = p @ w" using joined_file by blast
  have "path_clean (s @ ''/'' @ w) = (if ?rooted then CHR ''/'' # p @ w else p @ w)"
    using assms p by (cases "?rooted") (simp_all add: path_clean_def Let_def split_on_last)
  then have "path_clean (s @ ''/'' @ w) = (if ?rooted then CHR ''/'' # p else p) @ w" by simp
  then show ?thesis by blast
qed

lemma path_join_file:
  assumes "CHR ''/'' \<notin> set w" "w \<noteq> []" "w \<noteq> ''.''" "w \<noteq> ''..''" "list_ex (\<lambda>e. e \<noteq> []) es"
  shows "\<exists>p. path_join (es @ [w]) = p @ w"
proof -
  have "filter (\<lambda>e. e \<noteq> []) es \<noteq> []" using assms(5) by (auto simp: list_ex_iff filter_empty_conv)
  then show ?thesis
    using path_clean_file [OF assms(1-4), of "joined ''/'' (filter (\<lambda>e. e \<noteq> []) es)"] assms(2)
    by (simp add: path_join_def joined_snoc)
qed

definition ClusterDir :: "string \<Rightarrow> string \<Rightarrow> string" where
  "ClusterDir configDir name = path_join [configDir, ''clusters'', name]"

definition BinariesDir :: "string \<Rightarrow> string \<Rightarrow> string" where
  "BinariesDir configDir version = path_join [configDir, ''bin'', version]"

definition RHCOSCacheDir :: "string \<Rightarrow> string \<Rightarrow> string" where
  "RHCOSCacheDir configDir version = path_join [configDir, ''rhcos'', version]"

definition ImageStoreCacheDir :: "string \<Rightarrow> string \<Rightarrow> string" where
  "ImageStoreCacheDir configDir version = path_join [configDir, ''imagestore'', version]"

definition ImageStoreOverlayDir :: "string \<Rightarrow> string \<Rightarrow> string" where
  "ImageStoreOverlayDir configDir version = path_join [ImageStoreCacheDir configDir version, ''store'']"

text \<open>\<open>goos\<close> stands for \<open>runtime.GOOS\<close>.\<close>

definition imageStoreDiskExt :: "string \<Rightarrow> string" where
  "imageStoreDiskExt goos = (if goos = ''darwin'' then ''img'' else ''qcow2'')"

definition ImageStoreDiskPath :: "string \<Rightarrow> string \<Rightarrow> string \<Rightarrow> string" where
  "ImageStoreDiskPath goos configDir version =
     path_join [ImageStoreCacheDir configDir version, ''store.'' @ imageStoreDiskExt goos]"

definition ImageStoreVolName :: "string \<Rightarrow> string \<Rightarrow> string" where
  "ImageStoreVolName goos name = ''easyshift-'' @ name @ ''-imagestore.'' @ imageStoreDiskExt goos"

definition ODFVolName :: "string \<Rightarrow> string \<Rightarrow> string" where
  "ODFVolName goos name = ''easyshift-'' @ name @ ''-odf.'' @ imageStoreDiskExt goos"

definition OLMChannelForVersion :: "string \<Rightarrow> string" where
  "OLMChannelForVersion v =
     (let parts = split_on (CHR ''.'') v in
      if length parts < 2 then ''stable-'' @ v else ''stable-'' @ joined ''.'' (take 2 parts))"

definition MKE2FSCandidates :: "string list" where
  "MKE2FSCandidates =
     [''mke2fs'', ''/opt/homebrew/opt/e2fsprogs/sbin/mke2fs'', ''/usr/local/opt/e2fsprogs/sbin/mke2fs'']"

definition ClusterDNSNames :: "string \<Rightarrow> string list" where
  "ClusterDNSNames fqdn =
     [''api.'' @ fqdn, ''api-int.'' @ fqdn, ''console-openshift-console.apps.'' @ fqdn]"

definition DNSTokenPath :: "string \<Rightarrow> string \<Rightarrow> string" where
  "DNSTokenPath configDir provider = path_join [configDir, provider @ ''-token'']"

definition PullSecretPath :: "string \<Rightarrow> string" where
  "PullSecretPath configDir = path_join [configDir, DefaultPullSecret]"

definition ACMEAccountDir :: "string \<Rightarrow> string \<Rightarrow> bool \<Rightarrow> string" where
  "ACMEAccountDir configDir provider staging =
     path_join [configDir, ''acme'', provider, if staging then ''staging'' else ''prod'']"

definition LocalCADir :: "string \<Rightarrow> string" where
  "LocalCADir configDir = path_join [configDir, ''ca'']"

definition LocalCACertPath :: "string \<Rightarrow> string" where
  "LocalCACertPath configDir = path_join [LocalCADir configDir, ''ca.crt'']"

definition LocalCATrustedMarkerPath :: "string \<Rightarrow> string" where
  "LocalCATrustedMarkerPath configDir = path_join [LocalCADir configDir, ''trusted'']"

definition PayloadArch :: "string \<Rightarrow> string" where
  "PayloadArch goarch = (if goarch = ''arm64'' then ''aarch64'' else ''x86_64'')"

section \<open>Rules of a cluster\<close>

definition MasterHostname :: "cluster_config \<Rightarrow> string" where
  "MasterHostname c = ''master-0.'' @ cName c @ ''.'' @ cDomain c"

definition FQDN :: "cluster_config \<Rightarrow> string" where
  "FQDN c = cName c @ ''.'' @ cDomain c"

definition PrimaryMasterIP :: "cluster_config \<Rightarrow> string" where
  "PrimaryMasterIP c =
     (if cMasterIP c \<noteq> [] then cMasterIP c
      else case cIPAddresses c of ip # _ \<Rightarrow> ip | [] \<Rightarrow> [])"

definition PrimaryMasterMAC :: "cluster_config \<Rightarrow> string" where
  "PrimaryMasterMAC c =
     (if cMasterMAC c \<noteq> [] then cMasterMAC c
      else case cMACAddresses c of mac # _ \<Rightarrow> mac | [] \<Rightarrow> [])"

definition MagicDomain :: "string \<Rightarrow> string \<Rightarrow> string" where
  "MagicDomain ip service = ip @ ''.'' @ service"

definition ValidMagicDNS :: "string \<Rightarrow> bool" where
  "ValidMagicDNS s \<longleftrightarrow> s = [] \<or> s = MagicDNSSslip \<or> s = MagicDNSNip"

definition DNSZoneOrDomain :: "cluster_config \<Rightarrow> string" where
  "DNSZoneOrDomain c = (if cDNSZone c \<noteq> [] then cDNSZone c else cDomain c)"

definition ValidateIP :: "string \<Rightarrow> bool" where
  "ValidateIP s \<longleftrightarrow> parse_ip s \<noteq> None"

definition ValidateMAC :: "string \<Rightarrow> bool" where
  "ValidateMAC s \<longleftrightarrow> parse_mac s \<noteq> None"

definition DeriveMachineCIDR :: "string \<Rightarrow> string result" where
  "DeriveMachineCIDR masterIP =
     (case parse_ip masterIP of
        None \<Rightarrow> Inl (Errorf ''invalid IP %q'' [quoted masterIP])
      | Some ip \<Rightarrow>
          (case to4 ip of
             None \<Rightarrow> Inl (Errorf ''not an IPv4 address: %q'' [quoted masterIP])
           | Some ip4 \<Rightarrow>
               Inr (nat_str (ip4 ! 0) @ ''.'' @ nat_str (ip4 ! 1) @ ''.'' @ nat_str (ip4 ! 2) @ ''.0/24'')))"

text \<open>
  \<open>gw[3]++\<close> on a byte wraps around. \<open>CIDRErr\<close> is the error of \<open>net.ParseCIDR\<close>.
\<close>

definition CIDRErr :: "string \<Rightarrow> error" where
  "CIDRErr cidr = ExtErr (''invalid CIDR address: '' @ cidr)"

definition DeriveGateway :: "string \<Rightarrow> string result" where
  "DeriveGateway cidr =
     (case parse_cidr cidr of
        None \<Rightarrow> Inl (Wrapf ''invalid CIDR %q: %w'' [quoted cidr] (CIDRErr cidr))
      | Some (net, n) \<Rightarrow>
          (case to4 net of
             None \<Rightarrow> Inl (Errorf ''not an IPv4 CIDR: %q'' [quoted cidr])
           | Some ip \<Rightarrow> Inr (ipv4_str (ip[3 := (ip ! 3 + 1) mod 256]))))"

definition prefixLen :: "string \<Rightarrow> nat result" where
  "prefixLen cidr =
     (case parse_cidr cidr of
        None \<Rightarrow> Inl (Wrapf ''invalid CIDR %q: %w'' [quoted cidr] (CIDRErr cidr))
      | Some (net, n) \<Rightarrow> Inr n)"

definition unlines :: "string list \<Rightarrow> string" where
  "unlines ls = concat (map (\<lambda>l. l @ nl) ls)"

definition keyfile_text :: "string \<Rightarrow> string \<Rightarrow> string \<Rightarrow> string \<Rightarrow> string" where
  "keyfile_text ident mac address dns =
     unlines
       [''[connection]'', ''id='' @ ident, ''type=ethernet'', ''autoconnect=true'',
        ''autoconnect-priority=999'', [],
        ''[ethernet]'', ''mac-address='' @ mac, [],
        ''[ipv4]'', ''method=manual'', ''address1='' @ address, ''dns='' @ dns, ''may-fail=false'', [],
        ''[ipv6]'', ''method=disabled'']"

definition dns_field :: "string \<Rightarrow> string" where
  "dns_field dns =
     (let d = map (\<lambda>c. if c = CHR '','' then CHR '';'' else c) dns in
      if has_suffix d '';'' then d else d @ '';'')"

definition StaticNetworkKeyfile :: "cluster_config \<Rightarrow> string result" where
  "StaticNetworkKeyfile c =
     (let mac = PrimaryMasterMAC c; ip = PrimaryMasterIP c in
      if mac = [] \<or> ip = [] then Inl (Errorf ''static network keyfile needs both master MAC and IP'' [])
      else case prefixLen (cMachineCIDR c) of
        Inl e \<Rightarrow> Inl e
      | Inr plen \<Rightarrow>
          (case (if cGateway c = [] then DeriveGateway (cMachineCIDR c) else Inr (cGateway c)) of
             Inl e \<Rightarrow> Inl e
           | Inr gateway \<Rightarrow>
               let dns = (if cDNS c = [] then gateway else cDNS c) in
               Inr (keyfile_text (''master-0-'' @ cName c) (to_upper mac)
                      (ip @ ''/'' @ nat_str plen @ '','' @ gateway) (dns_field dns))))"

section \<open>Properties of the pure rules\<close>

lemma DeriveMachineCIDR_v4:
  assumes "a < 256" "b < 256" "c < 256" "d < 256"
  shows "DeriveMachineCIDR (ipv4_str [a, b, c, d]) = Inr (ipv4_str [a, b, c, 0] @ ''/24'')"
proof -
  have "nat_str 0 = ''0''" by code_simp
  then show ?thesis
    using assms by (simp add: DeriveMachineCIDR_def parse_ip_ipv4_str) (simp add: ipv4_str_def)
qed

lemma DeriveGateway_24:
  assumes "a < 256" "b < 256" "c < 256" "d < 256"
  shows "DeriveGateway (ipv4_str [a, b, c, d] @ ''/24'') = Inr (ipv4_str [a, b, c, 1])"
  using assms by (simp add: DeriveGateway_def parse_cidr_24 to4_def)

lemma prefixLen_24:
  assumes "a < 256" "b < 256" "c < 256" "d < 256"
  shows "prefixLen (ipv4_str [a, b, c, d] @ ''/24'') = Inr 24"
  using assms by (simp add: prefixLen_def parse_cidr_24)

end
