(* ===== verification/Json.thy ===== *)
theory Json
  imports Prelude
begin

text \<open>
  \<open>encoding/json\<close> as the source uses it: decoding of a text into a value, the compact encoding
  of \<open>json.Marshal\<close> for maps, and the lookup rules of \<open>json.Unmarshal\<close> for maps (exact key,
  the last duplicate wins) and struct fields (keys compared without case). Numbers keep their
  source text. Replacement of invalid UTF-8 and the nesting limit are not modelled.
\<close>

datatype json =
    JNull
  | JBool bool
  | JNum string
  | JStr string
  | JArr "json list"
  | JObj "(string \<times> json) list"

definition is_ws :: "char \<Rightarrow> bool" where
  "is_ws c \<longleftrightarrow> c = CHR '' '' \<or> c = CHR 0x09 \<or> c = CHR 0x0A \<or> c = CHR 0x0D"

abbreviation skip_ws :: "string \<Rightarrow> string" where "skip_ws s \<equiv> dropWhile is_ws s"

definition utf8_encode :: "nat \<Rightarrow> string" where
  "utf8_encode u =
     (if u < 128 then [char_of u]
      else if u < 2048 then [char_of (192 + u div 64), char_of (128 + u mod 64)]
      else if u < 65536 then
        [char_of (224 + u div 4096), char_of (128 + u div 64 mod 64), char_of (128 + u mod 64)]
      else [char_of (240 + u div 262144), char_of (128 + u div 4096 mod 64),
            char_of (128 + u div 64 mod 64), char_of (128 + u mod 64)])"

definition hex4 :: "string \<Rightarrow> nat option" where
  "hex4 s =
     (case map hex_val (take 4 s) of
        [Some a, Some b, Some c, Some d] \<Rightarrow> Some (((a * 16 + b) * 16 + c) * 16 + d)
      | _ \<Rightarrow> None)"

text \<open>The body of a string literal after its opening quote: its value and the rest.\<close>

function json_str :: "string \<Rightarrow> (string \<times> string) option" where
  "json_str s =
     (case s of
        [] \<Rightarrow> None
      | c # r \<Rightarrow>
          if c = CHR 0x22 then Some ([], r)
          else if c = CHR 0x5C then
            (case r of
               [] \<Rightarrow> None
             | e # r' \<Rightarrow>
                 if e = CHR ''u'' then
                   (case hex4 r' of
                      None \<Rightarrow> None
                    | Some u \<Rightarrow>
                        (if 0xD800 \<le> u \<and> u < 0xDC00 then
                           (case (take 2 (drop 4 r') = [CHR 0x5C, CHR ''u''], hex4 (drop 6 r')) of
                              (True, Some v) \<Rightarrow>
                                if 0xDC00 \<le> v \<and> v < 0xE000
                                then map_option (map_prod ((@) (utf8_encode (0x10000 + (u - 0xD800) * 1024 + (v - 0xDC00)))) id)
                                       (json_str (drop 10 r'))
                                else map_option (map_prod ((@) (utf8_encode 0xFFFD)) id) (json_str (drop 4 r'))
                            | _ \<Rightarrow> map_option (map_prod ((@) (utf8_encode 0xFFFD)) id) (json_str (drop 4 r')))
                         else map_option
                                (map_prod ((@) (utf8_encode (if 0xDC00 \<le> u \<and> u < 0xE000 then 0xFFFD else u))) id)
                                (json_str (drop 4 r'))))
                 else
                   (case (if e = CHR 0x22 \<or> e = CHR 0x5C \<or> e = CHR ''/'' then Some e
                          else if e = CHR ''b'' then Some (CHR 0x08)
                          else if e = CHR ''f'' then Some (CHR 0x0C)
                          else if e = CHR ''n'' then Some (CHR 0x0A)
                          else if e = CHR ''r'' then Some (CHR 0x0D)
                          else if e = CHR ''t'' then Some (CHR 0x09) else None) of
                      None \<Rightarrow> None
                    | Some d \<Rightarrow> map_option (map_prod ((#) d) id) (json_str r')))
          else if (of_char c :: nat) < 32 then None
          else map_option (map_prod ((#) c) id) (json_str r))"
  by pat_completeness auto
termination by (relation "measure length") auto

declare json_str.simps [simp del]

text \<open>A number: optional minus, integer part, fraction, exponent.\<close>

definition span_digits :: "string \<Rightarrow> string \<times> string" where
  "span_digits s = (takeWhile is_digit s, dropWhile is_digit s)"

definition json_num :: "string \<Rightarrow> (string \<times> string) option" where
  "json_num s =
     (let (sign, s1) = (case s of c # r \<Rightarrow> if c = CHR ''-'' then ([c], r) else ([], s) | [] \<Rightarrow> ([], s));
          (ip, s2) = (case s1 of c # r \<Rightarrow> if c = CHR ''0'' then ([c], r) else span_digits s1 | [] \<Rightarrow> ([], s1))
      in if ip = [] then None
         else
           let fr = (case s2 of c # r \<Rightarrow>
                       if c = CHR ''.'' then
                         (case span_digits r of (d, r') \<Rightarrow> if d = [] then None else Some (c # d, r'))
                       else Some ([], s2)
                     | [] \<Rightarrow> Some ([], s2))
           in case fr of
                None \<Rightarrow> None
              | Some (f, s3) \<Rightarrow>
                  (case s3 of
                     c # r \<Rightarrow>
                       if c = CHR ''e'' \<or> c = CHR ''E'' then
                         (let (sg, r1) = (case r of d # q \<Rightarrow> if d = CHR ''+'' \<or> d = CHR ''-'' then ([d], q) else ([], r)
                                          | [] \<Rightarrow> ([], r))
                          in case span_digits r1 of
                               (d, r') \<Rightarrow> if d = [] then None else Some (sign @ ip @ f @ c # sg @ d, r'))
                       else Some (sign @ ip @ f, s3)
                   | [] \<Rightarrow> Some (sign @ ip @ f, s3)))"

text \<open>A Go map keeps the last of duplicate keys.\<close>

fun last_wins :: "(string \<times> 'v) list \<Rightarrow> (string \<times> 'v) list" where
  "last_wins [] = []"
| "last_wins ((k, v) # m) = (if k \<in> set (map fst m) then last_wins m else (k, v) # last_wins m)"

text \<open>
  Values, array elements and object members. Every call consumes a byte or one unit of fuel;
  \<open>2 * length s + 2\<close> units are enough for any text.
\<close>

fun json_val :: "nat \<Rightarrow> string \<Rightarrow> (json \<times> string) option"
  and json_arr :: "nat \<Rightarrow> string \<Rightarrow> (json list \<times> string) option"
  and json_obj :: "nat \<Rightarrow> string \<Rightarrow> ((string \<times> json) list \<times> string) option" where
  "json_val 0 s = None"
| "json_val (Suc k) s =
     (let s = skip_ws s in
      if take 4 s = ''null'' then Some (JNull, drop 4 s)
      else if take 4 s = ''true'' then Some (JBool True, drop 4 s)
      else if take 5 s = ''false'' then Some (JBool False, drop 5 s)
      else case s of
        [] \<Rightarrow> None
      | c # r \<Rightarrow>
          if c = CHR 0x22 then map_option (map_prod JStr id) (json_str r)
          else if c = CHR ''['' then
            (case skip_ws r of
               d # q \<Rightarrow> if d = CHR '']'' then Some (JArr [], q)
                         else map_option (map_prod JArr id) (json_arr k r)
             | [] \<Rightarrow> None)
          else if c = CHR ''{'' then
            (case skip_ws r of
               d # q \<Rightarrow> if d = CHR ''}'' then Some (JObj [], q)
                         else map_option (map_prod (\<lambda>m. JObj (last_wins m)) id) (json_obj k r)
             | [] \<Rightarrow> None)
          else map_option (map_prod JNum id) (json_num s))"
| "json_arr 0 s = None"
| "json_arr (Suc k) s =
     (case json_val k s of
        None \<Rightarrow> None
      | Some (v, r) \<Rightarrow>
          (case skip_ws r of
             [] \<Rightarrow> None
           | c # q \<Rightarrow>
               if c = CHR '']'' then Some ([v], q)
               else if c = CHR '','' then map_option (map_prod ((#) v) id) (json_arr k q)
               else None))"
| "json_obj 0 s = None"
| "json_obj (Suc k) s =
     (case skip_ws s of
        [] \<Rightarrow> None
      | c # r \<Rightarrow>
          if c \<noteq> CHR 0x22 then None
          else (case json_str r of
            None \<Rightarrow> None
          | Some (key, r1) \<Rightarrow>
              (case skip_ws r1 of
                 [] \<Rightarrow> None
               | d # r2 \<Rightarrow>
                   if d \<noteq> CHR '':'' then None
                   else (case json_val k r2 of
                     None \<Rightarrow> None
                   | Some (v, r3) \<Rightarrow>
                       (case skip_ws r3 of
                          [] \<Rightarrow> None
                        | e # q \<Rightarrow>
                            if e = CHR ''}'' then Some ([(key, v)], q)
                            else if e = CHR '','' then map_option (map_prod ((#) (key, v)) id) (json_obj k q)
                            else None)))))"

definition json_parse :: "string \<Rightarrow> json option" where
  "json_parse s =
     (case json_val (2 * length s + 2) s of
        Some (v, r) \<Rightarrow> if skip_ws r = [] then Some v else None
      | None \<Rightarrow> None)"

section \<open>Looking values up\<close>

text \<open>Decoding into a Go map keeps the last of duplicate keys.\<close>

definition obj_get :: "(string \<times> json) list \<Rightarrow> string \<Rightarrow> json option" where
  "obj_get m k = map_of (rev m) k"

definition obj_set :: "string \<Rightarrow> json \<Rightarrow> (string \<times> json) list \<Rightarrow> (string \<times> json) list" where
  "obj_set k v m = filter (\<lambda>(k', _). k' \<noteq> k) m @ [(k, v)]"

text \<open>A struct field: the last member whose key matches without case; null leaves the zero value.\<close>

definition struct_field :: "json \<Rightarrow> string \<Rightarrow> json option" where
  "struct_field j k =
     (case j of
        JObj m \<Rightarrow> map_of (rev (map (\<lambda>(k', v). (to_lower k', v)) m)) (to_lower k)
      | _ \<Rightarrow> None)"

definition as_string :: "json option \<Rightarrow> string option" where
  "as_string j = (case j of None \<Rightarrow> Some [] | Some JNull \<Rightarrow> Some [] | Some (JStr s) \<Rightarrow> Some s | _ \<Rightarrow> None)"

lemma obj_get_set [simp]: "obj_get (obj_set k v m) k = Some v"
  by (simp add: obj_get_def obj_set_def)

lemma obj_get_set_other: "k' \<noteq> k \<Longrightarrow> obj_get (obj_set k v m) k' = obj_get m k'"
proof -
  assume d: "k' \<noteq> k"
  have "map_of (filter (\<lambda>(q, _). q \<noteq> k) xs) k' = map_of xs k'" for xs :: "(string \<times> json) list"
    using d by (induction xs) auto
  from this [of "rev m"] show ?thesis
    using d by (simp add: obj_get_def obj_set_def rev_filter [symmetric])
qed

section \<open>Encoding\<close>

text \<open>\<open>json.Marshal\<close> of a \<open>map[string]any\<close>: keys sorted, no spaces, HTML bytes escaped.\<close>

definition json_quote_char :: "char \<Rightarrow> string" where
  "json_quote_char c =
     (if c = CHR 0x22 then [CHR 0x5C, CHR 0x22]
      else if c = CHR 0x5C then [CHR 0x5C, CHR 0x5C]
      else if c = CHR 0x0A then [CHR 0x5C, CHR ''n'']
      else if c = CHR 0x0D then [CHR 0x5C, CHR ''r'']
      else if c = CHR 0x09 then [CHR 0x5C, CHR ''t'']
      else if c = CHR 0x08 then [CHR 0x5C, CHR ''b'']
      else if c = CHR 0x0C then [CHR 0x5C, CHR ''f'']
      else if (of_char c :: nat) < 32 \<or> c = CHR ''<'' \<or> c = CHR ''>'' \<or> c = CHR ''&''
        then [CHR 0x5C] @ ''u00'' @ hex2 (of_char c)
      else [c])"

definition json_quote :: "string \<Rightarrow> string" where
  "json_quote s = [CHR 0x22] @ concat (map json_quote_char s) @ [CHR 0x22]"

fun json_text :: "json \<Rightarrow> string" where
  "json_text JNull = ''null''"
| "json_text (JBool b) = bool_str b"
| "json_text (JNum n) = n"
| "json_text (JStr s) = json_quote s"
| "json_text (JArr vs) = ''['' @ joined '','' (map json_text vs) @ '']''"
| "json_text (JObj m) =
     ''{'' @ joined '','' (map (\<lambda>(k, t). json_quote k @ '':'' @ t)
                        (sort_key fst (map (\<lambda>(k, v). (k, json_text v)) m))) @ ''}''"

text \<open>A quoted string reads back as itself.\<close>

lemma hex4_hex2: "hex4 (CHR ''0'' # CHR ''0'' # hex2 b @ s) = Some (unat b)"
proof -
  have "hex_val (CHR ''0'') = Some 0" by (simp add: hex_val_def)
  then show ?thesis by (simp add: hex4_def hex2_def hex_val_digit unat_byte_div)
qed

lemma unat_of_char: "unat (of_char c :: 8 word) = of_char c"
proof -
  have "(of_char c :: 8 word) = word_of_nat (of_char c)" by (rule of_nat_of_char [symmetric])
  then show ?thesis by (simp only: unat_of_nat) (simp add: take_bit_eq_mod)
qed

lemma json_str_char:
  "json_str (json_quote_char c @ s) = map_option (map_prod ((#) c) id) (json_str s)"
proof -
  let ?esc = "c \<in> {CHR 0x22, CHR 0x5C, CHR 0x0A, CHR 0x0D, CHR 0x09, CHR 0x08, CHR 0x0C}"
  let ?uni = "(of_char c :: nat) < 32 \<or> c = CHR ''<'' \<or> c = CHR ''>'' \<or> c = CHR ''&''"
  show ?thesis
  proof (cases "?esc")
    case True
    then show ?thesis
      by (auto simp: json_quote_char_def json_str.simps [of "CHR 0x5C # _"])
  next
    case esc: False
    show ?thesis
    proof (cases "?uni")
      case True
      then have q: "json_quote_char c = CHR 0x5C # CHR ''u'' # CHR ''0'' # CHR ''0'' # hex2 (of_char c)"
        using esc by (simp add: json_quote_char_def)
      have b: "(of_char c :: nat) < 128" using True by auto
      have u: "utf8_encode (of_char c) = [c]" using b by (simp add: utf8_encode_def)
      have l: "drop 2 (hex2 (of_char c) @ s) = s" by (simp add: hex2_def)
      have eq: "map_prod ((@) [c]) id = (map_prod ((#) c) id :: string \<times> string \<Rightarrow> string \<times> string)"
        by (auto simp: map_prod_def)
      show ?thesis
        unfolding q using b
        by (subst json_str.simps) (simp add: hex4_hex2 unat_of_char u l eq del: drop_append)
    next
      case False
      with esc show ?thesis by (simp add: json_quote_char_def json_str.simps [of "c # s"])
    qed
  qed
qed

lemma json_str_quote: "json_str (concat (map json_quote_char s) @ [CHR 0x22] @ r) = Some (s, r)"
proof (induction s)
  case Nil
  show ?case by (simp add: json_str.simps [of "CHR 0x22 # r"])
next
  case (Cons c s)
  then show ?case by (simp add: json_str_char)
qed

end
