(* ===== verification/World.thy ===== *)
theory World
  imports Config Json
begin

text \<open>
  The package \<open>interfaces\<close> (the value types, the side-effect interfaces and the dependency bag)
  and the operating system as the program sees it.

  Every interface is a record of effects over the external state \<open>'s\<close>; \<open>context.Context\<close> is
  left out, since the only context of the program is \<open>context.Background()\<close>, except where a
  loop selects on it: there the runtime says whether the wait was cancelled. The long-running
  \<open>Run\<close> of an approver or injector is given by one turn of its loop.
\<close>

section \<open>Value types of the interfaces\<close>

record extra_disk =
  edPath :: string
  edReadOnly :: bool
  edShareable :: bool

record vm_spec =
  vName :: string
  vMemoryMiB :: int
  vVCPUs :: int
  vDiskSizeGiB :: int
  vStoragePool :: string
  vMAC :: string
  vNetworkArg :: string
  vBootISO :: string
  vKernelArgs :: string
  vKernelPath :: string
  vInitrdPath :: string
  vExtraDisks :: "extra_disk list"

record network_spec =
  nsName :: string
  nsBridge :: string
  nsSubnet :: string
  nsDomain :: string

record dhcp_host =
  hMAC :: string
  hIP :: string
  hHostname :: string

record dhcp_lease =
  lMAC :: string
  lIP :: string
  lHostname :: string

record network_info =
  niExists :: bool
  niDHCPRangeStart :: string
  niDHCPRangeEnd :: string
  niReservations :: "dhcp_host list"
  niLeases :: "dhcp_lease list"

text \<open>\<open>Cluster\<close> is read only by the installer, so the specification carries its value.\<close>

record installer_spec =
  isClusterDir :: string
  isCluster :: cluster_config
  isPullSecret :: string
  isSSHPublicKey :: string
  isInstallerPath :: string
  isCoreOSInstallerPath :: string
  isArch :: string
  isOut :: "string option"

record coreos_live_pxe =
  pxeKernelURL :: string
  pxeInitramfsURL :: string
  pxeRootfsURL :: string

record bake_spec =
  bsVersion :: string
  bsOCBinaryPath :: string
  bsPullSecretPath :: string
  bsOverlayDir :: string
  bsOutputDiskPath :: string

record cert_issuer_opts =
  coEmail :: string
  coAccountDir :: string
  coDNSProvider :: string
  coToken :: string
  coStaging :: bool

record bridge_info =
  brExists :: bool
  brSlaves :: "string list"
  brUp :: bool

record device_auth_prompt =
  dapVerificationURI :: string
  dapUserCode :: string

record odf_spec =
  osKubeconfigPath :: string
  osOCBinaryPath :: string
  osWorkDir :: string
  osChannel :: string
  osDevicePath :: string
  osDataPVCSizeGi :: int

datatype stage_outcome = StageOutcomeOK | StageOutcomeFailed

record stage_record =
  srAppliedAt :: nat
  srOutcome :: stage_outcome

text \<open>\<open>ClusterState\<close>: the map may be null in a \<open>state.json\<close>.\<close>

record cluster_state =
  csStages :: "(string \<times> stage_record) list option"

section \<open>The side-effect interfaces\<close>

record 's command_runner =
  Cmd_Run :: "string \<Rightarrow> string list \<Rightarrow> ('s, string \<times> error option) io"
  Cmd_RunStreaming :: "string \<Rightarrow> string list \<Rightarrow> ('s, (string \<times> string) \<times> error option) io"

record 's downloader =
  Dl_Download :: "string \<Rightarrow> string \<Rightarrow> ('s, error option) io"

record 's vm_manager =
  VM_Create :: "vm_spec \<Rightarrow> ('s, error option) io"
  VM_Start :: "string \<Rightarrow> ('s, error option) io"
  VM_Stop :: "string \<Rightarrow> ('s, error option) io"
  VM_Delete :: "string \<Rightarrow> ('s, error option) io"
  VM_IsRunning :: "string \<Rightarrow> ('s, bool \<times> error option) io"
  VM_ImportISO :: "string \<Rightarrow> string \<Rightarrow> string \<Rightarrow> ('s, string result) io"
  VM_ImportDisk :: "string \<Rightarrow> string \<Rightarrow> string \<Rightarrow> ('s, string result) io"
  VM_CreateDataDisk :: "string \<Rightarrow> string \<Rightarrow> int \<Rightarrow> ('s, string result) io"
  VM_RemoveISO :: "string \<Rightarrow> string \<Rightarrow> ('s, error option) io"
  VM_CheckAccess :: "('s, error option) io"
  VM_StoragePoolActive :: "string \<Rightarrow> ('s, error option) io"

text \<open>\<open>Net_Preflight\<close> is the optional \<open>NetworkPreflighter\<close>: \<open>None\<close> when not implemented.\<close>

record 's network_provisioner =
  Net_EnsureNetwork :: "network_spec \<Rightarrow> ('s, error option) io"
  Net_AddHost :: "string \<Rightarrow> dhcp_host \<Rightarrow> ('s, error option) io"
  Net_RemoveHost :: "string \<Rightarrow> dhcp_host \<Rightarrow> ('s, error option) io"
  Net_InspectNetwork :: "string \<Rightarrow> ('s, network_info result) io"
  Net_ResetNetwork :: "string \<Rightarrow> ('s, error option) io"
  Net_Preflight :: "('s, error option) io option"

record 's installer =
  In_WriteInstallConfig :: "installer_spec \<Rightarrow> ('s, error option) io"
  In_CreateManifests :: "installer_spec \<Rightarrow> ('s, error option) io"
  In_CreateIgnitionConfigs :: "installer_spec \<Rightarrow> ('s, error option) io"
  In_WriteImageStoreManifest :: "installer_spec \<Rightarrow> ('s, error option) io"
  In_CreateSingleNodeIgnition :: "installer_spec \<Rightarrow> ('s, error option) io"
  In_WriteRosettaManifest :: "installer_spec \<Rightarrow> ('s, error option) io"
  In_MergeImageStore :: "installer_spec \<Rightarrow> string \<Rightarrow> ('s, error option) io"
  In_EmbedIgnitionInISO :: "installer_spec \<Rightarrow> string \<Rightarrow> string \<Rightarrow> string \<Rightarrow> ('s, error option) io"
  In_EmbedNetworkKeyfileInISO :: "installer_spec \<Rightarrow> string \<Rightarrow> string \<Rightarrow> ('s, error option) io"
  In_WaitForInstallComplete :: "installer_spec \<Rightarrow> ('s, error option) io"
  In_CoreOSLiveISOURL :: "installer_spec \<Rightarrow> ('s, string result) io"
  In_CoreOSLivePXEURLs :: "installer_spec \<Rightarrow> ('s, coreos_live_pxe result) io"

record 's image_baker =
  Bk_Ready :: "bake_spec \<Rightarrow> ('s, bool \<times> error option) io"
  Bk_Bake :: "bake_spec \<Rightarrow> ('s, error option) io"

record 's odf_installer =
  Odf_InstallOperators :: "odf_spec \<Rightarrow> ('s, error option) io"
  Odf_SetupLVM :: "odf_spec \<Rightarrow> ('s, error option) io"
  Odf_EnableSingleNode :: "odf_spec \<Rightarrow> ('s, error option) io"
  Odf_CreateStorageCluster :: "odf_spec \<Rightarrow> ('s, error option) io"

record file_server =
  Fs_RootDir :: string
  Fs_BaseURL :: string

record 's csr_approver =
  Csr_Turn :: "string \<Rightarrow> string \<Rightarrow> ('s, unit) io"

record 's hostname_injector =
  Hn_Turn :: "string \<Rightarrow> string \<Rightarrow> string \<Rightarrow> ('s, unit) io"

record 's host_inspector =
  Ho_HasCPUVirtualization :: "('s, bool result) io"
  Ho_InspectBridge :: "string \<Rightarrow> ('s, bridge_info result) io"
  Ho_LookPath :: "string \<Rightarrow> ('s, error option) io"
  Ho_AvailableDiskBytes :: "string \<Rightarrow> ('s, 64 word result) io"
  Ho_PhysicalMemoryBytes :: "('s, 64 word result) io"
  Ho_ARPLookup :: "string \<Rightarrow> ('s, string \<times> error option) io"
  Ho_DialTCP :: "string \<Rightarrow> nat \<Rightarrow> ('s, error option) io"

record 's dns_resolver =
  Dns_Resolve :: "string \<Rightarrow> ('s, string list result) io"

record 's dns_manager =
  Dm_Upsert :: "string \<Rightarrow> string \<Rightarrow> string \<Rightarrow> ('s, error option) io"
  Dm_Delete :: "string \<Rightarrow> string \<Rightarrow> ('s, error option) io"

record 's pull_secret_fetcher =
  Ps_StartDeviceAuth :: "('s, device_auth_prompt result) io"
  Ps_WaitAndFetch :: "('s, string result) io"

record 's trust_store_installer =
  Ts_Install :: "string \<Rightarrow> ('s, error option) io"
  Ts_Uninstall :: "string \<Rightarrow> ('s, error option) io"

type_synonym 's cert_issuer = "string list \<Rightarrow> ('s, (string \<times> string) result) io"

record 's deps =
  Cmd :: "'s command_runner"
  Download :: "'s downloader"
  VM :: "'s vm_manager"
  Net :: "'s network_provisioner"
  Installer :: "'s installer"
  ImageBaker :: "'s image_baker"
  ODF :: "'s odf_installer"
  Files :: file_server
  CSR :: "'s csr_approver"
  Hostname :: "'s hostname_injector"
  Host :: "'s host_inspector"
  DNS :: "'s dns_resolver"
  DNSManager :: "'s dns_manager"
  PullSecret :: "'s pull_secret_fetcher"
  TrustStore :: "'s trust_store_installer"
  NewCertIssuer :: "cert_issuer_opts \<Rightarrow> ('s, 's cert_issuer result) io"
  NewLocalCertIssuer :: "string \<Rightarrow> ('s, 's cert_issuer result) io"

section \<open>Files\<close>

text \<open>
  Files the program only writes with \<open>json.Marshal\<close> of a struct and reads back into the same
  struct (\<open>config.json\<close>, \<open>state.json\<close>, vfkit's \<open>spec.json\<close>) hold the encoded value; every
  other file holds its bytes. A raw file where a document is expected is malformed.
\<close>

datatype content =
    Raw string
  | ConfigDoc disk_config
  | StateDoc cluster_state
  | SpecDoc vm_spec string

datatype node = Dir | File content

text \<open>
  The external state: the file system and the rest of the world \<open>'x\<close>. Commands may change
  both. The operating system may fail any call: \<open>os_fault\<close> decides, from the call and the rest
  of the world, and gives the text of the error; such a failure is not \<open>os.ErrNotExist\<close> and
  leaves the files as they were.
\<close>

record 'x sys =
  files :: "string \<Rightarrow> node option"
  rest :: 'x

datatype os_op =
    OpStat string | OpRead string | OpWrite string | OpMkdirAll string
  | OpRemove string | OpRemoveAll string | OpCreateTemp string

text \<open>
  The Go runtime and environment: platform, environment variables, home directory, time of
  day, and \<open>rt_wait d\<close>, a \<open>select\<close> on \<open>ctx.Done()\<close> and \<open>time.After(d)\<close>, which tells whether
  the context was cancelled and how much longer than \<open>d\<close> it took (a completed wait takes at
  least a millisecond).
\<close>

record 'x rt =
  GOOS :: string
  GOARCH :: string
  Getenv :: "string \<Rightarrow> string"
  UserHomeDir :: "string result"
  os_fault :: "os_op \<Rightarrow> 'x \<Rightarrow> string option \<times> nat \<times> 'x"
  rt_wait :: "nat \<Rightarrow> 'x \<Rightarrow> bool \<times> nat \<times> 'x"
  rt_now :: "'x \<Rightarrow> nat"

definition pause :: "'x rt \<Rightarrow> nat \<Rightarrow> ('x sys, bool) io" where
  "pause rt d s =
     (case rt_wait rt d (rest s) of
        (cancelled, extra, x) \<Rightarrow> (cancelled, if cancelled then extra else max 1 (d + extra), s\<lparr>rest := x\<rparr>))"

definition os_call :: "'x rt \<Rightarrow> os_op \<Rightarrow> ((string \<Rightarrow> node option) \<Rightarrow> 'a result \<times> (string \<Rightarrow> node option))
    \<Rightarrow> ('x sys, 'a result) io" where
  "os_call rt op f s =
     (case os_fault rt op (rest s) of
        (Some e, t, x) \<Rightarrow> (Inl (ExtErr e), t, s\<lparr>rest := x\<rparr>)
      | (None, t, x) \<Rightarrow> (case f (files s) of (r, fs) \<Rightarrow> (r, t, \<lparr>files = fs, rest = x\<rparr>)))"

definition err_of :: "unit result \<Rightarrow> error option" where
  "err_of r = (case r of Inl e \<Rightarrow> Some e | Inr _ \<Rightarrow> None)"

definition os_stat :: "'x rt \<Rightarrow> string \<Rightarrow> ('x sys, node result) io" where
  "os_stat rt p =
     os_call rt (OpStat p) (\<lambda>fs. (case fs p of None \<Rightarrow> Inl ErrNotExist | Some n \<Rightarrow> Inr n, fs))"

definition os_read :: "'x rt \<Rightarrow> string \<Rightarrow> ('x sys, content result) io" where
  "os_read rt p =
     os_call rt (OpRead p)
       (\<lambda>fs. (case fs p of None \<Rightarrow> Inl ErrNotExist
              | Some Dir \<Rightarrow> Inl (ExtErr (''read '' @ p @ '': is a directory''))
              | Some (File c) \<Rightarrow> Inr c, fs))"

definition os_write :: "'x rt \<Rightarrow> string \<Rightarrow> content \<Rightarrow> ('x sys, error option) io" where
  "os_write rt p c =
     io_bind (os_call rt (OpWrite p) (\<lambda>fs. (Inr (), fs(p \<mapsto> File c)))) (\<lambda>r. io_ret (err_of r))"

definition os_mkdirall :: "'x rt \<Rightarrow> string \<Rightarrow> ('x sys, error option) io" where
  "os_mkdirall rt p =
     io_bind (os_call rt (OpMkdirAll p)
       (\<lambda>fs. (case fs p of
                None \<Rightarrow> (Inr (), fs(p \<mapsto> Dir))
              | Some Dir \<Rightarrow> (Inr (), fs)
              | Some (File _) \<Rightarrow> (Inl (ExtErr (''mkdir '' @ p @ '': not a directory'')), fs))))
       (\<lambda>r. io_ret (err_of r))"

definition os_remove :: "'x rt \<Rightarrow> string \<Rightarrow> ('x sys, error option) io" where
  "os_remove rt p =
     io_bind (os_call rt (OpRemove p)
       (\<lambda>fs. (case fs p of None \<Rightarrow> (Inl ErrNotExist, fs) | Some _ \<Rightarrow> (Inr (), fs(p := None)))))
       (\<lambda>r. io_ret (err_of r))"

definition os_removeall :: "'x rt \<Rightarrow> string \<Rightarrow> ('x sys, error option) io" where
  "os_removeall rt p =
     io_bind (os_call rt (OpRemoveAll p)
       (\<lambda>fs. (Inr (), \<lambda>q. if q = p \<or> has_prefix q (p @ ''/'') then None else fs q)))
       (\<lambda>r. io_ret (err_of r))"

definition os_exists :: "'x rt \<Rightarrow> string \<Rightarrow> ('x sys, bool) io" where
  "os_exists rt p = io_bind (os_stat rt p) (\<lambda>r. io_ret (case r of Inl _ \<Rightarrow> False | Inr _ \<Rightarrow> True))"

text \<open>The bytes of a file that is expected to be text.\<close>

definition content_bytes :: "content \<Rightarrow> string" where
  "content_bytes c = (case c of Raw s \<Rightarrow> s | _ \<Rightarrow> [])"

definition os_read_bytes :: "'x rt \<Rightarrow> string \<Rightarrow> ('x sys, string result) io" where
  "os_read_bytes rt p = io_bind (os_read rt p) (\<lambda>r. io_ret (map_sum id content_bytes r))"

section \<open>Loading and saving the configuration\<close>

definition snapshot :: "mem \<Rightarrow> disk_config" where
  "snapshot m =
     \<lparr>dConfigDir = ConfigDir m, dLogFile = LogFile m, dWebPort = WebPort m, dDebug = Debug m,
      dClusters = cluster_list m,
      dGlobalState = Some (Some (UsedIPs m), Some (UsedMACs m), ActiveCluster m)\<rparr>"

definition config_path :: "string \<Rightarrow> string" where
  "config_path configDir = path_join [configDir, ''config.json'']"

definition Save :: "'x rt \<Rightarrow> mem \<Rightarrow> ('x sys, error option) io" where
  "Save rt m = wrap_err ''write config: %w'' [] (os_write rt (config_path (ConfigDir m)) (ConfigDoc (snapshot m)))"

definition NewDefaultConfig :: "string \<Rightarrow> mem" where
  "NewDefaultConfig configDir =
     \<lparr>ConfigDir = configDir, LogFile = path_join [configDir, DefaultLogFile], WebPort = DefaultWebPort,
      Debug = False, Clusters = [], UsedIPs = [], UsedMACs = [], ActiveCluster = [],
      heap = (\<lambda>_. undefined), next_ref = 0\<rparr>"

text \<open>Decoding allocates one object per cluster; null maps become empty ones.\<close>

definition thaw :: "disk_config \<Rightarrow> mem" where
  "thaw d =
     (let (ips, macs, act) = (case dGlobalState d of None \<Rightarrow> ([], [], [])
            | Some (i, c, a) \<Rightarrow> (case i of None \<Rightarrow> [] | Some x \<Rightarrow> x, case c of None \<Rightarrow> [] | Some x \<Rightarrow> x, a))
      in \<lparr>ConfigDir = dConfigDir d, LogFile = dLogFile d, WebPort = dWebPort d, Debug = dDebug d,
          Clusters = [0..<length (dClusters d)], UsedIPs = ips, UsedMACs = macs, ActiveCluster = act,
          heap = (\<lambda>r. if r < length (dClusters d) then dClusters d ! r else undefined),
          next_ref = length (dClusters d)\<rparr>)"

definition LoadConfig :: "'x rt \<Rightarrow> string \<Rightarrow> ('x sys, mem result) io" where
  "LoadConfig rt configDir =
     io_bind (os_mkdirall rt configDir) (\<lambda>e. case e of
       Some e \<Rightarrow> io_ret (Inl (Wrapf ''create config dir: %w'' [] e))
     | None \<Rightarrow>
         let cfg = NewDefaultConfig configDir in
         io_bind (os_read rt (config_path configDir)) (\<lambda>r. case r of
           Inl e \<Rightarrow>
             if error_is e ErrNotExist then
               io_bind (Save rt cfg) (\<lambda>e'. io_ret (case e' of
                 Some e' \<Rightarrow> Inl (Wrapf ''write default config: %w'' [] e') | None \<Rightarrow> Inr cfg))
             else io_ret (Inl (Wrapf ''read config: %w'' [] e))
         | Inr (ConfigDoc d) \<Rightarrow> io_ret (Inr (thaw d))
         | Inr _ \<Rightarrow> io_ret (Inl (Wrapf ''parse config: %w'' [] (ExtErr ''invalid JSON'')))))"

section \<open>Pull secret and provider tokens\<close>

definition EnsurePullSecret :: "'x rt \<Rightarrow> string \<Rightarrow> ('x sys, error option) io" where
  "EnsurePullSecret rt configDir =
     (let path = PullSecretPath configDir in
      io_bind (os_stat rt path) (\<lambda>r. io_ret (case r of
        Inl e \<Rightarrow>
          Some (if error_is e ErrNotExist
                then Errorf (''pull secret not configured: run `easyshift pull-secret login` '' @
                       ''(or `easyshift pull-secret set <file>`) first (expected at %s)'') [path]
                else Wrapf ''stat pull secret %s: %w'' [path] e)
      | Inr _ \<Rightarrow> None)))"

definition ReadPullSecret :: "'x rt \<Rightarrow> string \<Rightarrow> ('x sys, string result) io" where
  "ReadPullSecret rt configDir =
     io_bind (os_read_bytes rt (PullSecretPath configDir)) (\<lambda>r. io_ret (case r of
       Inl e \<Rightarrow> Inl (Wrapf ''read pull secret: %w'' [] e) | Inr d \<Rightarrow> Inr (trim_space d)))"

definition WritePullSecret :: "'x rt \<Rightarrow> string \<Rightarrow> string \<Rightarrow> ('x sys, error option) io" where
  "WritePullSecret rt configDir dat =
     io_seq (wrap_err ''create config dir: %w'' [] (os_mkdirall rt configDir))
       (os_write rt (PullSecretPath configDir) (Raw dat))"

definition ValidatePullSecretBytes :: "string \<Rightarrow> error option" where
  "ValidatePullSecretBytes dat =
     (case json_parse dat of
        Some (JObj m) \<Rightarrow>
          if obj_get m ''auths'' = None
          then Some (Errorf (''pull secret is missing required 'auths' key (download a fresh secret '' @
                        ''from console.redhat.com)'') [])
          else None
      | Some JNull \<Rightarrow>
          Some (Errorf (''pull secret is missing required 'auths' key (download a fresh secret '' @
                        ''from console.redhat.com)'') [])
      | _ \<Rightarrow> Some (Wrapf ''pull secret is not valid JSON: %w'' [] (ExtErr ''invalid JSON'')))"

definition ValidatePullSecretJSON :: "'x rt \<Rightarrow> string \<Rightarrow> ('x sys, error option) io" where
  "ValidatePullSecretJSON rt configDir =
     io_bind (os_read_bytes rt (PullSecretPath configDir)) (\<lambda>r. io_ret (case r of
       Inl e \<Rightarrow> Some (Wrapf ''read pull secret: %w'' [] e) | Inr d \<Rightarrow> ValidatePullSecretBytes d))"

definition WriteDNSToken :: "'x rt \<Rightarrow> string \<Rightarrow> string \<Rightarrow> string \<Rightarrow> ('x sys, error option) io" where
  "WriteDNSToken rt configDir provider dat =
     (let t = trim_space dat in
      if t = [] then io_ret (Some (Errorf ''dns token is empty'' []))
      else io_seq (wrap_err ''create config dir: %w'' [] (os_mkdirall rt configDir))
             (os_write rt (DNSTokenPath configDir provider) (Raw t)))"

definition ReadDNSToken :: "'x rt \<Rightarrow> string \<Rightarrow> string \<Rightarrow> ('x sys, string result) io" where
  "ReadDNSToken rt configDir provider =
     io_bind (os_read_bytes rt (DNSTokenPath configDir provider)) (\<lambda>r. io_ret (case r of
       Inl e \<Rightarrow> Inl (Wrapf ''read dns token: %w'' [] e) | Inr d \<Rightarrow> Inr (trim_space d)))"

definition EnsureDNSToken :: "'x rt \<Rightarrow> string \<Rightarrow> string \<Rightarrow> ('x sys, error option) io" where
  "EnsureDNSToken rt configDir provider =
     io_bind (os_stat rt (DNSTokenPath configDir provider)) (\<lambda>r. io_ret (case r of
       Inl e \<Rightarrow>
         Some (if error_is e ErrNotExist
               then Errorf ''no token for dns provider %q at %s; set it with: easyshift dns set %s <file>''
                      [quoted provider, DNSTokenPath configDir provider, provider]
               else e)
     | Inr _ \<Rightarrow> None))"

section \<open>The stage context\<close>

text \<open>
  \<open>StageContext\<close> points at the cluster (a reference \<open>r\<close> into the heap of \<open>m\<close>) and the
  configuration. Its path helpers depend on the configuration directory and the cluster.
\<close>

definition sc_ClusterDir :: "mem \<Rightarrow> cluster_config \<Rightarrow> string" where
  "sc_ClusterDir m c = ClusterDir (ConfigDir m) (cName c)"

definition sc_OCBinaryPath :: "mem \<Rightarrow> cluster_config \<Rightarrow> string" where
  "sc_OCBinaryPath m c = path_join [BinariesDir (ConfigDir m) (cOCPVersion c), ''oc'']"

definition sc_MasterISOPath :: "mem \<Rightarrow> cluster_config \<Rightarrow> string" where
  "sc_MasterISOPath m c = path_join [sc_ClusterDir m c, ''master.iso'']"

definition sc_RHCOSLiveISOPath :: "mem \<Rightarrow> cluster_config \<Rightarrow> string" where
  "sc_RHCOSLiveISOPath m c = path_join [RHCOSCacheDir (ConfigDir m) (cOCPVersion c), ''rhcos-live.iso'']"

definition sc_rhcosCache :: "mem \<Rightarrow> cluster_config \<Rightarrow> string" where
  "sc_rhcosCache m c = RHCOSCacheDir (ConfigDir m) (cOCPVersion c)"

definition sc_RHCOSKernelPath :: "mem \<Rightarrow> cluster_config \<Rightarrow> string" where
  "sc_RHCOSKernelPath m c = path_join [sc_rhcosCache m c, ''vmlinuz'']"

definition sc_RHCOSInitramfsPath :: "mem \<Rightarrow> cluster_config \<Rightarrow> string" where
  "sc_RHCOSInitramfsPath m c = path_join [sc_rhcosCache m c, ''initramfs.img'']"

definition sc_RHCOSRootfsPath :: "mem \<Rightarrow> cluster_config \<Rightarrow> string" where
  "sc_RHCOSRootfsPath m c = path_join [sc_rhcosCache m c, ''rootfs.img'']"

definition sc_MasterISOVolName :: "cluster_config \<Rightarrow> string" where
  "sc_MasterISOVolName c = ''easyshift-'' @ cName c @ ''-master.iso''"

definition sc_KubeconfigPath :: "mem \<Rightarrow> cluster_config \<Rightarrow> string" where
  "sc_KubeconfigPath m c = path_join [sc_ClusterDir m c, ''auth'', ''kubeconfig'']"

definition sc_InstallerSpec :: "'x rt \<Rightarrow> mem \<Rightarrow> cluster_config \<Rightarrow> installer_spec" where
  "sc_InstallerSpec rt m c =
     (let bin = BinariesDir (ConfigDir m) (cOCPVersion c) in
      \<lparr>isClusterDir = sc_ClusterDir m c, isCluster = c, isPullSecret = [], isSSHPublicKey = [],
       isInstallerPath = path_join [bin, ''openshift-install''],
       isCoreOSInstallerPath = path_join [bin, ''coreos-installer''],
       isArch = PayloadArch (GOARCH rt), isOut = None\<rparr>)"

text \<open>
  A stage: its name, and the effects of \<open>Apply\<close>, \<open>Rollback\<close> and the optional \<open>Preflight\<close> on the
  memory and the outside.
\<close>

type_synonym 's action = "nat \<Rightarrow> mem \<Rightarrow> ('s, error option \<times> mem) io"

record 's stage =
  Name :: string
  Apply :: "'s action"
  Rollback :: "'s action"
  Preflight :: "(nat \<Rightarrow> mem \<Rightarrow> ('s, error option) io) option"

text \<open>Effects that leave the memory alone, and a mutation followed by \<open>sc.Config.Save()\<close>.\<close>

definition keep_mem :: "mem \<Rightarrow> ('s, error option) io \<Rightarrow> ('s, error option \<times> mem) io" where
  "keep_mem m a = io_bind a (\<lambda>e. io_ret (e, m))"

definition save_mem :: "'x rt \<Rightarrow> mem \<Rightarrow> ('x sys, error option \<times> mem) io" where
  "save_mem rt m = keep_mem m (Save rt m)"

text \<open>\<open>if err := a; err != nil { return err }; k\<close> for effects that also update the memory.\<close>

definition act_seq :: "('s, error option \<times> mem) io \<Rightarrow> (mem \<Rightarrow> ('s, error option \<times> mem) io) \<Rightarrow>
    ('s, error option \<times> mem) io" where
  "act_seq a k = io_bind a (\<lambda>(e, m). case e of Some e \<Rightarrow> io_ret (Some e, m) | None \<Rightarrow> k m)"

text \<open>The same for an effect that leaves the memory \<open>m\<close> alone.\<close>

definition act_check :: "mem \<Rightarrow> ('s, error option) io \<Rightarrow> ('s, error option \<times> mem) io \<Rightarrow>
    ('s, error option \<times> mem) io" where
  "act_check m a k = io_bind a (\<lambda>e. case e of Some e \<Rightarrow> io_ret (Some e, m) | None \<Rightarrow> k)"

definition act_bind :: "mem \<Rightarrow> ('s, 'a result) io \<Rightarrow> ('a \<Rightarrow> ('s, error option \<times> mem) io) \<Rightarrow>
    ('s, error option \<times> mem) io" where
  "act_bind m a k = io_bind a (\<lambda>r. case r of Inl e \<Rightarrow> io_ret (Some e, m) | Inr x \<Rightarrow> k x)"

definition wrap_res :: "string \<Rightarrow> string list \<Rightarrow> ('s, 'a result) io \<Rightarrow> ('s, 'a result) io" where
  "wrap_res f args m = io_bind m (\<lambda>r. io_ret (map_sum (Wrapf f args) id r))"

definition clock_now :: "'x rt \<Rightarrow> ('x sys, nat) io" where
  "clock_now rt s = (rt_now rt (rest s), 0, s)"

section \<open>Laws of the file operations\<close>

lemma res_keep_mem [simp]: "res (keep_mem m a) s = (res a s, m)"
  and after_keep_mem [simp]: "after (keep_mem m a) s = after a s"
  by (simp_all add: keep_mem_def)

lemma res_save_mem [simp]: "res (save_mem rt m) s = (res (Save rt m) s, m)"
  and after_save_mem [simp]: "after (save_mem rt m) s = after (Save rt m) s"
  by (simp_all add: save_mem_def)

lemma res_act_check [simp]:
  "res (act_check m a k) s = (case res a s of Some e \<Rightarrow> (Some e, m) | None \<Rightarrow> res k (after a s))"
  and after_act_check [simp]:
  "after (act_check m a k) s = (case res a s of Some e \<Rightarrow> after a s | None \<Rightarrow> after k (after a s))"
  by (simp_all add: act_check_def split: option.splits)

lemma res_act_seq [simp]:
  "res (act_seq a k) s = (case res a s of (Some e, m) \<Rightarrow> (Some e, m) | (None, m) \<Rightarrow> res (k m) (after a s))"
  and after_act_seq [simp]:
  "after (act_seq a k) s = (case res a s of (Some e, m) \<Rightarrow> after a s | (None, m) \<Rightarrow> after (k m) (after a s))"
  by (simp_all add: act_seq_def split: option.splits prod.splits)

lemma res_act_bind [simp]:
  "res (act_bind m a k) s = (case res a s of Inl e \<Rightarrow> (Some e, m) | Inr x \<Rightarrow> res (k x) (after a s))"
  and after_act_bind [simp]:
  "after (act_bind m a k) s = (case res a s of Inl e \<Rightarrow> after a s | Inr x \<Rightarrow> after (k x) (after a s))"
  by (simp_all add: act_bind_def split: sum.splits)

lemma res_wrap_res [simp]: "res (wrap_res f args m) s = map_sum (Wrapf f args) id (res m s)"
  and after_wrap_res [simp]: "after (wrap_res f args m) s = after m s"
  by (simp_all add: wrap_res_def)

lemma clock_now_simps [simp]: "after (clock_now rt) s = s" "res (clock_now rt) s = rt_now rt (rest s)"
  by (simp_all add: clock_now_def after_def res_def)

lemma os_write_None: "res (os_write rt p c) s = None \<Longrightarrow> files (after (os_write rt p c) s) = (files s)(p \<mapsto> File c)"
  by (auto simp: os_write_def os_call_def res_def after_def io_bind_def io_ret_def err_of_def
      split: prod.splits option.splits sum.splits)

lemma os_write_Some: "res (os_write rt p c) s = Some e \<Longrightarrow> files (after (os_write rt p c) s) = files s"
  by (auto simp: os_write_def os_call_def res_def after_def io_bind_def io_ret_def err_of_def
      split: prod.splits option.splits sum.splits)

lemma os_read_files [simp]: "files (after (os_read rt p) s) = files s"
  by (auto simp: os_read_def os_call_def after_def split: prod.splits option.splits node.splits)

lemma os_stat_files [simp]: "files (after (os_stat rt p) s) = files s"
  by (auto simp: os_stat_def os_call_def after_def split: prod.splits option.splits node.splits)

lemma os_read_Inr: "res (os_read rt p) s = Inr c \<Longrightarrow> files s p = Some (File c)"
  by (auto simp: os_read_def os_call_def res_def split: prod.splits option.splits node.splits)

lemma os_mkdirall_files:
  "p \<noteq> q \<Longrightarrow> files (after (os_mkdirall rt p) s) q = files s q"
  by (auto simp: os_mkdirall_def os_call_def after_def io_bind_def io_ret_def split: prod.splits option.splits node.splits)

lemma Save_None:
  "res (Save rt m) s = None \<Longrightarrow>
     files (after (Save rt m) s) = (files s)(config_path (ConfigDir m) \<mapsto> File (ConfigDoc (snapshot m)))"
  by (auto simp: Save_def dest: os_write_None)

lemma config_path_file: "\<exists>p. config_path cd = p @ ''config.json''"
proof (cases "cd = []")
  case True
  have "path_join [[], ''config.json''] = [] @ ''config.json''" by code_simp
  then show ?thesis unfolding True config_path_def by blast
next
  case False
  then show ?thesis using path_join_file [of "''config.json''" "[cd]"] by (simp add: config_path_def)
qed

text \<open>What is saved is what a later process loads, up to fresh references.\<close>

lemma thaw_snapshot:
  "cluster_list (thaw (snapshot m)) = cluster_list m"
  "UsedIPs (thaw (snapshot m)) = UsedIPs m" "UsedMACs (thaw (snapshot m)) = UsedMACs m"
  "ConfigDir (thaw (snapshot m)) = ConfigDir m"
proof -
  show "cluster_list (thaw (snapshot m)) = cluster_list m"
    by (rule nth_equalityI) (simp_all add: thaw_def snapshot_def cluster_list_def)
qed (simp_all add: thaw_def snapshot_def)

section \<open>Concrete instances\<close>

text \<open>
  A cluster, a configuration and a machine without faults, at which the theorems of the
  development are instantiated.
\<close>

definition sample_cluster :: "string \<Rightarrow> cluster_config" where
  "sample_cluster n =
     \<lparr>cName = n, cDomain = ''lab.test'', cOCPVersion = ''4.17.3'', cMasterCount = 1, cWorkerCount = 0,
      cMasterRAM = 16384, cWorkerRAM = 0, cMasterCPUs = 8, cWorkerCPUs = 0, cMasterDiskGB = 120,
      cWorkerDiskGB = 0, cNetworkMode = NetworkModeNAT, cBridge = [], cMasterMAC = [], cMasterIP = [],
      cMachineCIDR = [], cGateway = [], cDNS = [], cStoragePool = ''default'', cDNSProvider = [],
      cDNSZone = [], cTLSEmail = [], cTLSStaging = False, cMagicDNS = [], cBakeImages = False,
      cODF = False, cODFDiskGB = 0, cNetworkSubnet = [], cIPAddresses = [], cMACAddresses = [],
      cState = ClusterStateCreating, cBootISOVolPath = [], cInstallKernelCmdline = [],
      cKubeconfigTarget = []\<rparr>"

definition sample_mem :: "cluster_config list \<Rightarrow> mem" where
  "sample_mem cs =
     \<lparr>ConfigDir = ''/cfg'', LogFile = ''/cfg/easyshift.log'', WebPort = DefaultWebPort, Debug = False,
      Clusters = [0..<length cs], UsedIPs = [], UsedMACs = [], ActiveCluster = [],
      heap = (\<lambda>r. cs ! r), next_ref = length cs\<rparr>"

definition sample_rt :: "'x rt" where
  "sample_rt =
     \<lparr>GOOS = ''linux'', GOARCH = ''amd64'', Getenv = (\<lambda>_. []), UserHomeDir = Inr ''/home/user'',
      os_fault = (\<lambda>_ x. (None, 0, x)), rt_wait = (\<lambda>_ x. (False, 0, x)), rt_now = (\<lambda>_. 0)\<rparr>"

definition sample_sys :: "'x \<Rightarrow> 'x sys" where
  "sample_sys x = \<lparr>files = (\<lambda>_. None), rest = x\<rparr>"

end
