(* ===== verification/Allocator.thy ===== *)
theory Allocator
  imports World
begin

text \<open>
  The stage \<open>allocate-network\<close> (\<open>stages/allocatenetwork\<close>): the allocator of IP and MAC
  addresses over the two usage maps of the global state, and the stage around it.
  \<open>crypto/rand\<close> is a parameter: an effect that yields three bytes or an error.

  The locale \<open>address_pool\<close> states what an allocator promises (a drawn address was free, and
  drawing marks exactly it); both allocators of the code are interpretations of it.
\<close>

section \<open>The allocator\<close>

abbreviation macPrefix :: string where "macPrefix \<equiv> ''52:54:00''"

type_synonym 's rand3 = "('s, (8 word \<times> 8 word \<times> 8 word) result) io"

definition mac_text :: "8 word \<Rightarrow> 8 word \<Rightarrow> 8 word \<Rightarrow> string" where
  "mac_text a b c = macPrefix @ '':'' @ hex2 a @ '':'' @ hex2 b @ '':'' @ hex2 c"

definition generateMAC :: "'s rand3 \<Rightarrow> ('s, string result) io" where
  "generateMAC rnd =
     io_bind rnd (\<lambda>r. io_ret (case r of
       Inl e \<Rightarrow> Inl (Wrapf ''read random bytes: %w'' [] e)
     | Inr (a, b, c) \<Rightarrow> Inr (mac_text a b c)))"

definition mark_ip :: "string \<Rightarrow> mem \<Rightarrow> mem" where
  "mark_ip ip m = m\<lparr>UsedIPs := AList.update ip True (UsedIPs m)\<rparr>"

definition mark_mac :: "string \<Rightarrow> mem \<Rightarrow> mem" where
  "mark_mac mac m = m\<lparr>UsedMACs := AList.update mac True (UsedMACs m)\<rparr>"

text \<open>The loop of \<open>allocateMAC\<close> with \<open>k\<close> attempts left; the code starts it with 100.\<close>

fun allocateMAC_loop :: "'s rand3 \<Rightarrow> nat \<Rightarrow> mem \<Rightarrow> ('s, string result \<times> mem) io" where
  "allocateMAC_loop rnd 0 m =
     io_ret (Inl (Errorf ''failed to allocate unique MAC after 100 attempts'' []), m)"
| "allocateMAC_loop rnd (Suc k) m =
     io_bind (generateMAC rnd) (\<lambda>r. case r of
       Inl e \<Rightarrow> io_ret (Inl e, m)
     | Inr mac \<Rightarrow> if map_get (UsedMACs m) mac then allocateMAC_loop rnd k m
                  else io_ret (Inr mac, mark_mac mac m))"

definition allocateMAC :: "'s rand3 \<Rightarrow> mem \<Rightarrow> ('s, string result \<times> mem) io" where
  "allocateMAC rnd m = allocateMAC_loop rnd 100 m"

definition ip_text :: "nat \<Rightarrow> string" where
  "ip_text i = BaseNetworkRange @ ''.'' @ nat_str i"

fun allocateIP_loop :: "nat list \<Rightarrow> mem \<Rightarrow> string result \<times> mem" where
  "allocateIP_loop [] m =
     (Inl (Errorf ''no available IP addresses in range %s.%d-%d''
             [BaseNetworkRange, nat_str NetworkStart, nat_str NetworkEnd]), m)"
| "allocateIP_loop (i # is) m =
     (if \<not> map_get (UsedIPs m) (ip_text i) then (Inr (ip_text i), mark_ip (ip_text i) m)
      else allocateIP_loop is m)"

definition allocateIP :: "mem \<Rightarrow> string result \<times> mem" where
  "allocateIP m = allocateIP_loop [NetworkStart..<Suc NetworkEnd] m"

text \<open>The two loops of \<open>allocate\<close>: node \<open>i\<close> is next and \<open>n\<close> nodes are left.\<close>

fun allocate_macs :: "'s rand3 \<Rightarrow> nat \<Rightarrow> nat \<Rightarrow> mem \<Rightarrow> ('s, string list result \<times> mem) io" where
  "allocate_macs rnd i 0 m = io_ret (Inr [], m)"
| "allocate_macs rnd i (Suc n) m =
     io_bind (allocateMAC rnd m) (\<lambda>(r, m1). case r of
       Inl e \<Rightarrow> io_ret (Inl (Wrapf ''allocate mac for node %d: %w'' [nat_str i] e), m1)
     | Inr mac \<Rightarrow>
         io_bind (allocate_macs rnd (Suc i) n m1) (\<lambda>(rs, m2). io_ret (map_sum id ((#) mac) rs, m2)))"

fun allocate_ips :: "nat \<Rightarrow> nat \<Rightarrow> mem \<Rightarrow> string list result \<times> mem" where
  "allocate_ips i 0 m = (Inr [], m)"
| "allocate_ips i (Suc n) m =
     (case allocateIP m of
        (Inl e, m1) \<Rightarrow> (Inl (Wrapf ''allocate ip for node %d: %w'' [nat_str i] e), m1)
      | (Inr ip, m1) \<Rightarrow>
          (case allocate_ips (Suc i) n m1 of (rs, m2) \<Rightarrow> (map_sum id ((#) ip) rs, m2)))"

text \<open>
  \<open>allocate\<close>. A negative node count makes \<open>make([]string, total)\<close> panic, which is the error
  branch here; \<open>validateNew\<close> rejects such clusters before any stage runs.
\<close>

definition allocate :: "'s rand3 \<Rightarrow> nat \<Rightarrow> mem \<Rightarrow> ('s, error option \<times> mem) io" where
  "allocate rnd r m =
     (let total = cMasterCount (heap m r) + cWorkerCount (heap m r) in
      if total < 0 then io_ret (Some (ExtErr ''panic: makeslice: len out of range''), m)
      else io_bind (allocate_macs rnd 0 (nat total) m) (\<lambda>(macs, m1). case macs of
        Inl e \<Rightarrow> io_ret (Some e, m1)
      | Inr macs \<Rightarrow>
          let m2 = set_cluster r (cMACAddresses_update (\<lambda>_. macs)) m1 in
          if cNetworkMode (heap m r) \<noteq> NetworkModeNAT then
            io_ret (None, set_cluster r (\<lambda>c. c\<lparr>cIPAddresses := [], cNetworkSubnet := []\<rparr>) m2)
          else (case allocate_ips 0 (nat total) m2 of
                  (Inl e, m3) \<Rightarrow> io_ret (Some e, m3)
                | (Inr ips, m3) \<Rightarrow>
                    io_ret (None, set_cluster r
                      (\<lambda>c. c\<lparr>cIPAddresses := ips, cNetworkSubnet := BaseNetworkRange\<rparr>) m3))))"

definition release :: "nat \<Rightarrow> mem \<Rightarrow> mem" where
  "release r m =
     m\<lparr>UsedIPs := fold AList.delete (cIPAddresses (heap m r)) (UsedIPs m),
       UsedMACs := fold AList.delete (cMACAddresses (heap m r)) (UsedMACs m)\<rparr>"

section \<open>The stage\<close>

definition deriveMagicDomain :: "cluster_config \<Rightarrow> cluster_config" where
  "deriveMagicDomain c =
     (if cMagicDNS c = [] \<or> cDomain c \<noteq> [] then c
      else if PrimaryMasterIP c \<noteq> [] then c\<lparr>cDomain := MagicDomain (PrimaryMasterIP c) (cMagicDNS c)\<rparr>
      else c)"

definition allocatenetwork_Apply :: "'x rt \<Rightarrow> ('x sys) rand3 \<Rightarrow> ('x sys) action" where
  "allocatenetwork_Apply rt rnd r m =
     (let c = heap m r in
      if cMACAddresses c \<noteq> [] then io_ret (None, m)
      else if cNetworkMode c = NetworkModeBridge then
        save_mem rt (set_cluster r deriveMagicDomain (mark_mac (cMasterMAC c)
          (set_cluster r (\<lambda>c. c\<lparr>cMACAddresses := [cMasterMAC c], cIPAddresses := [cMasterIP c]\<rparr>) m)))
      else io_bind (allocate rnd r m) (\<lambda>(e, m1). case e of
        Some e \<Rightarrow> io_ret (Some e, m1)
      | None \<Rightarrow>
          save_mem rt (set_cluster r
            (\<lambda>c. deriveMagicDomain (c\<lparr>cMachineCIDR := cNetworkSubnet c @ ''.0/24''\<rparr>)) m1)))"

definition allocatenetwork_Rollback :: "'x rt \<Rightarrow> ('x sys) action" where
  "allocatenetwork_Rollback rt r m =
     save_mem rt (set_cluster r (\<lambda>c. c\<lparr>cIPAddresses := [], cMACAddresses := []\<rparr>) (release r m))"

definition allocatenetwork :: "'x rt \<Rightarrow> ('x sys) rand3 \<Rightarrow> ('x sys) stage" where
  "allocatenetwork rt rnd =
     \<lparr>Name = ''allocate-network'', Apply = allocatenetwork_Apply rt rnd,
      Rollback = allocatenetwork_Rollback rt, Preflight = None\<rparr>"

section \<open>The contract of an address pool\<close>

locale address_pool =
  fixes draw :: "'p \<Rightarrow> 'a \<Rightarrow> 'p \<Rightarrow> bool"
    and used :: "'p \<Rightarrow> 'a \<Rightarrow> bool"
  assumes draw_fresh: "draw p a q \<Longrightarrow> \<not> used p a"
    and draw_marks: "draw p a q \<Longrightarrow> used q b \<longleftrightarrow> used p b \<or> b = a"
begin

inductive draws :: "'p \<Rightarrow> 'a list \<Rightarrow> 'p \<Rightarrow> bool" where
  draws_Nil: "draws p [] p"
| draws_Cons: "draw p a q \<Longrightarrow> draws q as p' \<Longrightarrow> draws p (a # as) p'"

lemma draws_marks: "draws p as q \<Longrightarrow> used q b \<longleftrightarrow> used p b \<or> b \<in> set as"
  by (induction rule: draws.induct) (auto dest: draw_marks)

lemma draws_fresh: "draws p as q \<Longrightarrow> b \<in> set as \<Longrightarrow> \<not> used p b"
  by (induction rule: draws.induct) (auto dest: draw_fresh draw_marks)

lemma draws_distinct: "draws p as q \<Longrightarrow> distinct as"
proof (induction rule: draws.induct)
  case (draws_Cons p a q as p')
  then have "used q a" by (simp add: draw_marks)
  with draws_Cons show ?case using draws_fresh by fastforce
qed simp

end

section \<open>Laws of the usage maps\<close>

lemma map_get_update [simp]: "map_get (AList.update k True m) j \<longleftrightarrow> j = k \<or> map_get m j"
  by (simp add: map_get_def update_conv' map_of_eq_None_iff)

lemma map_get_delete [simp]: "map_get (AList.delete k m) j \<longleftrightarrow> j \<noteq> k \<and> map_get m j"
  by (simp add: map_get_def delete_conv')

lemma map_get_deletes [simp]: "map_get (fold AList.delete ks m) j \<longleftrightarrow> j \<notin> set ks \<and> map_get m j"
  by (induction ks arbitrary: m) auto

lemma mark_ip_simps [simp]:
  "map_get (UsedIPs (mark_ip ip m)) j \<longleftrightarrow> j = ip \<or> map_get (UsedIPs m) j"
  "UsedMACs (mark_ip ip m) = UsedMACs m" "heap (mark_ip ip m) = heap m" "Clusters (mark_ip ip m) = Clusters m"
  "ConfigDir (mark_ip ip m) = ConfigDir m" "next_ref (mark_ip ip m) = next_ref m"
  by (simp_all add: mark_ip_def)

lemma mark_mac_simps [simp]:
  "map_get (UsedMACs (mark_mac mac m)) j \<longleftrightarrow> j = mac \<or> map_get (UsedMACs m) j"
  "UsedIPs (mark_mac mac m) = UsedIPs m" "heap (mark_mac mac m) = heap m" "Clusters (mark_mac mac m) = Clusters m"
  "ConfigDir (mark_mac mac m) = ConfigDir m" "next_ref (mark_mac mac m) = next_ref m"
  by (simp_all add: mark_mac_def)

section \<open>Both allocators are address pools\<close>

definition ip_draw :: "mem \<Rightarrow> string \<Rightarrow> mem \<Rightarrow> bool" where
  "ip_draw m ip m' \<longleftrightarrow> allocateIP m = (Inr ip, m')"

definition mac_draw :: "mem \<Rightarrow> string \<Rightarrow> mem \<Rightarrow> bool" where
  "mac_draw m mac m' \<longleftrightarrow> \<not> map_get (UsedMACs m) mac \<and> m' = mark_mac mac m \<and> (\<exists>a b c. mac = mac_text a b c)"

lemma allocateIP_loop_Inr:
  "allocateIP_loop is m = (Inr ip, m') \<Longrightarrow>
     \<exists>i pre post. is = pre @ i # post \<and> ip = ip_text i \<and> \<not> map_get (UsedIPs m) ip \<and> m' = mark_ip ip m \<and>
       (\<forall>j \<in> set pre. map_get (UsedIPs m) (ip_text j))"
proof (induction "is")
  case (Cons i "is")
  show ?case
  proof (cases "map_get (UsedIPs m) (ip_text i)")
    case True
    with Cons obtain k pre post where "is = pre @ k # post" "ip = ip_text k"
      "\<not> map_get (UsedIPs m) ip" "m' = mark_ip ip m" "\<forall>j \<in> set pre. map_get (UsedIPs m) (ip_text j)" by auto
    with True show ?thesis
      by (intro exI [of _ k] exI [of _ "i # pre"] exI [of _ post]) simp
  next
    case False
    with Cons.prems show ?thesis by (intro exI [of _ i] exI [of _ "[]"] exI [of _ "is"]) auto
  qed
qed simp

lemma allocateIP_loop_Inl:
  "allocateIP_loop is m = (Inl e, m') \<Longrightarrow> m' = m \<and> (\<forall>i \<in> set is. map_get (UsedIPs m) (ip_text i))"
  by (induction "is") (auto split: if_splits)

lemma ip_draw_mark: "ip_draw m ip m' \<Longrightarrow> \<not> map_get (UsedIPs m) ip \<and> m' = mark_ip ip m"
  unfolding ip_draw_def allocateIP_def by (blast dest: allocateIP_loop_Inr)

interpretation ip_pool: address_pool ip_draw "\<lambda>m. map_get (UsedIPs m)"
  by unfold_locales (auto dest: ip_draw_mark)

interpretation mac_pool: address_pool mac_draw "\<lambda>m. map_get (UsedMACs m)"
  by unfold_locales (auto simp: mac_draw_def)

section \<open>What the allocators return\<close>

lemma ip_text_inj [simp]: "ip_text i = ip_text j \<longleftrightarrow> i = j"
  by (auto simp: ip_text_def dest: nat_str_inj)

lemma parse_mac_text: "parse_mac (mac_text a b c) = Some [0x52, 0x54, 0, unat a, unat b, unat c]"
proof -
  obtain a1 a2 b1 b2 c1 c2 where h: "hex2 a = [a1, a2]" "hex2 b = [b1, b2]" "hex2 c = [c1, c2]"
    by (simp add: hex2_def)
  let ?c = "CHR '':''"
  have x: "xtoi2 (a1 # a2 # ?c # r) (Some ?c) = Some (unat a)" for r
    using xtoi2_hex2 [of "?c # r" "Some ?c" a] by (simp add: h)
  have y: "xtoi2 (b1 # b2 # ?c # r) (Some ?c) = Some (unat b)" for r
    using xtoi2_hex2 [of "?c # r" "Some ?c" b] by (simp add: h)
  have z: "xtoi2 [c1, c2] (Some ?c) = Some (unat c)"
    using xtoi2_hex2 [of "[]" "Some ?c" c] by (simp add: h)
  have p: "xtoi2 (CHR ''5'' # CHR ''2'' # ?c # r) (Some ?c) = Some 0x52"
    "xtoi2 (CHR ''5'' # CHR ''4'' # ?c # r) (Some ?c) = Some 0x54"
    "xtoi2 (CHR ''0'' # CHR ''0'' # ?c # r) (Some ?c) = Some 0" for r
    by (simp_all add: xtoi2_def hex_val_def char_le_iff)
  let ?s = "[CHR ''5'', CHR ''2'', ?c, CHR ''5'', CHR ''4'', ?c, CHR ''0'', CHR ''0'', ?c,
             a1, a2, ?c, b1, b2, ?c, c1, c2]"
  have six: "(6 :: nat) = Suc (Suc (Suc (Suc (Suc (Suc 0)))))" by simp
  have "mac_colon 6 ?c ?s = Some [0x52, 0x54, 0, unat a, unat b, unat c]"
    unfolding six by (simp only: mac_colon.simps x y z p option.case drop_Cons_numeral) (simp add: p x y z)
  moreover have "parse_mac ?s = mac_colon 6 ?c ?s"
    by (simp add: parse_mac_def)
  moreover have "mac_text a b c = ?s"
    by (simp add: mac_text_def h)
  ultimately show ?thesis by simp
qed

lemma ip_draw_band:
  "ip_draw m ip m' \<Longrightarrow> \<exists>i. NetworkStart \<le> i \<and> i \<le> NetworkEnd \<and> ip = ip_text i \<and>
     (\<forall>j. NetworkStart \<le> j \<and> j < i \<longrightarrow> map_get (UsedIPs m) (ip_text j))"
proof -
  assume "ip_draw m ip m'"
  then obtain i pre post where u: "[NetworkStart..<Suc NetworkEnd] = pre @ i # post" and i: "ip = ip_text i"
    and used: "\<forall>j \<in> set pre. map_get (UsedIPs m) (ip_text j)"
    unfolding ip_draw_def allocateIP_def by (blast dest: allocateIP_loop_Inr)
  have "i \<in> set [NetworkStart..<Suc NetworkEnd]" unfolding u by simp
  then have b: "NetworkStart \<le> i" "i \<le> NetworkEnd" by (simp_all add: less_Suc_eq_le del: upt_Suc)
  have "j \<in> set pre" if "NetworkStart \<le> j" "j < i" for j
  proof -
    have "sorted (pre @ i # post)" using sorted_upt [of NetworkStart "Suc NetworkEnd"] by (simp only: u)
    then have "\<forall>k \<in> set post. i \<le> k" by (simp add: sorted_append)
    moreover have "j \<in> set (pre @ i # post)" using that b by (simp add: u [symmetric] del: upt_Suc)
    ultimately show ?thesis using that by auto
  qed
  with b i used show ?thesis by blast
qed

lemma allocateIP_Inl:
  "allocateIP m = (Inl e, m') \<Longrightarrow>
     m' = m \<and> (\<forall>i. NetworkStart \<le> i \<and> i \<le> NetworkEnd \<longrightarrow> map_get (UsedIPs m) (ip_text i))"
  unfolding allocateIP_def by (drule allocateIP_loop_Inl) auto

lemma allocateMAC_loop_res:
  "res (allocateMAC_loop rnd k m) s = (Inr mac, m') \<Longrightarrow> mac_draw m mac m'"
  "res (allocateMAC_loop rnd k m) s = (Inl e, m') \<Longrightarrow> m' = m"
  by (induction k arbitrary: s)
    (auto simp: generateMAC_def mac_draw_def split: sum.splits prod.splits if_splits)

lemma allocate_macs_res:
  "res (allocate_macs rnd i n m) s = (rs, m') \<Longrightarrow>
     \<exists>macs. mac_pool.draws m macs m' \<and> (\<forall>xs. rs = Inr xs \<longrightarrow> xs = macs \<and> length xs = n)"
proof (induction n arbitrary: i m s rs m')
  case 0
  then show ?case by (auto intro: mac_pool.draws_Nil)
next
  case (Suc n)
  obtain r m1 where r: "res (allocateMAC rnd m) s = (r, m1)" by force
  show ?case
  proof (cases r)
    case (Inl e)
    with r have "m1 = m" by (auto simp: allocateMAC_def dest: allocateMAC_loop_res)
    with Suc.prems r Inl show ?thesis by (auto intro: mac_pool.draws_Nil)
  next
    case (Inr mac)
    with r have d: "mac_draw m mac m1" by (auto simp: allocateMAC_def dest: allocateMAC_loop_res)
    obtain rs1 m2 where q: "res (allocate_macs rnd (Suc i) n m1) (after (allocateMAC rnd m) s) = (rs1, m2)" by force
    with Suc.prems r Inr have e: "m' = m2" "rs = map_sum id ((#) mac) rs1" by auto
    from Suc.IH [OF q] obtain macs where "mac_pool.draws m1 macs m2"
      "\<forall>xs. rs1 = Inr xs \<longrightarrow> xs = macs \<and> length xs = n" by auto
    with d e show ?thesis
      by (intro exI [of _ "mac # macs"]) (cases rs1; auto intro: mac_pool.draws_Cons)
  qed
qed

lemma allocate_ips_res:
  "allocate_ips i n m = (rs, m') \<Longrightarrow>
     \<exists>ips. ip_pool.draws m ips m' \<and> (\<forall>xs. rs = Inr xs \<longrightarrow> xs = ips \<and> length xs = n)"
proof (induction n arbitrary: i m rs m')
  case 0
  then show ?case by (auto intro: ip_pool.draws_Nil)
next
  case (Suc n)
  show ?case
  proof (cases "allocateIP m")
    case (Pair r m1)
    show ?thesis
    proof (cases r)
      case (Inl e)
      with Pair have "m1 = m" by (auto dest: allocateIP_Inl)
      with Suc.prems Pair Inl show ?thesis by (auto intro: ip_pool.draws_Nil)
    next
      case (Inr ip)
      with Pair have d: "ip_draw m ip m1" by (simp add: ip_draw_def)
      obtain rs1 m2 where q: "allocate_ips (Suc i) n m1 = (rs1, m2)" by force
      with Suc.prems Pair Inr have e: "m' = m2" "rs = map_sum id ((#) ip) rs1" by auto
      from Suc.IH [OF q] obtain ips where "ip_pool.draws m1 ips m2"
        "\<forall>xs. rs1 = Inr xs \<longrightarrow> xs = ips \<and> length xs = n" by auto
      with d e show ?thesis
        by (intro exI [of _ "ip # ips"]) (cases rs1; auto intro: ip_pool.draws_Cons)
    qed
  qed
qed

text \<open>What drawing leaves alone.\<close>

lemma mac_draws_frame:
  "mac_pool.draws m macs m' \<Longrightarrow>
     UsedIPs m' = UsedIPs m \<and> heap m' = heap m \<and> Clusters m' = Clusters m \<and> ConfigDir m' = ConfigDir m \<and>
     (\<forall>mac \<in> set macs. \<exists>a b c. mac = mac_text a b c)"
  by (induction rule: mac_pool.draws.induct) (auto simp: mac_draw_def)

lemma ip_draws_frame:
  "ip_pool.draws m ips m' \<Longrightarrow>
     UsedMACs m' = UsedMACs m \<and> heap m' = heap m \<and> Clusters m' = Clusters m \<and> ConfigDir m' = ConfigDir m \<and>
     (\<forall>ip \<in> set ips. \<exists>i. NetworkStart \<le> i \<and> i \<le> NetworkEnd \<and> ip = ip_text i)"
proof (induction rule: ip_pool.draws.induct)
  case (draws_Cons p a q as p')
  from ip_draw_mark [OF draws_Cons.hyps(1)] ip_draw_band [OF draws_Cons.hyps(1)] draws_Cons.IH
  show ?case by auto
qed simp

section \<open>What the stage does\<close>

abbreviation is_nat :: "cluster_config \<Rightarrow> bool" where
  "is_nat c \<equiv> cNetworkMode c = NetworkModeNAT"

definition node_total :: "cluster_config \<Rightarrow> nat" where
  "node_total c = nat (cMasterCount c + cWorkerCount c)"

text \<open>
  A step of the allocation for the cluster \<open>r\<close>: no other cluster changes, no address becomes
  free, and an address the cluster gains was free before.
\<close>

definition addr_step :: "nat \<Rightarrow> mem \<Rightarrow> mem \<Rightarrow> bool" where
  "addr_step r m m' \<longleftrightarrow>
     Clusters m' = Clusters m \<and> ConfigDir m' = ConfigDir m \<and> (\<forall>q. q \<noteq> r \<longrightarrow> heap m' q = heap m q) \<and>
     cName (heap m' r) = cName (heap m r) \<and> cNetworkMode (heap m' r) = cNetworkMode (heap m r) \<and>
     (\<forall>x. map_get (UsedIPs m) x \<longrightarrow> map_get (UsedIPs m') x) \<and>
     (\<forall>x. map_get (UsedMACs m) x \<longrightarrow> map_get (UsedMACs m') x) \<and>
     (is_nat (heap m r) \<longrightarrow>
        (\<forall>x \<in> set (cIPAddresses (heap m' r)).
           x \<in> set (cIPAddresses (heap m r)) \<or> \<not> map_get (UsedIPs m) x \<and> map_get (UsedIPs m') x) \<and>
        (\<forall>x \<in> set (cMACAddresses (heap m' r)).
           x \<in> set (cMACAddresses (heap m r)) \<or> \<not> map_get (UsedMACs m) x \<and> map_get (UsedMACs m') x))"

text \<open>
  The invariant of the global state: the addresses of every NAT cluster are marked as used, and
  two NAT clusters share none.
\<close>

definition pool_ok_on :: "nat set \<Rightarrow> mem \<Rightarrow> bool" where
  "pool_ok_on Q m \<longleftrightarrow>
     (\<forall>r \<in> Q. is_nat (heap m r) \<longrightarrow>
        (\<forall>x \<in> set (cIPAddresses (heap m r)). map_get (UsedIPs m) x) \<and>
        (\<forall>x \<in> set (cMACAddresses (heap m r)). map_get (UsedMACs m) x)) \<and>
     (\<forall>r \<in> Q. \<forall>q \<in> Q. r \<noteq> q \<longrightarrow> is_nat (heap m r) \<longrightarrow> is_nat (heap m q) \<longrightarrow>
        set (cIPAddresses (heap m r)) \<inter> set (cIPAddresses (heap m q)) = {} \<and>
        set (cMACAddresses (heap m r)) \<inter> set (cMACAddresses (heap m q)) = {})"

abbreviation pool_ok :: "mem \<Rightarrow> bool" where
  "pool_ok m \<equiv> pool_ok_on (set (Clusters m)) m"

lemma addr_step_refl [inv_intros]: "addr_step r m m"
  by (simp add: addr_step_def)

lemma pool_okD:
  assumes "pool_ok_on Q m" "r \<in> Q" "is_nat (heap m r)"
  shows "x \<in> set (cIPAddresses (heap m r)) \<Longrightarrow> map_get (UsedIPs m) x"
    and "x \<in> set (cMACAddresses (heap m r)) \<Longrightarrow> map_get (UsedMACs m) x"
  using assms by (simp_all add: pool_ok_on_def)

lemma pool_ok_disjoint:
  assumes "pool_ok_on Q m" "r \<in> Q" "q \<in> Q" "r \<noteq> q"
    "is_nat (heap m r)" "is_nat (heap m q)"
  shows "x \<in> set (cIPAddresses (heap m r)) \<Longrightarrow> x \<notin> set (cIPAddresses (heap m q))"
    and "x \<in> set (cMACAddresses (heap m r)) \<Longrightarrow> x \<notin> set (cMACAddresses (heap m q))"
  using assms unfolding pool_ok_on_def by blast+

lemma addr_step_disjoint:
  assumes s: "addr_step r m m'" and ok: "pool_ok_on Q m"
    and i: "r \<in> Q" "q \<in> Q" "q \<noteq> r" "is_nat (heap m r)" "is_nat (heap m q)"
  shows "x \<in> set (cIPAddresses (heap m' r)) \<Longrightarrow> x \<notin> set (cIPAddresses (heap m' q))"
    and "x \<in> set (cMACAddresses (heap m' r)) \<Longrightarrow> x \<notin> set (cMACAddresses (heap m' q))"
  using s i pool_okD [OF ok i(2,5)] pool_ok_disjoint [OF ok i(1,2) i(3) [symmetric] i(4,5)]
  unfolding addr_step_def by metis+

lemma addr_step_ok [inv_intros]:
  assumes s: "addr_step r m m'" and ok: "pool_ok_on Q m"
  shows "pool_ok_on Q m'"
proof -
  have nat_same: "is_nat (heap m' q) = is_nat (heap m q)" for q
    using s by (cases "q = r") (simp_all add: addr_step_def)
  have marked: "(\<forall>x \<in> set (cIPAddresses (heap m' q)). map_get (UsedIPs m') x) \<and>
      (\<forall>x \<in> set (cMACAddresses (heap m' q)). map_get (UsedMACs m') x)"
    if "q \<in> Q" "is_nat (heap m q)" for q
    using s pool_okD [OF ok that] that unfolding addr_step_def by (cases "q = r") metis+
  have disj: "set (cIPAddresses (heap m' p)) \<inter> set (cIPAddresses (heap m' q)) = {} \<and>
      set (cMACAddresses (heap m' p)) \<inter> set (cMACAddresses (heap m' q)) = {}"
    if i: "p \<in> Q" "q \<in> Q" "p \<noteq> q" "is_nat (heap m p)" "is_nat (heap m q)" for p q
  proof -
    consider "p = r" | "q = r" | "p \<noteq> r" "q \<noteq> r" by blast
    then show ?thesis
    proof cases
      case 1
      with i addr_step_disjoint [OF s ok, of q] show ?thesis by auto
    next
      case 2
      with i addr_step_disjoint [OF s ok, of p] show ?thesis by auto
    next
      case 3
      with s have "heap m' p = heap m p" "heap m' q = heap m q" by (simp_all add: addr_step_def)
      with i pool_ok_disjoint [OF ok i] show ?thesis by auto
    qed
  qed
  show ?thesis
    unfolding pool_ok_on_def using marked disj by (simp add: nat_same)
qed

text \<open>The three ways \<open>allocate\<close> ends, in terms of the two pools.\<close>

lemma allocate_NAT:
  assumes r: "res (allocate rnd r m) s = (None, m')" and nat: "is_nat (heap m r)"
  obtains macs m1 ips m3 where
    "mac_pool.draws m macs m1" "length macs = node_total (heap m r)"
    "ip_pool.draws (set_cluster r (cMACAddresses_update (\<lambda>_. macs)) m1) ips m3"
    "length ips = node_total (heap m r)"
    "m' = set_cluster r (\<lambda>c. c\<lparr>cIPAddresses := ips, cNetworkSubnet := BaseNetworkRange\<rparr>) m3"
proof -
  let ?n = "nat (cMasterCount (heap m r) + cWorkerCount (heap m r))"
  have nn: "\<not> cMasterCount (heap m r) + cWorkerCount (heap m r) < 0"
    using r by (auto simp: allocate_def Let_def)
  obtain ms m1 where q: "res (allocate_macs rnd 0 ?n m) s = (ms, m1)" by force
  with r nn obtain macs where ms: "ms = Inr macs"
    by (cases ms) (auto simp: allocate_def Let_def)
  let ?m2 = "set_cluster r (cMACAddresses_update (\<lambda>_. macs)) m1"
  obtain ipr m3 where i: "allocate_ips 0 ?n ?m2 = (ipr, m3)" by force
  with r q ms nn nat obtain ips where "ipr = Inr ips"
    "m' = set_cluster r (\<lambda>c. c\<lparr>cIPAddresses := ips, cNetworkSubnet := BaseNetworkRange\<rparr>) m3"
    by (cases ipr) (auto simp: allocate_def Let_def)
  with allocate_macs_res [OF q] allocate_ips_res [OF i] ms that show thesis
    by (auto simp: node_total_def)
qed

lemma mac_draws_step: "mac_pool.draws m macs m1 \<Longrightarrow>
    addr_step r m (set_cluster r (cMACAddresses_update (\<lambda>_. macs)) m1)"
  using mac_draws_frame [of m macs m1] mac_pool.draws_marks [of m macs m1] mac_pool.draws_fresh [of m macs m1]
  by (auto simp: addr_step_def)

lemma mac_draws_step': "mac_pool.draws m macs m1 \<Longrightarrow> addr_step r m m1"
  using mac_draws_frame [of m macs m1] mac_pool.draws_marks [of m macs m1]
  by (auto simp: addr_step_def)

lemma ip_draws_step: "ip_pool.draws m ips m1 \<Longrightarrow>
    addr_step r m (set_cluster r (\<lambda>c. c\<lparr>cIPAddresses := ips, cNetworkSubnet := n\<rparr>) m1)"
  using ip_draws_frame [of m ips m1] ip_pool.draws_marks [of m ips m1] ip_pool.draws_fresh [of m ips m1]
  by (auto simp: addr_step_def)

lemma ip_draws_step': "ip_pool.draws m ips m1 \<Longrightarrow> addr_step r m m1"
  using ip_draws_frame [of m ips m1] ip_pool.draws_marks [of m ips m1]
  by (auto simp: addr_step_def)

lemma addr_step_trans: "addr_step r m m1 \<Longrightarrow> addr_step r m1 m2 \<Longrightarrow> addr_step r m m2"
  unfolding addr_step_def by (elim conjE) (intro conjI impI; fastforce)

lemma addr_step_other [simp]: "cName (f (heap m r)) = cName (heap m r) \<Longrightarrow> cNetworkMode (f (heap m r)) = cNetworkMode (heap m r) \<Longrightarrow>
    cIPAddresses (f (heap m r)) = cIPAddresses (heap m r) \<or> \<not> is_nat (heap m r) \<Longrightarrow>
    cMACAddresses (f (heap m r)) = cMACAddresses (heap m r) \<or> \<not> is_nat (heap m r) \<Longrightarrow>
    addr_step r m (set_cluster r f m)"
  by (auto simp: addr_step_def)

lemma allocate_step:
  assumes r: "res (allocate rnd r m) s = (e, m')"
  shows "addr_step r m m'"
proof -
  let ?n = "nat (cMasterCount (heap m r) + cWorkerCount (heap m r))"
  obtain ms m1 where q: "res (allocate_macs rnd 0 ?n m) s = (ms, m1)" by force
  from allocate_macs_res [OF q] obtain macs where d: "mac_pool.draws m macs m1"
    and x: "\<forall>xs. ms = Inr xs \<longrightarrow> xs = macs" by auto
  show ?thesis
  proof (cases "cMasterCount (heap m r) + cWorkerCount (heap m r) < 0")
    case True
    with r show ?thesis by (auto simp: allocate_def Let_def inv_intros)
  next
    case nn: False
    show ?thesis
    proof (cases ms)
      case (Inl e')
      with r q nn have "m' = m1" by (auto simp: allocate_def Let_def)
      with d show ?thesis by (simp add: mac_draws_step')
    next
      case (Inr macs')
      let ?m2 = "set_cluster r (cMACAddresses_update (\<lambda>_. macs)) m1"
      have s2: "addr_step r m ?m2" using d by (rule mac_draws_step)
      have md: "cNetworkMode (heap ?m2 r) = cNetworkMode (heap m r)"
        using mac_draws_frame [OF d] by simp
      show ?thesis
      proof (cases "is_nat (heap m r)")
        case False
        with r q nn Inr x have "m' = set_cluster r (\<lambda>c. c\<lparr>cIPAddresses := [], cNetworkSubnet := []\<rparr>) ?m2"
          by (auto simp: allocate_def Let_def)
        with s2 md False show ?thesis by (auto intro!: addr_step_trans [OF s2])
      next
        case True
        obtain ipr m3 where i: "allocate_ips 0 ?n ?m2 = (ipr, m3)" by force
        from allocate_ips_res [OF i] obtain ips where d3: "ip_pool.draws ?m2 ips m3"
          and y: "\<forall>xs. ipr = Inr xs \<longrightarrow> xs = ips" by auto
        show ?thesis
        proof (cases ipr)
          case (Inl e')
          with r q nn Inr x True i have "m' = m3" by (auto simp: allocate_def Let_def)
          with ip_draws_step' [OF d3] s2 show ?thesis by (auto intro: addr_step_trans)
        next
          case is_ok: (Inr ips')
          with r q nn Inr x y True i
          have "m' = set_cluster r (\<lambda>c. c\<lparr>cIPAddresses := ips, cNetworkSubnet := BaseNetworkRange\<rparr>) m3"
            by (auto simp: allocate_def Let_def)
          with ip_draws_step [OF d3] s2 show ?thesis by (auto intro: addr_step_trans)
        qed
      qed
    qed
  qed
qed

lemma deriveMagicDomain_simps [simp]:
  "cNetworkMode (deriveMagicDomain c) = cNetworkMode c" "cIPAddresses (deriveMagicDomain c) = cIPAddresses c"
  "cMACAddresses (deriveMagicDomain c) = cMACAddresses c" "cMachineCIDR (deriveMagicDomain c) = cMachineCIDR c"
  "PrimaryMasterIP (deriveMagicDomain c) = PrimaryMasterIP c"
  "PrimaryMasterMAC (deriveMagicDomain c) = PrimaryMasterMAC c"
  "cGateway (deriveMagicDomain c) = cGateway c" "cName (deriveMagicDomain c) = cName c" "cDNS (deriveMagicDomain c) = cDNS c"
  by (simp_all add: deriveMagicDomain_def PrimaryMasterIP_def PrimaryMasterMAC_def)

lemma Apply_step:
  assumes "snd (res (allocatenetwork_Apply rt rnd r m) s) = m'"
  shows "addr_step r m m'"
proof -
  consider "cMACAddresses (heap m r) \<noteq> []" | "cMACAddresses (heap m r) = []" "cNetworkMode (heap m r) = NetworkModeBridge"
    | "cMACAddresses (heap m r) = []" "cNetworkMode (heap m r) \<noteq> NetworkModeBridge" by blast
  then show ?thesis
  proof cases
    case 1
    with assms show ?thesis by (auto simp: allocatenetwork_Apply_def inv_intros)
  next
    case 2
    with assms show ?thesis by (auto simp: allocatenetwork_Apply_def addr_step_def)
  next
    case 3
    obtain e m1 where q: "res (allocate rnd r m) s = (e, m1)" by force
    then have st: "addr_step r m m1" by (rule allocate_step)
    let ?f = "\<lambda>c. deriveMagicDomain (c\<lparr>cMachineCIDR := cNetworkSubnet c @ ''.0/24''\<rparr>)"
    have "m' = m1 \<or> m' = set_cluster r ?f m1"
      using assms 3 q by (auto simp: allocatenetwork_Apply_def split: option.splits)
    moreover have "addr_step r m1 (set_cluster r ?f m1)" by simp
    ultimately show ?thesis using st addr_step_trans by blast
  qed
qed

lemma release_NAT_ok:
  assumes ok: "pool_ok_on Q m" and r: "r \<in> Q" "is_nat (heap m r)"
  shows "pool_ok_on Q (set_cluster r (\<lambda>c. c\<lparr>cIPAddresses := [], cMACAddresses := []\<rparr>) (release r m))"
    (is "pool_ok_on Q ?m'")
proof -
  have h: "Clusters ?m' = Clusters m" "\<And>q. cNetworkMode (heap ?m' q) = cNetworkMode (heap m q)"
    "\<And>q. cIPAddresses (heap ?m' q) = (if q = r then [] else cIPAddresses (heap m q))"
    "\<And>q. cMACAddresses (heap ?m' q) = (if q = r then [] else cMACAddresses (heap m q))"
    by (simp_all add: release_def set_cluster_def)
  have u: "map_get (UsedIPs ?m') x \<longleftrightarrow> x \<notin> set (cIPAddresses (heap m r)) \<and> map_get (UsedIPs m) x"
    "map_get (UsedMACs ?m') x \<longleftrightarrow> x \<notin> set (cMACAddresses (heap m r)) \<and> map_get (UsedMACs m) x" for x
    by (simp_all add: release_def set_cluster_def)
  show ?thesis
    using ok r unfolding pool_ok_on_def h u by (auto; blast)
qed

section \<open>Properties\<close>

text \<open>C6. When the allocator succeeds for a NAT cluster, the cluster has one address of each kind
  per node; all are distinct, none was in use before, exactly they are marked afterwards, the IP
  addresses lie in 192.168.126.5 to .20 and the MAC addresses are valid.\<close>

theorem allocate_nat_fresh:
  assumes ok: "res (allocate rnd r m) s = (None, m')" and nat: "is_nat (heap m r)"
  shows "let c = heap m' r in
    length (cIPAddresses c) = node_total (heap m r) \<and> length (cMACAddresses c) = node_total (heap m r) \<and>
    distinct (cIPAddresses c) \<and> distinct (cMACAddresses c) \<and>
    (\<forall>x. map_get (UsedIPs m') x \<longleftrightarrow> map_get (UsedIPs m) x \<or> x \<in> set (cIPAddresses c)) \<and>
    (\<forall>x. map_get (UsedMACs m') x \<longleftrightarrow> map_get (UsedMACs m) x \<or> x \<in> set (cMACAddresses c)) \<and>
    (\<forall>x \<in> set (cIPAddresses c). \<not> map_get (UsedIPs m) x \<and>
       (\<exists>i. 5 \<le> i \<and> i \<le> 20 \<and> x = ''192.168.126.'' @ nat_str i)) \<and>
    (\<forall>x \<in> set (cMACAddresses c). \<not> map_get (UsedMACs m) x \<and> ValidateMAC x) \<and>
    (\<forall>q. q \<noteq> r \<longrightarrow> heap m' q = heap m q)"
proof -
  obtain macs m1 ips m3 where d: "mac_pool.draws m macs m1" "length macs = node_total (heap m r)"
    "ip_pool.draws (set_cluster r (cMACAddresses_update (\<lambda>_. macs)) m1) ips m3"
    "length ips = node_total (heap m r)"
    "m' = set_cluster r (\<lambda>c. c\<lparr>cIPAddresses := ips, cNetworkSubnet := BaseNetworkRange\<rparr>) m3"
    using ok nat by (rule allocate_NAT)
  note f = mac_draws_frame [OF d(1)] ip_draws_frame [OF d(3)]
  have c: "cIPAddresses (heap m' r) = ips" "cMACAddresses (heap m' r) = macs"
    "UsedIPs m' = UsedIPs m3" "UsedMACs m' = UsedMACs m1" "q \<noteq> r \<Longrightarrow> heap m' q = heap m q" for q
    using f d(5) by auto
  have band: "\<exists>i. 5 \<le> i \<and> i \<le> 20 \<and> x = ''192.168.126.'' @ nat_str i" if "x \<in> set ips" for x
    using f(2) that by (auto simp: ip_text_def BaseNetworkRange_def NetworkStart_def NetworkEnd_def)
  have mac: "ValidateMAC x" if "x \<in> set macs" for x
    using f(1) that by (auto simp: ValidateMAC_def parse_mac_text)
  have u: "map_get (UsedIPs m3) x \<longleftrightarrow> map_get (UsedIPs m) x \<or> x \<in> set ips"
    "x \<in> set ips \<Longrightarrow> \<not> map_get (UsedIPs m) x" for x
    using ip_pool.draws_marks [OF d(3)] ip_pool.draws_fresh [OF d(3)] f(1) by auto
  show ?thesis
    unfolding Let_def c
    using d(2,4) ip_pool.draws_distinct [OF d(3)] mac_pool.draws_distinct [OF d(1)] u band mac
      mac_pool.draws_marks [OF d(1)] mac_pool.draws_fresh [OF d(1)] c(5) by simp
qed

definition sample_rand :: "('s, (8 word \<times> 8 word \<times> 8 word) result) io" where
  "sample_rand s = (Inr (1, 2, 171), 0, s)"

definition sample_alloc :: "error option \<times> mem" where
  "sample_alloc = fst (allocate sample_rand 0 (sample_mem [sample_cluster ''one'']) ())"

lemma sample_alloc_ok: "fst sample_alloc = None"
  unfolding sample_alloc_def by code_simp

theorem allocate_nat_fresh_witness:
  "let c = heap (snd sample_alloc) 0 in
     length (cIPAddresses c) = 1 \<and> length (cMACAddresses c) = 1 \<and>
     (\<forall>x \<in> set (cIPAddresses c). map_get (UsedIPs (snd sample_alloc)) x) \<and>
     (\<forall>x \<in> set (cMACAddresses c). ValidateMAC x)"
proof -
  let ?m = "sample_mem [sample_cluster ''one'']"
  have r: "res (allocate sample_rand 0 ?m) () = (None, snd sample_alloc)"
    using sample_alloc_ok by (simp add: sample_alloc_def res_def prod_eq_iff)
  have n: "is_nat (heap ?m 0)" by code_simp
  have "node_total (heap ?m 0) = 1" by code_simp
  with allocate_nat_fresh [OF r n] show ?thesis
    by (simp add: Let_def)
qed

text \<open>C20. Applying the stage preserves the invariant of the address pools, whatever its outcome: the
  addresses of every NAT cluster stay marked and no two NAT clusters share an address.\<close>

theorem allocatenetwork_pool_ok:
  assumes "pool_ok m"
  shows "pool_ok (snd (res (allocatenetwork_Apply rt rnd r m) s))"
proof -
  have "addr_step r m (snd (res (allocatenetwork_Apply rt rnd r m) s))" by (rule Apply_step [OF refl])
  moreover from this have "Clusters (snd (res (allocatenetwork_Apply rt rnd r m) s)) = Clusters m"
    by (simp add: addr_step_def)
  ultimately show ?thesis using assms addr_step_ok by simp
qed

theorem allocatenetwork_pool_ok_witness:
  "pool_ok (snd (res (allocatenetwork_Apply sample_rt sample_rand 0
     (sample_mem [sample_cluster ''one'', sample_cluster ''two''])) (sample_sys ())))"
  by (rule allocatenetwork_pool_ok) (simp add: pool_ok_on_def sample_mem_def sample_cluster_def)

text \<open>C30. \<open>allocateIP\<close> returns the lowest free address of the band, and fails exactly when all sixteen
  addresses from .5 to .20 are in use.\<close>

theorem allocateIP_lowest_free:
  "(case allocateIP m of
      (Inr ip, m') \<Rightarrow> \<exists>i. 5 \<le> i \<and> i \<le> 20 \<and> ip = ip_text i \<and> \<not> map_get (UsedIPs m) ip \<and>
         m' = mark_ip ip m \<and> list_all (\<lambda>j. map_get (UsedIPs m) (ip_text j)) [5..<i]
    | (Inl e, m') \<Rightarrow> m' = m \<and> list_all (\<lambda>j. map_get (UsedIPs m) (ip_text j)) [5..<21])"
proof (cases "allocateIP m")
  case (Pair r m')
  show ?thesis
  proof (cases r)
    case (Inl e)
    with Pair allocateIP_Inl [of m e m'] show ?thesis
      by (auto simp: list_all_iff NetworkStart_def NetworkEnd_def simp del: upt_Suc upt_rec_numeral)
  next
    case (Inr ip)
    with Pair have d: "ip_draw m ip m'" by (simp add: ip_draw_def)
    from ip_draw_band [OF d] ip_draw_mark [OF d] Pair Inr show ?thesis
      by (auto simp: list_all_iff NetworkStart_def NetworkEnd_def simp del: upt_Suc upt_rec_numeral)
  qed
qed

lemma release_allocate_maps:
  assumes ok: "res (allocate rnd r m) s = (None, m')" and nat: "is_nat (heap m r)"
  shows "map_get (UsedIPs (release r m')) x = map_get (UsedIPs m) x"
    and "map_get (UsedMACs (release r m')) x = map_get (UsedMACs m) x"
proof -
  obtain macs m1 ips m3 where d: "mac_pool.draws m macs m1" 
    "ip_pool.draws (set_cluster r (cMACAddresses_update (\<lambda>_. macs)) m1) ips m3"
    "m' = set_cluster r (\<lambda>c. c\<lparr>cIPAddresses := ips, cNetworkSubnet := BaseNetworkRange\<rparr>) m3"
    using ok nat by (rule allocate_NAT)
  note f = mac_draws_frame [OF d(1)] ip_draws_frame [OF d(2)]
  from f d(3) have c: "cIPAddresses (heap m' r) = ips" "cMACAddresses (heap m' r) = macs" by simp_all
  show "map_get (UsedIPs (release r m')) x = map_get (UsedIPs m) x"
    using f d(3) c ip_pool.draws_marks [OF d(2), of x] ip_pool.draws_fresh [OF d(2), of x]
    by (auto simp: release_def)
  show "map_get (UsedMACs (release r m')) x = map_get (UsedMACs m) x"
    using f d(3) c mac_pool.draws_marks [OF d(1), of x] mac_pool.draws_fresh [OF d(1), of x]
    by (auto simp: release_def)
qed

text \<open>C16. Releasing what was allocated gives both usage maps back as they were.\<close>

theorem release_allocate:
  assumes "res (allocate rnd r m) s = (None, m')" and "is_nat (heap m r)"
  shows "map_get (UsedIPs (release r m')) = map_get (UsedIPs m) \<and>
         map_get (UsedMACs (release r m')) = map_get (UsedMACs m)"
  using release_allocate_maps [OF assms] by (simp add: fun_eq_iff)

theorem release_allocate_witness:
  "\<not> map_get (UsedIPs (release 0 (snd sample_alloc))) ''192.168.126.5''"
proof -
  let ?m = "sample_mem [sample_cluster ''one'']"
  have r: "res (allocate sample_rand 0 ?m) () = (None, snd sample_alloc)"
    using sample_alloc_ok by (simp add: sample_alloc_def res_def prod_eq_iff)
  have n: "is_nat (heap ?m 0)" by code_simp
  have "\<not> map_get (UsedIPs ?m) ''192.168.126.5''" by code_simp
  with release_allocate [OF r n] show ?thesis by simp
qed

lemma StaticNetworkKeyfile_ok:
  assumes "PrimaryMasterMAC c \<noteq> []" "PrimaryMasterIP c \<noteq> []" "cMachineCIDR c = BaseNetworkRange @ ''.0/24''"
  shows "StaticNetworkKeyfile c =
    (let gw = (if cGateway c = [] then ''192.168.126.1'' else cGateway c) in
     Inr (keyfile_text (''master-0-'' @ cName c) (to_upper (PrimaryMasterMAC c))
       (PrimaryMasterIP c @ ''/24,'' @ gw) (dns_field (if cDNS c = [] then gw else cDNS c))))"
proof -
  have e: "BaseNetworkRange @ ''.0/24'' = ipv4_str [192, 168, 126, 0] @ ''/24''" by code_simp
  have g: "ipv4_str [192, 168, 126, 1] = ''192.168.126.1''" "nat_str 24 = ''24''" by code_simp+
  have "DeriveGateway (cMachineCIDR c) = Inr ''192.168.126.1''" "prefixLen (cMachineCIDR c) = Inr 24"
    unfolding assms(3) e using DeriveGateway_24 [of 192 168 126 0] prefixLen_24 [of 192 168 126 0] g by simp_all
  with assms show ?thesis by (simp add: StaticNetworkKeyfile_def Let_def g)
qed

lemma allocated_primary:
  assumes ok: "res (allocatenetwork_Apply rt rnd r m) s = (None, m')" and nat: "is_nat (heap m r)"
    and fresh: "cMACAddresses (heap m r) = []" and n: "node_total (heap m r) \<noteq> 0"
  shows "PrimaryMasterMAC (heap m' r) \<noteq> []" "PrimaryMasterIP (heap m' r) \<noteq> []"
    "cMachineCIDR (heap m' r) = BaseNetworkRange @ ''.0/24''" "cGateway (heap m' r) = cGateway (heap m r)"
    "cDNS (heap m' r) = cDNS (heap m r)"
proof -
  obtain e m1 where q: "res (allocate rnd r m) s = (e, m1)" by force
  with ok nat fresh have e: "e = None" and m': "m' = set_cluster r
      (\<lambda>c. deriveMagicDomain (c\<lparr>cMachineCIDR := cNetworkSubnet c @ ''.0/24''\<rparr>)) m1"
    by (auto simp: allocatenetwork_Apply_def split: option.splits)
  obtain macs m2 ips m3 where d: "mac_pool.draws m macs m2" "length macs = node_total (heap m r)"
    "ip_pool.draws (set_cluster r (cMACAddresses_update (\<lambda>_. macs)) m2) ips m3"
    "length ips = node_total (heap m r)"
    "m1 = set_cluster r (\<lambda>c. c\<lparr>cIPAddresses := ips, cNetworkSubnet := BaseNetworkRange\<rparr>) m3"
    using q [unfolded e] nat by (rule allocate_NAT)
  note f = mac_draws_frame [OF d(1)] ip_draws_frame [OF d(3)]
  obtain mac macs' ip ips' where ne: "macs = mac # macs'" "ips = ip # ips'"
    using d(2,4) n by (cases macs; cases ips) auto
  have "mac \<noteq> []" "ip \<noteq> []" using f ne by (auto simp: mac_text_def ip_text_def BaseNetworkRange_def)
  then show "PrimaryMasterMAC (heap m' r) \<noteq> []" "PrimaryMasterIP (heap m' r) \<noteq> []"
    "cMachineCIDR (heap m' r) = BaseNetworkRange @ ''.0/24''" "cGateway (heap m' r) = cGateway (heap m r)"
    "cDNS (heap m' r) = cDNS (heap m r)"
    using m' d(5) f ne by (simp_all add: PrimaryMasterMAC_def PrimaryMasterIP_def)
qed


lemma sample_apply_ok:
  "res (allocatenetwork_Apply sample_rt sample_rand 0 (sample_mem [sample_cluster ''one''])) (sample_sys ())
   = (None, snd (res (allocatenetwork_Apply sample_rt sample_rand 0 (sample_mem [sample_cluster ''one''])) (sample_sys ())))"
proof -
  have "fst (fst (allocatenetwork_Apply sample_rt sample_rand 0 (sample_mem [sample_cluster ''one'']) (sample_sys ())))
      = None" by code_simp
  then show ?thesis by (simp add: prod_eq_iff res_def)
qed


text \<open>
  Rolling back a NAT cluster keeps the invariant. A bridge cluster records its LAN address in
  \<open>IPAddresses\<close> without marking it, yet \<open>Rollback\<close> unmarks it: when that address is also the one
  of a NAT cluster, the NAT cluster's address becomes free.
\<close>

theorem allocatenetwork_rollback_ok:
  assumes "pool_ok m" "r \<in> set (Clusters m)" "is_nat (heap m r)"
  shows "pool_ok (snd (res (allocatenetwork_Rollback rt r m) s))"
  using release_NAT_ok [OF assms] by (simp add: allocatenetwork_Rollback_def release_def)

definition bridge_clash :: mem where
  "bridge_clash =
     (sample_mem [(sample_cluster ''one'')\<lparr>cIPAddresses := [''192.168.126.5''], cMACAddresses := [''52:54:00:00:00:01'']\<rparr>,
        (sample_cluster ''two'')\<lparr>cNetworkMode := NetworkModeBridge, cIPAddresses := [''192.168.126.5''],
            cMACAddresses := [''52:54:00:00:00:02'']\<rparr>])
      \<lparr>UsedIPs := [(''192.168.126.5'', True)],
       UsedMACs := [(''52:54:00:00:00:01'', True), (''52:54:00:00:00:02'', True)]\<rparr>"

theorem bridge_rollback_frees_nat_ip:
  "pool_ok bridge_clash \<and>
   \<not> pool_ok (snd (res (allocatenetwork_Rollback sample_rt 1 bridge_clash) (sample_sys ())))"
  by (simp add: pool_ok_on_def bridge_clash_def sample_mem_def sample_cluster_def allocatenetwork_Rollback_def
      release_def set_cluster_def map_get_def upt_rec)

end
