(* ===== verification/Runner.thy ===== *)
theory Runner
  imports World
begin

text \<open>
  The runner of stages (\<open>app/runner.go\<close>): preflight, apply with progress in \<open>state.json\<close>,
  rollback. Its loops take the store's \<open>save\<close> operation and the clock as arguments; \<open>runner_Apply\<close>
  and \<open>runner_Rollback\<close> supply those of the code.

  The locale \<open>progress_store\<close> states what the store of the progress promises; the loops are
  verified against it, and \<open>saveState\<close>/\<open>loadState\<close> are its interpretation.
\<close>

type_synonym progress = "(string \<times> stage_record) list"

definition recorded :: "progress \<Rightarrow> string set" where
  "recorded st = dom (map_of st)"

section \<open>The store\<close>

definition statePath :: "string \<Rightarrow> string \<Rightarrow> string" where
  "statePath configDir clusterName = path_join [configDir, ''clusters'', clusterName, ''state.json'']"

definition stages_of :: "cluster_state \<Rightarrow> progress" where
  "stages_of d = (case csStages d of None \<Rightarrow> [] | Some st \<Rightarrow> st)"

definition loadState :: "'x rt \<Rightarrow> string \<Rightarrow> string \<Rightarrow> ('x sys, progress result) io" where
  "loadState rt configDir clusterName =
     io_bind (os_read rt (statePath configDir clusterName)) (\<lambda>r. io_ret (case r of
       Inl e \<Rightarrow> if error_is e ErrNotExist then Inr [] else Inl e
     | Inr (StateDoc d) \<Rightarrow> Inr (stages_of d)
     | Inr _ \<Rightarrow> Inl (Wrapf ''parse state.json: %w'' [] (ExtErr ''invalid JSON''))))"

definition saveState :: "'x rt \<Rightarrow> string \<Rightarrow> string \<Rightarrow> progress \<Rightarrow> ('x sys, error option) io" where
  "saveState rt configDir clusterName st =
     (let path = statePath configDir clusterName in
      io_seq (wrap_err ''create state dir: %w'' [] (os_mkdirall rt (path_dir path)))
        (os_write rt path (StateDoc \<lparr>csStages = Some st\<rparr>)))"

section \<open>The loops\<close>

definition mark_applied :: "string \<Rightarrow> nat \<Rightarrow> progress \<Rightarrow> progress" where
  "mark_applied n t st = AList.update n \<lparr>srAppliedAt = t, srOutcome = StageOutcomeOK\<rparr> st"

fun preflight_errs :: "nat \<Rightarrow> mem \<Rightarrow> 's stage list \<Rightarrow> ('s, error list) io" where
  "preflight_errs r m [] = io_ret []"
| "preflight_errs r m (s # ss) =
     (case Preflight s of
        None \<Rightarrow> preflight_errs r m ss
      | Some p \<Rightarrow>
          io_bind (p r m) (\<lambda>e. io_bind (preflight_errs r m ss) (\<lambda>es.
            io_ret (case e of None \<Rightarrow> es | Some e \<Rightarrow> Wrapf ''%s: %w'' [Name s] e # es))))"

definition runner_Preflight :: "nat \<Rightarrow> mem \<Rightarrow> 's stage list \<Rightarrow> ('s, error option) io" where
  "runner_Preflight r m ss =
     io_bind (preflight_errs r m ss) (\<lambda>es. io_ret (if es = [] then None else Some (Joined es)))"

fun apply_loop :: "(string \<Rightarrow> progress \<Rightarrow> ('s, error option) io) \<Rightarrow> ('s, nat) io \<Rightarrow> nat \<Rightarrow>
    's stage list \<Rightarrow> progress \<Rightarrow> mem \<Rightarrow> ('s, error option \<times> mem) io" where
  "apply_loop save now r [] st m = io_ret (None, m)"
| "apply_loop save now r (s # ss) st m =
     (if map_of st (Name s) \<noteq> None then apply_loop save now r ss st m
      else io_bind (Apply s r m) (\<lambda>(e, m1). case e of
        Some e \<Rightarrow> io_ret (Some (Wrapf ''stage %s: %w'' [Name s] e), m1)
      | None \<Rightarrow>
          io_bind now (\<lambda>t.
          io_bind (save (cName (heap m1 r)) (mark_applied (Name s) t st)) (\<lambda>e. case e of
            Some e \<Rightarrow> io_ret (Some (Wrapf ''save state after %s: %w'' [Name s] e), m1)
          | None \<Rightarrow> apply_loop save now r ss (mark_applied (Name s) t st) m1))))"

text \<open>The stages come last first; the error of a stage's \<open>Rollback\<close> is only logged.\<close>

fun rollback_loop :: "(string \<Rightarrow> progress \<Rightarrow> ('s, error option) io) \<Rightarrow> nat \<Rightarrow>
    's stage list \<Rightarrow> progress \<Rightarrow> mem \<Rightarrow> ('s, error option \<times> mem) io" where
  "rollback_loop save r [] st m = io_ret (None, m)"
| "rollback_loop save r (s # ss) st m =
     (if map_of st (Name s) = None then rollback_loop save r ss st m
      else io_bind (Rollback s r m) (\<lambda>(_, m1).
        io_bind (save (cName (heap m1 r)) (AList.delete (Name s) st)) (\<lambda>e. case e of
          Some e \<Rightarrow> io_ret (Some (Wrapf ''save state after rollback %s: %w'' [Name s] e), m1)
        | None \<Rightarrow> rollback_loop save r ss (AList.delete (Name s) st) m1)))"

definition runner_Apply :: "'x rt \<Rightarrow> string \<Rightarrow> nat \<Rightarrow> mem \<Rightarrow> ('x sys) stage list \<Rightarrow>
    ('x sys, error option \<times> mem) io" where
  "runner_Apply rt configDir r m ss =
     io_bind (loadState rt configDir (cName (heap m r))) (\<lambda>st. case st of
       Inl e \<Rightarrow> io_ret (Some (Wrapf ''load state: %w'' [] e), m)
     | Inr st \<Rightarrow> apply_loop (saveState rt configDir) (clock_now rt) r ss st m)"

definition runner_Rollback :: "'x rt \<Rightarrow> string \<Rightarrow> nat \<Rightarrow> mem \<Rightarrow> ('x sys) stage list \<Rightarrow>
    ('x sys, error option \<times> mem) io" where
  "runner_Rollback rt configDir r m ss =
     io_bind (loadState rt configDir (cName (heap m r))) (\<lambda>st. case st of
       Inl e \<Rightarrow> io_ret (Some (Wrapf ''load state: %w'' [] e), m)
     | Inr st \<Rightarrow> rollback_loop (saveState rt configDir) r (rev ss) st m)"

section \<open>The contract of the store\<close>

text \<open>A stage that keeps the cluster's name, which its \<open>Apply\<close> and \<open>Rollback\<close> do.\<close>

definition keeps_name :: "nat \<Rightarrow> 's stage \<Rightarrow> bool" where
  "keeps_name r S \<longleftrightarrow>
     (\<forall>m x. cName (heap (snd (res (Apply S r m) x)) r) = cName (heap m r) \<and>
            cName (heap (snd (res (Rollback S r m) x)) r) = cName (heap m r))"

lemma recorded_simps [simp]:
  "recorded (mark_applied n t st) = insert n (recorded st)"
  "recorded (AList.delete n st) = recorded st - {n}" "recorded [] = {}"
  by (auto simp: recorded_def mark_applied_def update_conv' delete_conv' dom_def)

lemma recorded_iff: "map_of st n \<noteq> None \<longleftrightarrow> n \<in> recorded st"
  by (auto simp: recorded_def)

text \<open>A successful run over \<open>pre @ ss\<close> passes through a successful run over \<open>pre\<close>.\<close>

lemma apply_loop_append:
  assumes "res (apply_loop save now r (pre @ ss) st m) x = (None, m')"
  obtains st1 m1 y where "res (apply_loop save now r pre st m) x = (None, m1)"
    "res (apply_loop save now r ss st1 m1) y = (None, m')" "recorded st1 = recorded st \<union> Name ` set pre"
  using assms
proof (induction pre arbitrary: st m x thesis)
  case Nil
  then show ?case by (intro Nil.prems(1)) auto
next
  case (Cons S pre)
  show ?case
  proof (cases "map_of st (Name S)")
    case (Some a)
    show ?thesis
    proof (rule Cons.IH [of st m x])
      show "res (apply_loop save now r (pre @ ss) st m) x = (None, m')" using Cons.prems(2) Some by simp
      have "Name S \<in> recorded st" using Some by (auto simp: recorded_def)
      then show thesis if "res (apply_loop save now r pre st m) x = (None, m1)"
        "res (apply_loop save now r ss st1 m1) y = (None, m')" "recorded st1 = recorded st \<union> Name ` set pre"
      for st1 m1 y using that Some by (intro Cons.prems(1)) auto
    qed
  next
    case None
    obtain m1 where a: "res (Apply S r m) x = (None, m1)"
      using Cons.prems(2) None by (cases "res (Apply S r m) x") (auto split: option.splits)
    let ?y = "after now (after (Apply S r m) x)" and ?st = "mark_applied (Name S) (res now (after (Apply S r m) x)) st"
    have s: "res (save (cName (heap m1 r)) ?st) ?y = None"
      using Cons.prems(2) None a by (auto split: option.splits)
    show ?thesis
    proof (rule Cons.IH [of ?st m1 "after (save (cName (heap m1 r)) ?st) ?y"])
      show "res (apply_loop save now r (pre @ ss) ?st m1) (after (save (cName (heap m1 r)) ?st) ?y) = (None, m')"
        using Cons.prems(2) None a s by simp
      show thesis if "res (apply_loop save now r pre ?st m1) (after (save (cName (heap m1 r)) ?st) ?y) = (None, m2)"
        "res (apply_loop save now r ss st1 m2) y = (None, m')" "recorded st1 = recorded ?st \<union> Name ` set pre"
      for st1 m2 y using that None a s by (intro Cons.prems(1)) auto
    qed
  qed
qed

lemma rollback_loop_append:
  assumes "res (rollback_loop save r (pre @ ss) st m) x = (None, m')"
  obtains st1 m1 y where "res (rollback_loop save r pre st m) x = (None, m1)"
    "res (rollback_loop save r ss st1 m1) y = (None, m')" "recorded st1 = recorded st - Name ` set pre"
  using assms
proof (induction pre arbitrary: st m x thesis)
  case Nil
  then show ?case by (intro Nil.prems(1)) auto
next
  case (Cons S pre)
  show ?case
  proof (cases "map_of st (Name S)")
    case None
    show ?thesis
    proof (rule Cons.IH [of st m x])
      show "res (rollback_loop save r (pre @ ss) st m) x = (None, m')" using Cons.prems(2) None by simp
      have "Name S \<notin> recorded st" using None by (auto simp: recorded_def)
      then show thesis if "res (rollback_loop save r pre st m) x = (None, m1)"
        "res (rollback_loop save r ss st1 m1) y = (None, m')" "recorded st1 = recorded st - Name ` set pre"
      for st1 m1 y using that None by (intro Cons.prems(1)) auto
    qed
  next
    case (Some a)
    obtain e m1 where a: "res (Rollback S r m) x = (e, m1)" by force
    let ?y = "after (Rollback S r m) x" and ?st = "AList.delete (Name S) st"
    have s: "res (save (cName (heap m1 r)) ?st) ?y = None"
      using Cons.prems(2) Some a by (auto split: option.splits)
    show ?thesis
    proof (rule Cons.IH [of ?st m1 "after (save (cName (heap m1 r)) ?st) ?y"])
      show "res (rollback_loop save r (pre @ ss) ?st m1) (after (save (cName (heap m1 r)) ?st) ?y) = (None, m')"
        using Cons.prems(2) Some a s by simp
      show thesis if "res (rollback_loop save r pre ?st m1) (after (save (cName (heap m1 r)) ?st) ?y) = (None, m2)"
        "res (rollback_loop save r ss st1 m2) y = (None, m')" "recorded st1 = recorded ?st - Name ` set pre"
      for st1 m2 y using that Some a s by (intro Cons.prems(1)) auto
    qed
  qed
qed

locale progress_store =
  fixes save :: "string \<Rightarrow> progress \<Rightarrow> ('s, error option) io"
    and load :: "string \<Rightarrow> ('s, progress result) io"
    and now :: "('s, nat) io"
    and holds :: "string \<Rightarrow> progress \<Rightarrow> 's \<Rightarrow> bool"
  assumes save_holds: "res (save n st) x = None \<Longrightarrow> holds n st (after (save n st) x)"
    and load_holds: "res (load n) x = Inr st \<Longrightarrow> holds n st x \<and> holds n st (after (load n) x)"
    and load_fun: "holds n st x \<Longrightarrow> res (load n) x = Inr st' \<Longrightarrow> st' = st"
    and now_holds: "holds n st x \<Longrightarrow> holds n st (after now x)"
begin

lemma apply_loop_ok:
  assumes "res (apply_loop save now r ss st m) x = (None, m')" "holds n st x" "cName (heap m r) = n"
    "\<forall>S \<in> set ss. keeps_name r S"
  shows "\<exists>st'. holds n st' (after (apply_loop save now r ss st m) x) \<and>
    recorded st' = recorded st \<union> Name ` set ss \<and> cName (heap m' r) = n"
  using assms
proof (induction ss arbitrary: st m x)
  case (Cons S ss)
  show ?case
  proof (cases "map_of st (Name S)")
    case (Some a)
    then have "Name S \<in> recorded st" by (auto simp: recorded_def)
    with Some Cons.IH [of st m x] Cons.prems show ?thesis by (auto simp: insert_absorb)
  next
    case None
    obtain e m1 where a: "res (Apply S r m) x = (e, m1)" by force
    with Cons.prems None have e: "e = None" by (auto split: option.splits)
    let ?y = "after now (after (Apply S r m) x)" and ?t = "res now (after (Apply S r m) x)"
    have n1: "cName (heap m1 r) = n" using Cons.prems(3,4) a by (auto simp: keeps_name_def dest!: spec [of _ x] spec [of _ m])
    with Cons.prems None a e have s: "res (save n (mark_applied (Name S) ?t st)) ?y = None"
      by (auto split: option.splits)
    from Cons.IH [of "mark_applied (Name S) ?t st" m1] Cons.prems None a e s n1 save_holds [OF s]
    show ?thesis by simp
  qed
qed auto

lemma apply_loop_skip:
  "\<forall>S \<in> set pre. Name S \<in> recorded st \<Longrightarrow> apply_loop save now r (pre @ ss) st m = apply_loop save now r ss st m"
  by (induction pre) (auto simp: recorded_def)

text \<open>The loop fails at one stage: before it, everything is recorded; it is not.\<close>

lemma apply_loop_failed:
  assumes "res (apply_loop save now r ss st m) x = (Some e, m')" "holds n st x" "cName (heap m r) = n"
    "\<forall>S \<in> set ss. keeps_name r S"
  obtains pre S post st' m1 y where "ss = pre @ S # post" "holds n st' y" "Name S \<notin> recorded st'"
    "recorded st' = recorded st \<union> Name ` set pre"
    "(\<exists>e'. e = Wrapf ''stage %s: %w'' [Name S] e' \<and> res (Apply S r m1) y = (Some e', m') \<and>
        after (apply_loop save now r ss st m) x = after (Apply S r m1) y)
     \<or> (\<exists>e'. e = Wrapf ''save state after %s: %w'' [Name S] e')"
  using assms
proof (induction ss arbitrary: st m x thesis)
  case (Cons S ss)
  show ?case
  proof (cases "map_of st (Name S)")
    case (Some a)
    then have in_st: "Name S \<in> recorded st" by (auto simp: recorded_def)
    show ?thesis
    proof (rule Cons.IH [of st m x])
      fix pre S' post st' m1 y
      assume "ss = pre @ S' # post" "holds n st' y" "Name S' \<notin> recorded st'"
        "recorded st' = recorded st \<union> Name ` set pre"
        "(\<exists>e'. e = Wrapf ''stage %s: %w'' [Name S'] e' \<and> res (Apply S' r m1) y = (Some e', m') \<and>
        after (apply_loop save now r ss st m) x = after (Apply S' r m1) y)
     \<or> (\<exists>e'. e = Wrapf ''save state after %s: %w'' [Name S'] e')"
      then show thesis using Some in_st by (intro Cons.prems(1) [of "S # pre" S' post st' y m1]) auto
    qed (use Cons.prems Some in auto)
  next
    case None
    then have out: "Name S \<notin> recorded st" by (auto simp: recorded_def)
    obtain f m1 where a: "res (Apply S r m) x = (f, m1)" by force
    show ?thesis
    proof (cases f)
      case (Some e')
      with Cons.prems None a out show ?thesis
        by (intro Cons.prems(1) [of "[]" S ss st x m]) auto
    next
      case fn: None
      let ?y = "after now (after (Apply S r m) x)" and ?t = "res now (after (Apply S r m) x)"
      let ?st = "mark_applied (Name S) ?t st"
      have n1: "cName (heap m1 r) = n"
        using Cons.prems(4,5) a by (auto simp: keeps_name_def dest!: spec [of _ x] spec [of _ m])
      show ?thesis
      proof (cases "res (save n ?st) ?y")
        case (Some e')
        with Cons.prems None a out fn n1 show ?thesis
          by (intro Cons.prems(1) [of "[]" S ss st x m]) auto
      next
        case sn: None
        show ?thesis
        proof (rule Cons.IH [of ?st m1 "after (save n ?st) ?y"])
          fix pre S' post st' m2 y
          assume "ss = pre @ S' # post" "holds n st' y" "Name S' \<notin> recorded st'"
            "recorded st' = recorded ?st \<union> Name ` set pre"
            "(\<exists>e'. e = Wrapf ''stage %s: %w'' [Name S'] e' \<and> res (Apply S' r m2) y = (Some e', m') \<and>
            after (apply_loop save now r ss ?st m1) (after (save n ?st) ?y) = after (Apply S' r m2) y)
           \<or> (\<exists>e'. e = Wrapf ''save state after %s: %w'' [Name S'] e')"
          then show thesis using None a fn n1 sn
            by (intro Cons.prems(1) [of "S # pre" S' post st' y m2]) auto
        qed (use Cons.prems None a fn n1 sn save_holds [OF sn] in \<open>auto\<close>)
      qed
    qed
  qed
qed simp

lemma rollback_loop_ok:
  assumes "res (rollback_loop save r ss st m) x = (None, m')" "holds n st x" "cName (heap m r) = n"
    "\<forall>S \<in> set ss. keeps_name r S"
  shows "\<exists>st'. holds n st' (after (rollback_loop save r ss st m) x) \<and>
    recorded st' = recorded st - Name ` set ss"
  using assms
proof (induction ss arbitrary: st m x)
  case (Cons S ss)
  show ?case
  proof (cases "map_of st (Name S)")
    case None
    then have "Name S \<notin> recorded st" by (auto simp: recorded_def)
    with None Cons.IH [of st m x] Cons.prems show ?thesis by auto
  next
    case (Some a)
    obtain e m1 where a: "res (Rollback S r m) x = (e, m1)" by force
    let ?y = "after (Rollback S r m) x"
    have n1: "cName (heap m1 r) = n" using Cons.prems(3,4) a by (auto simp: keeps_name_def dest!: spec [of _ x] spec [of _ m])
    with Cons.prems Some a have s: "res (save n (AList.delete (Name S) st)) ?y = None"
      by (auto split: option.splits)
    let ?st = "AList.delete (Name S) st" and ?z = "after (save n (AList.delete (Name S) st)) ?y"
    have "res (rollback_loop save r ss ?st m1) ?z = (None, m')" using Cons.prems(1,3) Some a s n1 by simp
    with Cons.IH [of ?st m1 ?z] n1 save_holds [OF s] Cons.prems(4) obtain st'
      where "holds n st' (after (rollback_loop save r ss ?st m1) ?z)" "recorded st' = recorded ?st - Name ` set ss"
      by auto
    moreover have "after (rollback_loop save r (S # ss) st m) x = after (rollback_loop save r ss ?st m1) ?z"
      using Some a s n1 by simp
    ultimately show ?thesis by auto
  qed
qed auto

end

section \<open>The store of the code\<close>

definition holds_state :: "string \<Rightarrow> string \<Rightarrow> progress \<Rightarrow> 'x sys \<Rightarrow> bool" where
  "holds_state configDir n st x \<longleftrightarrow>
     (case files x (statePath configDir n) of
        None \<Rightarrow> st = []
      | Some (File (StateDoc d)) \<Rightarrow> st = stages_of d
      | _ \<Rightarrow> False)"

lemma statePath_file: "\<exists>p. statePath cd n = p @ ''state.json''"
  using path_join_file [of "''state.json''" "[cd, ''clusters'', n]"] by (simp add: statePath_def)

lemma statePath_config [simp]: "statePath cd n \<noteq> config_path cd" "config_path cd \<noteq> statePath cd n"
proof -
  obtain p q where "config_path cd = p @ ''config.json''" "statePath cd n = q @ ''state.json''"
    using config_path_file statePath_file by metis
  then have "rev (config_path cd) \<noteq> rev (statePath cd n)" by simp
  then show "statePath cd n \<noteq> config_path cd" "config_path cd \<noteq> statePath cd n" by auto
qed
lemma loadState_files [simp]: "files (after (loadState rt cd n) x) = files x"
  by (simp add: loadState_def)

lemma os_read_cases:
  "res (os_read rt p) x = Inl e \<Longrightarrow> error_is e ErrNotExist \<Longrightarrow> files x p = None"
  by (auto simp: os_read_def os_call_def res_def split: prod.splits option.splits node.splits)

lemma loadState_holds: "res (loadState rt cd n) x = Inr st \<Longrightarrow> holds_state cd n st x"
  by (auto simp: loadState_def holds_state_def dest: os_read_Inr os_read_cases
      split: sum.splits if_splits content.splits)

lemma holds_state_fun: "holds_state cd n st x \<Longrightarrow> holds_state cd n st' x \<Longrightarrow> st' = st"
  by (auto simp: holds_state_def split: option.splits node.splits content.splits)

lemma saveState_holds: "res (saveState rt cd n st) x = None \<Longrightarrow> holds_state cd n st (after (saveState rt cd n st) x)"
  by (auto simp: saveState_def Let_def holds_state_def stages_of_def dest!: os_write_None split: option.splits)

interpretation state_file: progress_store "saveState rt cd" "loadState rt cd" "clock_now rt" "holds_state cd"
proof unfold_locales
  show "res (saveState rt cd n st) x = None \<Longrightarrow> holds_state cd n st (after (saveState rt cd n st) x)" for n st x
    by (rule saveState_holds)
  show "res (loadState rt cd n) x = Inr st \<Longrightarrow>
      holds_state cd n st x \<and> holds_state cd n st (after (loadState rt cd n) x)" for n st x
    using loadState_holds [of rt cd n x st] by (simp add: holds_state_def)
  show "holds_state cd n st x \<Longrightarrow> res (loadState rt cd n) x = Inr st' \<Longrightarrow> st' = st" for n st st' x
    using loadState_holds [of rt cd n x st'] holds_state_fun by blast
qed simp

section \<open>Properties\<close>

text \<open>Stages with a given name and outcome, for the instances.\<close>

definition sample_stage :: "string \<Rightarrow> error option \<Rightarrow> 's stage" where
  "sample_stage n e = \<lparr>Name = n, Apply = (\<lambda>r m. io_ret (e, m)), Rollback = (\<lambda>r m. io_ret (e, m)), Preflight = None\<rparr>"

lemma keeps_name_sample [simp]: "keeps_name r (sample_stage n e)"
  by (simp add: keeps_name_def sample_stage_def)

text \<open>C2. When \<open>Apply\<close> succeeds, \<open>state.json\<close> records every stage of the list and everything it
  recorded before.\<close>

theorem runner_apply_records:
  assumes ok: "res (runner_Apply rt cd r m ss) x = (None, m')"
    and names: "\<forall>S \<in> set ss. keeps_name r S"
  shows "\<exists>st st'. holds_state cd (cName (heap m r)) st x \<and>
    holds_state cd (cName (heap m r)) st' (after (runner_Apply rt cd r m ss) x) \<and>
    recorded st' = recorded st \<union> Name ` set ss"
proof -
  obtain st where l: "res (loadState rt cd (cName (heap m r))) x = Inr st"
    using ok by (cases "res (loadState rt cd (cName (heap m r))) x") (auto simp: runner_Apply_def)
  from state_file.load_holds [OF l] state_file.apply_loop_ok [OF _ _ refl names] ok l show ?thesis
    by (fastforce simp: runner_Apply_def)
qed

theorem runner_apply_records_witness:
  "\<exists>st. holds_state ''/cfg'' ''one'' st
      (after (runner_Apply sample_rt ''/cfg'' 0 (sample_mem [sample_cluster ''one'']) [sample_stage ''a'' None, sample_stage ''b'' None])
        (sample_sys ())) \<and> recorded st = {''a'', ''b''}"
proof -
  let ?m = "sample_mem [sample_cluster ''one'']" and ?ss = "[sample_stage ''a'' None, sample_stage ''b'' None]"
  have "fst (fst (runner_Apply sample_rt ''/cfg'' 0 ?m ?ss (sample_sys ()))) = None" by code_simp
  then have r: "res (runner_Apply sample_rt ''/cfg'' 0 ?m ?ss) (sample_sys ())
      = (None, snd (res (runner_Apply sample_rt ''/cfg'' 0 ?m ?ss) (sample_sys ())))"
    by (simp add: prod_eq_iff res_def)
  have k: "\<forall>S \<in> set ?ss. keeps_name 0 S" by simp
  have "cName (heap ?m 0) = ''one''" by code_simp
  with runner_apply_records [OF r k] show ?thesis
    by (auto simp: sample_stage_def holds_state_def sample_sys_def insert_commute)
qed

text \<open>C3. When a stage fails, \<open>state.json\<close> records exactly the stages before it (with what was recorded
  before) and not the failing one, provided the failing stage leaves \<open>state.json\<close> alone; a second
  run over the same list that can read it starts at the failed stage.\<close>

theorem runner_apply_resumes:
  assumes failed: "res (runner_Apply rt cd r m ss) x = (Some (Wrapf ''stage %s: %w'' [n] e), m')"
    and names: "\<forall>S \<in> set ss. keeps_name r S"
    and quiet: "\<forall>S \<in> set ss. \<forall>m y. files (after (Apply S r m) y) (statePath cd c) = files y (statePath cd c)"
    and c: "c = cName (heap m r)" "c = cName (heap m2 r)"
  shows "\<exists>pre S post st st'. ss = pre @ S # post \<and> n = Name S \<and> holds_state cd c st x \<and>
    holds_state cd c st' (after (runner_Apply rt cd r m ss) x) \<and>
    recorded st' = recorded st \<union> Name ` set pre \<and> Name S \<notin> recorded st' \<and>
    (\<forall>y q. holds_state cd c st' y \<longrightarrow> res (loadState rt cd c) y = Inr q \<longrightarrow>
       res (runner_Apply rt cd r m2 ss) y =
       res (apply_loop (saveState rt cd) (clock_now rt) r (S # post) st' m2) (after (loadState rt cd c) y))"
proof -
  obtain st where l: "res (loadState rt cd c) x = Inr st"
    using failed c by (cases "res (loadState rt cd c) x") (auto simp: runner_Apply_def)
  let ?y = "after (loadState rt cd c) x"
  have a: "res (apply_loop (saveState rt cd) (clock_now rt) r ss st m) ?y = (Some (Wrapf ''stage %s: %w'' [n] e), m')"
    and fin: "after (runner_Apply rt cd r m ss) x = after (apply_loop (saveState rt cd) (clock_now rt) r ss st m) ?y"
    using failed l c by (simp_all add: runner_Apply_def)
  have h: "holds_state cd c st x" "holds_state cd c st ?y" using state_file.load_holds [OF l] by auto
  obtain pre S post st' m1 y where p: "ss = pre @ S # post" "holds_state cd c st' y" "Name S \<notin> recorded st'"
    "recorded st' = recorded st \<union> Name ` set pre" "n = Name S"
    "after (runner_Apply rt cd r m ss) x = after (Apply S r m1) y"
  proof (rule state_file.apply_loop_failed [OF a h(2) c(1) [symmetric] names])
    fix pre S post st' m1 y
    assume p: "ss = pre @ S # post" "holds_state cd c st' y" "Name S \<notin> recorded st'"
      "recorded st' = recorded st \<union> Name ` set pre"
      "(\<exists>e'. Wrapf ''stage %s: %w'' [n] e = Wrapf ''stage %s: %w'' [Name S] e' \<and> res (Apply S r m1) y = (Some e', m') \<and>
        after (apply_loop (saveState rt cd) (clock_now rt) r ss st m) ?y = after (Apply S r m1) y)
     \<or> (\<exists>e'. Wrapf ''stage %s: %w'' [n] e = Wrapf ''save state after %s: %w'' [Name S] e')"
    from p(5) have "n = Name S" "after (runner_Apply rt cd r m ss) x = after (Apply S r m1) y"
      by (simp_all add: fin)
    with p(1-4) show thesis by (rule that)
  qed
  have h': "holds_state cd c st' (after (runner_Apply rt cd r m ss) x)"
    using p(1,2,6) quiet by (simp add: holds_state_def)
  have "res (runner_Apply rt cd r m2 ss) y =
      res (apply_loop (saveState rt cd) (clock_now rt) r (S # post) st' m2) (after (loadState rt cd c) y)"
    if "holds_state cd c st' y" "res (loadState rt cd c) y = Inr q" for y q
  proof -
    have "q = st'" using that by (rule state_file.load_fun)
    with that c(2) have "res (runner_Apply rt cd r m2 ss) y =
        res (apply_loop (saveState rt cd) (clock_now rt) r ss st' m2) (after (loadState rt cd c) y)"
      by (simp add: runner_Apply_def)
    with p(4) show ?thesis by (simp add: p(1) state_file.apply_loop_skip)
  qed
  with p h h' show ?thesis by blast
qed

theorem runner_apply_resumes_witness:
  "\<exists>st. holds_state ''/cfg'' ''one'' st
      (after (runner_Apply sample_rt ''/cfg'' 0 (sample_mem [sample_cluster ''one''])
        [sample_stage ''a'' None, sample_stage ''b'' (Some ErrCanceled)]) (sample_sys ())) \<and> ''b'' \<notin> recorded st"
proof -
  let ?m = "sample_mem [sample_cluster ''one'']"
    and ?ss = "[sample_stage ''a'' None, sample_stage ''b'' (Some ErrCanceled)]"
  have "fst (fst (runner_Apply sample_rt ''/cfg'' 0 ?m ?ss (sample_sys ()))) = Some (Wrapf ''stage %s: %w'' [''b''] ErrCanceled)"
    by code_simp
  then have r: "res (runner_Apply sample_rt ''/cfg'' 0 ?m ?ss) (sample_sys ())
      = (Some (Wrapf ''stage %s: %w'' [''b''] ErrCanceled), snd (res (runner_Apply sample_rt ''/cfg'' 0 ?m ?ss) (sample_sys ())))"
    by (simp add: prod_eq_iff res_def)
  have k: "\<forall>S \<in> set ?ss. keeps_name 0 S" by simp
  have f: "\<forall>S \<in> set ?ss. \<forall>m y. files (after (Apply S 0 m) y) (statePath ''/cfg'' ''one'') = files (y :: unit sys) (statePath ''/cfg'' ''one'')"
    by (simp add: sample_stage_def)
  have "''one'' = cName (heap ?m 0)" by code_simp
  from runner_apply_resumes [OF r k f this this] show ?thesis
    by (elim exE conjE) (rule exI, rule conjI, assumption, simp)
qed

text \<open>C29. After a successful \<open>Rollback\<close> no stage of the list is recorded, and records of other stages
  are kept; this holds whatever the stages' own rollbacks return.\<close>

theorem runner_rollback_clears:
  assumes ok: "res (runner_Rollback rt cd r m ss) x = (None, m')"
    and names: "\<forall>S \<in> set ss. keeps_name r S"
  shows "\<exists>st st'. holds_state cd (cName (heap m r)) st x \<and>
    holds_state cd (cName (heap m r)) st' (after (runner_Rollback rt cd r m ss) x) \<and>
    recorded st' = recorded st - Name ` set ss"
proof -
  obtain st where l: "res (loadState rt cd (cName (heap m r))) x = Inr st"
    using ok by (cases "res (loadState rt cd (cName (heap m r))) x") (auto simp: runner_Rollback_def)
  let ?y = "after (loadState rt cd (cName (heap m r))) x"
  have a: "res (rollback_loop (saveState rt cd) r (rev ss) st m) ?y = (None, m')"
    using ok l by (simp add: runner_Rollback_def)
  have k: "\<forall>S \<in> set (rev ss). keeps_name r S" using names by simp
  from state_file.rollback_loop_ok [OF a _ refl k] state_file.load_holds [OF l] l show ?thesis
    by (fastforce simp: runner_Rollback_def)
qed

theorem runner_rollback_clears_witness:
  "\<exists>st. holds_state ''/cfg'' ''one'' st
      (after (runner_Rollback sample_rt ''/cfg'' 0 (sample_mem [sample_cluster ''one'']) [sample_stage ''a'' None, sample_stage ''b'' (Some ErrCanceled)])
        ((sample_sys ())\<lparr>files := [''/cfg/clusters/one/state.json'' \<mapsto> File (StateDoc \<lparr>csStages = Some (mark_applied ''b'' 7 (mark_applied ''c'' 8 []))\<rparr>)]\<rparr>))
    \<and> recorded st = {''c''}"
proof -
  let ?m = "sample_mem [sample_cluster ''one'']"
    and ?ss = "[sample_stage ''a'' None, sample_stage ''b'' (Some ErrCanceled)]"
    and ?st = "mark_applied ''b'' 7 (mark_applied ''c'' 8 [])"
  let ?x = "(sample_sys ())\<lparr>files := [''/cfg/clusters/one/state.json'' \<mapsto> File (StateDoc \<lparr>csStages = Some ?st\<rparr>)]\<rparr>"
  have "fst (fst (runner_Rollback sample_rt ''/cfg'' 0 ?m ?ss ?x)) = None" by code_simp
  then have r: "res (runner_Rollback sample_rt ''/cfg'' 0 ?m ?ss) ?x
      = (None, snd (res (runner_Rollback sample_rt ''/cfg'' 0 ?m ?ss) ?x))"
    by (simp add: prod_eq_iff res_def)
  have k: "\<forall>S \<in> set ?ss. keeps_name 0 S" by simp
  have n: "cName (heap ?m 0) = ''one''" "statePath ''/cfg'' ''one'' = ''/cfg/clusters/one/state.json''" by code_simp+
  have c: "recorded st - Name ` set ?ss = {''c''}" if "holds_state ''/cfg'' ''one'' st ?x" for st
  proof -
    have "st = ?st" using that by (simp add: holds_state_def n stages_of_def)
    then show ?thesis by (auto simp: sample_stage_def)
  qed
  show ?thesis
    using runner_rollback_clears [OF r k] unfolding n(1)
    by (elim exE conjE) (rule exI, rule conjI, assumption, erule trans, erule c)
qed

text \<open>A preflight check that only observes.\<close>

definition observes :: "nat \<Rightarrow> mem \<Rightarrow> 's stage \<Rightarrow> bool" where
  "observes r m S \<longleftrightarrow> (\<forall>p x. Preflight S = Some p \<longrightarrow> after (p r m) x = x)"

text \<open>The failures of the checks of a list of stages, each taken on its own in the state \<open>x\<close>.\<close>

definition check_failures :: "nat \<Rightarrow> mem \<Rightarrow> 's stage list \<Rightarrow> 's \<Rightarrow> (string \<times> error) list" where
  "check_failures r m ss x =
     concat (map (\<lambda>S. case Preflight S of None \<Rightarrow> []
       | Some p \<Rightarrow> (case res (p r m) x of None \<Rightarrow> [] | Some e \<Rightarrow> [(Name S, e)])) ss)"

lemma preflight_errs_observes:
  "\<forall>S \<in> set ss. observes r m S \<Longrightarrow>
     after (preflight_errs r m ss) x = x \<and>
     res (preflight_errs r m ss) x = map (\<lambda>(n, e). Wrapf ''%s: %w'' [n] e) (check_failures r m ss x)"
  by (induction ss) (auto simp: check_failures_def observes_def split: option.splits)

text \<open>Preflight runs every check even after a failure: it passes iff no check fails, and otherwise
  reports every failing stage by name, in order.\<close>

theorem runner_preflight_aggregates:
  assumes "\<forall>S \<in> set ss. observes r m S"
  shows "res (runner_Preflight r m ss) x =
    (case check_failures r m ss x of [] \<Rightarrow> None
     | fs \<Rightarrow> Some (Joined (map (\<lambda>(n, e). Wrapf ''%s: %w'' [n] e) fs)))"
  using preflight_errs_observes [OF assms] by (auto simp: runner_Preflight_def split: list.splits)

theorem runner_preflight_aggregates_witness:
  "res (runner_Preflight 0 (sample_mem [])
      [sample_stage ''a'' None, (sample_stage ''b'' None)\<lparr>Preflight := Some (\<lambda>r m. io_ret (Some ErrCanceled))\<rparr>,
       (sample_stage ''c'' None)\<lparr>Preflight := Some (\<lambda>r m. io_ret (Some ErrNotExist))\<rparr>]) ()
   = Some (Joined [Wrapf ''%s: %w'' [''b''] ErrCanceled, Wrapf ''%s: %w'' [''c''] ErrNotExist])"
  by (subst runner_preflight_aggregates) (simp_all add: observes_def check_failures_def sample_stage_def)

end
