(* ===== verification/OpenShift.thy ===== *)
theory OpenShift
  imports World
begin

text \<open>
  The package \<open>providers/openshift\<close>: mirror URLs and version resolution (\<open>arch.go\<close>, \<open>rhcos.go\<close>),
  the Rosetta manifest (\<open>rosetta.go\<close>), the installer (\<open>installer.go\<close>) and the image baker
  (\<open>baker.go\<close>). The installer and the baker run commands through a \<open>command_runner\<close>.

  Parameters: \<open>walk\<close> is the directory walk of \<open>packSizeMiB\<close> (the sizes of the regular files),
  \<open>look\<close> is \<open>exec.LookPath\<close>, and \<open>tmpname\<close> the name \<open>os.CreateTemp\<close> chooses.
\<close>

section \<open>URLs and versions\<close>

definition HostClientPlatform :: "string \<Rightarrow> string \<Rightarrow> string" where
  "HostClientPlatform goos goarch =
     (if goos = ''darwin'' \<and> goarch = ''arm64'' then ''mac-arm64''
      else if goos = ''darwin'' then ''mac'' else ''linux'')"

definition InstallClientTarball :: "string \<Rightarrow> string" where
  "InstallClientTarball platform = ''openshift-install-'' @ platform @ ''.tar.gz''"

definition OCClientTarball :: "string \<Rightarrow> string" where
  "OCClientTarball platform = ''openshift-client-'' @ platform @ ''.tar.gz''"

definition OCPMirrorURLForArch :: "string \<Rightarrow> string" where
  "OCPMirrorURLForArch arch = ''https://mirror.openshift.com/pub/openshift-v4/'' @ arch"

definition OCPClientURL :: "string \<Rightarrow> string \<Rightarrow> string \<Rightarrow> string" where
  "OCPClientURL arch version tarball =
     OCPMirrorURLForArch arch @ ''/clients/ocp/'' @ version @ ''/'' @ tarball"

definition CoreOSInstallerURL :: string where
  "CoreOSInstallerURL =
     ''https://mirror.openshift.com/pub/openshift-v4/clients/coreos-installer/latest/coreos-installer''"

definition IsResolvedOCPVersion :: "string \<Rightarrow> bool" where
  "IsResolvedOCPVersion v =
     (if v = [] \<or> hd v < CHR ''0'' \<or> hd v > CHR ''9'' then False else contains v ''.'')"

definition ReleaseTxtURL :: "string \<Rightarrow> string \<Rightarrow> string" where
  "ReleaseTxtURL arch channel = OCPMirrorURLForArch arch @ ''/clients/ocp/'' @ channel @ ''/release.txt''"

text \<open>The scan for the \<open>Name:\<close> line.\<close>

fun release_name :: "string list \<Rightarrow> string option" where
  "release_name [] = None"
| "release_name (l # ls) =
     (let line = trim_space l in
      if \<not> has_prefix line ''Name:'' then release_name ls
      else (let v = trim_space (trim_prefix line ''Name:'') in
            if v \<noteq> [] then Some v else release_name ls))"

definition ResolveOCPVersion :: "'x rt \<Rightarrow> string \<Rightarrow> ('x sys) downloader \<Rightarrow> string \<Rightarrow> string \<Rightarrow>
    ('x sys, string result) io" where
  "ResolveOCPVersion rt tmpname dl arch channel =
     io_bind (os_call rt (OpCreateTemp tmpname) (\<lambda>fs. (Inr (), fs(tmpname \<mapsto> File (Raw []))))) (\<lambda>r. case r of
       Inl e \<Rightarrow> io_ret (Inl (Wrapf ''temp file: %w'' [] e))
     | Inr _ \<Rightarrow>
       io_bind
        (io_bind (Dl_Download dl (ReleaseTxtURL arch channel) tmpname) (\<lambda>e. case e of
           Some e \<Rightarrow> io_ret (Inl (Wrapf ''download release.txt for channel %q: %w'' [quoted channel] e))
         | None \<Rightarrow>
           io_bind (os_read_bytes rt tmpname) (\<lambda>r. io_ret (case r of
             Inl e \<Rightarrow> Inl (Wrapf ''read release.txt: %w'' [] e)
           | Inr dat \<Rightarrow>
               (case release_name (split_on (CHR 0x0A) dat) of
                  Some v \<Rightarrow> Inr v
                | None \<Rightarrow> Inl (Errorf ''release.txt for channel %q has no Name: line'' [quoted channel]))))))
        (\<lambda>out. io_bind (os_remove rt tmpname) (\<lambda>_. io_ret out)))"

section \<open>Manifests\<close>

definition trim_right_nl :: "string \<Rightarrow> string" where
  "trim_right_nl s = trim_right_by (\<lambda>c. c = CHR 0x0A) s"

definition indentLines :: "string \<Rightarrow> string \<Rightarrow> string" where
  "indentLines s pre =
     joined nl (map (\<lambda>ln. if ln \<noteq> [] then pre @ ln else ln) (split_on (CHR 0x0A) (trim_right_nl s)))"

abbreviation RosettaMachineConfigName :: string where "RosettaMachineConfigName \<equiv> ''99-master-rosetta''"

definition rosettaMountUnit :: string where
  "rosettaMountUnit = unlines
     [''[Unit]'', ''Description=Rosetta virtiofs share'', [], ''[Mount]'', ''What=rosetta'',
      ''Where=/run/rosetta'', ''Type=virtiofs'', ''Options=context=system_u:object_r:container_file_t:s0'',
      [], ''[Install]'', ''WantedBy=local-fs.target'']"

text \<open>The backslash escapes of the registration line are literal text.\<close>

abbreviation bsx :: "string \<Rightarrow> string" where "bsx h \<equiv> [CHR 0x5C, CHR ''x''] @ h"

definition rosettaBinfmtUnit :: string where
  "rosettaBinfmtUnit =
     (let esc = (\<lambda>hs. concat (map bsx hs)); z = ''00''; f = ''ff''; q = CHR 0x27 in
      unlines
       [''[Unit]'', ''Description=Register Rosetta binfmt_misc handler'', ''Requires=run-rosetta.mount'',
        ''After=run-rosetta.mount'', [], ''[Service]'', ''Type=oneshot'', ''RemainAfterExit=yes'',
        ''ExecStart=/bin/sh -c '' @ [q] @ ''echo '' @ [CHR 0x22] @ '':rosetta:M::'' @ esc [''7f''] @ ''ELF'' @
          esc ([''02'', ''01'', ''01''] @ replicate 9 z @ [''02'', z, ''3e'', z]) @ '':'' @
          esc ([f, f, f, f, f, ''fe'', ''fe'', z] @ replicate 8 f @ [''fe'', f, f, f]) @
          '':/run/rosetta/rosetta:OCF'' @ [CHR 0x22] @ '' > /proc/sys/fs/binfmt_misc/register'' @ [q],
        [], ''[Install]'', ''WantedBy=multi-user.target''])"

definition machine_config_head :: "string \<Rightarrow> string list" where
  "machine_config_head name =
     [''apiVersion: machineconfiguration.openshift.io/v1'', ''kind: MachineConfig'', ''metadata:'',
      ''  labels:'', ''    machineconfiguration.openshift.io/role: master'', ''  name: '' @ name,
      ''spec:'', ''  config:'', ''    ignition:'', ''      version: 3.2.0'']"

abbreviation ten_spaces :: string where "ten_spaces \<equiv> ''          ''"

definition RenderRosettaMachineConfig :: string where
  "RenderRosettaMachineConfig =
     unlines (machine_config_head RosettaMachineConfigName @
       [''    systemd:'', ''      units:'', ''      - name: run-rosetta.mount'', ''        enabled: true'',
        ''        contents: |'', indentLines rosettaMountUnit ten_spaces,
        ''      - name: rosetta-binfmt.service'', ''        enabled: true'', ''        contents: |'',
        indentLines rosettaBinfmtUnit ten_spaces])"

abbreviation crioDropinPath :: string where "crioDropinPath \<equiv> ''/etc/crio/crio.conf.d/10-baked-images.conf''"

definition RenderCRIODropin :: string where
  "RenderCRIODropin =
     unlines [''[crio]'', ''storage_option = ['',
       ''  '' @ [CHR 0x22] @ ''overlay.imagestore='' @ BakedImagesMountPath @ [CHR 0x22] @ '','', '']'']"

text \<open>One byte of \<open>systemdEscapePath\<close>; \<open>first\<close> tells that it is the first of the path.\<close>

definition escape_byte :: "bool \<Rightarrow> char \<Rightarrow> string" where
  "escape_byte first c =
     (if c = CHR ''/'' then ''-''
      else if c = CHR ''.'' \<and> first then bsx ''2e''
      else if CHR ''A'' \<le> c \<and> c \<le> CHR ''Z'' \<or> CHR ''a'' \<le> c \<and> c \<le> CHR ''z'' \<or>
              CHR ''0'' \<le> c \<and> c \<le> CHR ''9'' \<or> c = CHR ''_'' then [c]
      else bsx (hex2 (of_char c)))"

definition systemdEscapePath :: "string \<Rightarrow> string" where
  "systemdEscapePath p =
     (case trim_by (\<lambda>c. c = CHR ''/'') p of
        [] \<Rightarrow> ''-''
      | c # cs \<Rightarrow> escape_byte True c @ concat (map (escape_byte False) cs))"

definition RenderMountUnit :: "string \<times> string" where
  "RenderMountUnit =
     (systemdEscapePath BakedImagesMountPath @ ''.mount'',
      unlines
       [''[Unit]'', ''Description=Baked OCP image store (read-only CRI-O additional image store)'',
        ''Before=crio.service'', ''After=local-fs.target'', [], ''[Mount]'',
        ''What=/dev/disk/by-label/'' @ BakedImagesLabel, ''Where='' @ BakedImagesMountPath, ''Type=ext4'',
        ''Options=ro,nofail'', [], ''[Install]'', ''RequiredBy=crio.service''])"

abbreviation MachineConfigName :: string where "MachineConfigName \<equiv> ''99-master-baked-image-store''"

definition RenderMachineConfig :: string where
  "RenderMachineConfig =
     (case RenderMountUnit of (unitName, unitContents) \<Rightarrow>
      unlines (machine_config_head MachineConfigName @
       [''    storage:'', ''      files:'', ''      - path: '' @ crioDropinPath, ''        mode: 420'',
        ''        overwrite: true'', ''        contents:'',
        ''          source: data:text/plain;base64,'' @ base64 RenderCRIODropin,
        ''    systemd:'', ''      units:'', ''      - name: '' @ unitName, ''        enabled: true'',
        ''        contents: |'', indentLines unitContents ten_spaces]))"

section \<open>Editing an Ignition document\<close>

text \<open>
  \<open>x, _ := m[k].(map[string]any)\<close> and \<open>x, _ := m[k].([]any)\<close>: the zero value for anything else.
\<close>

definition get_obj :: "(string \<times> json) list \<Rightarrow> string \<Rightarrow> (string \<times> json) list" where
  "get_obj m k = (case obj_get m k of Some (JObj o') \<Rightarrow> o' | _ \<Rightarrow> [])"

definition get_arr :: "(string \<times> json) list \<Rightarrow> string \<Rightarrow> json list" where
  "get_arr m k = (case obj_get m k of Some (JArr a) \<Rightarrow> a | _ \<Rightarrow> [])"

text \<open>Append \<open>v\<close> to the array \<open>k2\<close> of the object \<open>k1\<close>.\<close>

definition append_under :: "string \<Rightarrow> string \<Rightarrow> json \<Rightarrow> (string \<times> json) list \<Rightarrow> (string \<times> json) list" where
  "append_under k1 k2 v m =
     (let o' = get_obj m k1 in obj_set k1 (JObj (obj_set k2 (JArr (get_arr o' k2 @ [v])) o')) m)"

definition baked_file_entry :: json where
  "baked_file_entry =
     JObj [(''path'', JStr crioDropinPath), (''mode'', JNum ''420''), (''overwrite'', JBool True),
           (''contents'', JObj [(''source'', JStr (''data:text/plain;base64,'' @ base64 RenderCRIODropin))])]"

definition baked_unit_entry :: json where
  "baked_unit_entry =
     (case RenderMountUnit of (unitName, unitContents) \<Rightarrow>
      JObj [(''name'', JStr unitName), (''enabled'', JBool True), (''contents'', JStr unitContents)])"

definition merge_baked :: "(string \<times> json) list \<Rightarrow> (string \<times> json) list" where
  "merge_baked cfg =
     append_under ''systemd'' ''units'' baked_unit_entry (append_under ''storage'' ''files'' baked_file_entry cfg)"

text \<open>A document \<open>null\<close> leaves the Go map nil, and assigning to it panics.\<close>

definition MergeBakedStoreIntoIgnition :: "string \<Rightarrow> string result" where
  "MergeBakedStoreIntoIgnition ignitionJSON =
     (case json_parse ignitionJSON of
        Some (JObj cfg) \<Rightarrow> Inr (json_text (JObj (merge_baked cfg)))
      | Some JNull \<Rightarrow> Inl (ExtErr ''panic: assignment to entry in nil map'')
      | _ \<Rightarrow> Inl (Wrapf ''parse live-iso ignition: %w'' [] (ExtErr ''invalid JSON'')))"

section \<open>Decoding into structs\<close>

text \<open>
  \<open>json.Unmarshal\<close> into structs, maps and slices: an absent member or null is the zero value, a
  value of another kind makes the whole decoding fail (\<open>None\<close>).
\<close>

fun decode_all :: "('a \<Rightarrow> 'b option) \<Rightarrow> 'a list \<Rightarrow> 'b list option" where
  "decode_all f [] = Some []"
| "decode_all f (x # xs) =
     (case f x of None \<Rightarrow> None | Some y \<Rightarrow> map_option ((#) y) (decode_all f xs))"

definition as_struct :: "json option \<Rightarrow> json option" where
  "as_struct j = (case j of None \<Rightarrow> Some (JObj []) | Some JNull \<Rightarrow> Some (JObj [])
                  | Some (JObj m) \<Rightarrow> Some (JObj m) | _ \<Rightarrow> None)"

definition as_map :: "(json option \<Rightarrow> 'v option) \<Rightarrow> json option \<Rightarrow> (string \<times> 'v) list option" where
  "as_map f j =
     (case as_struct j of
        Some (JObj m) \<Rightarrow> decode_all (\<lambda>(k, v). map_option (Pair k) (f (Some v))) m
      | _ \<Rightarrow> None)"

definition as_slice :: "(json option \<Rightarrow> 'v option) \<Rightarrow> json option \<Rightarrow> 'v list option" where
  "as_slice f j =
     (case j of None \<Rightarrow> Some [] | Some JNull \<Rightarrow> Some []
      | Some (JArr vs) \<Rightarrow> decode_all (\<lambda>v. f (Some v)) vs | _ \<Rightarrow> None)"

section \<open>The installer\<close>

text \<open>A format of a CoreOS artifact: the locations of disk, kernel, initramfs and rootfs.\<close>

record core_format =
  cfDisk :: string
  cfKernel :: string
  cfInitramfs :: string
  cfRootfs :: string

definition artifact_location :: "json \<Rightarrow> string \<Rightarrow> string option" where
  "artifact_location j k =
     (case as_struct (struct_field j k) of None \<Rightarrow> None | Some a \<Rightarrow> as_string (struct_field a ''location''))"

definition as_format :: "json option \<Rightarrow> core_format option" where
  "as_format j =
     (case as_struct j of
        None \<Rightarrow> None
      | Some f \<Rightarrow>
          (case (artifact_location f ''disk'', artifact_location f ''kernel'',
                 artifact_location f ''initramfs'', artifact_location f ''rootfs'') of
             (Some d, Some k, Some i, Some r) \<Rightarrow>
               Some \<lparr>cfDisk = d, cfKernel = k, cfInitramfs = i, cfRootfs = r\<rparr>
           | _ \<Rightarrow> None))"

text \<open>\<open>coreOSStream\<close>: architecture, artifact and format, each a map.\<close>

type_synonym coreOSStream = "(string \<times> (string \<times> (string \<times> core_format) list) list) list"

definition decode_stream :: "string \<Rightarrow> coreOSStream option" where
  "decode_stream dat =
     (case json_parse dat of
        None \<Rightarrow> None
      | Some j \<Rightarrow>
          (case as_struct (Some j) of
             None \<Rightarrow> None
           | Some s \<Rightarrow>
               as_map (\<lambda>a. case as_struct a of None \<Rightarrow> None | Some a \<Rightarrow>
                 as_map (\<lambda>b. case as_struct b of None \<Rightarrow> None | Some b \<Rightarrow>
                   as_map as_format (struct_field b ''formats'')) (struct_field a ''artifacts''))
                 (struct_field s ''architectures'')))"

definition stream_format :: "string \<Rightarrow> string \<Rightarrow> string \<Rightarrow> core_format result" where
  "stream_format dat arch fmt =
     (case decode_stream dat of
        None \<Rightarrow> Inl (Wrapf ''parse stream json: %w'' [] (ExtErr ''invalid JSON''))
      | Some s \<Rightarrow>
          (case map_of s arch of
             None \<Rightarrow> Inl (Errorf ''stream json has no architecture %q'' [quoted arch])
           | Some a \<Rightarrow>
               (case map_of a ''metal'' of
                  None \<Rightarrow> Inl (Errorf ''stream json arch %q has no metal artifact'' [quoted arch])
                | Some m \<Rightarrow>
                    (case map_of m fmt of
                       None \<Rightarrow> Inl (Errorf (''stream json arch %q metal has no '' @ fmt @ '' format'') [quoted arch])
                     | Some f \<Rightarrow> Inr f))))"

definition parseCoreOSLiveISO :: "string \<Rightarrow> string \<Rightarrow> string result" where
  "parseCoreOSLiveISO dat arch =
     (case stream_format dat arch ''iso'' of
        Inl e \<Rightarrow> Inl e
      | Inr f \<Rightarrow> if cfDisk f = [] then Inl (Errorf ''stream json arch %q iso location is empty'' [quoted arch])
                 else Inr (cfDisk f))"

definition parseCoreOSLivePXE :: "string \<Rightarrow> string \<Rightarrow> coreos_live_pxe result" where
  "parseCoreOSLivePXE dat arch =
     (case stream_format dat arch ''pxe'' of
        Inl e \<Rightarrow> Inl e
      | Inr f \<Rightarrow>
          if cfKernel f = [] \<or> cfInitramfs f = [] \<or> cfRootfs f = []
          then Inl (Errorf ''stream json arch %q pxe missing kernel/initramfs/rootfs (%+v)''
                 [quoted arch, ''{KernelURL:'' @ cfKernel f @ '' InitramfsURL:'' @ cfInitramfs f @
                    '' RootfsURL:'' @ cfRootfs f @ ''}''])
          else Inr \<lparr>pxeKernelURL = cfKernel f, pxeInitramfsURL = cfInitramfs f, pxeRootfsURL = cfRootfs f\<rparr>)"

abbreviation SNOInstallationDisk :: string where "SNOInstallationDisk \<equiv> ''/dev/vda''"

text \<open>\<open>installConfigTemplate\<close> applied to its data: \<open>text/template\<close> inserts the values unescaped.\<close>

definition install_config_text :: "installer_spec \<Rightarrow> string" where
  "install_config_text spec =
     (let c = isCluster spec in unlines
       ([''apiVersion: v1'', ''baseDomain: '' @ cDomain c, ''compute:'', ''- hyperthreading: Enabled'',
         ''  name: worker'', ''  replicas: '' @ int_str (cWorkerCount c), ''controlPlane:'',
         ''  hyperthreading: Enabled'', ''  name: master'', ''  replicas: '' @ int_str (cMasterCount c),
         ''metadata:'', ''  name: '' @ cName c, ''networking:'', ''  clusterNetwork:'',
         ''  - cidr: 10.128.0.0/14'', ''    hostPrefix: 23''] @
        (if cMachineCIDR c \<noteq> [] then [''  machineNetwork:'', ''  - cidr: '' @ cMachineCIDR c] else []) @
        [''  networkType: OVNKubernetes'', ''  serviceNetwork:'', ''  - 172.30.0.0/16'', ''platform:'',
         ''  none: {}'', ''bootstrapInPlace:'', ''  installationDisk: '' @ SNOInstallationDisk,
         ''pullSecret: '' @ [CHR 0x27] @ isPullSecret spec @ [CHR 0x27],
         ''sshKey: '' @ [CHR 0x27] @ isSSHPublicKey spec @ [CHR 0x27]]))"

definition WriteInstallConfig :: "'x rt \<Rightarrow> installer_spec \<Rightarrow> ('x sys, error option) io" where
  "WriteInstallConfig rt spec =
     wrap_err ''create install-config: %w'' []
       (os_write rt (path_join [isClusterDir spec, ''install-config.yaml'']) (Raw (install_config_text spec)))"

text \<open>\<open>if _, err := cmd.Run(...); err != nil { return fmt.Errorf(f, err) }\<close>.\<close>

definition run_checked :: "'s command_runner \<Rightarrow> string \<Rightarrow> string list \<Rightarrow> string \<Rightarrow> string list \<Rightarrow>
    ('s, error option) io" where
  "run_checked cmd f fargs tool args =
     wrap_err f fargs (io_bind (Cmd_Run cmd tool args) (\<lambda>(_, e). io_ret e))"

definition CreateManifests :: "'s command_runner \<Rightarrow> installer_spec \<Rightarrow> ('s, error option) io" where
  "CreateManifests cmd spec =
     run_checked cmd ''create manifests: %w'' [] (isInstallerPath spec)
       [''create'', ''manifests'', ''--dir'', isClusterDir spec]"

definition CreateIgnitionConfigs :: "'s command_runner \<Rightarrow> installer_spec \<Rightarrow> ('s, error option) io" where
  "CreateIgnitionConfigs cmd spec =
     io_seq (CreateManifests cmd spec)
       (run_checked cmd ''create ignition-configs: %w'' [] (isInstallerPath spec)
         [''create'', ''ignition-configs'', ''--dir'', isClusterDir spec])"

definition write_manifest :: "'x rt \<Rightarrow> installer_spec \<Rightarrow> string \<Rightarrow> string \<Rightarrow> string \<Rightarrow>
    ('x sys, error option) io" where
  "write_manifest rt spec name txt f =
     (let dir = path_join [isClusterDir spec, ''openshift''] in
      io_seq (wrap_err ''create openshift manifests dir: %w'' [] (os_mkdirall rt dir))
        (wrap_err f [] (os_write rt (path_join [dir, name @ ''.yaml'']) (Raw txt))))"

definition WriteRosettaManifest :: "'x rt \<Rightarrow> installer_spec \<Rightarrow> ('x sys, error option) io" where
  "WriteRosettaManifest rt spec =
     write_manifest rt spec RosettaMachineConfigName RenderRosettaMachineConfig ''write rosetta MachineConfig: %w''"

definition WriteImageStoreManifest :: "'x rt \<Rightarrow> installer_spec \<Rightarrow> ('x sys, error option) io" where
  "WriteImageStoreManifest rt spec =
     write_manifest rt spec MachineConfigName RenderMachineConfig ''write image-store MachineConfig: %w''"

definition MergeImageStoreIntoLiveISOIgnition :: "'x rt \<Rightarrow> installer_spec \<Rightarrow> string \<Rightarrow> ('x sys, error option) io" where
  "MergeImageStoreIntoLiveISOIgnition rt spec ignitionPath =
     io_bind (os_read_bytes rt ignitionPath) (\<lambda>r. case r of
       Inl e \<Rightarrow> io_ret (Some (Wrapf ''read live-iso ignition: %w'' [] e))
     | Inr dat \<Rightarrow>
         (case MergeBakedStoreIntoIgnition dat of
            Inl e \<Rightarrow> io_ret (Some e)
          | Inr merged \<Rightarrow>
              wrap_err ''write merged live-iso ignition: %w'' [] (os_write rt ignitionPath (Raw merged))))"

definition CreateSingleNodeIgnition :: "'s command_runner \<Rightarrow> installer_spec \<Rightarrow> ('s, error option) io" where
  "CreateSingleNodeIgnition cmd spec =
     run_checked cmd ''create single-node-ignition-config: %w'' [] (isInstallerPath spec)
       [''create'', ''single-node-ignition-config'', ''--dir'', isClusterDir spec]"

definition EmbedIgnitionInISO :: "'s command_runner \<Rightarrow> installer_spec \<Rightarrow> string \<Rightarrow> string \<Rightarrow> string \<Rightarrow>
    ('s, error option) io" where
  "EmbedIgnitionInISO cmd spec isoPath ignitionPath outputPath =
     run_checked cmd ''embed ignition in ISO: %w'' [] (isCoreOSInstallerPath spec)
       [''iso'', ''ignition'', ''embed'', ''-i'', ignitionPath, ''-o'', outputPath, isoPath]"

definition EmbedNetworkKeyfileInISO :: "'s command_runner \<Rightarrow> installer_spec \<Rightarrow> string \<Rightarrow> string \<Rightarrow>
    ('s, error option) io" where
  "EmbedNetworkKeyfileInISO cmd spec keyfilePath isoPath =
     run_checked cmd ''embed network keyfile in ISO: %w'' [] (isCoreOSInstallerPath spec)
       [''iso'', ''network'', ''embed'', ''-k'', keyfilePath, ''-f'', isoPath]"

definition WaitForInstallComplete :: "'s command_runner \<Rightarrow> installer_spec \<Rightarrow> ('s, error option) io" where
  "WaitForInstallComplete cmd spec =
     io_bind (Cmd_RunStreaming cmd (isInstallerPath spec)
       [''wait-for'', ''install-complete'', ''--dir'', isClusterDir spec, ''--log-level'', ''info''])
       (\<lambda>(_, e). io_ret e)"

definition stream_json :: "'s command_runner \<Rightarrow> installer_spec \<Rightarrow> (string \<Rightarrow> string \<Rightarrow> 'a result) \<Rightarrow>
    ('s, 'a result) io" where
  "stream_json cmd spec parse =
     io_bind (Cmd_RunStreaming cmd (isInstallerPath spec) [''coreos'', ''print-stream-json'']) (\<lambda>((out, err), e).
       io_ret (case e of
         Some e \<Rightarrow> Inl (Wrapf ''coreos print-stream-json: %w: %s'' [err] e)
       | None \<Rightarrow> parse out (if isArch spec = [] then ''x86_64'' else isArch spec)))"

definition CoreOSLiveISOURL :: "'s command_runner \<Rightarrow> installer_spec \<Rightarrow> ('s, string result) io" where
  "CoreOSLiveISOURL cmd spec = stream_json cmd spec parseCoreOSLiveISO"

definition CoreOSLivePXEURLs :: "'s command_runner \<Rightarrow> installer_spec \<Rightarrow> ('s, coreos_live_pxe result) io" where
  "CoreOSLivePXEURLs cmd spec = stream_json cmd spec parseCoreOSLivePXE"

definition OpenShiftInstaller :: "'x rt \<Rightarrow> ('x sys) command_runner \<Rightarrow> ('x sys) installer" where
  "OpenShiftInstaller rt cmd =
     \<lparr>In_WriteInstallConfig = WriteInstallConfig rt, In_CreateManifests = CreateManifests cmd,
      In_CreateIgnitionConfigs = CreateIgnitionConfigs cmd,
      In_WriteImageStoreManifest = WriteImageStoreManifest rt,
      In_CreateSingleNodeIgnition = CreateSingleNodeIgnition cmd,
      In_WriteRosettaManifest = WriteRosettaManifest rt,
      In_MergeImageStore = MergeImageStoreIntoLiveISOIgnition rt,
      In_EmbedIgnitionInISO = EmbedIgnitionInISO cmd,
      In_EmbedNetworkKeyfileInISO = EmbedNetworkKeyfileInISO cmd,
      In_WaitForInstallComplete = WaitForInstallComplete cmd, In_CoreOSLiveISOURL = CoreOSLiveISOURL cmd,
      In_CoreOSLivePXEURLs = CoreOSLivePXEURLs cmd\<rparr>"

section \<open>The image baker\<close>

definition SupportedReleaseArches :: "string list" where
  "SupportedReleaseArches = [''x86_64'', ''aarch64'']"

definition ReleaseImageURL :: "string \<Rightarrow> string \<Rightarrow> string" where
  "ReleaseImageURL version arch = ''quay.io/openshift-release-dev/ocp-release:'' @ version @ ''-'' @ arch"

definition content_size :: "node \<Rightarrow> nat" where
  "content_size n = (case n of Dir \<Rightarrow> 4096 | File (Raw s) \<Rightarrow> length s | File _ \<Rightarrow> 1)"

definition Ready :: "'x rt \<Rightarrow> bake_spec \<Rightarrow> ('x sys, bool \<times> error option) io" where
  "Ready rt spec =
     io_bind (os_stat rt (bsOutputDiskPath spec)) (\<lambda>r. io_ret (case r of
       Inl e \<Rightarrow> if error_is e ErrNotExist then (False, None) else (False, Some e)
     | Inr n \<Rightarrow> (0 < content_size n, None)))"

text \<open>The pullspecs of \<open>releaseInfo\<close>.\<close>

definition release_tags :: "json \<Rightarrow> string list option" where
  "release_tags j =
     (case as_struct (Some j) of None \<Rightarrow> None | Some ri \<Rightarrow>
      case as_struct (struct_field ri ''references'') of None \<Rightarrow> None | Some rf \<Rightarrow>
      case as_struct (struct_field rf ''spec'') of None \<Rightarrow> None | Some sp \<Rightarrow>
      as_slice (\<lambda>t. case as_struct t of None \<Rightarrow> None | Some t \<Rightarrow>
        case as_struct (struct_field t ''from'') of None \<Rightarrow> None | Some f \<Rightarrow>
        case as_string (struct_field f ''kind'') of None \<Rightarrow> None | Some _ \<Rightarrow>
        as_string (struct_field f ''name'')) (struct_field sp ''tags''))"

definition parseReleasePullspecs :: "string \<Rightarrow> string list result" where
  "parseReleasePullspecs dat =
     (case Option.bind (json_parse dat) release_tags of
        None \<Rightarrow> Inl (Wrapf ''unmarshal release info: %w'' [] (ExtErr ''invalid JSON''))
      | Some names \<Rightarrow> Inr (filter (\<lambda>n. n \<noteq> []) names))"

text \<open>\<open>add\<close>: the map \<open>seen\<close> holds exactly the images appended so far.\<close>

definition add_ref :: "string \<Rightarrow> string list \<Rightarrow> string list" where
  "add_ref img images = (if img \<noteq> [] \<and> img \<notin> set images then images @ [img] else images)"

fun enumerate_loop :: "'s command_runner \<Rightarrow> bake_spec \<Rightarrow> string list \<Rightarrow> string list \<Rightarrow> string list \<Rightarrow>
    ('s, (string list \<times> string list) result) io" where
  "enumerate_loop cmd spec [] images baked = io_ret (Inr (images, baked))"
| "enumerate_loop cmd spec (arch # arches) images baked =
     (let relImg = ReleaseImageURL (bsVersion spec) arch in
      io_bind (Cmd_Run cmd (bsOCBinaryPath spec)
        [''adm'', ''release'', ''info'', relImg, ''--registry-config'', bsPullSecretPath spec, ''-o'', ''json''])
       (\<lambda>(out, infoErr). case infoErr of
          Some _ \<Rightarrow> enumerate_loop cmd spec arches images baked
        | None \<Rightarrow>
            (case parseReleasePullspecs out of
               Inl e \<Rightarrow> io_ret (Inl (Wrapf ''parse release info for %s: %w'' [arch] e))
             | Inr specs \<Rightarrow>
                 enumerate_loop cmd spec arches (fold add_ref (relImg # specs) images) (baked @ [arch]))))"

definition enumerate_images :: "'s command_runner \<Rightarrow> bake_spec \<Rightarrow> ('s, (string list \<times> string list) result) io" where
  "enumerate_images cmd spec = enumerate_loop cmd spec SupportedReleaseArches [] []"

text \<open>\<open>(bytes+bytes/10)/(1024*1024) + 1024\<close> on the sum of the sizes of the regular files.\<close>

definition pack_size :: "nat list \<Rightarrow> nat" where
  "pack_size sizes = (let bytes = sum_list sizes in (bytes + bytes div 10) div (1024 * 1024) + 1024)"

definition packSizeMiB :: "(string \<Rightarrow> ('s, nat list result) io) \<Rightarrow> string \<Rightarrow> ('s, nat result) io" where
  "packSizeMiB walk dir = io_bind (walk dir) (\<lambda>r. io_ret (map_sum id pack_size r))"

fun resolve_mke2fs :: "'x rt \<Rightarrow> (string \<Rightarrow> ('x sys, string result) io) \<Rightarrow> string list \<Rightarrow> ('x sys, string) io" where
  "resolve_mke2fs rt look [] = io_ret ''mke2fs''"
| "resolve_mke2fs rt look (c # cs) =
     (if contains c ''/'' then
        io_bind (os_exists rt c) (\<lambda>b. if b then io_ret c else resolve_mke2fs rt look cs)
      else
        io_bind (look c) (\<lambda>r. case r of Inr p \<Rightarrow> io_ret p | Inl _ \<Rightarrow> resolve_mke2fs rt look cs))"

definition ResolveMke2fs :: "'x rt \<Rightarrow> (string \<Rightarrow> ('x sys, string result) io) \<Rightarrow> ('x sys, string) io" where
  "ResolveMke2fs rt look = resolve_mke2fs rt look MKE2FSCandidates"

definition PackCommand :: "'x rt \<Rightarrow> (string \<Rightarrow> ('x sys, string result) io) \<Rightarrow> string \<Rightarrow> string \<Rightarrow> string \<Rightarrow> nat \<Rightarrow>
    ('x sys, string \<times> string list) io" where
  "PackCommand rt look goos overlayDir outPath sizeMiB =
     (if goos = ''darwin'' then
        io_bind (ResolveMke2fs rt look) (\<lambda>tool. io_ret (tool,
          [''-q'', ''-t'', ''ext4'', ''-L'', BakedImagesLabel, ''-d'', overlayDir, ''-m'', ''0'', outPath,
           nat_str sizeMiB @ ''m'']))
      else io_ret (''virt-make-fs'',
          [''--type=ext4'', ''--label='' @ BakedImagesLabel, ''--format=qcow2'', ''--size=+1G'', overlayDir, outPath]))"

fun skopeo_copies :: "'s command_runner \<Rightarrow> bake_spec \<Rightarrow> string \<Rightarrow> string list \<Rightarrow> ('s, error option) io" where
  "skopeo_copies cmd spec runRoot [] = io_ret None"
| "skopeo_copies cmd spec runRoot (img # imgs) =
     io_seq (run_checked cmd ''skopeo copy %s: %w'' [img] ''skopeo''
        [''copy'', ''--all'', ''--authfile'', bsPullSecretPath spec, ''--retry-times'', ''3'', ''docker://'' @ img,
         ''containers-storage:[overlay@'' @ bsOverlayDir spec @ ''+'' @ runRoot @ '']'' @ img])
       (skopeo_copies cmd spec runRoot imgs)"

definition pack_store :: "'x rt \<Rightarrow> (string \<Rightarrow> ('x sys, nat list result) io) \<Rightarrow> (string \<Rightarrow> ('x sys, string result) io) \<Rightarrow>
    ('x sys) command_runner \<Rightarrow> bake_spec \<Rightarrow> ('x sys, error option) io" where
  "pack_store rt walk look cmd spec =
     io_bind (os_remove rt (bsOutputDiskPath spec)) (\<lambda>_.
     io_bind (packSizeMiB walk (bsOverlayDir spec)) (\<lambda>r. case r of
       Inl e \<Rightarrow> io_ret (Some (Wrapf ''size image store: %w'' [] e))
     | Inr sizeMiB \<Rightarrow>
         io_bind (PackCommand rt look (GOOS rt) (bsOverlayDir spec) (bsOutputDiskPath spec) sizeMiB)
           (\<lambda>(tool, args). run_checked cmd ''%s pack image store: %w'' [tool] tool args)))"

definition Bake :: "'x rt \<Rightarrow> (string \<Rightarrow> ('x sys, nat list result) io) \<Rightarrow> (string \<Rightarrow> ('x sys, string result) io) \<Rightarrow>
    ('x sys) command_runner \<Rightarrow> bake_spec \<Rightarrow> ('x sys, error option) io" where
  "Bake rt walk look cmd spec =
     io_bind (enumerate_images cmd spec) (\<lambda>r. case r of
       Inl e \<Rightarrow> io_ret (Some e)
     | Inr (images, bakedArches) \<Rightarrow>
         if bakedArches = [] then
           io_ret (Some (Errorf ''no OCP release image found for version %s in any supported arch %v''
                           [bsVersion spec, strs_text SupportedReleaseArches]))
         else
           let runRoot = path_join [path_dir (bsOverlayDir spec), ''run''] in
           io_seq (wrap_err ''create overlay store dir: %w'' [] (os_mkdirall rt (bsOverlayDir spec)))
            (io_seq (wrap_err ''create overlay run dir: %w'' [] (os_mkdirall rt runRoot))
              (io_seq (skopeo_copies cmd spec runRoot images) (pack_store rt walk look cmd spec))))"

definition OpenShiftImageBaker :: "'x rt \<Rightarrow> (string \<Rightarrow> ('x sys, nat list result) io) \<Rightarrow>
    (string \<Rightarrow> ('x sys, string result) io) \<Rightarrow> ('x sys) command_runner \<Rightarrow> ('x sys) image_baker" where
  "OpenShiftImageBaker rt walk look cmd = \<lparr>Bk_Ready = Ready rt, Bk_Bake = Bake rt walk look cmd\<rparr>"

section \<open>Properties\<close>

lemma add_refs_fold:
  "set (fold add_ref refs images) = set images \<union> (set refs - {[]})"
  "distinct images \<Longrightarrow> distinct (fold add_ref refs images)"
  by (induction refs arbitrary: images) (auto simp: add_ref_def)

lemma enumerate_loop_ok:
  assumes "res (enumerate_loop cmd spec arches images baked) s = Inr (images', baked')"
    and "distinct images" "[] \<notin> set images"
  shows "distinct images' \<and> [] \<notin> set images' \<and> set images \<subseteq> set images' \<and>
    (\<exists>bs. baked' = baked @ bs \<and> subseq bs arches \<and> (\<forall>a \<in> set bs. ReleaseImageURL (bsVersion spec) a \<in> set images') \<and>
       (bs = [] \<longrightarrow> images' = images))"
  using assms
proof (induction arches arbitrary: images baked s)
  case Nil
  then show ?case by simp
next
  case (Cons a as)
  let ?rel = "ReleaseImageURL (bsVersion spec) a"
  obtain out e where c: "res (Cmd_Run cmd (bsOCBinaryPath spec) [''adm'', ''release'', ''info'', ?rel,
      ''--registry-config'', bsPullSecretPath spec, ''-o'', ''json'']) s = (out, e)" by force
  show ?case
  proof (cases e)
    case (Some x)
    then have "\<exists>s'. res (enumerate_loop cmd spec as images baked) s' = Inr (images', baked')"
      using Cons.prems(1) c by (auto simp: Let_def)
    then obtain s' where "res (enumerate_loop cmd spec as images baked) s' = Inr (images', baked')" ..
    from Cons.IH [OF this Cons.prems(2,3)] obtain bs where "distinct images'" "[] \<notin> set images'"
      "set images \<subseteq> set images'" "baked' = baked @ bs" "subseq bs as"
      "\<forall>a \<in> set bs. ReleaseImageURL (bsVersion spec) a \<in> set images'" "bs = [] \<longrightarrow> images' = images"
      by blast
    then show ?thesis by (intro conjI exI [of _ bs] list_emb_Cons)
  next
    case None
    with Cons.prems(1) c obtain specs where sp: "parseReleasePullspecs out = Inr specs"
      by (cases "parseReleasePullspecs out") (auto simp: Let_def)
    let ?im = "fold add_ref (?rel # specs) images"
    have rel: "?rel \<noteq> []" by (simp add: ReleaseImageURL_def)
    have im: "distinct ?im" "[] \<notin> set ?im" "set images \<subseteq> set ?im" "?rel \<in> set ?im"
      using add_refs_fold(2) [OF Cons.prems(2)] Cons.prems(3) rel by (simp_all only: add_refs_fold(1)) auto
    have "\<exists>s'. res (enumerate_loop cmd spec as ?im (baked @ [a])) s' = Inr (images', baked')"
      using Cons.prems(1) c None sp by (auto simp: Let_def)
    then obtain s' where "res (enumerate_loop cmd spec as ?im (baked @ [a])) s' = Inr (images', baked')" ..
    from Cons.IH [OF this im(1,2)] obtain bs where b: "distinct images'" "[] \<notin> set images'" "set ?im \<subseteq> set images'"
      "baked' = (baked @ [a]) @ bs" "subseq bs as" "\<forall>a \<in> set bs. ReleaseImageURL (bsVersion spec) a \<in> set images'"
      by blast
    then have "baked' = baked @ (a # bs)" "subseq (a # bs) (a # as)"
      "\<forall>x \<in> set (a # bs). ReleaseImageURL (bsVersion spec) x \<in> set images'"
      using im(4) by auto
    with b(1,2,3) im(3) show ?thesis by blast
  qed
qed

text \<open>The images to bake are enumerated without duplicates and without empty names; the baked
  architectures are supported ones, in order, each one's release image is among the images, and
  nothing is listed when no architecture is published.\<close>

theorem enumerate_images_distinct:
  assumes "res (enumerate_images cmd spec) s = Inr (images, baked)"
  shows "distinct images \<and> [] \<notin> set images \<and> subseq baked SupportedReleaseArches \<and>
    (\<forall>a \<in> set baked. ReleaseImageURL (bsVersion spec) a \<in> set images) \<and> (baked = [] \<longrightarrow> images = [])"
  using enumerate_loop_ok [OF assms [unfolded enumerate_images_def]] by auto

definition sample_runner :: "(string \<Rightarrow> string list \<Rightarrow> string \<times> error option) \<Rightarrow> 's command_runner" where
  "sample_runner f =
     \<lparr>Cmd_Run = (\<lambda>c as s. (f c as, 0, s)), Cmd_RunStreaming = (\<lambda>c as s. (((fst (f c as), []), snd (f c as)), 0, s))\<rparr>"

definition sample_bake_spec :: bake_spec where
  "sample_bake_spec = \<lparr>bsVersion = ''4.17.3'', bsOCBinaryPath = ''/oc'', bsPullSecretPath = ''/ps'',
     bsOverlayDir = ''/o/store'', bsOutputDiskPath = ''/o/store.qcow2''\<rparr>"

definition sample_release_json :: string where
  "sample_release_json =
     (let q = CHR 0x22; key = (\<lambda>k v. [q] @ k @ [q] @ '':'' @ v); tg = (\<lambda>n. ''{'' @ key ''from'' (''{'' @ key ''name'' ([q] @ n @ [q]) @ ''}'') @ ''}'')
      in ''{'' @ key ''references'' (''{'' @ key ''spec'' (''{'' @ key ''tags''
           (''['' @ tg ''img1'' @ '','' @ tg ''img2'' @ '','' @ tg ''img1'' @ '']'') @ ''}'') @ ''}'') @ ''}'')"

definition sample_oc :: "unit command_runner" where
  "sample_oc = sample_runner (\<lambda>c as. (sample_release_json, None))"

theorem enumerate_images_distinct_witness:
  "res (enumerate_images sample_oc sample_bake_spec) () =
     Inr ([ReleaseImageURL ''4.17.3'' ''x86_64'', ''img1'', ''img2'', ReleaseImageURL ''4.17.3'' ''aarch64''],
          [''x86_64'', ''aarch64'']) \<and>
   distinct [ReleaseImageURL ''4.17.3'' ''x86_64'', ''img1'', ''img2'', ReleaseImageURL ''4.17.3'' ''aarch64'']"
proof -
  have p: "parseReleasePullspecs sample_release_json = Inr [''img1'', ''img2'', ''img1'']" by code_simp
  have r: "res (enumerate_images sample_oc sample_bake_spec) () =
     Inr ([ReleaseImageURL ''4.17.3'' ''x86_64'', ''img1'', ''img2'', ReleaseImageURL ''4.17.3'' ''aarch64''],
          [''x86_64'', ''aarch64''])"
    by (simp add: enumerate_images_def SupportedReleaseArches_def Let_def sample_oc_def sample_runner_def p
        sample_bake_spec_def add_ref_def ReleaseImageURL_def res_def io_bind_def io_ret_def)
  with enumerate_images_distinct [OF r] show ?thesis by blast
qed

lemma append_under_get:
  "obj_get (append_under k1 k2 v m) k =
     (if k = k1 then Some (JObj (obj_set k2 (JArr (get_arr (get_obj m k1) k2 @ [v])) (get_obj m k1))) else obj_get m k)"
  by (simp add: append_under_def Let_def obj_get_set_other)

text \<open>Merging the baked store into an Ignition document appends one file and one unit and keeps
  everything else: the other members of the document, of \<open>storage\<close> and of \<open>systemd\<close>, and the files
  and units already there.\<close>

theorem merge_baked_preserves:
  "(\<forall>k. k \<noteq> ''storage'' \<longrightarrow> k \<noteq> ''systemd'' \<longrightarrow> obj_get (merge_baked cfg) k = obj_get cfg k) \<and>
   (\<forall>k. k \<noteq> ''files'' \<longrightarrow> obj_get (get_obj (merge_baked cfg) ''storage'') k = obj_get (get_obj cfg ''storage'') k) \<and>
   (\<forall>k. k \<noteq> ''units'' \<longrightarrow> obj_get (get_obj (merge_baked cfg) ''systemd'') k = obj_get (get_obj cfg ''systemd'') k) \<and>
   get_arr (get_obj (merge_baked cfg) ''storage'') ''files'' =
     get_arr (get_obj cfg ''storage'') ''files'' @ [baked_file_entry] \<and>
   get_arr (get_obj (merge_baked cfg) ''systemd'') ''units'' =
     get_arr (get_obj cfg ''systemd'') ''units'' @ [baked_unit_entry]"
  by (simp add: merge_baked_def append_under_get get_obj_def get_arr_def obj_get_set_other)

theorem merge_baked_preserves_witness:
  "get_arr (get_obj (merge_baked [(''ignition'', JNum ''3'')]) ''systemd'') ''units'' = [baked_unit_entry] \<and>
   obj_get (merge_baked [(''ignition'', JNum ''3'')]) ''ignition'' = Some (JNum ''3'')"
  using merge_baked_preserves [of "[(''ignition'', JNum ''3'')]"]
  by (simp add: get_obj_def get_arr_def obj_get_def)

text \<open>Reading a unit name back, as \<open>systemd-escape -u\<close> does.\<close>

fun unescape_unit :: "string \<Rightarrow> string" where
  "unescape_unit [] = []"
| "unescape_unit (c # s) =
     (if c = CHR 0x5C then
        (case s of
           _ # a # b # r \<Rightarrow>
             (case (hex_val a, hex_val b) of
                (Some x, Some y) \<Rightarrow> char_of (16 * x + y) # unescape_unit r
              | _ \<Rightarrow> [])
         | _ \<Rightarrow> [])
      else if c = CHR ''-'' then CHR ''/'' # unescape_unit s
      else c # unescape_unit s)"

lemma unescape_byte: "unescape_unit (escape_byte f c @ s) = c # unescape_unit s"
proof -
  have "(of_char c :: nat) < 256" using nat_of_char_less_256 [of c] .
  then have "(of_char c :: nat) div 16 < 16" by (simp add: div_less_iff_less_mult)
  then have h: "unescape_unit (bsx (hex2 (of_char c)) @ s) = c # unescape_unit s"
    by (simp add: hex2_def hex_val_digit unat_byte_div unat_of_char)
  have "unescape_unit (bsx ''2e'' @ s) = CHR ''.'' # unescape_unit s"
    by (simp add: hex_val_def char_le_iff) code_simp
  with h show ?thesis by (auto simp: escape_byte_def char_le_iff)
qed

lemma unescape_bytes: "unescape_unit (concat (map (escape_byte False) cs)) = cs"
  by (induction cs) (simp_all add: unescape_byte)

text \<open>The unit name of a mount path determines the path: undoing the escapes gives it back, up to
  slashes at both ends, so different mounts never share a unit.\<close>

theorem systemdEscapePath_roundtrip:
  assumes "trim_by (\<lambda>c. c = CHR ''/'') p \<noteq> []"
  shows "unescape_unit (systemdEscapePath p) = trim_by (\<lambda>c. c = CHR ''/'') p"
  using assms by (cases "trim_by (\<lambda>c. c = CHR ''/'') p") (simp_all add: systemdEscapePath_def unescape_byte unescape_bytes)

theorem systemdEscapePath_roundtrip_witness:
  "unescape_unit (systemdEscapePath BakedImagesMountPath) = ''var/lib/baked-images''"
proof -
  have "trim_by (\<lambda>c. c = CHR ''/'') BakedImagesMountPath = ''var/lib/baked-images''" by code_simp
  with systemdEscapePath_roundtrip [of BakedImagesMountPath] show ?thesis by simp
qed

text \<open>
  The comment on \<open>systemdEscapePath\<close> keeps dots that are not the first byte, as \<open>systemd-escape -p\<close>
  does; the code escapes them.
\<close>

lemma systemdEscapePath_dot: "systemdEscapePath ''/a.b'' = [CHR ''a'', CHR 0x5C] @ ''x2eb''"
  by code_simp

end
