(* ===== verification/StagesCore.thy ===== *)
theory StagesCore
  imports OpenShift
begin

text \<open>
  The stages \<open>register-cluster\<close>, \<open>finalize\<close>, \<open>ensure-cluster-dir\<close>, \<open>upsert-dns\<close>, \<open>create-network\<close>,
  \<open>generate-ssh-key\<close> and \<open>download-binaries\<close> (\<open>src/stages\<close>), and the locale \<open>idempotent_stage\<close>:
  what "\<open>Apply\<close> must tolerate retry" means for a stage that is already done.
\<close>

section \<open>register-cluster\<close>

text \<open>The scan over \<open>sc.Config.Clusters\<close> for a cluster of the same name.\<close>

definition is_registered :: "mem \<Rightarrow> string \<Rightarrow> bool" where
  "is_registered m n \<longleftrightarrow> list_ex (\<lambda>q. cName (heap m q) = n) (Clusters m)"

definition registercluster_Apply :: "'x rt \<Rightarrow> ('x sys) action" where
  "registercluster_Apply rt r m =
     (if is_registered m (cName (heap m r)) then io_ret (None, m)
      else save_mem rt ((set_cluster r (cState_update (\<lambda>_. ClusterStateCreating)) m)\<lparr>Clusters := Clusters m @ [r]\<rparr>))"

fun remove_named :: "mem \<Rightarrow> string \<Rightarrow> nat list \<Rightarrow> nat list" where
  "remove_named m n [] = []"
| "remove_named m n (q # qs) = (if cName (heap m q) = n then qs else q # remove_named m n qs)"

definition registercluster_Rollback :: "'x rt \<Rightarrow> ('x sys) action" where
  "registercluster_Rollback rt r m =
     save_mem rt (m\<lparr>Clusters := remove_named m (cName (heap m r)) (Clusters m)\<rparr>)"

definition registercluster :: "'x rt \<Rightarrow> ('x sys) stage" where
  "registercluster rt =
     \<lparr>Name = ''register-cluster'', Apply = registercluster_Apply rt,
      Rollback = registercluster_Rollback rt, Preflight = None\<rparr>"

section \<open>finalize\<close>

definition finalize_Apply :: "'x rt \<Rightarrow> ('x sys) action" where
  "finalize_Apply rt r m = save_mem rt (set_cluster r (cState_update (\<lambda>_. ClusterStateRunning)) m)"

definition finalize_Rollback :: "'x rt \<Rightarrow> ('x sys) action" where
  "finalize_Rollback rt r m = save_mem rt (set_cluster r (cState_update (\<lambda>_. ClusterStateCreating)) m)"

definition finalize :: "'x rt \<Rightarrow> ('x sys) stage" where
  "finalize rt =
     \<lparr>Name = ''finalize'', Apply = finalize_Apply rt, Rollback = finalize_Rollback rt, Preflight = None\<rparr>"

section \<open>ensure-cluster-dir\<close>

definition ensureclusterdir_Apply :: "'x rt \<Rightarrow> ('x sys) action" where
  "ensureclusterdir_Apply rt r m = keep_mem m (os_mkdirall rt (sc_ClusterDir m (heap m r)))"

definition ensureclusterdir_Rollback :: "'x rt \<Rightarrow> ('x sys) action" where
  "ensureclusterdir_Rollback rt r m = keep_mem m (os_removeall rt (sc_ClusterDir m (heap m r)))"

definition ensureclusterdir :: "'x rt \<Rightarrow> ('x sys) stage" where
  "ensureclusterdir rt =
     \<lparr>Name = ''ensure-cluster-dir'', Apply = ensureclusterdir_Apply rt,
      Rollback = ensureclusterdir_Rollback rt, Preflight = None\<rparr>"

section \<open>upsert-dns\<close>

definition upsertdns_Preflight :: "'x rt \<Rightarrow> nat \<Rightarrow> mem \<Rightarrow> ('x sys, error option) io" where
  "upsertdns_Preflight rt r m =
     (let c = heap m r in
      if cDNSProvider c = [] then io_ret None else EnsureDNSToken rt (ConfigDir m) (cDNSProvider c))"

definition upsertdns_Apply :: "'s dns_manager \<Rightarrow> 's action" where
  "upsertdns_Apply dns r m =
     (let c = heap m r in
      if cDNSProvider c = [] then io_ret (None, m)
      else keep_mem m (Dm_Upsert dns (DNSZoneOrDomain c) (FQDN c) (cMasterIP c)))"

definition upsertdns_Rollback :: "'s dns_manager \<Rightarrow> 's action" where
  "upsertdns_Rollback dns r m =
     (let c = heap m r in
      if cDNSProvider c = [] then io_ret (None, m)
      else keep_mem m (Dm_Delete dns (DNSZoneOrDomain c) (FQDN c)))"

definition upsertdns :: "'x rt \<Rightarrow> ('x sys) dns_manager \<Rightarrow> ('x sys) stage" where
  "upsertdns rt dns =
     \<lparr>Name = ''upsert-dns'', Apply = upsertdns_Apply dns, Rollback = upsertdns_Rollback dns,
      Preflight = Some (upsertdns_Preflight rt)\<rparr>"

section \<open>create-network\<close>

definition firstOrEmpty :: "string list \<Rightarrow> string" where
  "firstOrEmpty ss = (case ss of s # _ \<Rightarrow> s | [] \<Rightarrow> [])"

definition masterReservation :: "cluster_config \<Rightarrow> dhcp_host" where
  "masterReservation c =
     \<lparr>hMAC = firstOrEmpty (cMACAddresses c), hIP = PrimaryMasterIP c, hHostname = ''master-0-'' @ cName c\<rparr>"

definition shared_network_spec :: network_spec where
  "shared_network_spec = \<lparr>nsName = SharedNATNetwork, nsBridge = [], nsSubnet = BaseNetworkRange, nsDomain = []\<rparr>"

definition createnetwork_Preflight :: "'s network_provisioner \<Rightarrow> 's vm_manager \<Rightarrow> nat \<Rightarrow> mem \<Rightarrow>
    ('s, error option) io" where
  "createnetwork_Preflight net vm r m =
     (if cNetworkMode (heap m r) \<noteq> NetworkModeNAT then io_ret None
      else io_seq (VM_CheckAccess vm) (case Net_Preflight net of Some p \<Rightarrow> p | None \<Rightarrow> io_ret None))"

definition createnetwork_Apply :: "'s network_provisioner \<Rightarrow> 's action" where
  "createnetwork_Apply net r m =
     (let c = heap m r in
      if cNetworkMode c \<noteq> NetworkModeNAT then io_ret (None, m)
      else act_check m (Net_EnsureNetwork net shared_network_spec)
             (keep_mem m (Net_AddHost net SharedNATNetwork (masterReservation c))))"

definition createnetwork_Rollback :: "'s network_provisioner \<Rightarrow> 's action" where
  "createnetwork_Rollback net r m =
     (let c = heap m r in
      if cNetworkMode c \<noteq> NetworkModeNAT then io_ret (None, m)
      else keep_mem m (Net_RemoveHost net SharedNATNetwork (masterReservation c)))"

definition createnetwork :: "'s network_provisioner \<Rightarrow> 's vm_manager \<Rightarrow> 's stage" where
  "createnetwork net vm =
     \<lparr>Name = ''create-network'', Apply = createnetwork_Apply net, Rollback = createnetwork_Rollback net,
      Preflight = Some (createnetwork_Preflight net vm)\<rparr>"

section \<open>generate-ssh-key\<close>

definition ssh_key_path :: "mem \<Rightarrow> cluster_config \<Rightarrow> string" where
  "ssh_key_path m c = path_join [sc_ClusterDir m c, ''id_rsa'']"

definition generatesshkey_Preflight :: "'s host_inspector \<Rightarrow> nat \<Rightarrow> mem \<Rightarrow> ('s, error option) io" where
  "generatesshkey_Preflight host r m = Ho_LookPath host ''ssh-keygen''"

definition generatesshkey_Apply :: "'x rt \<Rightarrow> ('x sys) command_runner \<Rightarrow> ('x sys) action" where
  "generatesshkey_Apply rt cmd r m =
     (let keyPath = ssh_key_path m (heap m r) in
      io_bind (os_exists rt keyPath) (\<lambda>b.
        if b then io_ret (None, m)
        else keep_mem m (io_bind (Cmd_Run cmd ''ssh-keygen''
               [''-t'', ''rsa'', ''-b'', ''4096'', ''-f'', keyPath, ''-N'', [], ''-q'']) (\<lambda>(_, e). io_ret e))))"

definition generatesshkey_Rollback :: "'x rt \<Rightarrow> ('x sys) action" where
  "generatesshkey_Rollback rt r m =
     (let keyPath = ssh_key_path m (heap m r) in
      io_bind (os_remove rt keyPath) (\<lambda>_. io_bind (os_remove rt (keyPath @ ''.pub'')) (\<lambda>_. io_ret (None, m))))"

definition generatesshkey :: "'x rt \<Rightarrow> ('x sys) command_runner \<Rightarrow> ('x sys) host_inspector \<Rightarrow> ('x sys) stage" where
  "generatesshkey rt cmd host =
     \<lparr>Name = ''generate-ssh-key'', Apply = generatesshkey_Apply rt cmd,
      Rollback = generatesshkey_Rollback rt, Preflight = Some (generatesshkey_Preflight host)\<rparr>"

section \<open>download-binaries\<close>

definition downloadTarball :: "'x rt \<Rightarrow> ('x sys) downloader \<Rightarrow> ('x sys) command_runner \<Rightarrow> string \<Rightarrow> string \<Rightarrow>
    ('x sys, error option) io" where
  "downloadTarball rt dl cmd url destDir =
     (let tmp = path_join [destDir, ''_download.tar.gz''] in
      io_seq (Dl_Download dl url tmp)
        (io_bind (run_checked cmd ''extract %s: %w'' [tmp] ''tar'' [''xzf'', tmp, ''-C'', destDir]) (\<lambda>e.
           io_bind (os_remove rt tmp) (\<lambda>_. io_ret e))))"

text \<open>\<open>if _, err := os.Stat(p); err != nil { ... }\<close>: the effect only when the file is missing.\<close>

definition unless_exists :: "'x rt \<Rightarrow> string \<Rightarrow> ('x sys, error option) io \<Rightarrow> ('x sys, error option) io" where
  "unless_exists rt p a = io_bind (os_exists rt p) (\<lambda>b. if b then io_ret None else a)"

definition downloadbinaries_Preflight :: "'s host_inspector \<Rightarrow> nat \<Rightarrow> mem \<Rightarrow> ('s, error option) io" where
  "downloadbinaries_Preflight host r m = Ho_LookPath host ''tar''"

definition downloadbinaries_Apply :: "'x rt \<Rightarrow> ('x sys) downloader \<Rightarrow> ('x sys) command_runner \<Rightarrow> ('x sys) action" where
  "downloadbinaries_Apply rt dl cmd r m =
     (let v = cOCPVersion (heap m r);
          binDir = BinariesDir (ConfigDir m) v;
          plat = HostClientPlatform (GOOS rt) (GOARCH rt);
          arch = PayloadArch (GOARCH rt);
          coreosPath = path_join [binDir, ''coreos-installer'']
      in keep_mem m
       (io_seq (os_mkdirall rt binDir)
         (io_seq (unless_exists rt (path_join [binDir, ''openshift-install''])
             (wrap_err ''download openshift-install: %w'' []
               (downloadTarball rt dl cmd (OCPClientURL arch v (InstallClientTarball plat)) binDir)))
           (io_seq (unless_exists rt (path_join [binDir, ''oc''])
               (wrap_err ''download oc: %w'' []
                 (downloadTarball rt dl cmd (OCPClientURL arch v (OCClientTarball plat)) binDir)))
             (if GOOS rt \<noteq> ''darwin'' then
                unless_exists rt coreosPath
                  (io_seq (wrap_err ''download coreos-installer: %w'' [] (Dl_Download dl CoreOSInstallerURL coreosPath))
                    (run_checked cmd ''chmod coreos-installer: %w'' [] ''chmod'' [''+x'', coreosPath]))
              else io_ret None)))))"

text \<open>\<open>Rollback\<close> of the stages that only fill shared caches.\<close>

definition no_rollback :: "'s action" where
  "no_rollback r m = io_ret (None, m)"

definition downloadbinaries :: "'x rt \<Rightarrow> ('x sys) downloader \<Rightarrow> ('x sys) command_runner \<Rightarrow>
    ('x sys) host_inspector \<Rightarrow> ('x sys) stage" where
  "downloadbinaries rt dl cmd host =
     \<lparr>Name = ''download-binaries'', Apply = downloadbinaries_Apply rt dl cmd, Rollback = no_rollback,
      Preflight = Some (downloadbinaries_Preflight host)\<rparr>"

section \<open>The contract of a retried stage\<close>

text \<open>
  \<open>ready m x\<close>: the outcome of the stage is there. Applying the stage successfully establishes it,
  and applying it where it holds succeeds and changes neither the memory nor the files.
\<close>

locale idempotent_stage =
  fixes app :: "('x sys) action" and r :: nat and ready :: "mem \<Rightarrow> 'x sys \<Rightarrow> bool"
  assumes apply_ready: "res (app r m) x = (None, m') \<Longrightarrow> ready m' (after (app r m) x)"
    and ready_noop: "ready m x \<Longrightarrow> res (app r m) x = (None, m) \<and> files (after (app r m) x) = files x"
    and ready_files: "ready m x \<Longrightarrow> files y = files x \<Longrightarrow> ready m y"
begin

lemma retry_noop:
  assumes "res (app r m) x = (None, m')" "files y = files (after (app r m) x)"
  shows "res (app r m') y = (None, m') \<and> files (after (app r m') y) = files y"
  using apply_ready [OF assms(1)] ready_files [OF _ assms(2)] ready_noop by blast

lemma retry_many:
  assumes "res (app r m) x = (None, m')"
  shows "files (((\<lambda>y. after (app r m') y) ^^ n) (after (app r m) x)) = files (after (app r m) x) \<and>
    ready m' (((\<lambda>y. after (app r m') y) ^^ n) (after (app r m) x))"
proof (induction n)
  case 0
  then show ?case using apply_ready [OF assms] by simp
next
  case (Suc n)
  let ?y = "((\<lambda>y. after (app r m') y) ^^ n) (after (app r m) x)"
  have "files (after (app r m') ?y) = files ?y" using Suc ready_noop by blast
  moreover have "ready m' (after (app r m') ?y)" using Suc ready_files calculation by blast
  ultimately show ?case using Suc by simp
qed

end

lemma is_registered_iff: "is_registered m n \<longleftrightarrow> n \<in> (\<lambda>q. cName (heap m q)) ` set (Clusters m)"
  by (auto simp: is_registered_def list_ex_iff)

interpretation register_stage: idempotent_stage "registercluster_Apply rt" r "\<lambda>m x. is_registered m (cName (heap m r))"
  by unfold_locales (auto simp: registercluster_Apply_def is_registered_def list_ex_iff set_cluster_def
      split: if_splits)

end
