(* ===== verification/StagesBoot.thy ===== *)
theory StagesBoot
  imports StagesCore
begin

text \<open>
  The stages that prepare and start the master VM: \<open>bake-image-store\<close>, \<open>download-rhcos\<close>,
  \<open>generate-ignition\<close>, \<open>embed-ignition-iso\<close>, \<open>publish-pxe-assets\<close> and \<open>create-master-vms\<close>.

  \<open>compress/gzip\<close> is the parameter \<open>gz\<close>: the decompressed bytes of a stream or its error.
\<close>

section \<open>bake-image-store\<close>

definition bakeimagestore_spec :: "'x rt \<Rightarrow> mem \<Rightarrow> cluster_config \<Rightarrow> bake_spec" where
  "bakeimagestore_spec rt m c =
     \<lparr>bsVersion = cOCPVersion c, bsOCBinaryPath = sc_OCBinaryPath m c,
      bsPullSecretPath = PullSecretPath (ConfigDir m),
      bsOverlayDir = ImageStoreOverlayDir (ConfigDir m) (cOCPVersion c),
      bsOutputDiskPath = ImageStoreDiskPath (GOOS rt) (ConfigDir m) (cOCPVersion c)\<rparr>"

definition bakeToolHint :: "string \<Rightarrow> string" where
  "bakeToolHint goos =
     (if goos = ''darwin'' then ''brew install skopeo e2fsprogs''
      else ''install skopeo and guestfs-tools (Fedora/RHEL) or skopeo + libguestfs-tools (Debian/Ubuntu)'')"

fun mke2fsPresent :: "'x rt \<Rightarrow> ('x sys) host_inspector \<Rightarrow> string list \<Rightarrow> ('x sys, bool) io" where
  "mke2fsPresent rt host [] = io_ret False"
| "mke2fsPresent rt host (c # cs) =
     (if contains c ''/'' then
        io_bind (os_exists rt c) (\<lambda>b. if b then io_ret True else mke2fsPresent rt host cs)
      else
        io_bind (Ho_LookPath host c) (\<lambda>e. if e = None then io_ret True else mke2fsPresent rt host cs))"

definition need_tool :: "'x rt \<Rightarrow> ('x sys) host_inspector \<Rightarrow> string \<Rightarrow> ('x sys, error option) io" where
  "need_tool rt host tool =
     wrap_err (''--bake-images needs %q on PATH: %w'' @ nl @ ''  hint: %s'')
       [quoted tool, bakeToolHint (GOOS rt)] (Ho_LookPath host tool)"

definition bakeimagestore_Preflight :: "'x rt \<Rightarrow> ('x sys) image_baker \<Rightarrow> ('x sys) host_inspector \<Rightarrow>
    nat \<Rightarrow> mem \<Rightarrow> ('x sys, error option) io" where
  "bakeimagestore_Preflight rt baker host r m =
     (let c = heap m r in
      if \<not> cBakeImages c then io_ret None
      else io_bind (Bk_Ready baker (bakeimagestore_spec rt m c)) (\<lambda>(ready, err).
        if err = None \<and> ready then io_ret None
        else io_seq (ValidatePullSecretJSON rt (ConfigDir m))
          (io_seq (need_tool rt host ''skopeo'')
            (if GOOS rt = ''darwin'' then
               io_bind (mke2fsPresent rt host MKE2FSCandidates) (\<lambda>b. io_ret
                 (if b then None
                  else Some (Errorf (''--bake-images needs mke2fs (none of %v found)'' @ nl @ ''  hint: %s'')
                         [strs_text MKE2FSCandidates, bakeToolHint (GOOS rt)])))
             else need_tool rt host ''virt-make-fs''))))"

definition bakeimagestore_Apply :: "'x rt \<Rightarrow> ('x sys) image_baker \<Rightarrow> ('x sys) action" where
  "bakeimagestore_Apply rt baker r m =
     (let c = heap m r; spec = bakeimagestore_spec rt m c in
      if \<not> cBakeImages c then io_ret (None, m)
      else io_bind (Bk_Ready baker spec) (\<lambda>(ready, err). case err of
        Some e \<Rightarrow> io_ret (Some (Wrapf ''probe baked image store: %w'' [] e), m)
      | None \<Rightarrow>
          if ready then io_ret (None, m)
          else act_check m (os_mkdirall rt (ImageStoreCacheDir (ConfigDir m) (cOCPVersion c)))
                 (keep_mem m (Bk_Bake baker spec))))"

definition bakeimagestore :: "'x rt \<Rightarrow> ('x sys) image_baker \<Rightarrow> ('x sys) host_inspector \<Rightarrow> ('x sys) stage" where
  "bakeimagestore rt baker host =
     \<lparr>Name = ''bake-image-store'', Apply = bakeimagestore_Apply rt baker, Rollback = no_rollback,
      Preflight = Some (bakeimagestore_Preflight rt baker host)\<rparr>"

section \<open>download-rhcos\<close>

text \<open>\<open>binary.LittleEndian.Uint32\<close> of four bytes.\<close>

definition le32 :: "string \<Rightarrow> 32 word" where
  "le32 b = word_of_nat (of_char (b ! 0) + 256 * of_char (b ! 1) + 65536 * of_char (b ! 2) + 16777216 * of_char (b ! 3))"

definition slice :: "nat \<Rightarrow> nat \<Rightarrow> string \<Rightarrow> string" where
  "slice i j dat = take (j - i) (drop i dat)"

definition gunzip :: "(string \<Rightarrow> string result) \<Rightarrow> string \<Rightarrow> string result" where
  "gunzip gz b = map_sum (Wrapf ''gunzip kernel: %w'' []) id (gz b)"

text \<open>
  The slice bounds are 32-bit words, so \<open>off+size\<close> wraps around; a slice whose end lies before
  its start panics.
\<close>

definition uncompressKernel :: "(string \<Rightarrow> string result) \<Rightarrow> string \<Rightarrow> string result" where
  "uncompressKernel gz dat =
     (if length dat > 0x38 \<and> dat ! 0 = CHR ''M'' \<and> dat ! 1 = CHR ''Z'' \<and> slice 4 8 dat = ''zimg'' then
        (let off = le32 (slice 8 12 dat); size = le32 (slice 12 16 dat);
             comp = trim_right_by (\<lambda>c. c = CHR 0x00) (slice 0x18 0x38 dat)
         in if unat off + unat size > length dat then
              Inl (Errorf ''zboot payload [%d:%d] exceeds file size %d''
                     [nat_str (unat off), nat_str (unat off + unat size), nat_str (length dat)])
            else if unat (off + size) < unat off then
              Inl (ExtErr ''panic: slice bounds out of range'')
            else (let payload = slice (unat off) (unat (off + size)) dat in
              if comp = ''gzip'' then gunzip gz payload
              else Inl (Errorf ''unsupported zboot kernel compression %q'' [quoted comp])))
      else if length dat \<ge> 2 \<and> dat ! 0 = CHR 0x1F \<and> dat ! 1 = CHR 0x8B then gunzip gz dat
      else Inr dat)"

definition downloadrhcos_ISO :: "'x rt \<Rightarrow> ('x sys) installer \<Rightarrow> ('x sys) downloader \<Rightarrow> nat \<Rightarrow> mem \<Rightarrow>
    ('x sys, error option) io" where
  "downloadrhcos_ISO rt inst dl r m =
     (let c = heap m r; dest = sc_RHCOSLiveISOPath m c in
      unless_exists rt dest
        (io_bind (In_CoreOSLiveISOURL inst (sc_InstallerSpec rt m c)) (\<lambda>u. case u of
           Inl e \<Rightarrow> io_ret (Some (Wrapf ''determine RHCOS live ISO url: %w'' [] e))
         | Inr url \<Rightarrow> Dl_Download dl url dest)))"

definition downloadKernel :: "'x rt \<Rightarrow> (string \<Rightarrow> string result) \<Rightarrow> ('x sys) downloader \<Rightarrow> string \<Rightarrow> string \<Rightarrow>
    ('x sys, error option) io" where
  "downloadKernel rt gz dl url dst =
     (let tmp = dst @ ''.download'' in
      io_seq (Dl_Download dl url tmp)
        (io_bind
          (io_bind (os_read_bytes rt tmp) (\<lambda>d. case d of
             Inl e \<Rightarrow> io_ret (Some e)
           | Inr dat \<Rightarrow>
               (case uncompressKernel gz dat of
                  Inl e \<Rightarrow> io_ret (Some e)
                | Inr raw \<Rightarrow> os_write rt dst (Raw raw))))
          (\<lambda>e. io_bind (os_remove rt tmp) (\<lambda>_. io_ret e))))"

fun download_missing :: "'x rt \<Rightarrow> ('x sys) downloader \<Rightarrow> (string \<times> string) list \<Rightarrow> ('x sys, error option) io" where
  "download_missing rt dl [] = io_ret None"
| "download_missing rt dl ((url, dst) # ds) =
     io_seq (unless_exists rt dst (wrap_err ''download %s: %w'' [path_base dst] (Dl_Download dl url dst)))
       (download_missing rt dl ds)"

definition downloadrhcos_PXE :: "'x rt \<Rightarrow> (string \<Rightarrow> string result) \<Rightarrow> ('x sys) installer \<Rightarrow> ('x sys) downloader \<Rightarrow>
    nat \<Rightarrow> mem \<Rightarrow> ('x sys, error option) io" where
  "downloadrhcos_PXE rt gz inst dl r m =
     (let c = heap m r; kernel = sc_RHCOSKernelPath m c; initramfs = sc_RHCOSInitramfsPath m c;
          rootfs = sc_RHCOSRootfsPath m c
      in io_bind (os_exists rt kernel) (\<lambda>k.
         io_bind (if k then os_exists rt initramfs else io_ret False) (\<lambda>i.
         io_bind (if i then os_exists rt rootfs else io_ret False) (\<lambda>b.
         if b then io_ret None
         else io_bind (In_CoreOSLivePXEURLs inst (sc_InstallerSpec rt m c)) (\<lambda>p. case p of
           Inl e \<Rightarrow> io_ret (Some (Wrapf ''determine RHCOS live PXE urls: %w'' [] e))
         | Inr pxe \<Rightarrow>
             io_seq (os_mkdirall rt (path_dir kernel))
              (io_seq (download_missing rt dl [(pxeInitramfsURL pxe, initramfs), (pxeRootfsURL pxe, rootfs)])
                (unless_exists rt kernel
                  (wrap_err ''download kernel: %w'' [] (downloadKernel rt gz dl (pxeKernelURL pxe) kernel)))))))))"

definition downloadrhcos_Apply :: "'x rt \<Rightarrow> (string \<Rightarrow> string result) \<Rightarrow> ('x sys) installer \<Rightarrow> ('x sys) downloader \<Rightarrow>
    ('x sys) action" where
  "downloadrhcos_Apply rt gz inst dl r m =
     keep_mem m (if GOOS rt = ''darwin'' then downloadrhcos_PXE rt gz inst dl r m
                 else downloadrhcos_ISO rt inst dl r m)"

definition downloadrhcos :: "'x rt \<Rightarrow> (string \<Rightarrow> string result) \<Rightarrow> ('x sys) installer \<Rightarrow> ('x sys) downloader \<Rightarrow>
    ('x sys) stage" where
  "downloadrhcos rt gz inst dl =
     \<lparr>Name = ''download-rhcos'', Apply = downloadrhcos_Apply rt gz inst dl, Rollback = no_rollback,
      Preflight = None\<rparr>"

section \<open>generate-ignition\<close>

fun dns_problems :: "'s dns_resolver \<Rightarrow> string \<Rightarrow> string list \<Rightarrow> ('s, string list) io" where
  "dns_problems dns ip [] = io_ret []"
| "dns_problems dns ip (n # ns) =
     io_bind (Dns_Resolve dns n) (\<lambda>r. io_bind (dns_problems dns ip ns) (\<lambda>ps. io_ret (case r of
       Inl e \<Rightarrow> (n @ '': lookup failed: '' @ error_text e) # ps
     | Inr ips \<Rightarrow>
         if ips = [] then (n @ '': no records'') # ps
         else if ip \<notin> set ips then (n @ '': resolves to '' @ strs_text ips @ '', want '' @ ip) # ps
         else ps)))"

definition dns_report :: "string \<Rightarrow> string \<Rightarrow> string list \<Rightarrow> string" where
  "dns_report fqdn ip problems =
     unlines ([''bridge-mode DNS is not configured correctly:''] @ map (\<lambda>p. ''  - '' @ p) problems @
       [''create these records (all pointing at the master IP) on your DNS server, then retry:'',
        ''    api.'' @ fqdn @ ''.'' @ tab @ ''A'' @ tab @ ip,
        ''    api-int.'' @ fqdn @ ''.'' @ tab @ ''A'' @ tab @ ip,
        ''    *.apps.'' @ fqdn @ ''.'' @ tab @ ''A'' @ tab @ ip,
        ''optional but recommended (OpenShift docs): also add a PTR record so any node-discovery '' @
          ''/ cert-validation paths work; easyshift bakes the hostname so this is not strictly required:'',
        ''    PTR for '' @ ip @ '' -> master-0.'' @ fqdn @ ''.''])"

definition checkBridgeModeDNS :: "'s dns_resolver \<Rightarrow> cluster_config \<Rightarrow> ('s, error option) io" where
  "checkBridgeModeDNS dns c =
     io_bind (dns_problems dns (cMasterIP c) (ClusterDNSNames (FQDN c))) (\<lambda>ps. io_ret
       (if ps = [] then None else Some (ExtErr (dns_report (FQDN c) (cMasterIP c) ps))))"

definition generateignition_Preflight :: "'x rt \<Rightarrow> ('x sys) dns_resolver \<Rightarrow> ('x sys) host_inspector \<Rightarrow>
    nat \<Rightarrow> mem \<Rightarrow> ('x sys, error option) io" where
  "generateignition_Preflight rt dns host r m =
     (let c = heap m r in
      io_seq (ValidatePullSecretJSON rt (ConfigDir m))
       (if cNetworkMode c = NetworkModeBridge \<and> cDNSProvider c = [] \<and> cMagicDNS c = [] then
          io_seq (wrap_err (''DNS preflight needs `dig`: %w'' @ nl @
                     ''  hint: install bind-utils (Fedora/RHEL) or dnsutils (Debian/Ubuntu)'') []
                    (Ho_LookPath host ''dig''))
            (checkBridgeModeDNS dns c)
        else io_ret None))"

definition generateignition_Apply :: "'x rt \<Rightarrow> ('x sys) installer \<Rightarrow> ('x sys) action" where
  "generateignition_Apply rt inst r m =
     (let c = heap m r in
      act_bind m (ReadPullSecret rt (ConfigDir m)) (\<lambda>pullSecret.
      act_bind m (wrap_res ''read ssh public key: %w'' [] (os_read_bytes rt (path_join [sc_ClusterDir m c, ''id_rsa.pub''])))
        (\<lambda>pubKey.
           let spec = (sc_InstallerSpec rt m c)\<lparr>isPullSecret := pullSecret, isSSHPublicKey := pubKey\<rparr> in
           keep_mem m
            (io_seq (In_WriteInstallConfig inst spec)
             (io_seq (if GOOS rt = ''darwin'' \<or> cBakeImages c then In_CreateManifests inst spec else io_ret None)
              (io_seq (if GOOS rt = ''darwin'' then In_WriteRosettaManifest inst spec else io_ret None)
               (io_seq (if cBakeImages c then In_WriteImageStoreManifest inst spec else io_ret None)
                (In_CreateSingleNodeIgnition inst spec))))))))"

fun remove_files :: "'x rt \<Rightarrow> string list \<Rightarrow> ('x sys, unit) io" where
  "remove_files rt [] = io_ret ()"
| "remove_files rt (p # ps) = io_bind (os_remove rt p) (\<lambda>_. remove_files rt ps)"

definition generateignition_Rollback :: "'x rt \<Rightarrow> ('x sys) action" where
  "generateignition_Rollback rt r m =
     io_bind (remove_files rt (map (\<lambda>n. path_join [sc_ClusterDir m (heap m r), n])
       [''install-config.yaml'', ''bootstrap-in-place-for-live-iso.ign'', ''master.ign'', ''worker.ign'',
        ''bootstrap.ign'', ''metadata.json'', path_join [''openshift'', ''99-master-baked-image-store.yaml'']]))
      (\<lambda>_. io_ret (None, m))"

definition generateignition :: "'x rt \<Rightarrow> ('x sys) installer \<Rightarrow> ('x sys) dns_resolver \<Rightarrow> ('x sys) host_inspector \<Rightarrow>
    ('x sys) stage" where
  "generateignition rt inst dns host =
     \<lparr>Name = ''generate-ignition'', Apply = generateignition_Apply rt inst,
      Rollback = generateignition_Rollback rt, Preflight = Some (generateignition_Preflight rt dns host)\<rparr>"

section \<open>embed-ignition-iso\<close>

definition embedignitioniso_Preflight :: "'s vm_manager \<Rightarrow> nat \<Rightarrow> mem \<Rightarrow> ('s, error option) io" where
  "embedignitioniso_Preflight vm r m = VM_StoragePoolActive vm (cStoragePool (heap m r))"

definition embedignitioniso_Apply :: "'x rt \<Rightarrow> ('x sys) installer \<Rightarrow> ('x sys) vm_manager \<Rightarrow> ('x sys) action" where
  "embedignitioniso_Apply rt inst vm r m =
     (let c = heap m r; spec = sc_InstallerSpec rt m c;
          ignition = path_join [sc_ClusterDir m c, ''bootstrap-in-place-for-live-iso.ign''];
          loc = sc_MasterISOPath m c; keyfilePath = path_join [sc_ClusterDir m c, ''master.nmconnection'']
      in act_check m (if cBakeImages c then In_MergeImageStore inst spec ignition else io_ret None)
        (act_check m (In_EmbedIgnitionInISO inst spec (sc_RHCOSLiveISOPath m c) ignition loc)
         (case StaticNetworkKeyfile c of
            Inl e \<Rightarrow> io_ret (Some (Wrapf ''render static network keyfile: %w'' [] e), m)
          | Inr keyfile \<Rightarrow>
              act_check m (wrap_err ''write network keyfile: %w'' [] (os_write rt keyfilePath (Raw keyfile)))
               (act_check m (In_EmbedNetworkKeyfileInISO inst spec keyfilePath loc)
                (act_bind m (VM_ImportISO vm (cStoragePool c) (sc_MasterISOVolName c) loc) (\<lambda>volPath.
                   save_mem rt (set_cluster r (cBootISOVolPath_update (\<lambda>_. volPath)) m)))))))"

definition embedignitioniso_Rollback :: "'x rt \<Rightarrow> ('x sys) vm_manager \<Rightarrow> ('x sys) action" where
  "embedignitioniso_Rollback rt vm r m =
     (let c = heap m r in
      io_bind (VM_RemoveISO vm (cStoragePool c) (sc_MasterISOVolName c)) (\<lambda>_.
      io_bind (os_remove rt (sc_MasterISOPath m c)) (\<lambda>_.
        save_mem rt (set_cluster r (cBootISOVolPath_update (\<lambda>_. [])) m))))"

definition embedignitioniso :: "'x rt \<Rightarrow> ('x sys) installer \<Rightarrow> ('x sys) vm_manager \<Rightarrow> ('x sys) stage" where
  "embedignitioniso rt inst vm =
     \<lparr>Name = ''embed-ignition-iso'', Apply = embedignitioniso_Apply rt inst vm,
      Rollback = embedignitioniso_Rollback rt vm, Preflight = Some (embedignitioniso_Preflight vm)\<rparr>"

section \<open>publish-pxe-assets\<close>

definition KernelCmdline :: "string \<Rightarrow> string \<Rightarrow> string" where
  "KernelCmdline baseURL cluster =
     ''console=hvc0 coreos.live.rootfs_url='' @ baseURL @ ''/'' @ cluster @
     ''/rootfs.img ignition.firstboot ignition.platform.id=metal ignition.config.url='' @ baseURL @ ''/'' @ cluster @
     ''/config.ign''"

definition connID :: "cluster_config \<Rightarrow> string" where
  "connID c = ''master-0-'' @ cName c"

definition natKeyfile :: "cluster_config \<Rightarrow> string" where
  "natKeyfile c =
     (let gw = BaseNetworkRange @ ''.1'' in
      keyfile_text (connID c) (to_upper (PrimaryMasterMAC c)) (PrimaryMasterIP c @ ''/24,'' @ gw) (gw @ '';''))"

definition static_network_entry :: "cluster_config \<Rightarrow> json" where
  "static_network_entry c =
     JObj [(''path'', JStr (''/etc/NetworkManager/system-connections/'' @ connID c @ ''.nmconnection'')),
           (''mode'', JNum ''384''), (''overwrite'', JBool True),
           (''contents'', JObj [(''source'', JStr (''data:;base64,'' @ base64 (natKeyfile c)))])]"

text \<open>A document \<open>null\<close> leaves the map nil, and the assignment of \<open>storage\<close> panics.\<close>

definition injectStaticNetwork :: "string \<Rightarrow> cluster_config \<Rightarrow> string result" where
  "injectStaticNetwork ignition c =
     (case json_parse ignition of
        Some (JObj m) \<Rightarrow> Inr (json_text (JObj (append_under ''storage'' ''files'' (static_network_entry c) m)))
      | Some JNull \<Rightarrow> Inl (ExtErr ''panic: assignment to entry in nil map'')
      | _ \<Rightarrow> Inl (Wrapf ''parse ignition json: %w'' [] (ExtErr ''invalid JSON'')))"

definition copyFile :: "'x rt \<Rightarrow> string \<Rightarrow> string \<Rightarrow> ('x sys, error option) io" where
  "copyFile rt src dst =
     io_bind (os_read rt src) (\<lambda>r. case r of Inl e \<Rightarrow> io_ret (Some e) | Inr c \<Rightarrow> os_write rt dst c)"

definition publishpxeassets_Apply :: "'x rt \<Rightarrow> file_server \<Rightarrow> ('x sys) installer \<Rightarrow> ('x sys) action" where
  "publishpxeassets_Apply rt fs inst r m =
     (let c = heap m r; dstDir = path_join [Fs_RootDir fs, cName c]; ignPath = path_join [dstDir, ''config.ign'']
      in act_check m (wrap_err ''publish-pxe-assets: mkdir %s: %w'' [dstDir] (os_mkdirall rt dstDir))
        (act_check m (wrap_err ''publish rootfs: %w'' []
           (copyFile rt (sc_RHCOSRootfsPath m c) (path_join [dstDir, ''rootfs.img''])))
         (act_bind m (wrap_res ''read SNO ignition: %w'' []
            (os_read_bytes rt (path_join [sc_ClusterDir m c, ''bootstrap-in-place-for-live-iso.ign'']))) (\<lambda>ign.
          case injectStaticNetwork ign c of
            Inl e \<Rightarrow> io_ret (Some (Wrapf ''inject static network: %w'' [] e), m)
          | Inr merged \<Rightarrow>
              act_check m (wrap_err ''publish ignition: %w'' [] (os_write rt ignPath (Raw merged)))
               (act_check m (if cBakeImages c
                  then wrap_err ''merge image store into served ignition: %w'' []
                         (In_MergeImageStore inst (sc_InstallerSpec rt m c) ignPath)
                  else io_ret None)
                (io_ret (None,
                   set_cluster r (cInstallKernelCmdline_update (\<lambda>_. KernelCmdline (Fs_BaseURL fs) (cName c))) m)))))))"

definition publishpxeassets_Rollback :: "'x rt \<Rightarrow> file_server \<Rightarrow> ('x sys) action" where
  "publishpxeassets_Rollback rt fs r m =
     io_bind (os_removeall rt (path_join [Fs_RootDir fs, cName (heap m r)])) (\<lambda>_. io_ret (None, m))"

definition publishpxeassets :: "'x rt \<Rightarrow> file_server \<Rightarrow> ('x sys) installer \<Rightarrow> ('x sys) stage" where
  "publishpxeassets rt fs inst =
     \<lparr>Name = ''publish-pxe-assets'', Apply = publishpxeassets_Apply rt fs inst,
      Rollback = publishpxeassets_Rollback rt fs, Preflight = None\<rparr>"

section \<open>create-master-vms\<close>

definition hostMemoryReserveMiB :: "64 word" where "hostMemoryReserveMiB = 5120"

text \<open>The unsigned decimal of \<open>%d\<close> on a \<open>uint64\<close>.\<close>

definition word_str :: "64 word \<Rightarrow> string" where "word_str w = nat_str (unat w)"

text \<open>
  The scan over the other clusters: the total so far and the names of the running ones. A probe
  that fails counts as not running.
\<close>

fun memory_scan :: "'s vm_manager \<Rightarrow> string \<Rightarrow> cluster_config list \<Rightarrow> 64 word \<Rightarrow> string list \<Rightarrow>
    ('s, 64 word \<times> string list) io" where
  "memory_scan vm self [] tot running = io_ret (tot, running)"
| "memory_scan vm self (c # cs) tot running =
     (if cName c = self then memory_scan vm self cs tot running
      else io_bind (VM_IsRunning vm (''master-0-'' @ cName c)) (\<lambda>(up, err).
        if err \<noteq> None \<or> \<not> up then memory_scan vm self cs tot running
        else memory_scan vm self cs (tot + word_of_int (cMasterRAM c)) (running @ [cName c])))"

definition checkHostMemory :: "'s host_inspector \<Rightarrow> 's vm_manager \<Rightarrow> nat \<Rightarrow> mem \<Rightarrow> ('s, error option) io" where
  "checkHostMemory host vm r m =
     (let c = heap m r in
      io_bind (Ho_PhysicalMemoryBytes host) (\<lambda>phys. case phys of
        Inl _ \<Rightarrow> io_ret None
      | Inr physBytes \<Rightarrow>
          if physBytes = 0 then io_ret None
          else
            let physMiB = drop_bit 20 physBytes in
            io_bind (memory_scan vm (cName c) (cluster_list m) (word_of_int (cMasterRAM c)) []) (\<lambda>(totalMiB, running).
              io_ret (if totalMiB + hostMemoryReserveMiB \<le> physMiB then None
                else if running \<noteq> [] then
                  Some (Errorf (''not enough host memory: this master (%d MiB) plus running cluster(s) %v (%d MiB total) '' @
                     ''exceeds physical %d MiB minus the %d MiB host reserve; stop one first '' @
                     ''(e.g. `easyshift stop %s`) or lower --master-ram'')
                     [int_str (cMasterRAM c), strs_text running, word_str totalMiB, word_str physMiB,
                      word_str hostMemoryReserveMiB, hd running])
                else
                  Some (Errorf (''not enough host memory: --master-ram %d MiB exceeds physical %d MiB minus the %d MiB '' @
                     ''host reserve (max usable: %d MiB); lower --master-ram'')
                     [int_str (cMasterRAM c), word_str physMiB, word_str hostMemoryReserveMiB,
                      word_str (physMiB - hostMemoryReserveMiB)])))))"

definition bakeNote :: "bool \<Rightarrow> string" where
  "bakeNote baking = (if baking then '' (incl. baked image store)'' else [])"

definition disk_need :: "'x rt \<Rightarrow> nat \<Rightarrow> mem \<Rightarrow> ('x sys, 64 word) io" where
  "disk_need rt r m =
     (let c = heap m r; need = word_of_int (cMasterDiskGB c) * 1024 * 1024 * 1024 in
      if cBakeImages c \<and> GOOS rt \<noteq> ''darwin'' then
        io_bind (os_stat rt (ImageStoreDiskPath (GOOS rt) (ConfigDir m) (cOCPVersion c))) (\<lambda>n. io_ret (case n of
          Inl _ \<Rightarrow> need | Inr n \<Rightarrow> need + word_of_nat (content_size n)))
      else io_ret need)"

definition check_disk :: "'x rt \<Rightarrow> ('x sys) host_inspector \<Rightarrow> nat \<Rightarrow> mem \<Rightarrow> ('x sys, error option) io" where
  "check_disk rt host r m =
     io_bind (Ho_AvailableDiskBytes host (ConfigDir m)) (\<lambda>a. case a of
       Inl e \<Rightarrow> io_ret (Some (Wrapf ''query disk space at %s: %w'' [ConfigDir m] e))
     | Inr avail \<Rightarrow>
         io_bind (disk_need rt r m) (\<lambda>need. io_ret
           (if avail < need
            then Some (Errorf ''insufficient disk under %s: have %d GiB, need %d GiB for master disk%s''
                   [ConfigDir m, word_str (drop_bit 30 avail), word_str (drop_bit 30 need),
                    bakeNote (cBakeImages (heap m r))])
            else None)))"

definition check_bridge :: "'s host_inspector \<Rightarrow> cluster_config \<Rightarrow> ('s, error option) io" where
  "check_bridge host c =
     (if cNetworkMode c \<noteq> NetworkModeBridge then io_ret None
      else io_bind (Ho_InspectBridge host (cBridge c)) (\<lambda>b. io_ret (case b of
        Inl e \<Rightarrow> Some (Wrapf ''inspect bridge %s: %w'' [cBridge c] e)
      | Inr br \<Rightarrow>
          if \<not> brExists br then
            Some (Errorf (''bridge %q does not exist (or is not a Linux bridge) on this host; create it and enslave '' @
              ''your LAN interface before running easyshift'') [quoted (cBridge c)])
          else if brSlaves br = [] then
            Some (Errorf (''bridge %q exists but has no slave interfaces '' @ emdash @ '' VMs attached to it have no path '' @
              ''to the LAN; enslave your LAN NIC (e.g. `sudo nmcli con add type bridge-slave ifname <NIC> master %s`)'')
              [quoted (cBridge c), cBridge c])
          else if \<not> brUp br then
            Some (Errorf (''bridge %q is not up (operstate != '' @ [CHR 0x22] @ ''up'' @ [CHR 0x22] @
              '') with slaves %v; bring it up (e.g. `sudo ip link set %s up`)'')
              [quoted (cBridge c), strs_text (brSlaves br), cBridge c])
          else None)))"

definition createmastervms_Preflight :: "'x rt \<Rightarrow> ('x sys) vm_manager \<Rightarrow> ('x sys) host_inspector \<Rightarrow>
    nat \<Rightarrow> mem \<Rightarrow> ('x sys, error option) io" where
  "createmastervms_Preflight rt vm host r m =
     (let c = heap m r in
      io_seq (VM_CheckAccess vm)
       (io_seq (VM_StoragePoolActive vm (cStoragePool c))
        (io_seq (Ho_LookPath host (if GOOS rt = ''darwin'' then ''vfkit'' else ''virt-install''))
         (io_bind (Ho_HasCPUVirtualization host) (\<lambda>v. case v of
            Inl e \<Rightarrow> io_ret (Some (Wrapf ''detect cpu virtualization: %w'' [] e))
          | Inr hasVT \<Rightarrow>
              if \<not> hasVT then
                io_ret (Some (Errorf (''host CPU does not advertise vmx/svm '' @ emdash @
                  '' virtualization extensions are required'') []))
              else io_seq (checkHostMemory host vm r m)
                    (io_seq (check_disk rt host r m) (check_bridge host c)))))))"

fun macFor_loop :: "cluster_config \<Rightarrow> string \<Rightarrow> nat \<Rightarrow> string list \<Rightarrow> string" where
  "macFor_loop c role i [] = []"
| "macFor_loop c role i (mac # macs) =
     (if int i < cMasterCount c \<and> role = ''master-'' @ nat_str i then mac
      else if int i \<ge> cMasterCount c \<and> role = ''worker-'' @ int_str (int i - cMasterCount c) then mac
      else macFor_loop c role (Suc i) macs)"

definition macFor :: "cluster_config \<Rightarrow> string \<Rightarrow> string" where
  "macFor c role = macFor_loop c role 0 (cMACAddresses c)"

definition networkArgFor :: "cluster_config \<Rightarrow> string \<Rightarrow> string" where
  "networkArgFor c mac =
     (if cNetworkMode c = NetworkModeBridge then ''bridge='' @ cBridge c @ '',mac='' @ mac @ '',model=virtio''
      else ''network='' @ SharedNATNetwork @ '',mac='' @ mac @ '',model=virtio'')"

definition attachImageStore :: "'x rt \<Rightarrow> ('x sys) vm_manager \<Rightarrow> mem \<Rightarrow> cluster_config \<Rightarrow> string \<Rightarrow>
    ('x sys, extra_disk result) io" where
  "attachImageStore rt vm m c vmName =
     io_bind (VM_ImportDisk vm (cStoragePool c) (ImageStoreVolName (GOOS rt) vmName)
                (ImageStoreDiskPath (GOOS rt) (ConfigDir m) (cOCPVersion c))) (\<lambda>v. io_ret (case v of
       Inl e \<Rightarrow> Inl (Wrapf ''import baked image store into pool: %w'' [] e)
     | Inr volPath \<Rightarrow> Inr \<lparr>edPath = volPath, edReadOnly = True, edShareable = True\<rparr>))"

definition bake_disks :: "'x rt \<Rightarrow> ('x sys) vm_manager \<Rightarrow> mem \<Rightarrow> cluster_config \<Rightarrow> string \<Rightarrow>
    ('x sys, extra_disk list result) io" where
  "bake_disks rt vm m c vmName =
     (if cBakeImages c
      then io_bind (attachImageStore rt vm m c vmName) (\<lambda>d. io_ret (map_sum id (\<lambda>d. [d]) d))
      else io_ret (Inr []))"

definition odf_disks :: "'x rt \<Rightarrow> ('x sys) vm_manager \<Rightarrow> cluster_config \<Rightarrow> string \<Rightarrow> extra_disk list \<Rightarrow>
    ('x sys, extra_disk list result) io" where
  "odf_disks rt vm c vmName disks =
     (if cODF c
      then io_bind (VM_CreateDataDisk vm (cStoragePool c) (ODFVolName (GOOS rt) vmName) (cODFDiskGB c)) (\<lambda>p. io_ret (case p of
        Inl e \<Rightarrow> Inl (Wrapf ''create odf data disk: %w'' [] e)
      | Inr path \<Rightarrow> Inr (disks @ [\<lparr>edPath = path, edReadOnly = False, edShareable = False\<rparr>])))
      else io_ret (Inr disks))"

definition master_spec :: "'x rt \<Rightarrow> mem \<Rightarrow> cluster_config \<Rightarrow> string \<Rightarrow> string \<Rightarrow> extra_disk list \<Rightarrow> vm_spec" where
  "master_spec rt m c vmName mac disks =
     (let mac_os = (GOOS rt = ''darwin'') in
      \<lparr>vName = vmName, vMemoryMiB = cMasterRAM c, vVCPUs = cMasterCPUs c, vDiskSizeGiB = cMasterDiskGB c,
       vStoragePool = cStoragePool c, vMAC = mac,
       vNetworkArg = (if mac_os then [] else networkArgFor c mac),
       vBootISO = (if mac_os then [] else cBootISOVolPath c),
       vKernelArgs = (if mac_os then cInstallKernelCmdline c else []),
       vKernelPath = (if mac_os then sc_RHCOSKernelPath m c else []),
       vInitrdPath = (if mac_os then sc_RHCOSInitramfsPath m c else []),
       vExtraDisks = disks\<rparr>)"

definition createMasterVM :: "'x rt \<Rightarrow> ('x sys) vm_manager \<Rightarrow> mem \<Rightarrow> cluster_config \<Rightarrow> nat \<Rightarrow>
    ('x sys, error option) io" where
  "createMasterVM rt vm m c index =
     (let role = ''master-'' @ nat_str index; vmName = role @ ''-'' @ cName c; mac = macFor c role in
      io_bind (io_try (bake_disks rt vm m c vmName) (odf_disks rt vm c vmName)) (\<lambda>d. case d of
        Inl e \<Rightarrow> io_ret (Some e)
      | Inr disks \<Rightarrow> VM_Create vm (master_spec rt m c vmName mac disks)))"

fun create_masters :: "'x rt \<Rightarrow> ('x sys) vm_manager \<Rightarrow> mem \<Rightarrow> cluster_config \<Rightarrow> nat list \<Rightarrow> ('x sys, error option) io" where
  "create_masters rt vm m c [] = io_ret None"
| "create_masters rt vm m c (i # is) = io_seq (createMasterVM rt vm m c i) (create_masters rt vm m c is)"

definition createmastervms_Apply :: "'x rt \<Rightarrow> ('x sys) vm_manager \<Rightarrow> ('x sys) action" where
  "createmastervms_Apply rt vm r m =
     keep_mem m (create_masters rt vm m (heap m r) [0..<nat (cMasterCount (heap m r))])"

fun delete_masters :: "'s vm_manager \<Rightarrow> string \<Rightarrow> nat list \<Rightarrow> ('s, error option) io" where
  "delete_masters vm n [] = io_ret None"
| "delete_masters vm n (i # is) =
     io_seq (VM_Delete vm (''master-'' @ nat_str i @ ''-'' @ n)) (delete_masters vm n is)"

definition createmastervms_Rollback :: "'s vm_manager \<Rightarrow> 's action" where
  "createmastervms_Rollback vm r m =
     keep_mem m (delete_masters vm (cName (heap m r)) (rev [0..<nat (cMasterCount (heap m r))]))"

definition createmastervms :: "'x rt \<Rightarrow> ('x sys) vm_manager \<Rightarrow> ('x sys) host_inspector \<Rightarrow> ('x sys) stage" where
  "createmastervms rt vm host =
     \<lparr>Name = ''create-master-vms'', Apply = createmastervms_Apply rt vm,
      Rollback = createmastervms_Rollback vm, Preflight = Some (createmastervms_Preflight rt vm host)\<rparr>"

end
