(* ===== verification/Polling.thy ===== *)
theory Polling
  imports World
begin

text \<open>
  The polling loops of the source: probe, give up once the deadline has passed, otherwise wait
  and probe again. Each of them (\<open>verifymasterip.verify\<close>, \<open>odf.pollUntil\<close>, the waits of the
  providers) is an instance of \<open>poll_loop\<close>, whose probe either decides (\<open>Inr\<close>) or leaves what
  the code keeps for its report when it gives up (\<open>Inl\<close>, handed to the next probe). The loop is a total function because every round
  moves the clock towards the deadline.

  The locale \<open>deadline_loop\<close> collects what a client of such a loop may rely on.
\<close>

lemma pause_positive: "pause rt d s = (False, u, s') \<Longrightarrow> 0 < u"
  by (auto simp: pause_def split: prod.splits if_splits)

lemma pause_at_least: "pause rt d s = (False, u, s') \<Longrightarrow> d \<le> u"
  by (auto simp: pause_def split: prod.splits if_splits)

lemma pause_files [simp]: "files (after (pause rt d) s) = files s"
  by (auto simp: pause_def after_def split: prod.splits)

function poll_loop :: "'x rt \<Rightarrow> nat \<Rightarrow> nat \<Rightarrow> ('b \<Rightarrow> ('x sys, 'b + 'a) io) \<Rightarrow> ('b \<Rightarrow> 'a) \<Rightarrow> 'a \<Rightarrow> 'b \<Rightarrow> nat \<Rightarrow>
    'x sys \<Rightarrow> 'a \<times> nat \<times> 'x sys" where
  "poll_loop rt timeout interval probe give_up cancel b0 el s =
     (case probe b0 s of (v, t, s1) \<Rightarrow>
        (case v of
           Inr a \<Rightarrow> (a, t, s1)
         | Inl b \<Rightarrow>
             if timeout \<le> el + t then (give_up b, t, s1)
             else (case pause rt interval s1 of (c, u, s2) \<Rightarrow>
               if c then (cancel, t + u, s2)
               else (case poll_loop rt timeout interval probe give_up cancel b (el + t + u) s2 of
                       (a, w, s3) \<Rightarrow> (a, t + u + w, s3)))))"
  by pat_completeness auto

termination
  by (relation "measure (\<lambda>(rt, timeout, interval, probe, g, c, b, el, s). timeout - el)")
    (auto dest!: pause_positive [OF sym])

declare poll_loop.simps [simp del]

locale deadline_loop =
  fixes rt :: "'x rt" and probe :: "'b \<Rightarrow> ('x sys, 'b + 'a) io"
    and inv :: "'x sys \<Rightarrow> bool" and good :: "'a \<Rightarrow> bool"
  assumes probe_inv: "inv s \<Longrightarrow> inv (after (probe b) s)"
    and pause_inv: "inv s \<Longrightarrow> inv (after (pause rt d) s)"
    and probe_good: "inv s \<Longrightarrow> res (probe b) s = Inr a \<Longrightarrow> good a"
begin

text \<open>The result was decided by a probe, or the loop gave up or was cancelled.\<close>

lemma loop_result:
  "inv s \<Longrightarrow> poll_loop rt timeout interval probe give_up cancel b0 el s = (a, w, s') \<Longrightarrow>
     inv s' \<and> (good a \<or> a = cancel \<or> (\<exists>b. a = give_up b \<and> timeout \<le> el + w))"
proof (induction "timeout - el" arbitrary: b0 el s a w s' rule: less_induct)
  case less
  obtain v t s1 where p: "probe b0 s = (v, t, s1)" by (cases "probe b0 s")
  then have i1: "inv s1" and g: "\<And>x. v = Inr x \<Longrightarrow> good x"
    using probe_inv [OF less.prems(1), of b0] probe_good [OF less.prems(1), of b0] by (simp_all add: after_def res_def)
  show ?case
  proof (cases v)
    case (Inr x)
    with less.prems(2) p g i1 show ?thesis by (subst (asm) poll_loop.simps) auto
  next
    case (Inl b)
    show ?thesis
    proof (cases "timeout \<le> el + t")
      case True
      with less.prems(2) p Inl i1 show ?thesis by (subst (asm) poll_loop.simps) auto
    next
      case False
      obtain c u s2 where q: "pause rt interval s1 = (c, u, s2)" by (cases "pause rt interval s1")
      then have i2: "inv s2" using pause_inv [OF i1, of interval] by (simp add: after_def)
      show ?thesis
      proof (cases c)
        case True
        with less.prems(2) p Inl False q i2 show ?thesis by (subst (asm) poll_loop.simps) auto
      next
        case nc: False
        obtain a3 w3 s3 where l: "poll_loop rt timeout interval probe give_up cancel b (el + t + u) s2 = (a3, w3, s3)"
          by (cases "poll_loop rt timeout interval probe give_up cancel b (el + t + u) s2")
        have r: "inv s3 \<and> (good a3 \<or> a3 = cancel \<or> (\<exists>b. a3 = give_up b \<and> timeout \<le> (el + t + u) + w3))"
          using less.hyps [OF _ i2 l] pause_positive [of rt interval s1 u s2] q nc False by (simp add: algebra_simps)
        have "a = a3 \<and> w = t + u + w3 \<and> s' = s3"
          using less.prems(2) p Inl False q nc l by (subst (asm) poll_loop.simps) auto
        with r show ?thesis by (auto simp: algebra_simps)
      qed
    qed
  qed
qed

end

text \<open>
  The loop's duration: a probe takes at most \<open>P\<close> and a wait at most \<open>U\<close>; past the deadline one
  more probe is made at most.
\<close>

lemma poll_loop_time:
  assumes P: "\<And>b s. took (probe b) s \<le> P" and U: "\<And>s. took (pause rt interval) s \<le> U"
    and l: "poll_loop rt timeout interval probe give_up cancel b0 el s = (a, w, s')"
  shows "w \<le> (if timeout \<le> el then P else timeout - el + U + P)"
  using l
proof (induction "timeout - el" arbitrary: b0 el s a w s' rule: less_induct)
  case less
  obtain v t s1 where p: "probe b0 s = (v, t, s1)" by (cases "probe b0 s")
  have t: "t \<le> P" using P [of b0 s] p by (simp add: took_def)
  show ?case
  proof (cases v)
    case (Inr x)
    with less.prems p t show ?thesis by (subst (asm) poll_loop.simps) auto
  next
    case (Inl b)
    show ?thesis
    proof (cases "timeout \<le> el + t")
      case True
      with less.prems p Inl t show ?thesis by (subst (asm) poll_loop.simps) auto
    next
      case False
      obtain c u s2 where q: "pause rt interval s1 = (c, u, s2)" by (cases "pause rt interval s1")
      have u: "u \<le> U" using U [of s1] q by (simp add: took_def)
      show ?thesis
      proof (cases c)
        case True
        with less.prems p Inl False q t u show ?thesis by (subst (asm) poll_loop.simps) auto
      next
        case nc: False
        obtain a3 w3 s3 where l: "poll_loop rt timeout interval probe give_up cancel b (el + t + u) s2 = (a3, w3, s3)"
          by (cases "poll_loop rt timeout interval probe give_up cancel b (el + t + u) s2")
        have "w3 \<le> (if timeout \<le> el + t + u then P else timeout - (el + t + u) + U + P)"
          using less.hyps [OF _ l] pause_positive [of rt interval s1 u s2] q nc False by simp
        moreover have "w = t + u + w3"
          using less.prems p Inl False q nc l by (subst (asm) poll_loop.simps) auto
        ultimately show ?thesis using False u by (auto split: if_splits)
      qed
    qed
  qed
qed

text \<open>
  Liveness: as long as every round that does not decide brings a rank of the state down, and the
  deadline leaves room for that many rounds, the loop ends with a decision of a probe.
\<close>

lemma poll_loop_live:
  fixes rank :: "'x sys \<Rightarrow> nat" and probe :: "'b \<Rightarrow> ('x sys, 'b + 'a) io"
  assumes step: "\<And>b s. (\<exists>a. res (probe b) s = Inr a \<and> good a) \<or>
      (\<exists>b'. res (probe b) s = Inl b') \<and> took (probe b) s \<le> P \<and>
      \<not> res (pause rt interval) (after (probe b) s) \<and> took (pause rt interval) (after (probe b) s) \<le> U \<and>
      rank (after (pause rt interval) (after (probe b) s)) < rank s"
    and enough: "el + rank s * (P + U) < timeout"
  shows "good (res (poll_loop rt timeout interval probe give_up cancel b el) s)"
  using enough
proof (induction "rank s" arbitrary: b el s rule: less_induct)
  case less
  obtain v t s1 where p: "probe b s = (v, t, s1)" by (cases "probe b s")
  show ?case
  proof (cases v)
    case (Inr a)
    with step [of b s] p have "good a" by (simp add: res_def)
    with p Inr show ?thesis by (simp add: res_def poll_loop.simps [of rt timeout interval probe give_up cancel b])
  next
    case (Inl b')
    obtain c u s2 where q: "pause rt interval s1 = (c, u, s2)" by (cases "pause rt interval s1")
    have b: "t \<le> P" "\<not> c" "u \<le> U" "rank s2 < rank s"
      using step [of b s] p q Inl by (simp_all add: res_def after_def took_def)
    have "(rank s2 + 1) * (P + U) \<le> rank s * (P + U)" using b(4) by (intro mult_le_mono1) simp
    then have e: "el + t + u + rank s2 * (P + U) < timeout"
      using less.prems b(1,3) by (simp add: algebra_simps)
    obtain a3 w3 s3 where l: "poll_loop rt timeout interval probe give_up cancel b' (el + t + u) s2 = (a3, w3, s3)"
      by (cases "poll_loop rt timeout interval probe give_up cancel b' (el + t + u) s2")
    have "good a3" using less.hyps [OF b(4) e, of b'] l by (simp add: res_def)
    moreover have "\<not> timeout \<le> el + t" using e by simp
    ultimately show ?thesis
      using p Inl q b(2) l by (simp add: res_def poll_loop.simps [of rt timeout interval probe give_up cancel b])
  qed
qed

end
