(* ===== verification/StagesInstall.thy ===== *)
theory StagesInstall
  imports StagesBoot Polling "HOL-Library.Signed_Division"
begin

text \<open>
  The stages that run on a booted master: \<open>verify-master-ip\<close>, \<open>wait-for-install\<close>,
  \<open>apply-tls-certs\<close>, \<open>merge-kubeconfig\<close> and \<open>install-odf\<close>.

  The goroutines of \<open>wait-for-install\<close> are interleaved with the installer by a schedule: which
  helper turns happen before each attempt and after the last one. \<open>encoding/pem\<close> is the
  parameter \<open>pem\<close>: the first block of a text with the rest, and the encoding of a block.
\<close>

section \<open>verify-master-ip\<close>

abbreviation minute :: nat where "minute \<equiv> 60000"
abbreviation second :: nat where "second \<equiv> 1000"

abbreviation verify_timeout :: nat where "verify_timeout \<equiv> 8 * minute"
abbreviation verify_poll :: nat where "verify_poll \<equiv> 10 * second"
abbreviation verify_dial :: nat where "verify_dial \<equiv> 3 * second"

text \<open>\<open>net.JoinHostPort\<close>: brackets around an address with a colon.\<close>

definition JoinHostPort :: "string \<Rightarrow> string \<Rightarrow> string" where
  "JoinHostPort h p = (if CHR '':'' \<in> set h then ''['' @ h @ '']:'' @ p else h @ '':'' @ p)"

definition mismatchErr :: "string \<Rightarrow> string \<Rightarrow> string \<Rightarrow> error" where
  "mismatchErr mac gotIP wantIP =
     Errorf (''master VM (MAC %s) came up on %s, but its reserved IP is %s; '' @
       ''continuing would let etcd bootstrap on %s and pin the cluster to the wrong address permanently '' @
       ''(the apiservers could never reach etcd). Fix the router DHCP reservation (%s -> %s) so the node '' @
       ''gets %s on first boot, then re-run `easyshift create`'')
       [mac, gotIP, wantIP, gotIP, mac, wantIP, wantIP]"

definition never_came_up :: "string \<Rightarrow> string \<Rightarrow> error" where
  "never_came_up mac wantIP =
     Errorf (''master VM (MAC %s) did not come up on its reserved IP %s within %s; '' @
       ''the node likely received a different DHCP address, and continuing would let etcd '' @
       ''bootstrap on it and pin the cluster to the wrong address permanently. Verify the router '' @
       ''DHCP reservation maps %s -> %s (and that no other host holds %s), then re-run '' @
       ''`easyshift create`'') [mac, wantIP, ''8m0s'', mac, wantIP, wantIP]"

text \<open>One round of the loop: decided, or the address the MAC was last seen on.\<close>

definition verify_probe :: "'s host_inspector \<Rightarrow> string \<Rightarrow> string \<Rightarrow> ('s, string + error option) io" where
  "verify_probe host mac wantIP =
     io_bind (Ho_DialTCP host (JoinHostPort wantIP ''22'') verify_dial) (\<lambda>d.
     io_bind (Ho_ARPLookup host mac) (\<lambda>(gotIP, _).
       if d = None \<and> gotIP = wantIP then io_ret (Inr None)
       else if gotIP \<noteq> [] \<and> gotIP \<noteq> wantIP then
         io_bind (Ho_DialTCP host (JoinHostPort gotIP ''22'') verify_dial) (\<lambda>d2. io_ret
           (if d2 = None then Inr (Some (mismatchErr mac gotIP wantIP)) else Inl gotIP))
       else io_ret (Inl gotIP)))"

definition verify_give_up :: "string \<Rightarrow> string \<Rightarrow> string \<Rightarrow> error option" where
  "verify_give_up mac wantIP gotIP =
     Some (if gotIP \<noteq> [] \<and> gotIP \<noteq> wantIP then mismatchErr mac gotIP wantIP else never_came_up mac wantIP)"

definition verify :: "'x rt \<Rightarrow> ('x sys) host_inspector \<Rightarrow> string \<Rightarrow> string \<Rightarrow> ('x sys, error option) io" where
  "verify rt host mac wantIP =
     poll_loop rt verify_timeout verify_poll (\<lambda>_. verify_probe host mac wantIP) (verify_give_up mac wantIP)
       (Some ErrCanceled) [] 0"

definition verifymasterip_Apply :: "'x rt \<Rightarrow> ('x sys) host_inspector \<Rightarrow> ('x sys) action" where
  "verifymasterip_Apply rt host r m =
     (let c = heap m r in
      if cNetworkMode c \<noteq> NetworkModeBridge then io_ret (None, m)
      else keep_mem m (verify rt host (cMasterMAC c) (cMasterIP c)))"

definition verifymasterip :: "'x rt \<Rightarrow> ('x sys) host_inspector \<Rightarrow> ('x sys) stage" where
  "verifymasterip rt host =
     \<lparr>Name = ''verify-master-ip'', Apply = verifymasterip_Apply rt host, Rollback = no_rollback,
      Preflight = None\<rparr>"

section \<open>wait-for-install\<close>

abbreviation waitForInstallRetries :: nat where "waitForInstallRetries \<equiv> 3"

definition isInstallerTimeoutError :: "error \<Rightarrow> bool" where
  "isInstallerTimeoutError e = contains (error_text e) ''exit status 6''"

text \<open>One turn of the watchdog: the tick of its ticker.\<close>

definition watchdog_turn :: "'s vm_manager \<Rightarrow> string \<Rightarrow> ('s, unit) io" where
  "watchdog_turn vm vmName =
     io_bind (VM_IsRunning vm vmName) (\<lambda>(running, err).
       if err \<noteq> None \<or> running then io_ret ()
       else io_bind (VM_Start vm vmName) (\<lambda>_. io_ret ()))"

datatype helper = CSRTurn | HostnameTurn | WatchdogTurn

definition helper_turn :: "'s csr_approver \<Rightarrow> 's hostname_injector \<Rightarrow> 's vm_manager \<Rightarrow> mem \<Rightarrow> cluster_config \<Rightarrow>
    helper \<Rightarrow> ('s, unit) io" where
  "helper_turn csr hn vm m c h =
     (case h of
        CSRTurn \<Rightarrow> Csr_Turn csr (sc_OCBinaryPath m c) (sc_KubeconfigPath m c)
      | HostnameTurn \<Rightarrow>
          if PrimaryMasterIP c \<noteq> []
          then Hn_Turn hn (PrimaryMasterIP c) (sc_ClusterDir m c @ ''/id_rsa'') (MasterHostname c)
          else io_ret ()
      | WatchdogTurn \<Rightarrow> watchdog_turn vm (''master-0-'' @ cName c))"

fun helper_turns :: "(helper \<Rightarrow> ('s, unit) io) \<Rightarrow> helper list \<Rightarrow> ('s, unit) io" where
  "helper_turns turn [] = io_ret ()"
| "helper_turns turn (h # hs) = io_bind (turn h) (\<lambda>_. helper_turns turn hs)"

text \<open>
  \<open>waitWithRetry\<close> with \<open>k\<close> attempts left and \<open>err\<close> the error of the last one; \<open>env k\<close> is what the
  helpers do before an attempt. The context is never cancelled (\<open>context.Background\<close>).
\<close>

fun wait_loop :: "'s installer \<Rightarrow> installer_spec \<Rightarrow> (nat \<Rightarrow> ('s, unit) io) \<Rightarrow> nat \<Rightarrow> error \<Rightarrow> ('s, error option) io" where
  "wait_loop inst spec env 0 err =
     io_ret (Some (Wrapf ''wait-for install-complete: gave up after %d timeouts: %w''
       [nat_str waitForInstallRetries] err))"
| "wait_loop inst spec env (Suc k) err =
     io_bind (env (Suc k)) (\<lambda>_. io_bind (In_WaitForInstallComplete inst spec) (\<lambda>e. case e of
       None \<Rightarrow> io_ret None
     | Some e \<Rightarrow> if \<not> isInstallerTimeoutError e then io_ret (Some e) else wait_loop inst spec env k e))"

definition waitWithRetry :: "'s installer \<Rightarrow> installer_spec \<Rightarrow> (nat \<Rightarrow> ('s, unit) io) \<Rightarrow> ('s, error option) io" where
  "waitWithRetry inst spec env = wait_loop inst spec env waitForInstallRetries (ExtErr [])"

definition waitforinstall_Apply :: "'x rt \<Rightarrow> ('x sys) installer \<Rightarrow> ('x sys) csr_approver \<Rightarrow> ('x sys) hostname_injector \<Rightarrow>
    ('x sys) vm_manager \<Rightarrow> (nat \<Rightarrow> helper list) \<Rightarrow> ('x sys) action" where
  "waitforinstall_Apply rt inst csr hn vm sched r m =
     (let c = heap m r; turn = helper_turn csr hn vm m c;
          spec = (sc_InstallerSpec rt m c)\<lparr>isOut := Some (LogFile m)\<rparr>
      in io_bind (waitWithRetry inst spec (\<lambda>k. helper_turns turn (sched k))) (\<lambda>e.
         io_bind (helper_turns turn (sched 0)) (\<lambda>_. io_ret (e, m))))"

definition waitforinstall :: "'x rt \<Rightarrow> ('x sys) installer \<Rightarrow> ('x sys) csr_approver \<Rightarrow> ('x sys) hostname_injector \<Rightarrow>
    ('x sys) vm_manager \<Rightarrow> (nat \<Rightarrow> helper list) \<Rightarrow> ('x sys) stage" where
  "waitforinstall rt inst csr hn vm sched =
     \<lparr>Name = ''wait-for-install'', Apply = waitforinstall_Apply rt inst csr hn vm sched,
      Rollback = no_rollback, Preflight = None\<rparr>"

section \<open>install-odf\<close>

definition installodf_spec :: "mem \<Rightarrow> cluster_config \<Rightarrow> odf_spec" where
  "installodf_spec m c =
     \<lparr>osKubeconfigPath = sc_KubeconfigPath m c, osOCBinaryPath = sc_OCBinaryPath m c,
      osWorkDir = sc_ClusterDir m c, osChannel = OLMChannelForVersion (cOCPVersion c),
      osDevicePath = (if cBakeImages c then ''/dev/vdc'' else ''/dev/vdb''),
      osDataPVCSizeGi = cODFDiskGB c sdiv 3 - 3\<rparr>"

definition installodf_Apply :: "'s odf_installer \<Rightarrow> 's action" where
  "installodf_Apply odf r m =
     (let c = heap m r; spec = installodf_spec m c in
      if \<not> cODF c then io_ret (None, m)
      else keep_mem m
       (io_seq (wrap_err ''odf operators: %w'' [] (Odf_InstallOperators odf spec))
        (io_seq (wrap_err ''odf lvm: %w'' [] (Odf_SetupLVM odf spec))
         (io_seq (wrap_err ''odf single-node enablement: %w'' [] (Odf_EnableSingleNode odf spec))
           (wrap_err ''odf storagecluster: %w'' [] (Odf_CreateStorageCluster odf spec))))))"

definition installodf :: "'s odf_installer \<Rightarrow> 's stage" where
  "installodf odf =
     \<lparr>Name = ''install-odf'', Apply = installodf_Apply odf, Rollback = no_rollback, Preflight = None\<rparr>"

section \<open>merge-kubeconfig\<close>

text \<open>\<open>filepath.SplitList\<close> on a non-empty list is a split at the separator.\<close>

definition targetKubeconfig :: "'x rt \<Rightarrow> string result" where
  "targetKubeconfig rt =
     (let env = Getenv rt ''KUBECONFIG''; p = hd (split_on (CHR '':'') env) in
      if env \<noteq> [] \<and> p \<noteq> [] then Inr p
      else (case UserHomeDir rt of
              Inl e \<Rightarrow> Inl (Wrapf ''resolve home dir: %w'' [] e)
            | Inr home \<Rightarrow> Inr (path_join [home, ''.kube'', ''config''])))"

definition clusterEntry :: "string \<Rightarrow> string" where "clusterEntry n = ''easyshift-'' @ n"
definition userEntry :: "string \<Rightarrow> string" where "userEntry n = ''easyshift-'' @ n @ ''-admin''"

definition jsonpath :: "'s command_runner \<Rightarrow> string \<Rightarrow> string \<Rightarrow> string \<Rightarrow> ('s, string result) io" where
  "jsonpath cmd oc kubeconfig expr =
     io_bind (Cmd_Run cmd oc [''--kubeconfig'', kubeconfig, ''config'', ''view'', ''--raw'', ''-o'', ''jsonpath='' @ expr])
       (\<lambda>(out, err). io_ret (case err of
          Some e \<Rightarrow> Inl (Wrapf ''extract %s from admin kubeconfig: %w'' [expr] e)
        | None \<Rightarrow> Inr (trim_space out)))"

definition writeB64 :: "'x rt \<Rightarrow> string \<Rightarrow> string \<Rightarrow> ('x sys, error option) io" where
  "writeB64 rt path b64 =
     (case base64_decode b64 of
        None \<Rightarrow> io_ret (Some (Wrapf ''decode for %s: %w'' [path] (ExtErr ''illegal base64 data'')))
      | Some raw \<Rightarrow> wrap_err ''write %s: %w'' [path] (os_write rt path (Raw raw)))"

fun oc_steps :: "'s command_runner \<Rightarrow> string \<Rightarrow> string list list \<Rightarrow> ('s, error option) io" where
  "oc_steps cmd oc [] = io_ret None"
| "oc_steps cmd oc (args # steps) =
     io_seq (run_checked cmd ''oc %s: %w'' [joined '' '' (take 2 (drop 2 args))] oc args) (oc_steps cmd oc steps)"

definition merge_steps :: "string \<Rightarrow> string \<Rightarrow> string \<Rightarrow> string option \<Rightarrow> string \<Rightarrow> string \<Rightarrow> string list list" where
  "merge_steps target name server caPath certPath keyPath =
     [[''--kubeconfig'', target, ''config'', ''set-cluster'', clusterEntry name, ''--server='' @ server] @
        (case caPath of None \<Rightarrow> [] | Some p \<Rightarrow> [''--certificate-authority='' @ p, ''--embed-certs=true'']),
      [''--kubeconfig'', target, ''config'', ''set-credentials'', userEntry name,
        ''--client-certificate='' @ certPath, ''--client-key='' @ keyPath, ''--embed-certs=true''],
      [''--kubeconfig'', target, ''config'', ''set-context'', name, ''--cluster='' @ clusterEntry name,
        ''--user='' @ userEntry name],
      [''--kubeconfig'', target, ''config'', ''use-context'', name]]"

definition mergekubeconfig_Apply :: "'x rt \<Rightarrow> ('x sys) command_runner \<Rightarrow> ('x sys) action" where
  "mergekubeconfig_Apply rt cmd r m =
     (case targetKubeconfig rt of
        Inl e \<Rightarrow> io_ret (Some e, m)
      | Inr target \<Rightarrow>
          act_check m (wrap_err ''create kubeconfig dir: %w'' [] (os_mkdirall rt (path_dir target)))
           (let m1 = set_cluster r (cKubeconfigTarget_update (\<lambda>_. target)) m; c = heap m1 r;
                oc = sc_OCBinaryPath m1 c; admin = sc_KubeconfigPath m1 c; name = cName c;
                authDir = path_join [sc_ClusterDir m1 c, ''auth''];
                certPath = path_join [authDir, ''client.crt'']; keyPath = path_join [authDir, ''client.key''];
                caPath = path_join [authDir, ''ca-bundle.crt'']
            in act_check m1 (wrap_err ''save config: %w'' [] (Save rt m1))
              (act_bind m1 (jsonpath cmd oc admin ''{.clusters[0].cluster.server}'') (\<lambda>server.
               act_bind m1 (jsonpath cmd oc admin ''{.clusters[0].cluster.certificate-authority-data}'') (\<lambda>caData.
               act_bind m1 (jsonpath cmd oc admin ''{.users[0].user.client-certificate-data}'') (\<lambda>certData.
               act_bind m1 (jsonpath cmd oc admin ''{.users[0].user.client-key-data}'') (\<lambda>keyData.
               act_check m1 (wrap_err ''create auth dir: %w'' [] (os_mkdirall rt authDir))
                (act_check m1 (writeB64 rt certPath certData)
                 (act_check m1 (writeB64 rt keyPath keyData)
                  (act_check m1 (if caData \<noteq> [] then writeB64 rt caPath caData else io_ret None)
                   (keep_mem m1 (oc_steps cmd oc
                     (merge_steps target name server (if caData \<noteq> [] then Some caPath else None)
                        certPath keyPath)))))))))))))"

fun run_ignored :: "'s command_runner \<Rightarrow> string \<Rightarrow> string list list \<Rightarrow> ('s, unit) io" where
  "run_ignored cmd oc [] = io_ret ()"
| "run_ignored cmd oc (args # steps) = io_bind (Cmd_Run cmd oc args) (\<lambda>_. run_ignored cmd oc steps)"

definition mergekubeconfig_Rollback :: "'x rt \<Rightarrow> ('x sys) command_runner \<Rightarrow> ('x sys) action" where
  "mergekubeconfig_Rollback rt cmd r m =
     (let c = heap m r; oc = sc_OCBinaryPath m c; name = cName c in
      case (if cKubeconfigTarget c = [] then targetKubeconfig rt else Inr (cKubeconfigTarget c)) of
        Inl _ \<Rightarrow> io_ret (None, m)
      | Inr target \<Rightarrow>
          io_bind (Cmd_Run cmd oc [''--kubeconfig'', target, ''config'', ''current-context'']) (\<lambda>(out, err).
          io_bind (if err = None \<and> trim_space out = name
                   then run_ignored cmd oc [[''--kubeconfig'', target, ''config'', ''unset'', ''current-context'']]
                   else io_ret ()) (\<lambda>_.
          io_bind (run_ignored cmd oc
             [[''--kubeconfig'', target, ''config'', ''delete-context'', name],
              [''--kubeconfig'', target, ''config'', ''delete-cluster'', clusterEntry name],
              [''--kubeconfig'', target, ''config'', ''unset'', ''users.'' @ userEntry name]]) (\<lambda>_.
          let m1 = set_cluster r (cKubeconfigTarget_update (\<lambda>_. [])) m in
          io_bind (Save rt m1) (\<lambda>_. io_ret (None, m1))))))"

definition mergekubeconfig :: "'x rt \<Rightarrow> ('x sys) command_runner \<Rightarrow> ('x sys) stage" where
  "mergekubeconfig rt cmd =
     \<lparr>Name = ''merge-kubeconfig'', Apply = mergekubeconfig_Apply rt cmd,
      Rollback = mergekubeconfig_Rollback rt cmd, Preflight = None\<rparr>"

section \<open>apply-tls-certs\<close>

record 'b pem_codec =
  pem_decode :: "string \<Rightarrow> ('b \<times> string) option"
  pem_encode :: "'b \<Rightarrow> string"
  pem_bytes :: "'b \<Rightarrow> string"

definition applytlscerts_Preflight :: "'x rt \<Rightarrow> nat \<Rightarrow> mem \<Rightarrow> ('x sys, error option) io" where
  "applytlscerts_Preflight rt r m =
     (let c = heap m r in
      if cTLSEmail c = [] then io_ret None
      else if cDNSProvider c = [] then
        io_ret (Some (Errorf ''TLS issuance requires --dns-provider (used for the ACME DNS-01 challenge)'' []))
      else EnsureDNSToken rt (ConfigDir m) (cDNSProvider c))"

definition choose_issuer :: "'x rt \<Rightarrow> (cert_issuer_opts \<Rightarrow> ('x sys, ('x sys) cert_issuer result) io) \<Rightarrow>
    (string \<Rightarrow> ('x sys, ('x sys) cert_issuer result) io) \<Rightarrow> mem \<Rightarrow> cluster_config \<Rightarrow>
    ('x sys, ('x sys) cert_issuer result) io" where
  "choose_issuer rt newCertIssuer newLocalIssuer m c =
     (if cTLSEmail c \<noteq> [] then
        io_try (ReadDNSToken rt (ConfigDir m) (cDNSProvider c)) (\<lambda>token.
          wrap_res ''cert issuer: %w'' [] (newCertIssuer
            \<lparr>coEmail = cTLSEmail c,
             coAccountDir = ACMEAccountDir (ConfigDir m) (cDNSProvider c) (cTLSStaging c),
             coDNSProvider = cDNSProvider c, coToken = token, coStaging = cTLSStaging c\<rparr>))
      else wrap_res ''local cert issuer: %w'' [] (newLocalIssuer (LocalCADir (ConfigDir m))))"

definition issueToFiles :: "'x rt \<Rightarrow> ('x sys) cert_issuer \<Rightarrow> string list \<Rightarrow> string \<Rightarrow> string \<Rightarrow>
    ('x sys, error option) io" where
  "issueToFiles rt issuer domains certPath keyPath =
     io_bind (issuer domains) (\<lambda>r. case r of
       Inl e \<Rightarrow> io_ret (Some e)
     | Inr (cert, key) \<Rightarrow> io_seq (os_write rt certPath (Raw cert)) (os_write rt keyPath (Raw key)))"

definition applyTLSSecret :: "'x rt \<Rightarrow> ('x sys) command_runner \<Rightarrow> string \<Rightarrow> string \<Rightarrow> string \<Rightarrow> string \<Rightarrow>
    string \<Rightarrow> string \<Rightarrow> ('x sys, error option) io" where
  "applyTLSSecret rt cmd oc kubeconfig namespace name certPath keyPath =
     io_bind (Cmd_Run cmd oc
        [''--kubeconfig'', kubeconfig, ''-n'', namespace, ''create'', ''secret'', ''tls'', name,
         ''--cert='' @ certPath, ''--key='' @ keyPath, ''--dry-run=client'', ''-o'', ''yaml'']) (\<lambda>(out, err). case err of
       Some e \<Rightarrow> io_ret (Some (Wrapf ''render tls secret %s/%s: %w'' [namespace, name] e))
     | None \<Rightarrow>
         let tmp = path_join [path_dir certPath, name @ ''.secret.yaml''] in
         io_seq (wrap_err ''write rendered secret %s: %w'' [tmp] (os_write rt tmp (Raw out)))
          (run_checked cmd ''apply tls secret %s/%s: %w'' [namespace, name] oc
             [''--kubeconfig'', kubeconfig, ''apply'', ''-f'', tmp]))"

definition backup_kubeconfig :: "'x rt \<Rightarrow> string \<Rightarrow> string \<Rightarrow> ('x sys, error option) io" where
  "backup_kubeconfig rt kubeconfig dat =
     (let backup = kubeconfig @ ''.internal-ca'' in
      io_bind (os_stat rt backup) (\<lambda>r. case r of
        Inl e \<Rightarrow> if error_is e ErrNotExist
                 then wrap_err ''back up kubeconfig: %w'' [] (os_write rt backup (Raw dat)) else io_ret None
      | Inr _ \<Rightarrow> io_ret None))"

definition makeKubeconfigPublic :: "'x rt \<Rightarrow> ('x sys) command_runner \<Rightarrow> string \<Rightarrow> string \<Rightarrow> string \<Rightarrow>
    ('x sys, error option) io" where
  "makeKubeconfigPublic rt cmd oc kubeconfig entry =
     io_bind (os_read_bytes rt kubeconfig) (\<lambda>d. case d of
       Inl e \<Rightarrow> io_ret (Some (Wrapf ''read kubeconfig: %w'' [] e))
     | Inr dat \<Rightarrow>
         if \<not> contains dat ''certificate-authority-data'' then io_ret None
         else io_seq (backup_kubeconfig rt kubeconfig dat)
           (run_checked cmd ''strip internal CA from kubeconfig: %w'' [] oc
             [''--kubeconfig'', kubeconfig, ''config'', ''unset'', ''clusters.'' @ entry @ ''.certificate-authority-data'']))"

text \<open>
  The scan of the bundle for our certificate: \<open>pem.Decode\<close> consumes at least a byte per block, so
  a fuel of the bundle's length plus one is enough.
\<close>

fun bundle_has :: "'b pem_codec \<Rightarrow> string \<Rightarrow> nat \<Rightarrow> string \<Rightarrow> bool" where
  "bundle_has pem ca 0 txt = False"
| "bundle_has pem ca (Suc k) txt =
     (case pem_decode pem txt of
        None \<Rightarrow> False
      | Some (block, r) \<Rightarrow> if pem_bytes pem block = ca then True else bundle_has pem ca k r)"

definition extend_bundle :: "'b pem_codec \<Rightarrow> 'b \<Rightarrow> string \<Rightarrow> string" where
  "extend_bundle pem caBlock bundle =
     (if bundle \<noteq> [] \<and> last bundle \<noteq> CHR 0x0A then bundle @ nl else bundle) @ pem_encode pem caBlock"

definition jsonpath_ca :: "string \<Rightarrow> string" where
  "jsonpath_ca entry =
     ''jsonpath={.clusters[?(@.name=='' @ [CHR 0x22] @ entry @ [CHR 0x22] @ '')].cluster.certificate-authority-data}''"

definition appendLocalCAToKubeconfig :: "'x rt \<Rightarrow> 'b pem_codec \<Rightarrow> ('x sys) command_runner \<Rightarrow> string \<Rightarrow> string \<Rightarrow>
    string \<Rightarrow> string \<Rightarrow> ('x sys, error option) io" where
  "appendLocalCAToKubeconfig rt pem cmd oc kubeconfig entry caCertPath =
     io_bind (os_read_bytes rt caCertPath) (\<lambda>d. case d of
       Inl e \<Rightarrow> io_ret (Some (Wrapf ''read local CA cert: %w'' [] e))
     | Inr caPEM \<Rightarrow>
       (case pem_decode pem caPEM of
          None \<Rightarrow> io_ret (Some (Errorf ''no PEM block in %s'' [caCertPath]))
        | Some (caBlock, _) \<Rightarrow>
          io_bind (Cmd_Run cmd oc [''--kubeconfig'', kubeconfig, ''config'', ''view'', ''--raw'', ''-o'', jsonpath_ca entry])
           (\<lambda>(out, err). case err of
             Some e \<Rightarrow> io_ret (Some (Wrapf ''read kubeconfig CA bundle: %w'' [] e))
           | None \<Rightarrow>
             let b64bundle = trim_space out in
             if b64bundle = [] then
               io_ret (Some (Errorf ''no certificate-authority-data found for cluster entry %q in %s'' [quoted entry, kubeconfig]))
             else (case base64_decode b64bundle of
               None \<Rightarrow> io_ret (Some (Wrapf ''decode kubeconfig CA bundle: %w'' [] (ExtErr ''illegal base64 data'')))
             | Some bundle \<Rightarrow>
               if bundle_has pem (pem_bytes pem caBlock) (Suc (length bundle)) bundle then io_ret None
               else io_bind (os_read_bytes rt kubeconfig) (\<lambda>o'. case o' of
                 Inl e \<Rightarrow> io_ret (Some (Wrapf ''read kubeconfig: %w'' [] e))
               | Inr orig \<Rightarrow>
                 io_seq (backup_kubeconfig rt kubeconfig orig)
                  (run_checked cmd ''append CA to kubeconfig: %w'' [] oc
                    [''--kubeconfig'', kubeconfig, ''config'', ''set'',
                     ''clusters.'' @ entry @ ''.certificate-authority-data'',
                     base64 (extend_bundle pem caBlock bundle)]))))))"

text \<open>The JSON patches are built by \<open>Sprintf\<close>.\<close>

definition apiserver_patch :: "string \<Rightarrow> string \<Rightarrow> string" where
  "apiserver_patch fqdn secret =
     (let q = (\<lambda>s. [CHR 0x22] @ s @ [CHR 0x22]) in
      ''{'' @ q ''spec'' @ '':{'' @ q ''servingCerts'' @ '':{'' @ q ''namedCertificates'' @ '':[{'' @ q ''names'' @ '':['' @
      q (''api.'' @ fqdn) @ ''],'' @ q ''servingCertificate'' @ '':{'' @ q ''name'' @ '':'' @ q secret @ ''}}]}}}'')"

definition ingress_patch :: "string \<Rightarrow> string" where
  "ingress_patch secret =
     (let q = (\<lambda>s. [CHR 0x22] @ s @ [CHR 0x22]) in
      ''{'' @ q ''spec'' @ '':{'' @ q ''defaultCertificate'' @ '':{'' @ q ''name'' @ '':'' @ q secret @ ''}}}'')"

text \<open>The last step: make the admin kubeconfig trust the certificate that is now served.\<close>

definition fix_kubeconfig :: "'x rt \<Rightarrow> 'b pem_codec \<Rightarrow> ('x sys) command_runner \<Rightarrow> mem \<Rightarrow> cluster_config \<Rightarrow>
    ('x sys, error option) io" where
  "fix_kubeconfig rt pem cmd m c =
     (let oc = sc_OCBinaryPath m c; kubeconfig = sc_KubeconfigPath m c in
      if cTLSEmail c \<noteq> [] then
        io_bind (makeKubeconfigPublic rt cmd oc kubeconfig (cName c)) (\<lambda>_. io_ret None)
      else
        io_bind (appendLocalCAToKubeconfig rt pem cmd oc kubeconfig (cName c) (LocalCACertPath (ConfigDir m))) (\<lambda>e. case e of
          None \<Rightarrow> io_ret None
        | Some e \<Rightarrow>
            io_bind (os_exists rt kubeconfig) (\<lambda>b. io_ret
              (if b then Some (Wrapf ''add easyshift CA to admin kubeconfig: %w'' [] e) else None))))"

definition applytlscerts_Apply :: "'x rt \<Rightarrow> 'b pem_codec \<Rightarrow>
    (cert_issuer_opts \<Rightarrow> ('x sys, ('x sys) cert_issuer result) io) \<Rightarrow>
    (string \<Rightarrow> ('x sys, ('x sys) cert_issuer result) io) \<Rightarrow> ('x sys) command_runner \<Rightarrow> ('x sys) action" where
  "applytlscerts_Apply rt pem newCertIssuer newLocalIssuer cmd r m =
     (let c = heap m r; tlsDir = path_join [sc_ClusterDir m c, ''tls'']; fqdn = FQDN c;
          apiCert = path_join [tlsDir, ''api.crt'']; apiKey = path_join [tlsDir, ''api.key''];
          appsCert = path_join [tlsDir, ''apps.crt'']; appsKey = path_join [tlsDir, ''apps.key''];
          oc = sc_OCBinaryPath m c; kubeconfig = sc_KubeconfigPath m c;
          apiSecret = cName c @ ''-api-cert''; appsSecret = cName c @ ''-apps-cert''
      in act_bind m (choose_issuer rt newCertIssuer newLocalIssuer m c) (\<lambda>issuer.
         keep_mem m
          (io_seq (wrap_err ''create tls dir: %w'' [] (os_mkdirall rt tlsDir))
          (io_seq (wrap_err ''issue api cert: %w'' [] (issueToFiles rt issuer [''api.'' @ fqdn] apiCert apiKey))
          (io_seq (wrap_err ''issue apps cert: %w'' [] (issueToFiles rt issuer [''*.apps.'' @ fqdn] appsCert appsKey))
          (io_seq (applyTLSSecret rt cmd oc kubeconfig ''openshift-config'' apiSecret apiCert apiKey)
          (io_seq (applyTLSSecret rt cmd oc kubeconfig ''openshift-ingress'' appsSecret appsCert appsKey)
          (io_seq (run_checked cmd ''patch apiserver/cluster: %w'' [] oc
             [''--kubeconfig'', kubeconfig, ''patch'', ''apiserver/cluster'', ''--type=merge'', ''-p'',
              apiserver_patch fqdn apiSecret])
          (io_seq (run_checked cmd ''patch ingresscontroller/default: %w'' [] oc
             [''--kubeconfig'', kubeconfig, ''-n'', ''openshift-ingress-operator'', ''patch'',
              ''ingresscontroller/default'', ''--type=merge'', ''-p'', ingress_patch appsSecret])
            (fix_kubeconfig rt pem cmd m c))))))))))"

definition applytlscerts :: "'x rt \<Rightarrow> 'b pem_codec \<Rightarrow>
    (cert_issuer_opts \<Rightarrow> ('x sys, ('x sys) cert_issuer result) io) \<Rightarrow>
    (string \<Rightarrow> ('x sys, ('x sys) cert_issuer result) io) \<Rightarrow> ('x sys) command_runner \<Rightarrow> ('x sys) stage" where
  "applytlscerts rt pem newCertIssuer newLocalIssuer cmd =
     \<lparr>Name = ''apply-tls-certs'', Apply = applytlscerts_Apply rt pem newCertIssuer newLocalIssuer cmd,
      Rollback = no_rollback, Preflight = Some (applytlscerts_Preflight rt)\<rparr>"

end
