(* ===== verification/Manager.thy ===== *)
theory Manager
  imports Allocator Runner StagesInstall
begin

text \<open>
  The cluster manager (\<open>app/manager.go\<close>, \<open>app/converge.go\<close>): validation and defaults of a new
  cluster, the stage pipeline, \<open>Create\<close>, \<open>Start\<close>, \<open>Stop\<close>, \<open>Delete\<close>, and the convergence wait.

  The environment collects the parameters of the model: the runtime, \<open>crypto/rand\<close>,
  \<open>compress/gzip\<close>, \<open>encoding/pem\<close>, the name \<open>os.CreateTemp\<close> picks, and the schedules of the
  goroutines.
\<close>

record ('x, 'b) env =
  env_rt :: "'x rt"
  env_rand :: "('x sys) rand3"
  env_gunzip :: "string \<Rightarrow> string result"
  env_pem :: "'b pem_codec"
  env_tmp :: string
  env_sched :: "nat \<Rightarrow> helper list"
  env_csr_turns :: nat

section \<open>Defaults and validation\<close>

abbreviation defaultMasterCPUs :: int where "defaultMasterCPUs \<equiv> 4"
abbreviation defaultWorkerCPUs :: int where "defaultWorkerCPUs \<equiv> 2"
abbreviation defaultMasterDiskGB :: int where "defaultMasterDiskGB \<equiv> 120"
abbreviation defaultWorkerDiskGB :: int where "defaultWorkerDiskGB \<equiv> 120"
abbreviation defaultODFDiskGB :: int where "defaultODFDiskGB \<equiv> 100"
abbreviation odfMinCPUs :: int where "odfMinCPUs \<equiv> 8"
abbreviation odfMinRAMMiB :: int where "odfMinRAMMiB \<equiv> 24576"

definition validateName :: "cluster_config \<Rightarrow> error option" where
  "validateName c = (if cName c = [] then Some (Errorf ''cluster name is required'' []) else None)"

definition resolveMagicDNS :: "cluster_config \<Rightarrow> cluster_config" where
  "resolveMagicDNS c =
     (if cMagicDNS c = [] \<or> cMagicDNS c = MagicDNSAuto then
        (if cNetworkMode c = NetworkModeNAT \<and> cDomain c = [] then c\<lparr>cMagicDNS := MagicDNSSslip\<rparr>
         else c\<lparr>cMagicDNS := []\<rparr>)
      else if cMagicDNS c = MagicDNSOff then c\<lparr>cMagicDNS := []\<rparr>
      else c)"

definition default_network :: "cluster_config \<Rightarrow> cluster_config" where
  "default_network c =
     (let c = (if cNetworkMode c = [] then c\<lparr>cNetworkMode := NetworkModeNAT\<rparr> else c);
          c = resolveMagicDNS c
      in if cMagicDNS c = [] \<and> cDomain c = [] then c\<lparr>cDomain := ''local''\<rparr> else c)"

definition default_sizes :: "cluster_config \<Rightarrow> cluster_config" where
  "default_sizes c =
     c\<lparr>cOCPVersion := (if cOCPVersion c = [] then DefaultOCPVersion else cOCPVersion c),
       cMasterCPUs := (if cMasterCPUs c = 0 then defaultMasterCPUs else cMasterCPUs c),
       cWorkerCPUs := (if cWorkerCPUs c = 0 then defaultWorkerCPUs else cWorkerCPUs c),
       cMasterDiskGB := (if cMasterDiskGB c = 0 then defaultMasterDiskGB else cMasterDiskGB c),
       cWorkerDiskGB := (if cWorkerDiskGB c = 0 then defaultWorkerDiskGB else cWorkerDiskGB c)\<rparr>"

definition default_odf :: "cluster_config \<Rightarrow> cluster_config" where
  "default_odf c =
     (if cODF c then
        c\<lparr>cMasterCPUs := (if cMasterCPUs c < odfMinCPUs then odfMinCPUs else cMasterCPUs c),
          cMasterRAM := (if cMasterRAM c < odfMinRAMMiB then odfMinRAMMiB else cMasterRAM c),
          cODFDiskGB := (if cODFDiskGB c = 0 then defaultODFDiskGB else cODFDiskGB c)\<rparr>
      else c)"

definition default_addresses :: "cluster_config \<Rightarrow> cluster_config" where
  "default_addresses c =
     (let c = (if cStoragePool c = [] then c\<lparr>cStoragePool := DefaultStoragePool\<rparr> else c);
          c = (if cNetworkMode c = NetworkModeBridge \<and> cMachineCIDR c = [] \<and> cMasterIP c \<noteq> []
               then (case DeriveMachineCIDR (cMasterIP c) of Inr cidr \<Rightarrow> c\<lparr>cMachineCIDR := cidr\<rparr> | Inl _ \<Rightarrow> c)
               else c)
      in if cNetworkMode c = NetworkModeBridge \<and> cGateway c = [] \<and> cMachineCIDR c \<noteq> []
         then (case DeriveGateway (cMachineCIDR c) of Inr gw \<Rightarrow> c\<lparr>cGateway := gw\<rparr> | Inl _ \<Rightarrow> c)
         else c)"

definition applyDefaults :: "cluster_config \<Rightarrow> cluster_config" where
  "applyDefaults c = default_addresses (default_odf (default_sizes (default_network c)))"

fun validate_dns :: "string list \<Rightarrow> error option" where
  "validate_dns [] = None"
| "validate_dns (d # ds) =
     (let d = trim_space d in
      if d \<noteq> [] \<and> \<not> ValidateIP d then Some (Errorf ''invalid --dns entry %q'' [quoted d]) else validate_dns ds)"

definition validate_nat :: "cluster_config \<Rightarrow> error option" where
  "validate_nat c =
     (if cBridge c \<noteq> [] then Some (Errorf ''NetworkMode=nat is incompatible with --bridge'' [])
      else if cMasterMAC c \<noteq> [] \<or> cMasterIP c \<noteq> [] \<or> cMachineCIDR c \<noteq> [] \<or> cGateway c \<noteq> [] \<or> cDNS c \<noteq> [] then
        Some (Errorf (''NetworkMode=nat assigns MAC/IP/CIDR automatically; remove '' @
          ''--master-mac/--master-ip/--machine-cidr/--gateway/--dns'') [])
      else None)"

definition validate_bridge :: "cluster_config \<Rightarrow> error option" where
  "validate_bridge c =
     (if cBridge c = [] then
        Some (Errorf ''NetworkMode=bridge requires --bridge (name of an existing host Linux bridge, e.g. br0)'' [])
      else if cMasterMAC c = [] then
        Some (Errorf ''NetworkMode=bridge requires --master-mac (the MAC you reserved at the router)'' [])
      else if \<not> ValidateMAC (cMasterMAC c) then Some (Errorf ''invalid --master-mac %q'' [quoted (cMasterMAC c)])
      else if cMasterIP c = [] then
        Some (Errorf ''NetworkMode=bridge requires --master-ip (the IP the router will reserve for --master-mac)'' [])
      else if \<not> ValidateIP (cMasterIP c) then Some (Errorf ''invalid --master-ip %q'' [quoted (cMasterIP c)])
      else if cMachineCIDR c = [] then Some (Errorf ''could not derive --machine-cidr; pass it explicitly'' [])
      else if parse_cidr (cMachineCIDR c) = None then
        Some (Wrapf ''invalid --machine-cidr %q: %w'' [quoted (cMachineCIDR c)] (CIDRErr (cMachineCIDR c)))
      else if cGateway c \<noteq> [] \<and> \<not> ValidateIP (cGateway c) then
        Some (Errorf ''invalid --gateway %q'' [quoted (cGateway c)])
      else validate_dns (split_on (CHR '','') (cDNS c)))"

definition validateNew :: "mem \<Rightarrow> cluster_config \<Rightarrow> error option" where
  "validateNew m c =
     (if length (Clusters m) \<ge> DefaultClustersMax then
        Some (Errorf ''maximum number of clusters (%d) reached'' [nat_str DefaultClustersMax])
      else if \<not> ValidMagicDNS (cMagicDNS c) then
        Some (Errorf ''unsupported --magic-dns %q (want auto, off, sslip.io, or nip.io)'' [quoted (cMagicDNS c)])
      else if cMagicDNS c \<noteq> [] \<and> cDNSProvider c \<noteq> [] then
        Some (Errorf (''--magic-dns and --dns-provider are mutually exclusive: use a wildcard service OR '' @
          ''API-managed records, not both'') [])
      else if cMagicDNS c \<noteq> [] \<and> cDomain c \<noteq> [] then
        Some (Errorf ''--magic-dns derives the base domain from the master IP; remove --base-domain'' [])
      else if cMasterCount c \<noteq> 1 then Some (Errorf ''only single-master clusters are supported'' [])
      else if cWorkerCount c \<noteq> 0 then
        Some (Errorf ''phase 1 supports SNO only: WorkerCount must be 0 (add workers later via addnode)'' [])
      else case (if cNetworkMode c = NetworkModeNAT then validate_nat c
                 else if cNetworkMode c = NetworkModeBridge then validate_bridge c
                 else Some (Errorf ''invalid NetworkMode %q (want %q or %q)''
                        [quoted (cNetworkMode c), quoted NetworkModeNAT, quoted NetworkModeBridge])) of
             Some e \<Rightarrow> Some e
           | None \<Rightarrow>
               if \<not> cODF c \<and> cODFDiskGB c \<noteq> 0 then Some (Errorf ''--odf-disk requires --odf'' [])
               else if cODF c \<and> cODFDiskGB c \<noteq> 0 \<and> cODFDiskGB c < 12 then
                 Some (Errorf (''--odf-disk must be at least 12 GB (a third of it, minus overhead, '' @
                   ''becomes the per-OSD volume)'') [])
               else None)"

section \<open>The pipeline\<close>

definition boot_media :: "('x, 'b) env \<Rightarrow> ('x sys) deps \<Rightarrow> ('x sys) stage" where
  "boot_media v d =
     (if GOOS (env_rt v) = ''darwin'' then publishpxeassets (env_rt v) (Files d) (Installer d)
      else embedignitioniso (env_rt v) (Installer d) (VM d))"

definition buildStages :: "('x, 'b) env \<Rightarrow> ('x sys) deps \<Rightarrow> ('x sys) stage list" where
  "buildStages v d =
     (let rt = env_rt v in
      [registercluster rt,
       allocatenetwork rt (env_rand v),
       upsertdns rt (DNSManager d),
       ensureclusterdir rt,
       downloadbinaries rt (Download d) (Cmd d) (Host d),
       downloadrhcos rt (env_gunzip v) (Installer d) (Download d),
       bakeimagestore rt (ImageBaker d) (Host d),
       generatesshkey rt (Cmd d) (Host d),
       generateignition rt (Installer d) (DNS d) (Host d),
       boot_media v d,
       createnetwork (Net d) (VM d),
       createmastervms rt (VM d) (Host d),
       verifymasterip rt (Host d),
       waitforinstall rt (Installer d) (CSR d) (Hostname d) (VM d) (env_sched v),
       applytlscerts rt (env_pem v) (NewCertIssuer d) (NewLocalCertIssuer d) (Cmd d),
       mergekubeconfig rt (Cmd d),
       installodf (ODF d),
       finalize rt])"

definition find_cluster :: "mem \<Rightarrow> string \<Rightarrow> nat option" where
  "find_cluster m n = find (\<lambda>q. cName (heap m q) = n) (Clusters m)"

definition vmNames :: "cluster_config \<Rightarrow> string list" where
  "vmNames c =
     map (\<lambda>i. ''master-'' @ nat_str i @ ''-'' @ cName c) [0..<nat (cMasterCount c)] @
     map (\<lambda>i. ''worker-'' @ nat_str i @ ''-'' @ cName c) [0..<nat (cWorkerCount c)]"

section \<open>Create\<close>

text \<open>The resolution of a channel alias before any stage runs.\<close>

definition resolve_version :: "('x, 'b) env \<Rightarrow> ('x sys) deps \<Rightarrow> nat \<Rightarrow> mem \<Rightarrow> ('x sys, error option \<times> mem) io" where
  "resolve_version v d r m =
     (let rt = env_rt v; ver = cOCPVersion (heap m r) in
      if IsResolvedOCPVersion ver then io_ret (None, m)
      else io_bind (ResolveOCPVersion rt (env_tmp v) (Download d) (PayloadArch (GOARCH rt)) ver) (\<lambda>x. io_ret (case x of
        Inl e \<Rightarrow> (Some (Wrapf ''resolve OCP version %q: %w'' [quoted ver] e), m)
      | Inr resolved \<Rightarrow> (None, set_cluster r (cOCPVersion_update (\<lambda>_. resolved)) m))))"

text \<open>From the resolved version on: preflight, apply, and the terminal state.\<close>

definition run_pipeline :: "('x, 'b) env \<Rightarrow> ('x sys) deps \<Rightarrow> nat \<Rightarrow> mem \<Rightarrow> ('x sys, error option \<times> mem) io" where
  "run_pipeline v d r m =
     act_check m (wrap_err ''preflight: %w'' [] (runner_Preflight r m (buildStages v d)))
      (act_seq (runner_Apply (env_rt v) (ConfigDir m) r m (buildStages v d)) (\<lambda>m1.
        if cState (heap m1 r) \<noteq> ClusterStateRunning
        then save_mem (env_rt v) (set_cluster r (cState_update (\<lambda>_. ClusterStateRunning)) m1)
        else io_ret (None, m1)))"

text \<open>\<open>r\<close> refers to the cluster of the request, which is not in the configuration yet.\<close>

definition Create :: "('x, 'b) env \<Rightarrow> ('x sys) deps \<Rightarrow> nat \<Rightarrow> mem \<Rightarrow> ('x sys, error option \<times> mem) io" where
  "Create v d r m =
     (case validateName (heap m r) of
        Some e \<Rightarrow> io_ret (Some e, m)
      | None \<Rightarrow>
          act_check m (EnsurePullSecret (env_rt v) (ConfigDir m))
           (case find_cluster m (cName (heap m r)) of
              Some q \<Rightarrow>
                if cState (heap m q) = ClusterStateRunning
                then io_ret (Some (Errorf ''cluster %s is already running'' [cName (heap m r)]), m)
                else act_seq (resolve_version v d q m) (run_pipeline v d q)
            | None \<Rightarrow>
                let m1 = set_cluster r applyDefaults m in
                (case validateNew m1 (heap m1 r) of
                   Some e \<Rightarrow> io_ret (Some e, m1)
                 | None \<Rightarrow> act_seq (resolve_version v d r m1) (run_pipeline v d r))))"

section \<open>Start, Stop, Delete\<close>

abbreviation apiWaitTimeout :: nat where "apiWaitTimeout \<equiv> 15 * minute"
abbreviation convergeTimeout :: nat where "convergeTimeout \<equiv> 10 * minute"
abbreviation convergePollInterval :: nat where "convergePollInterval \<equiv> 10 * second"

definition api_probe :: "'s command_runner \<Rightarrow> string \<Rightarrow> string \<Rightarrow> ('s, unit + error option) io" where
  "api_probe cmd oc kubeconfig =
     io_bind (Cmd_Run cmd oc [''--kubeconfig'', kubeconfig, ''get'', ''--raw'', ''/readyz'']) (\<lambda>(_, e).
       io_ret (if e = None then Inr None else Inl ()))"

text \<open>\<open>time.Now().After(deadline)\<close> holds once more than the timeout has passed.\<close>

definition waitForAPI :: "'x rt \<Rightarrow> ('x sys) command_runner \<Rightarrow> string \<Rightarrow> string \<Rightarrow> ('x sys, error option) io" where
  "waitForAPI rt cmd oc kubeconfig =
     poll_loop rt (Suc apiWaitTimeout) convergePollInterval (\<lambda>_. api_probe cmd oc kubeconfig)
       (\<lambda>_. Some (Errorf ''API did not become ready within %s after VM start'' [''15m0s''])) (Some ErrCanceled) () 0"

definition nodeReady :: "'s command_runner \<Rightarrow> string \<Rightarrow> string \<Rightarrow> ('s, bool) io" where
  "nodeReady cmd oc kubeconfig =
     io_bind (Cmd_Run cmd oc [''--kubeconfig'', kubeconfig, ''get'', ''nodes'', ''-o'',
        ''jsonpath={.items[*].status.conditions[?(@.type=='' @ [CHR 0x22] @ ''Ready'' @ [CHR 0x22] @ '')].status}''])
      (\<lambda>(out, e). io_ret (e = None \<and> Prelude.fields out \<noteq> [] \<and> list_all (\<lambda>f. f = ''True'') (Prelude.fields out)))"

definition csrsPending :: "'s command_runner \<Rightarrow> string \<Rightarrow> string \<Rightarrow> ('s, bool) io" where
  "csrsPending cmd oc kubeconfig =
     io_bind (Cmd_Run cmd oc [''--kubeconfig'', kubeconfig, ''get'', ''csr'']) (\<lambda>(out, e).
       io_ret (e = None \<and> contains out ''Pending''))"

fun repeat_turn :: "nat \<Rightarrow> ('s, unit) io \<Rightarrow> ('s, unit) io" where
  "repeat_turn 0 a = io_ret ()"
| "repeat_turn (Suc n) a = io_bind a (\<lambda>_. repeat_turn n a)"

text \<open>One round: the approver's turns of the round, then the two probes.\<close>

definition converge_probe :: "nat \<Rightarrow> 's command_runner \<Rightarrow> 's csr_approver \<Rightarrow> string \<Rightarrow> string \<Rightarrow>
    ('s, (bool \<times> bool) + error option) io" where
  "converge_probe turns cmd csr oc kubeconfig =
     io_bind (repeat_turn turns (Csr_Turn csr oc kubeconfig)) (\<lambda>_.
     io_bind (nodeReady cmd oc kubeconfig) (\<lambda>ready.
     io_bind (csrsPending cmd oc kubeconfig) (\<lambda>pending.
       io_ret (if ready \<and> \<not> pending then Inr None else Inl (ready, pending)))))"

definition converge_give_up :: "string \<Rightarrow> bool \<times> bool \<Rightarrow> error option" where
  "converge_give_up name p =
     (case p of (ready, pending) \<Rightarrow>
        Some (Errorf (''cluster %s did not converge within %s (node Ready=%t, CSRs pending=%t); '' @
          ''it may still recover on its own '' @ emdash @ '' check `easyshift status %s`'')
          [name, ''10m0s'', bool_str ready, bool_str pending, name]))"

definition convergeAfterStart :: "('x, 'b) env \<Rightarrow> ('x sys) deps \<Rightarrow> mem \<Rightarrow> cluster_config \<Rightarrow> ('x sys, error option) io" where
  "convergeAfterStart v d m c =
     (let oc = path_join [BinariesDir (ConfigDir m) (cOCPVersion c), ''oc''];
          kubeconfig = path_join [ClusterDir (ConfigDir m) (cName c), ''auth'', ''kubeconfig'']
      in io_seq (waitForAPI (env_rt v) (Cmd d) oc kubeconfig)
          (poll_loop (env_rt v) (Suc convergeTimeout) convergePollInterval
             (\<lambda>_. converge_probe (env_csr_turns v) (Cmd d) (CSR d) oc kubeconfig)
             (converge_give_up (cName c)) (Some ErrCanceled) (False, False) 0))"

fun start_vms :: "'s vm_manager \<Rightarrow> string list \<Rightarrow> ('s, error option) io" where
  "start_vms vm [] = io_ret None"
| "start_vms vm (n # ns) = io_seq (wrap_err ''start %s: %w'' [n] (VM_Start vm n)) (start_vms vm ns)"

fun stop_vms :: "'s vm_manager \<Rightarrow> string list \<Rightarrow> ('s, unit) io" where
  "stop_vms vm [] = io_ret ()"
| "stop_vms vm (n # ns) = io_bind (VM_Stop vm n) (\<lambda>_. stop_vms vm ns)"

definition not_found :: "string \<Rightarrow> error" where
  "not_found name = Errorf ''cluster %s not found'' [name]"

definition Start :: "('x, 'b) env \<Rightarrow> ('x sys) deps \<Rightarrow> string \<Rightarrow> mem \<Rightarrow> ('x sys, error option \<times> mem) io" where
  "Start v d name m =
     (case find_cluster m name of
        None \<Rightarrow> io_ret (Some (not_found name), m)
      | Some q \<Rightarrow>
          let c = heap m q in
          if cState c = ClusterStateRunning then io_ret (Some (Errorf ''cluster %s is already running'' [name]), m)
          else act_check m (start_vms (VM d) (vmNames c))
            (let m1 = set_cluster q (cState_update (\<lambda>_. ClusterStateRunning)) m in
             act_check m1 (Save (env_rt v) m1) (keep_mem m1 (convergeAfterStart v d m1 (heap m1 q)))))"

definition Stop :: "('x, 'b) env \<Rightarrow> ('x sys) deps \<Rightarrow> string \<Rightarrow> mem \<Rightarrow> ('x sys, error option \<times> mem) io" where
  "Stop v d name m =
     (case find_cluster m name of
        None \<Rightarrow> io_ret (Some (not_found name), m)
      | Some q \<Rightarrow>
          let c = heap m q in
          if cState c \<noteq> ClusterStateRunning then io_ret (Some (Errorf ''cluster %s is not running'' [name]), m)
          else io_bind (stop_vms (VM d) (vmNames c)) (\<lambda>_.
            save_mem (env_rt v) (set_cluster q (cState_update (\<lambda>_. ClusterStateStopped)) m)))"

definition Delete :: "('x, 'b) env \<Rightarrow> ('x sys) deps \<Rightarrow> string \<Rightarrow> mem \<Rightarrow> ('x sys, error option \<times> mem) io" where
  "Delete v d name m =
     (case find_cluster m name of
        None \<Rightarrow> io_ret (Some (not_found name), m)
      | Some q \<Rightarrow>
          act_seq (if cState (heap m q) = ClusterStateRunning then Stop v d name m else io_ret (None, m)) (\<lambda>m1.
          act_seq (io_bind (runner_Rollback (env_rt v) (ConfigDir m1) q m1 (buildStages v d)) (\<lambda>(e, m2).
              io_ret (map_option (Wrapf ''rollback: %w'' []) e, m2))) (\<lambda>m2.
          io_bind (os_removeall (env_rt v) (ClusterDir (ConfigDir m2) name)) (\<lambda>_. save_mem (env_rt v) m2))))"

definition List_clusters :: "mem \<Rightarrow> cluster_config list" where
  "List_clusters m = cluster_list m"

end
