(* ===== verification/BootFacts.thy ===== *)
theory BootFacts
  imports Fakes
begin

text \<open>
  What the stages that prepare and start the master VM guarantee: the bounds of the kernel
  decompression, the host memory guard on 64-bit words, the disks and MAC of the VM.
\<close>

section \<open>download-rhcos: the kernel\<close>

text \<open>The header of an EFI zboot image.\<close>

definition zboot_header :: "string \<Rightarrow> bool" where
  "zboot_header dat \<longleftrightarrow> length dat > 0x38 \<and> take 2 dat = ''MZ'' \<and> slice 4 8 dat = ''zimg''"

definition gzip_header :: "string \<Rightarrow> bool" where
  "gzip_header dat \<longleftrightarrow> take 2 dat = [CHR 0x1F, CHR 0x8B]"

text \<open>The reference: the same decisions on natural numbers, where nothing wraps.\<close>

definition kernel_spec :: "(string \<Rightarrow> string result) \<Rightarrow> string \<Rightarrow> string result" where
  "kernel_spec gz dat =
     (let off = unat (le32 (slice 8 12 dat)); len = unat (le32 (slice 12 16 dat));
          comp = trim_right_by (\<lambda>c. c = CHR 0x00) (slice 0x18 0x38 dat)
      in if zboot_header dat then
           (if off + len > length dat
            then Inl (Errorf ''zboot payload [%d:%d] exceeds file size %d'' [nat_str off, nat_str (off + len), nat_str (length dat)])
            else if comp = ''gzip'' then gunzip gz (take len (drop off dat))
            else Inl (Errorf ''unsupported zboot kernel compression %q'' [quoted comp]))
         else if gzip_header dat then gunzip gz dat else Inr dat)"

lemma take_two: "length dat \<ge> 2 \<Longrightarrow> take 2 dat = [dat ! 0, dat ! 1]"
  by (cases dat; cases "tl dat") (auto simp: numeral_2_eq_2)

lemma short_take: "length dat < 2 \<Longrightarrow> take 2 dat \<noteq> [a, b]"
  by (cases dat; cases "tl dat") auto

text \<open>C23. For a kernel of less than 4 GiB the decompression agrees with the reference on unbounded
  numbers: the slice bounds never wrap around and never panic.\<close>

theorem uncompressKernel_spec:
  assumes small: "length dat < 2 ^ 32"
  shows "uncompressKernel gz dat = kernel_spec gz dat"
proof -
  let ?off = "le32 (slice 8 12 dat)" and ?len = "le32 (slice 12 16 dat)"
  have z: "zboot_header dat \<longleftrightarrow> length dat > 0x38 \<and> dat ! 0 = CHR ''M'' \<and> dat ! 1 = CHR ''Z'' \<and> slice 4 8 dat = ''zimg''"
    by (cases "2 \<le> length dat") (auto simp: zboot_header_def take_two)
  have g: "gzip_header dat \<longleftrightarrow> length dat \<ge> 2 \<and> dat ! 0 = CHR 0x1F \<and> dat ! 1 = CHR 0x8B"
    by (cases "2 \<le> length dat") (auto simp: gzip_header_def take_two short_take)
  have n: "unat (?off + ?len) = unat ?off + unat ?len" if "unat ?off + unat ?len \<le> length dat"
    using that small by (simp add: unat_add_lem [THEN iffD1])
  have u: "uncompressKernel gz dat =
     (if zboot_header dat then
        (if unat ?off + unat ?len > length dat then
           Inl (Errorf ''zboot payload [%d:%d] exceeds file size %d''
             [nat_str (unat ?off), nat_str (unat ?off + unat ?len), nat_str (length dat)])
         else if unat (?off + ?len) < unat ?off then Inl (ExtErr ''panic: slice bounds out of range'')
         else if trim_right_by (\<lambda>c. c = CHR 0x00) (slice 0x18 0x38 dat) = ''gzip''
           then gunzip gz (slice (unat ?off) (unat (?off + ?len)) dat)
           else Inl (Errorf ''unsupported zboot kernel compression %q''
             [quoted (trim_right_by (\<lambda>c. c = CHR 0x00) (slice 0x18 0x38 dat))]))
      else if gzip_header dat then gunzip gz dat else Inr dat)"
    by (simp only: uncompressKernel_def z g Let_def)
  show ?thesis
  proof (cases "unat ?off + unat ?len > length dat")
    case True
    then show ?thesis by (simp only: u kernel_spec_def Let_def if_True)
  next
    case False
    then have "unat (?off + ?len) = unat ?off + unat ?len" using n by simp
    with False show ?thesis
      by (simp only: u kernel_spec_def Let_def if_False slice_def [of "unat ?off"]) simp
  qed
qed


definition sample_zboot :: string where
  "sample_zboot = ''MZ'' @ replicate 2 (CHR 0x00) @ ''zimg'' @ [CHR 0x40, CHR 0x00, CHR 0x00, CHR 0x00] @
     [CHR 0x03, CHR 0x00, CHR 0x00, CHR 0x00] @ replicate 8 (CHR 0x00) @ ''gzip'' @ replicate 36 (CHR 0x00) @ ''xyz''"

theorem uncompressKernel_spec_witness:
  "uncompressKernel Inr sample_zboot = Inr ''xyz''"
proof -
  have l: "length sample_zboot = 67" by (simp add: sample_zboot_def)
  have c: "slice 8 12 sample_zboot = [CHR 0x40, CHR 0x00, CHR 0x00, CHR 0x00]"
    "slice 12 16 sample_zboot = [CHR 0x03, CHR 0x00, CHR 0x00, CHR 0x00]" "zboot_header sample_zboot"
    "trim_right_by (\<lambda>c. c = CHR 0x00) (slice 0x18 0x38 sample_zboot) = ''gzip''"
    "take 3 (drop 64 sample_zboot) = ''xyz''" by code_simp+
  have "unat (le32 [CHR 0x40, CHR 0x00, CHR 0x00, CHR 0x00]) = 64"
    "unat (le32 [CHR 0x03, CHR 0x00, CHR 0x00, CHR 0x00]) = 3" by (simp_all add: le32_def)
  then have "kernel_spec Inr sample_zboot = Inr ''xyz''"
    using c l by (simp add: kernel_spec_def gunzip_def Let_def)
  with uncompressKernel_spec [of sample_zboot Inr] l show ?thesis by simp
qed

section \<open>create-master-vms: the host memory guard\<close>

text \<open>The other clusters the scan finds running.\<close>

fun found_running :: "'s vm_manager \<Rightarrow> string \<Rightarrow> cluster_config list \<Rightarrow> ('s, cluster_config list) io" where
  "found_running vm self [] = io_ret []"
| "found_running vm self (c # cs) =
     (if cName c = self then found_running vm self cs
      else io_bind (VM_IsRunning vm (''master-0-'' @ cName c)) (\<lambda>(up, err).
        io_bind (found_running vm self cs) (\<lambda>fs. io_ret (if err = None \<and> up then c # fs else fs))))"

definition ram_total :: "cluster_config list \<Rightarrow> int" where
  "ram_total cs = sum_list (map cMasterRAM cs)"

lemma memory_scan_found:
  "memory_scan vm self cs tot running =
     io_bind (found_running vm self cs) (\<lambda>fs. io_ret (tot + word_of_int (ram_total fs), running @ map cName fs))"
proof (induction cs arbitrary: tot running)
  case (Cons c cs)
  show ?case
    by (intro ext io_eqI) (auto simp: Cons ram_total_def add.assoc split: prod.splits)
qed (simp add: ram_total_def)

lemma found_running_set: "set (res (found_running vm self cs) s) \<subseteq> set cs"
  by (induction cs arbitrary: s) (auto split: prod.splits)

lemma found_running_self: "\<forall>c \<in> set cs. cName c = self \<Longrightarrow> found_running vm self cs = io_ret []"
  by (induction cs) simp_all

lemma found_running_length: "length (res (found_running vm self cs) s) \<le> length cs"
  by (induction cs arbitrary: s) (auto split: prod.splits simp: le_SucI)

lemma ram_total_bound:
  assumes "\<forall>c \<in> set cs. 0 \<le> cMasterRAM c \<and> cMasterRAM c < B"
  shows "0 \<le> ram_total cs \<and> ram_total cs \<le> int (length cs) * B"
  using assms by (induction cs) (auto simp: ram_total_def algebra_simps)

lemma word_sum_le:
  fixes t :: int and b :: "64 word"
  assumes "0 \<le> t" "t + 5120 < 2 ^ 64"
  shows "(word_of_int t + hostMemoryReserveMiB \<le> drop_bit 20 b) = (t + 5120 \<le> uint b div 2 ^ 20)"
proof -
  have "uint (word_of_int t + hostMemoryReserveMiB) = t + 5120"
    using assms by (simp add: hostMemoryReserveMiB_def uint_word_ariths uint_word_of_int)
  moreover have "uint (drop_bit 20 b) = uint b div 2 ^ 20"
    by (simp only: drop_bit_eq_div uint_div_distrib) simp
  ultimately show ?thesis by (simp add: word_le_def)
qed




definition two_running :: sim where
  "two_running = \<lparr>files = (\<lambda>_. None), rest = bVM_update (fake_SetRunning ''master-0-two'' True) (fresh_bundle ''/http'')\<rparr>"

lemma two_running_scan:
  "res (found_running fake_vm_manager ''one'' [sample_cluster ''one'', sample_cluster ''two'']) two_running = [sample_cluster ''two'']"
  by (simp add: sample_cluster_def two_running_def fake_VM_IsRunning_def fake_SetRunning_def fresh_bundle_def map_get_def)


text \<open>A negative memory size wraps around: -5120 MiB passes the guard on every host.\<close>

lemma negative_ram_accepted:
  assumes alone: "\<forall>c \<in> set (cluster_list m). cName c = cName (heap m r)" and ram: "cMasterRAM (heap m r) = - 5120"
  shows "res (checkHostMemory host vm r m) s = None"
proof -
  have "found_running vm (cName (heap m r)) (cluster_list m) = io_ret []" using alone by (rule found_running_self)
  then show ?thesis
    using ram by (simp add: checkHostMemory_def memory_scan_found ram_total_def hostMemoryReserveMiB_def Let_def split: sum.splits)
qed

theorem negative_ram_accepted_witness:
  "res (checkHostMemory (Host (fake_deps sample_rt ''/http'')) fake_vm_manager 0
     (sample_mem [(sample_cluster ''one'')\<lparr>cMasterRAM := - 5120\<rparr>])) two_running = None"
  by (rule negative_ram_accepted) (simp_all add: cluster_list_def sample_mem_def)

section \<open>create-master-vms: the disks and the MAC\<close>

text \<open>The device name of the \<open>k\<close>-th virtio disk after the boot disk \<open>/dev/vda\<close>.\<close>

definition extra_device :: "nat \<Rightarrow> string" where
  "extra_device k = ''/dev/vd'' @ [char_of (98 + k)]"

lemma extra_devices: "extra_device 0 = ''/dev/vdb''" "extra_device 1 = ''/dev/vdc''"
  by code_simp+

text \<open>C39. The device that install-odf prepares is the writable data disk of the VM: it is the last of the
  extra disks, and every disk before it is attached read-only.\<close>

theorem odf_device_is_data_disk:
  assumes disks: "res (io_try (bake_disks rt vm m c vmName) (odf_disks rt vm c vmName)) s = Inr disks" and odf: "cODF c"
  shows "\<exists>k. k < length disks \<and> osDevicePath (installodf_spec m c) = extra_device k \<and>
    \<not> edReadOnly (disks ! k) \<and> (\<forall>j < length disks. j \<noteq> k \<longrightarrow> edReadOnly (disks ! j))"
proof -
  note d = extra_devices
  show ?thesis
  proof (cases "cBakeImages c")
    case True
    then have "\<exists>p q. disks = [\<lparr>edPath = p, edReadOnly = True, edShareable = True\<rparr>, \<lparr>edPath = q, edReadOnly = False, edShareable = False\<rparr>]"
      using disks odf by (auto simp: bake_disks_def odf_disks_def attachImageStore_def split: sum.splits)
    with True d show ?thesis
      by (auto simp: installodf_spec_def Let_def less_Suc_eq intro!: exI [of _ "Suc 0"])
  next
    case False
    then have "\<exists>q. disks = [\<lparr>edPath = q, edReadOnly = False, edShareable = False\<rparr>]"
      using disks odf by (auto simp: bake_disks_def odf_disks_def split: sum.splits)
    with False d show ?thesis
      by (auto simp: installodf_spec_def Let_def intro!: exI [of _ 0])
  qed
qed


theorem odf_device_is_data_disk_witness:
  "\<exists>disks. res (io_try (bake_disks sample_rt fake_vm_manager (sample_mem []) ((sample_cluster ''one'')\<lparr>cBakeImages := True, cODF := True\<rparr>) ''vm'')
        (odf_disks sample_rt fake_vm_manager ((sample_cluster ''one'')\<lparr>cBakeImages := True, cODF := True\<rparr>) ''vm'')) two_running = Inr disks \<and>
     length disks = 2 \<and> \<not> edReadOnly (disks ! 1)"
proof -
  let ?c = "(sample_cluster ''one'')\<lparr>cBakeImages := True, cODF := True\<rparr>"
  have o: "cODF ?c" by simp
  obtain disks where d: "res (io_try (bake_disks sample_rt fake_vm_manager (sample_mem []) ?c ''vm'')
        (odf_disks sample_rt fake_vm_manager ?c ''vm'')) two_running = Inr disks" "length disks = 2"
    by (simp add: bake_disks_def odf_disks_def attachImageStore_def fake_VM_ImportDisk_def fake_VM_CreateDataDisk_def
        pool_volume_def two_running_def fake_SetRunning_def fresh_bundle_def)
  have "osDevicePath (installodf_spec (sample_mem []) ?c) \<noteq> extra_device 0"
    using extra_devices by (simp add: installodf_spec_def Let_def)
  with odf_device_is_data_disk [OF d(1) o] d(2) have "\<not> edReadOnly (disks ! 1)"
    by (auto simp: less_2_cases_iff)
  with d show ?thesis by blast
qed

text \<open>Masters come first in \<open>MACAddresses\<close>, workers after them.\<close>

lemma macFor_loop_master:
  assumes "k < length macs" "int (i + k) < cMasterCount c"
  shows "macFor_loop c (''master-'' @ nat_str (i + k)) i macs = macs ! k"
  using assms
proof (induction macs arbitrary: i k)
  case (Cons mac macs)
  show ?case
  proof (cases k)
    case 0
    with Cons.prems show ?thesis by simp
  next
    case (Suc k')
    have "nat_str (i + k) \<noteq> nat_str i" using Suc nat_str_inj [of "i + k" i] by auto
    then show ?thesis using Cons.IH [of k' "Suc i"] Cons.prems Suc by simp
  qed
qed simp

lemma macFor_loop_worker:
  assumes "k < length macs" "int (i + k) \<ge> cMasterCount c"
  shows "macFor_loop c (''worker-'' @ int_str (int (i + k) - cMasterCount c)) i macs = macs ! k"
  using assms
proof (induction macs arbitrary: i k)
  case (Cons mac macs)
  show ?case
  proof (cases k)
    case 0
    with Cons.prems show ?thesis by simp
  next
    case (Suc k')
    have "int_str (int (i + k) - cMasterCount c) \<noteq> int_str (int i - cMasterCount c)" if "int i \<ge> cMasterCount c"
      using that Suc nat_str_inj [of "nat (int (i + k) - cMasterCount c)" "nat (int i - cMasterCount c)"]
      by (auto simp: int_str_def)
    then show ?thesis using Cons.IH [of k' "Suc i"] Cons.prems Suc by auto
  qed
qed simp

text \<open>Every node of a cluster gets the MAC at its place in \<open>MACAddresses\<close>: the masters first, the workers
  after them.\<close>

lemma macFor_roles:
  assumes "0 \<le> cMasterCount c" "i < length (cMACAddresses c)"
  shows "macFor c (if int i < cMasterCount c then ''master-'' @ nat_str i
           else ''worker-'' @ int_str (int i - cMasterCount c)) = cMACAddresses c ! i"
  using macFor_loop_master [where k = i and i = 0] macFor_loop_worker [where k = i and i = 0] assms
  by (simp add: macFor_def)


theorem macFor_roles_witness:
  "macFor ((sample_cluster ''one'')\<lparr>cWorkerCount := 1, cMACAddresses := [''52:54:00:00:00:01'', ''52:54:00:00:00:02'']\<rparr>)
     ''worker-0'' = ''52:54:00:00:00:02''"
proof -
  have "int_str 0 = ''0''" by code_simp
  then show ?thesis
    using macFor_roles [of "(sample_cluster ''one'')\<lparr>cWorkerCount := 1,
      cMACAddresses := [''52:54:00:00:00:01'', ''52:54:00:00:00:02'']\<rparr>" 1] by (simp add: sample_cluster_def)
qed

end
