(* ===== verification/InstallFacts.thy ===== *)
theory InstallFacts
  imports Fakes
begin

text \<open>
  What the stages on the booted master guarantee: the verdict of \<open>verify-master-ip\<close> and its time
  bound, and the retries of \<open>wait-for-install\<close>.
\<close>

section \<open>verify-master-ip\<close>

text \<open>What a probe saw when it decided.\<close>

definition verify_evidence :: "'s host_inspector \<Rightarrow> string \<Rightarrow> string \<Rightarrow> error option \<Rightarrow> bool" where
  "verify_evidence host mac wantIP verdict \<longleftrightarrow>
     (\<exists>s. let s1 = after (Ho_DialTCP host (JoinHostPort wantIP ''22'') verify_dial) s;
              gotIP = fst (res (Ho_ARPLookup host mac) s1); s2 = after (Ho_ARPLookup host mac) s1 in
        case verdict of
          None \<Rightarrow> res (Ho_DialTCP host (JoinHostPort wantIP ''22'') verify_dial) s = None \<and> gotIP = wantIP
        | Some e \<Rightarrow> e = mismatchErr mac gotIP wantIP \<and> gotIP \<noteq> [] \<and> gotIP \<noteq> wantIP \<and>
            res (Ho_DialTCP host (JoinHostPort gotIP ''22'') verify_dial) s2 = None)"

interpretation verify_loop: deadline_loop rt "\<lambda>_. verify_probe host mac wantIP" "\<lambda>_. True" "verify_evidence host mac wantIP"
  for rt host mac wantIP
proof
  show "verify_evidence host mac wantIP a" if "res (verify_probe host mac wantIP) s = Inr a" for s a
    using that by (auto simp: verify_probe_def verify_evidence_def Let_def split: prod.splits if_splits intro!: exI [of _ s])
qed simp_all

lemma verify_verdict:
  assumes "verify rt host mac wantIP s = (verdict, t, s')"
  shows "verify_evidence host mac wantIP verdict \<or> verdict = Some ErrCanceled \<or>
    ((\<exists>gotIP. verdict = verify_give_up mac wantIP gotIP) \<and> verify_timeout \<le> t)"
  using verify_loop.loop_result [OF TrueI, where rt = rt and timeout = verify_timeout and interval = verify_poll and host = host and mac = mac and wantIP = wantIP] assms
  unfolding verify_def by fastforce

text \<open>C10. The stage lets the installation go on only if a probe reached the reserved address over SSH and then
  saw the master's MAC on that address.\<close>

theorem verify_sound:
  assumes "verify rt host mac wantIP s = (None, t, s')"
  shows "\<exists>x. res (Ho_DialTCP host (JoinHostPort wantIP ''22'') verify_dial) x = None \<and>
    fst (res (Ho_ARPLookup host mac) (after (Ho_DialTCP host (JoinHostPort wantIP ''22'') verify_dial) x)) = wantIP"
  using verify_verdict [OF assms] by (auto simp: verify_evidence_def verify_give_up_def Let_def)

definition arp_sim :: "string \<Rightarrow> sim" where
  "arp_sim ip = \<lparr>files = (\<lambda>_. None),
     rest = bHost_update (fxARPTable_update (\<lambda>_. [(''52:54:00:00:00:01'', ip)])) (fresh_bundle ''/http'')\<rparr>"

abbreviation sim_host :: "sim host_inspector" where
  "sim_host \<equiv> Host (fake_deps sample_rt ''/http'')"

lemma arp_sim_probe:
  "verify_probe sim_host ''52:54:00:00:00:01'' ''192.168.1.9'' (arp_sim ''192.168.1.9'') = (Inr None, 0, arp_sim ''192.168.1.9'')"
proof -
  have "to_lower ''52:54:00:00:00:01'' = ''52:54:00:00:00:01''" by code_simp
  then show ?thesis
    by (simp add: verify_probe_def fake_DialTCP_def fake_ARPLookup_def sim_op_def io_bind_def io_ret_def arp_sim_def fresh_bundle_def)
qed

lemma arp_sim_verify:
  "verify sample_rt sim_host ''52:54:00:00:00:01'' ''192.168.1.9'' (arp_sim ''192.168.1.9'') = (None, 0, arp_sim ''192.168.1.9'')"
  by (simp add: verify_def poll_loop.simps arp_sim_probe)

theorem verify_sound_witness:
  "\<exists>x. fst (res (Ho_ARPLookup sim_host ''52:54:00:00:00:01'') x) = ''192.168.1.9''"
  using verify_sound [OF arp_sim_verify] by blast

text \<open>The stage ends in bounded time: with dials that keep their timeout, at most one pause and one round
  after the eight minutes.\<close>

lemma verify_bounded:
  assumes dial: "\<And>addr x. took (Ho_DialTCP host addr verify_dial) x \<le> verify_dial"
    and arp: "\<And>x. took (Ho_ARPLookup host mac) x \<le> A"
    and wait: "\<And>x. took (pause rt verify_poll) x \<le> verify_poll + J"
  shows "took (verify rt host mac wantIP) s \<le> verify_timeout + verify_poll + 2 * verify_dial + A + J"
proof -
  have p: "took (verify_probe host mac wantIP) x \<le> 2 * verify_dial + A" for x
  proof -
    have d: "took (Ho_DialTCP host addr 3000) y \<le> 3000" for addr y using dial [of addr y] by simp
    let ?x1 = "after (Ho_DialTCP host (JoinHostPort wantIP ''22'') 3000) x"
    obtain gotIP e where a: "res (Ho_ARPLookup host mac) ?x1 = (gotIP, e)" by force
    show ?thesis
      using d [of "JoinHostPort wantIP ''22''" x] arp [of ?x1] d [of "JoinHostPort gotIP ''22''" "after (Ho_ARPLookup host mac) ?x1"]
      by (simp add: verify_probe_def a)
  qed
  obtain a w s' where v: "verify rt host mac wantIP s = (a, w, s')" by (cases "verify rt host mac wantIP s")
  have "w \<le> (if verify_timeout \<le> 0 then 2 * verify_dial + A else verify_timeout - 0 + (verify_poll + J) + (2 * verify_dial + A))"
    by (rule poll_loop_time [OF p wait v [unfolded verify_def]])
  then show ?thesis by (simp add: took_def v)
qed

theorem verify_bounded_witness:
  "took (verify sample_rt sim_host ''52:54:00:00:00:01'' ''192.168.1.9'') (arp_sim ''192.168.1.7'') \<le> 496000"
  using verify_bounded [of sim_host "''52:54:00:00:00:01''" 0 sample_rt 0 "''192.168.1.9''" "arp_sim ''192.168.1.7''"]
  by (simp add: fake_DialTCP_def fake_ARPLookup_def pause_def took_def sample_rt_def sim_op_def split: prod.splits)

section \<open>wait-for-install\<close>

text \<open>
  The states in which the installer would be asked, one per attempt, each after the turns of the
  helpers; and the verdict on what the attempts return.
\<close>

fun attempt_states :: "'s installer \<Rightarrow> installer_spec \<Rightarrow> (nat \<Rightarrow> ('s, unit) io) \<Rightarrow> nat \<Rightarrow> 's \<Rightarrow> 's list" where
  "attempt_states inst spec env 0 s = []"
| "attempt_states inst spec env (Suc k) s =
     (let s1 = after (env (Suc k)) s in s1 # attempt_states inst spec env k (after (In_WaitForInstallComplete inst spec) s1))"

definition timed_out :: "error option \<Rightarrow> bool" where
  "timed_out v \<longleftrightarrow> (case v of None \<Rightarrow> False | Some e \<Rightarrow> isInstallerTimeoutError e)"

definition gave_up :: "error \<Rightarrow> error" where
  "gave_up e = Wrapf ''wait-for install-complete: gave up after %d timeouts: %w'' [nat_str waitForInstallRetries] e"

definition retry_verdict :: "error option list \<Rightarrow> error option" where
  "retry_verdict vs = (case dropWhile timed_out vs of v # _ \<Rightarrow> v | [] \<Rightarrow> map_option gave_up (last vs))"

lemma attempt_states_length [simp]: "length (attempt_states inst spec env k s) = k"
  by (induction k arbitrary: s) (simp_all add: Let_def)

lemma wait_loop_verdict:
  "vs = map (res (In_WaitForInstallComplete inst spec)) (attempt_states inst spec env k s) \<Longrightarrow>
   res (wait_loop inst spec env k err) s =
     (case dropWhile timed_out vs of v # _ \<Rightarrow> v | [] \<Rightarrow> map_option gave_up (last (Some err # vs)))"
proof (induction k arbitrary: s err vs)
  case (Suc k)
  let ?wait = "In_WaitForInstallComplete inst spec" and ?s1 = "after (env (Suc k)) s"
  define vs' where "vs' = map (res ?wait) (attempt_states inst spec env k (after ?wait ?s1))"
  have vs: "vs = res ?wait ?s1 # vs'" using Suc.prems by (simp add: vs'_def Let_def)
  show ?case
  proof (cases "res ?wait ?s1")
    case None
    then show ?thesis by (simp add: vs timed_out_def)
  next
    case (Some e)
    have "timed_out (Some e) = isInstallerTimeoutError e" by (simp add: timed_out_def)
    with Some show ?thesis using Suc.IH [OF vs'_def, of e] by (simp add: vs cong: list.case_cong)
  qed
qed (simp add: gave_up_def)

text \<open>C11. The wait asks the installer at most three times, whatever the helpers do in between: it returns what
  the first attempt that did not time out returned, and gives up after three timeouts.\<close>

theorem waitWithRetry_verdict:
  "res (waitWithRetry inst spec env) s =
     retry_verdict (map (res (In_WaitForInstallComplete inst spec)) (attempt_states inst spec env waitForInstallRetries s))"
proof -
  have "attempt_states inst spec env waitForInstallRetries s \<noteq> []"
    using attempt_states_length [of inst spec env waitForInstallRetries s] by (metis list.size(3) zero_neq_numeral)
  then show ?thesis
    unfolding waitWithRetry_def wait_loop_verdict [OF refl] retry_verdict_def by (simp only: last_ConsR map_is_Nil_conv not_False_eq_True)
qed

end
