(* ===== verification/Lifecycle.thy ===== *)
theory Lifecycle
  imports Manager
begin

text \<open>
  What the lifecycle operations keep. The locale \<open>stage_relation\<close> lifts a reflexive and transitive
  relation between memories from the stages to the runner; its interpretation \<open>registry_step\<close>
  is the effect of a create on the registry of clusters and the address pools.
\<close>

section \<open>Lifting a relation from the stages to the runner\<close>

definition apply_within :: "(mem \<Rightarrow> mem \<Rightarrow> bool) \<Rightarrow> nat \<Rightarrow> 's stage \<Rightarrow> bool" where
  "apply_within R r S \<longleftrightarrow> (\<forall>m x. R m (snd (res (Apply S r m) x)))"

definition rollback_within :: "(mem \<Rightarrow> mem \<Rightarrow> bool) \<Rightarrow> nat \<Rightarrow> 's stage \<Rightarrow> bool" where
  "rollback_within R r S \<longleftrightarrow> (\<forall>m x. R m (snd (res (Rollback S r m) x)))"

locale stage_relation =
  fixes R :: "mem \<Rightarrow> mem \<Rightarrow> bool"
  assumes R_refl: "R m m"
    and R_trans: "R m1 m2 \<Longrightarrow> R m2 m3 \<Longrightarrow> R m1 m3"
begin

lemma apply_loop_within:
  "\<forall>S \<in> set ss. apply_within R r S \<Longrightarrow> R m (snd (res (apply_loop save now r ss st m) x))"
proof (induction ss arbitrary: st m x)
  case (Cons S ss)
  obtain e m1 where a: "res (Apply S r m) x = (e, m1)" by force
  then have "R m m1" using Cons.prems by (auto simp: apply_within_def dest!: spec [of _ m] spec [of _ x])
  with a Cons show ?case by (auto split: option.splits intro: R_trans R_refl)
qed (simp add: R_refl)

lemma rollback_loop_within:
  "\<forall>S \<in> set ss. rollback_within R r S \<Longrightarrow> R m (snd (res (rollback_loop save r ss st m) x))"
proof (induction ss arbitrary: st m x)
  case (Cons S ss)
  obtain e m1 where a: "res (Rollback S r m) x = (e, m1)" by force
  then have "R m m1" using Cons.prems by (auto simp: rollback_within_def dest!: spec [of _ m] spec [of _ x])
  with a Cons show ?case by (auto split: option.splits intro: R_trans R_refl)
qed (simp add: R_refl)

lemma runner_Apply_within:
  "\<forall>S \<in> set ss. apply_within R r S \<Longrightarrow> R m (snd (res (runner_Apply rt cd r m ss) x))"
  using apply_loop_within by (auto simp: runner_Apply_def R_refl split: sum.splits)

lemma runner_Rollback_within:
  "\<forall>S \<in> set ss. rollback_within R r S \<Longrightarrow> R m (snd (res (runner_Rollback rt cd r m ss) x))"
  using rollback_loop_within [of "rev ss"] by (auto simp: runner_Rollback_def R_refl split: sum.splits)

end

text \<open>The memories an effect may end in, followed through the combinators.\<close>

definition ends_in :: "(mem \<Rightarrow> bool) \<Rightarrow> ('s, error option \<times> mem) io \<Rightarrow> bool" where
  "ends_in P a \<longleftrightarrow> (\<forall>x. P (snd (res a x)))"

lemma ends_keep_mem: "P m \<Longrightarrow> ends_in P (keep_mem m a)"
  and ends_save_mem: "P m \<Longrightarrow> ends_in P (save_mem rt m)"
  and ends_ret: "P m \<Longrightarrow> ends_in P (io_ret (e, m))"
  by (simp_all add: ends_in_def)

lemma ends_act_check: "P m \<Longrightarrow> ends_in P k \<Longrightarrow> ends_in P (act_check m a k)"
  by (simp add: ends_in_def split: option.splits)

lemma ends_act_bind: "P m \<Longrightarrow> (\<And>v. ends_in P (k v)) \<Longrightarrow> ends_in P (act_bind m a k)"
  by (simp add: ends_in_def split: sum.splits)

lemma ends_act_seq: "ends_in P a \<Longrightarrow> (\<And>m. P m \<Longrightarrow> ends_in P (k m)) \<Longrightarrow> ends_in P (act_seq a k)"
  unfolding ends_in_def by (simp split: option.splits prod.splits) (metis snd_conv)

lemma ends_bind: "(\<And>v. ends_in P (k v)) \<Longrightarrow> ends_in P (io_bind a k)"
  by (simp add: ends_in_def)

lemma ends_if: "(b \<Longrightarrow> ends_in P a) \<Longrightarrow> (\<not> b \<Longrightarrow> ends_in P k) \<Longrightarrow> ends_in P (if b then a else k)"
  by simp

lemma ends_case_sum:
  "(\<And>e. v = Inl e \<Longrightarrow> ends_in P (f e)) \<Longrightarrow> (\<And>y. v = Inr y \<Longrightarrow> ends_in P (g y)) \<Longrightarrow> ends_in P (case_sum f g v)"
  by (cases v) simp_all

lemma ends_case_option:
  "(v = None \<Longrightarrow> ends_in P f) \<Longrightarrow> (\<And>y. v = Some y \<Longrightarrow> ends_in P (g y)) \<Longrightarrow> ends_in P (case_option f g v)"
  by (cases v) simp_all

lemma ends_case_prod: "(\<And>a b. v = (a, b) \<Longrightarrow> ends_in P (f a b)) \<Longrightarrow> ends_in P (case_prod f v)"
  by (cases v) simp

lemmas ends_intros = ends_keep_mem ends_save_mem ends_ret ends_act_check ends_act_bind ends_act_seq
  ends_bind ends_if ends_case_sum ends_case_option ends_case_prod

section \<open>Stages that leave registry and addresses alone\<close>

definition quiet_step :: "nat \<Rightarrow> mem \<Rightarrow> mem \<Rightarrow> bool" where
  "quiet_step r m m' \<longleftrightarrow>
     Clusters m' = Clusters m \<and> UsedIPs m' = UsedIPs m \<and> UsedMACs m' = UsedMACs m \<and> ConfigDir m' = ConfigDir m \<and>
     (\<forall>q. q \<noteq> r \<longrightarrow> heap m' q = heap m q) \<and> cName (heap m' r) = cName (heap m r) \<and>
     cNetworkMode (heap m' r) = cNetworkMode (heap m r) \<and>
     cIPAddresses (heap m' r) = cIPAddresses (heap m r) \<and> cMACAddresses (heap m' r) = cMACAddresses (heap m r)"

lemma quiet_refl [simp, intro]: "quiet_step r m m"
  by (simp add: quiet_step_def)

lemma quiet_set_cluster [intro]:
  "cName (f (heap m r)) = cName (heap m r) \<Longrightarrow> cNetworkMode (f (heap m r)) = cNetworkMode (heap m r) \<Longrightarrow>
   cIPAddresses (f (heap m r)) = cIPAddresses (heap m r) \<Longrightarrow>
   cMACAddresses (f (heap m r)) = cMACAddresses (heap m r) \<Longrightarrow> quiet_step r m (set_cluster r f m)"
  by (simp add: quiet_step_def)

lemma quiet_finalize: "ends_in (quiet_step r m) (finalize_Apply rt r m)"
  unfolding finalize_Apply_def Let_def by (intro ends_intros) auto

lemma quiet_ensureclusterdir: "ends_in (quiet_step r m) (ensureclusterdir_Apply rt r m)"
  unfolding ensureclusterdir_Apply_def Let_def by (intro ends_intros) auto

lemma quiet_upsertdns: "ends_in (quiet_step r m) (upsertdns_Apply dns r m)"
  unfolding upsertdns_Apply_def Let_def by (intro ends_intros) auto

lemma quiet_createnetwork: "ends_in (quiet_step r m) (createnetwork_Apply net r m)"
  unfolding createnetwork_Apply_def Let_def by (intro ends_intros) auto

lemma quiet_generatesshkey: "ends_in (quiet_step r m) (generatesshkey_Apply rt cmd r m)"
  unfolding generatesshkey_Apply_def Let_def by (intro ends_intros) auto

lemma quiet_downloadbinaries: "ends_in (quiet_step r m) (downloadbinaries_Apply rt dl cmd r m)"
  unfolding downloadbinaries_Apply_def Let_def by (intro ends_intros) auto

lemma quiet_downloadrhcos: "ends_in (quiet_step r m) (downloadrhcos_Apply rt gz inst dl r m)"
  unfolding downloadrhcos_Apply_def Let_def by (intro ends_intros) auto

lemma quiet_bakeimagestore: "ends_in (quiet_step r m) (bakeimagestore_Apply rt baker r m)"
  unfolding bakeimagestore_Apply_def Let_def by (intro ends_intros) auto

lemma quiet_generateignition: "ends_in (quiet_step r m) (generateignition_Apply rt inst r m)"
  unfolding generateignition_Apply_def Let_def by (intro ends_intros) auto

lemma quiet_embedignitioniso: "ends_in (quiet_step r m) (embedignitioniso_Apply rt inst vm r m)"
  unfolding embedignitioniso_Apply_def Let_def by (intro ends_intros) auto

lemma quiet_publishpxeassets: "ends_in (quiet_step r m) (publishpxeassets_Apply rt fs inst r m)"
  unfolding publishpxeassets_Apply_def Let_def by (intro ends_intros) auto

lemma quiet_createmastervms: "ends_in (quiet_step r m) (createmastervms_Apply rt vm r m)"
  unfolding createmastervms_Apply_def Let_def by (intro ends_intros) auto

lemma quiet_verifymasterip: "ends_in (quiet_step r m) (verifymasterip_Apply rt host r m)"
  unfolding verifymasterip_Apply_def Let_def by (intro ends_intros) auto

lemma quiet_waitforinstall: "ends_in (quiet_step r m) (waitforinstall_Apply rt inst csr hn vm sched r m)"
  unfolding waitforinstall_Apply_def Let_def by (intro ends_intros) auto

lemma quiet_applytlscerts: "ends_in (quiet_step r m) (applytlscerts_Apply rt pem nci nli cmd r m)"
  unfolding applytlscerts_Apply_def Let_def by (intro ends_intros) auto

lemma quiet_installodf: "ends_in (quiet_step r m) (installodf_Apply odf r m)"
  unfolding installodf_Apply_def Let_def by (intro ends_intros) auto

lemma quiet_mergekubeconfig: "ends_in (quiet_step r m) (mergekubeconfig_Apply rt cmd r m)"
  unfolding mergekubeconfig_Apply_def Let_def by (intro ends_intros) auto

lemmas quiet_stages = quiet_finalize quiet_ensureclusterdir quiet_upsertdns quiet_createnetwork
  quiet_generatesshkey quiet_downloadbinaries quiet_downloadrhcos quiet_bakeimagestore
  quiet_generateignition quiet_embedignitioniso quiet_publishpxeassets quiet_createmastervms
  quiet_verifymasterip quiet_waitforinstall quiet_applytlscerts quiet_installodf quiet_mergekubeconfig

lemma ends_inD: "ends_in P a \<Longrightarrow> P (snd (res a x))"
  by (simp add: ends_in_def)

section \<open>The registry under a create\<close>

text \<open>
  What the pipeline for the cluster \<open>r\<close> may do to the registry: no other cluster changes, \<open>r\<close>
  keeps its name and mode, \<open>r\<close> is appended at most once and only when its name is new, and the
  invariant of the address pools survives on every set of clusters that contains \<open>r\<close>.
\<close>

definition registry_step :: "nat \<Rightarrow> mem \<Rightarrow> mem \<Rightarrow> bool" where
  "registry_step r m m' \<longleftrightarrow>
     ConfigDir m' = ConfigDir m \<and> (\<forall>q. q \<noteq> r \<longrightarrow> heap m' q = heap m q) \<and>
     cName (heap m' r) = cName (heap m r) \<and> cNetworkMode (heap m' r) = cNetworkMode (heap m r) \<and>
     (Clusters m' = Clusters m \<or> Clusters m' = Clusters m @ [r] \<and> \<not> is_registered m (cName (heap m r))) \<and>
     (\<forall>Q. r \<in> Q \<longrightarrow> pool_ok_on Q m \<longrightarrow> pool_ok_on Q m')"

lemma step_names:
  "(\<forall>q. q \<noteq> r \<longrightarrow> heap m' q = heap m q) \<Longrightarrow> cName (heap m' r) = cName (heap m r) \<Longrightarrow> cName (heap m' q) = cName (heap m q)"
  by (cases "q = r") auto

interpretation registry: stage_relation "registry_step r"
proof
  fix m m1 m2 m3
  show "registry_step r m m" by (simp add: registry_step_def)
  assume a: "registry_step r m1 m2" and b: "registry_step r m2 m3"
  have n: "cName (heap m2 q) = cName (heap m1 q)" for q
    using a step_names [of r m2 m1] by (simp add: registry_step_def)
  have "is_registered m2 (cName (heap m2 r))" if "Clusters m2 = Clusters m1 @ [r]"
    using that by (simp add: is_registered_def)
  moreover have "is_registered m2 k = is_registered m1 k" if "Clusters m2 = Clusters m1" for k
    using that by (simp add: is_registered_def n)
  ultimately show "registry_step r m1 m3"
    using a b n unfolding registry_step_def by auto
qed

lemma quiet_registry: "quiet_step r m m' \<Longrightarrow> registry_step r m m'"
proof -
  assume q: "quiet_step r m m'"
  have "cIPAddresses (heap m' p) = cIPAddresses (heap m p)" "cMACAddresses (heap m' p) = cMACAddresses (heap m p)"
    "cNetworkMode (heap m' p) = cNetworkMode (heap m p)" for p
    using q by (cases "p = r"; simp add: quiet_step_def)+
  with q show ?thesis by (simp add: quiet_step_def registry_step_def pool_ok_on_def)
qed

lemma within_quiet:
  "(\<And>m. ends_in (quiet_step r m) (Apply S r m)) \<Longrightarrow> apply_within (registry_step r) r S"
  using quiet_registry by (auto simp: apply_within_def ends_in_def)

lemma within_register: "apply_within (registry_step r) r (registercluster rt)"
  by (auto simp: apply_within_def registercluster_def registercluster_Apply_def registry_step_def
      pool_ok_on_def set_cluster_def)

lemma within_allocate: "apply_within (registry_step r) r (allocatenetwork rt rnd)"
proof -
  have q: "addr_step r m m' \<Longrightarrow> registry_step r m m'" for m m'
    using addr_step_ok [of r m m'] by (auto simp: registry_step_def addr_step_def)
  show ?thesis by (simp add: apply_within_def allocatenetwork_def q [OF Apply_step [OF refl]])
qed

lemmas stage_defs = registercluster_def allocatenetwork_def upsertdns_def ensureclusterdir_def
  downloadbinaries_def downloadrhcos_def bakeimagestore_def generatesshkey_def generateignition_def
  publishpxeassets_def embedignitioniso_def createnetwork_def createmastervms_def verifymasterip_def
  waitforinstall_def applytlscerts_def mergekubeconfig_def installodf_def finalize_def

lemma pipeline_within: "\<forall>S \<in> set (buildStages v d). apply_within (registry_step r) r S"
proof -
  have "apply_within (registry_step r) r (boot_media v d)"
    by (rule within_quiet) (simp add: boot_media_def stage_defs quiet_stages)
  then show ?thesis
    unfolding buildStages_def Let_def
    by (simp add: within_register within_allocate) (intro conjI within_quiet; simp add: stage_defs quiet_stages)
qed

end
