(* ===== verification/NATReset.thy ===== *)
theory NATReset
  imports Manager
begin

text \<open>
  The reset of the shared NAT network (\<open>app/natreset.go\<close>): the plan, its application and its
  printed form. Sets of known addresses are lists; \<open>sort.Strings\<close> makes the order of the leaked
  entries independent of Go's map order.
\<close>

record nat_plan =
  npNetworkExists :: bool
  npExpectedRange :: string
  npCurrentRange :: string
  npRangeOutdated :: bool
  npOrphans :: "dhcp_host list"
  npStaleLeases :: "dhcp_lease list"
  npLeakedIPs :: "string list"
  npLeakedMACs :: "string list"
  npRunning :: "string list"
  npRecreate :: bool
  npBlocked :: bool

definition HasWork :: "nat_plan \<Rightarrow> bool" where
  "HasWork p \<longleftrightarrow> npRecreate p \<or> npOrphans p \<noteq> [] \<or> npLeakedIPs p \<noteq> [] \<or> npLeakedMACs p \<noteq> []"

definition knownIPs :: "mem \<Rightarrow> string list" where
  "knownIPs m = concat (map cIPAddresses (cluster_list m))"

definition knownMACs :: "mem \<Rightarrow> string list" where
  "knownMACs m = map to_lower (concat (map cMACAddresses (cluster_list m)))"

definition natClusters :: "mem \<Rightarrow> cluster_config list" where
  "natClusters m = filter (\<lambda>c. cNetworkMode c = NetworkModeNAT) (cluster_list m)"

definition orphan_reservations :: "mem \<Rightarrow> dhcp_host list \<Rightarrow> dhcp_host list" where
  "orphan_reservations m hs = filter (\<lambda>h. to_lower (hMAC h) \<notin> set (knownMACs m) \<and> hIP h \<notin> set (knownIPs m)) hs"

definition stale_leases :: "mem \<Rightarrow> dhcp_lease list \<Rightarrow> dhcp_lease list" where
  "stale_leases m ls = filter (\<lambda>l. lIP l \<notin> set (knownIPs m)) ls"

definition leaked_ips :: "mem \<Rightarrow> string list" where
  "leaked_ips m = sort (filter (\<lambda>ip. ip \<notin> set (knownIPs m)) (remdups (map fst (UsedIPs m))))"

definition leaked_macs :: "mem \<Rightarrow> string list" where
  "leaked_macs m = sort (filter (\<lambda>mac. to_lower mac \<notin> set (knownMACs m)) (remdups (map fst (UsedMACs m))))"

definition expected_start :: string where
  "expected_start = BaseNetworkRange @ ''.'' @ nat_str DHCPDynamicStart"

definition static_plan :: "mem \<Rightarrow> network_info \<Rightarrow> nat_plan" where
  "static_plan m info =
     (let outdated = niExists info \<and> niDHCPRangeStart info \<noteq> [] \<and> niDHCPRangeStart info \<noteq> expected_start in
      \<lparr>npNetworkExists = niExists info,
       npExpectedRange = expected_start @ ''-'' @ nat_str DHCPDynamicEnd,
       npCurrentRange = (if niExists info \<and> niDHCPRangeStart info \<noteq> []
                         then niDHCPRangeStart info @ ''-'' @ niDHCPRangeEnd info else []),
       npRangeOutdated = outdated,
       npOrphans = (if niExists info then orphan_reservations m (niReservations info) else []),
       npStaleLeases = (if niExists info then stale_leases m (niLeases info) else []),
       npLeakedIPs = leaked_ips m, npLeakedMACs = leaked_macs m,
       npRunning = [], npRecreate = outdated, npBlocked = False\<rparr>)"

fun running_nat :: "'s vm_manager \<Rightarrow> cluster_config list \<Rightarrow> ('s, string list) io" where
  "running_nat vm [] = io_ret []"
| "running_nat vm (c # cs) =
     (if cNetworkMode c \<noteq> NetworkModeNAT then running_nat vm cs
      else io_bind (VM_IsRunning vm (''master-0-'' @ cName c)) (\<lambda>(running, _).
        io_bind (running_nat vm cs) (\<lambda>ns. io_ret (if running then cName c # ns else ns))))"

definition PlanNATReset :: "'s deps \<Rightarrow> bool \<Rightarrow> mem \<Rightarrow> ('s, nat_plan result) io" where
  "PlanNATReset d force m =
     io_bind (Net_InspectNetwork (Net d) SharedNATNetwork) (\<lambda>r. case r of
       Inl e \<Rightarrow> io_ret (Inl (Wrapf ''inspect %s: %w'' [SharedNATNetwork] e))
     | Inr info \<Rightarrow>
         let plan = static_plan m info in
         if npRecreate plan then
           io_bind (running_nat (VM d) (cluster_list m)) (\<lambda>ns. io_ret (Inr (plan\<lparr>
             npRunning := sort ns, npBlocked := (ns \<noteq> [] \<and> \<not> force)\<rparr>)))
         else io_ret (Inr plan))"

fun restore_reservations :: "'s network_provisioner \<Rightarrow> cluster_config list \<Rightarrow> ('s, error option) io" where
  "restore_reservations net [] = io_ret None"
| "restore_reservations net (c # cs) =
     (let mac = PrimaryMasterMAC c; ip = PrimaryMasterIP c in
      if mac = [] \<or> ip = [] then restore_reservations net cs
      else io_seq (wrap_err ''restore reservation for %s: %w'' [cName c]
             (Net_AddHost net SharedNATNetwork \<lparr>hMAC = mac, hIP = ip, hHostname = ''master-0-'' @ cName c\<rparr>))
           (restore_reservations net cs))"

fun remove_orphans :: "'s network_provisioner \<Rightarrow> dhcp_host list \<Rightarrow> ('s, error option) io" where
  "remove_orphans net [] = io_ret None"
| "remove_orphans net (h # hs) =
     io_seq (wrap_err ''remove orphan reservation %s: %w'' [hMAC h] (Net_RemoveHost net SharedNATNetwork h))
       (remove_orphans net hs)"

definition repair_network :: "'s network_provisioner \<Rightarrow> mem \<Rightarrow> nat_plan \<Rightarrow> ('s, error option) io" where
  "repair_network net m plan =
     (if npRecreate plan then
        io_seq (wrap_err ''reset network: %w'' [] (Net_ResetNetwork net SharedNATNetwork))
         (if natClusters m = [] then io_ret None
          else io_seq (wrap_err ''recreate network: %w'' [] (Net_EnsureNetwork net shared_network_spec))
                 (restore_reservations net (natClusters m)))
      else remove_orphans net (npOrphans plan))"

definition prune :: "nat_plan \<Rightarrow> mem \<Rightarrow> mem" where
  "prune plan m =
     m\<lparr>UsedIPs := fold AList.delete (npLeakedIPs plan) (UsedIPs m),
       UsedMACs := fold AList.delete (npLeakedMACs plan) (UsedMACs m)\<rparr>"

definition ApplyNATReset :: "'x rt \<Rightarrow> ('x sys) deps \<Rightarrow> nat_plan \<Rightarrow> mem \<Rightarrow> ('x sys, error option \<times> mem) io" where
  "ApplyNATReset rt d plan m =
     (if npBlocked plan then
        io_ret (Some (Errorf (''resetting %s needs to recreate it (outdated DHCP range), '' @
          ''which would disrupt running cluster(s): %s'' @ nl @
          ''  stop them with `easyshift stop <name>` or re-run with --force'')
          [SharedNATNetwork, joined '', '' (npRunning plan)]), m)
      else act_check m (repair_network (Net d) m plan) (save_mem rt (prune plan m)))"

text \<open>\<open>Print\<close>; \<open>applied\<close> is false for a dry run.\<close>

definition plan_text :: "nat_plan \<Rightarrow> bool \<Rightarrow> string" where
  "plan_text p applied =
     (let verb = (\<lambda>future past. if applied then past else future);
          n = nat_str (length (npStaleLeases p)) in
      unlines [''Shared NAT network: '' @ SharedNATNetwork] @
      (if \<not> npNetworkExists p
       then unlines [''  not defined '' @ emdash @ '' it will be created on the next `easyshift create`.'']
       else unlines [''  DHCP range: '' @ npCurrentRange p @
              (if npRangeOutdated p then ''  (OUTDATED '' @ emdash @ '' expected '' @ npExpectedRange p @ '')'' else [])]) @
      (if \<not> HasWork p then
         unlines [[], ''Nothing to do '' @ emdash @ '' the network and config are consistent.''] @
         (if npStaleLeases p \<noteq> []
          then unlines [''('' @ n @ '' stale dynamic lease(s) present but harmless; they expire on their own.)''] else [])
       else
         unlines [[]] @
         (if npRecreate p then
            unlines [''- '' @ verb ''recreate'' ''recreated'' @
              '' the network to apply the corrected DHCP range (also flushes '' @ n @ '' stale lease(s)).''] @
            (if npRunning p \<noteq> []
             then unlines [''  note: running cluster(s) '' @ joined '', '' (npRunning p) @
                    '' briefly lose connectivity during the rebuild.''] else [])
          else []) @
         unlines (map (\<lambda>h. ''- '' @ verb ''remove'' ''removed'' @ '' orphaned reservation '' @ hMAC h @ '' -> '' @
           hIP h @ '' ('' @ hHostname h @ '').'') (npOrphans p)) @
         unlines (map (\<lambda>ip. ''- '' @ verb ''free'' ''freed'' @ '' leaked IP allocation '' @ ip @ '' from config.'')
           (npLeakedIPs p)) @
         unlines (map (\<lambda>mac. ''- '' @ verb ''free'' ''freed'' @ '' leaked MAC allocation '' @ mac @ '' from config.'')
           (npLeakedMACs p)) @
         (if \<not> applied then unlines [[], ''Re-run without --dry-run to apply.''] else [])))"

section \<open>Laws\<close>

lemma set_leaked:
  "set (leaked_ips m) = fst ` set (UsedIPs m) - set (knownIPs m)"
  "set (leaked_macs m) = {mac \<in> fst ` set (UsedMACs m). to_lower mac \<notin> set (knownMACs m)}"
  by (auto simp: leaked_ips_def leaked_macs_def)

lemma keys_deletes: "fst ` set (fold AList.delete ks al) = fst ` set al - set ks"
proof (induction ks arbitrary: al)
  case (Cons k ks)
  have "fst ` set (AList.delete k al) = fst ` set al - {k}"
    by (auto simp: AList.delete_eq image_iff)
  with Cons show ?case by auto
qed simp

lemma PlanNATReset_cases:
  assumes "res (PlanNATReset d force m) s = Inr plan"
  obtains info where "npLeakedIPs plan = leaked_ips m" "npLeakedMACs plan = leaked_macs m"
    "npOrphans plan = (if niExists info then orphan_reservations m (niReservations info) else [])"
    "npRecreate plan = (niExists info \<and> niDHCPRangeStart info \<noteq> [] \<and> niDHCPRangeStart info \<noteq> expected_start)"
    "npBlocked plan = (npRecreate plan \<and> npRunning plan \<noteq> [] \<and> \<not> force)"
    "res (Net_InspectNetwork (Net d) SharedNATNetwork) s = Inr info"
proof -
  obtain info where i: "res (Net_InspectNetwork (Net d) SharedNATNetwork) s = Inr info"
    using assms by (cases "res (Net_InspectNetwork (Net d) SharedNATNetwork) s") (auto simp: PlanNATReset_def)
  have e: "(sort ns = []) = (ns = [])" for ns :: "string list" by (metis set_empty set_sort)
  show thesis
    using assms i by (intro that [of info])
      (auto simp: PlanNATReset_def Let_def static_plan_def e split: if_splits)
qed

lemma plan_facts:
  assumes "res (PlanNATReset d force m) s = Inr plan"
  shows "npLeakedIPs plan = leaked_ips m" "npLeakedMACs plan = leaked_macs m"
    "h \<in> set (npOrphans plan) \<Longrightarrow> to_lower (hMAC h) \<notin> set (knownMACs m) \<and> hIP h \<notin> set (knownIPs m)"
    "npBlocked plan = (npRecreate plan \<and> npRunning plan \<noteq> [] \<and> \<not> force)"
  using assms by (elim PlanNATReset_cases; simp add: orphan_reservations_def split: if_splits)+

lemma known_to_cluster:
  "q \<in> set (Clusters m) \<Longrightarrow> x \<in> set (cIPAddresses (heap m q)) \<Longrightarrow> x \<in> set (knownIPs m)"
  "q \<in> set (Clusters m) \<Longrightarrow> x \<in> set (cMACAddresses (heap m q)) \<Longrightarrow> to_lower x \<in> set (knownMACs m)"
  by (auto simp: knownIPs_def knownMACs_def cluster_list_def)

lemma prune_simps [simp]:
  "heap (prune plan m) = heap m" "Clusters (prune plan m) = Clusters m"
  "map_get (UsedIPs (prune plan m)) x \<longleftrightarrow> x \<notin> set (npLeakedIPs plan) \<and> map_get (UsedIPs m) x"
  "map_get (UsedMACs (prune plan m)) x \<longleftrightarrow> x \<notin> set (npLeakedMACs plan) \<and> map_get (UsedMACs m) x"
  "knownIPs (prune plan m) = knownIPs m" "knownMACs (prune plan m) = knownMACs m"
  by (simp_all add: prune_def knownIPs_def knownMACs_def cluster_list_def)

lemma prune_pool_ok:
  assumes plan: "res (PlanNATReset d force m) s = Inr plan" and ok: "pool_ok m"
  shows "pool_ok (prune plan m)"
proof -
  have "x \<notin> set (leaked_ips m)" if "q \<in> set (Clusters m)" "x \<in> set (cIPAddresses (heap m q))" for q x
    using known_to_cluster(1) [OF that] by (simp add: set_leaked)
  moreover have "x \<notin> set (leaked_macs m)" if "q \<in> set (Clusters m)" "x \<in> set (cMACAddresses (heap m q))" for q x
    using known_to_cluster(2) [OF that] by (simp add: set_leaked)
  ultimately show ?thesis
    using ok unfolding pool_ok_on_def prune_simps plan_facts(1,2) [OF plan] by blast
qed

section \<open>Properties\<close>

text \<open>C18. A plan is safe: what it would free or remove belongs to no registered cluster. No leaked
  IP or MAC is one of a cluster's, and no orphaned reservation has a cluster's MAC (in any case) or
  IP.\<close>

theorem nat_plan_safe:
  assumes "res (PlanNATReset d force m) s = Inr plan" and "q \<in> set (Clusters m)"
  shows "(\<forall>x \<in> set (cIPAddresses (heap m q)). x \<notin> set (npLeakedIPs plan)) \<and>
    (\<forall>x \<in> set (cMACAddresses (heap m q)). x \<notin> set (npLeakedMACs plan)) \<and>
    (\<forall>h \<in> set (npOrphans plan). hIP h \<notin> set (cIPAddresses (heap m q)) \<and>
       to_lower (hMAC h) \<notin> to_lower ` set (cMACAddresses (heap m q)))"
proof -
  have k: "\<forall>x \<in> set (cIPAddresses (heap m q)). x \<in> set (knownIPs m)"
    "\<forall>x \<in> set (cMACAddresses (heap m q)). to_lower x \<in> set (knownMACs m)"
    using known_to_cluster [OF assms(2)] by blast+
  with plan_facts [OF assms(1)] show ?thesis by (auto simp: set_leaked) metis+
qed

definition sample_net_info :: network_info where
  "sample_net_info = \<lparr>niExists = True, niDHCPRangeStart = ''192.168.126.100'', niDHCPRangeEnd = ''192.168.126.254'',
     niReservations = [\<lparr>hMAC = ''52:54:00:AA:00:01'', hIP = ''192.168.126.5'', hHostname = ''master-0-one''\<rparr>,
                       \<lparr>hMAC = ''52:54:00:AA:00:09'', hIP = ''192.168.126.9'', hHostname = ''master-0-old''\<rparr>],
     niLeases = []\<rparr>"

definition sample_net :: "'s network_provisioner" where
  "sample_net = \<lparr>Net_EnsureNetwork = (\<lambda>_. io_ret None), Net_AddHost = (\<lambda>_ _. io_ret None),
     Net_RemoveHost = (\<lambda>_ _. io_ret None), Net_InspectNetwork = (\<lambda>_. io_ret (Inr sample_net_info)),
     Net_ResetNetwork = (\<lambda>_. io_ret None), Net_Preflight = None\<rparr>"

definition sample_nat_mem :: mem where
  "sample_nat_mem =
     (sample_mem [(sample_cluster ''one'')\<lparr>cIPAddresses := [''192.168.126.5''], cMACAddresses := [''52:54:00:aa:00:01'']\<rparr>])
       \<lparr>UsedIPs := [(''192.168.126.5'', True), (''192.168.126.7'', True)],
        UsedMACs := [(''52:54:00:aa:00:01'', True)]\<rparr>"

definition sample_plan :: nat_plan where
  "sample_plan = static_plan sample_nat_mem sample_net_info"

lemma sample_plan_ok: "res (PlanNATReset (d\<lparr>Net := sample_net\<rparr>) False sample_nat_mem) s = Inr sample_plan"
proof -
  have "\<not> npRecreate (static_plan sample_nat_mem sample_net_info)" by code_simp
  then show ?thesis by (simp add: PlanNATReset_def Let_def sample_net_def sample_plan_def)
qed

theorem nat_plan_safe_witness:
  "npLeakedIPs sample_plan = [''192.168.126.7''] \<and> ''192.168.126.5'' \<notin> set (npLeakedIPs sample_plan) \<and>
   map hIP (npOrphans sample_plan) = [''192.168.126.9'']"
proof -
  have q: "0 \<in> set (Clusters sample_nat_mem)" "cIPAddresses (heap sample_nat_mem 0) = [''192.168.126.5'']"
    by code_simp+
  have "npLeakedIPs sample_plan = [''192.168.126.7'']" "map hIP (npOrphans sample_plan) = [''192.168.126.9'']"
    by code_simp+
  with nat_plan_safe [OF sample_plan_ok q(1)] q(2) show ?thesis by simp
qed

text \<open>C19. Applying a plan leaves nothing leaked: planning again finds no leaked IP or MAC, and the
  invariant of the address pools is preserved.\<close>

theorem nat_reset_converges:
  assumes plan: "res (PlanNATReset d force m) s = Inr plan"
    and ok: "res (ApplyNATReset rt d' plan m) s' = (None, m')"
  shows "leaked_ips m' = [] \<and> leaked_macs m' = [] \<and> (pool_ok m \<longrightarrow> pool_ok m')"
proof -
  note p = plan_facts(1,2) [OF plan]
  have m': "m' = prune plan m"
    using ok by (auto simp: ApplyNATReset_def split: if_splits option.splits)
  have "set (leaked_ips m') = {}" "set (leaked_macs m') = {}"
    unfolding m' set_leaked prune_simps
    by (simp_all add: prune_def keys_deletes p set_leaked) auto
  moreover have "pool_ok m'" if "pool_ok m"
    unfolding m' using plan that by (rule prune_pool_ok)
  ultimately show ?thesis by simp
qed

theorem nat_reset_converges_witness:
  "leaked_ips (prune sample_plan sample_nat_mem) = []"
proof -
  have b: "npBlocked sample_plan = False" "npRecreate sample_plan = False" by code_simp+
  have r: "remove_orphans sample_net hs = io_ret None" for hs :: "dhcp_host list"
    by (induction hs) (simp_all add: sample_net_def io_seq_def wrap_err_def)
  have "res (ApplyNATReset sample_rt (d\<lparr>Net := sample_net\<rparr>) sample_plan sample_nat_mem) (sample_sys ())
      = (None, prune sample_plan sample_nat_mem)" for d
    by (simp add: ApplyNATReset_def b repair_network_def r Save_def os_write_def os_call_def sample_rt_def
        res_def io_bind_def io_ret_def wrap_err_def err_of_def act_check_def save_mem_def keep_mem_def)
  from nat_reset_converges [OF sample_plan_ok this] show ?thesis by blast
qed

text \<open>A blocked plan changes nothing: when the range is outdated and a NAT cluster is running,
  applying without force returns an error before any effect.\<close>

lemma nat_reset_blocked:
  assumes plan: "res (PlanNATReset d False m) s = Inr plan"
    and work: "npRecreate plan" "npRunning plan \<noteq> []"
  shows "\<exists>e. ApplyNATReset rt d' plan m s' = ((Some e, m), 0, s')"
proof -
  have "npBlocked plan"
    using plan_facts(4) [OF plan] work by simp
  then show ?thesis by (simp add: ApplyNATReset_def io_ret_def)
qed

definition sample_vm_up :: "'s vm_manager" where
  "sample_vm_up = \<lparr>VM_Create = (\<lambda>_. io_ret None), VM_Start = (\<lambda>_. io_ret None), VM_Stop = (\<lambda>_. io_ret None),
     VM_Delete = (\<lambda>_. io_ret None), VM_IsRunning = (\<lambda>_. io_ret (True, None)), VM_ImportISO = (\<lambda>_ _ _. io_ret (Inr [])),
     VM_ImportDisk = (\<lambda>_ _ _. io_ret (Inr [])), VM_CreateDataDisk = (\<lambda>_ _ _. io_ret (Inr [])),
     VM_RemoveISO = (\<lambda>_ _. io_ret None), VM_CheckAccess = io_ret None, VM_StoragePoolActive = (\<lambda>_. io_ret None)\<rparr>"

definition sample_old_net :: "'s network_provisioner" where
  "sample_old_net = sample_net\<lparr>Net_InspectNetwork := (\<lambda>_. io_ret (Inr (sample_net_info\<lparr>niDHCPRangeStart := ''192.168.126.2''\<rparr>)))\<rparr>"

definition sample_blocked :: nat_plan where
  "sample_blocked = (static_plan sample_nat_mem (sample_net_info\<lparr>niDHCPRangeStart := ''192.168.126.2''\<rparr>))
     \<lparr>npRunning := [''one''], npBlocked := True\<rparr>"

theorem nat_reset_blocked_witness:
  "\<exists>e. ApplyNATReset sample_rt (undefined :: unit sys deps) sample_blocked sample_nat_mem (sample_sys ()) =
     ((Some e, sample_nat_mem), 0, sample_sys ())"
proof -
  have w: "npRecreate (static_plan sample_nat_mem (sample_net_info\<lparr>niDHCPRangeStart := ''192.168.126.2''\<rparr>))" by code_simp
  have c: "cluster_list sample_nat_mem =
      [(sample_cluster ''one'')\<lparr>cIPAddresses := [''192.168.126.5''], cMACAddresses := [''52:54:00:aa:00:01'']\<rparr>]"
    by (simp add: cluster_list_def sample_nat_mem_def sample_mem_def)
  have "res (PlanNATReset ((undefined :: unit sys deps)\<lparr>Net := sample_old_net, VM := sample_vm_up\<rparr>) False sample_nat_mem)
      (sample_sys ()) = Inr sample_blocked"
    using w by (simp add: PlanNATReset_def Let_def sample_old_net_def sample_vm_up_def c sample_cluster_def sample_blocked_def)
  from nat_reset_blocked [OF this] w show ?thesis by (simp add: sample_blocked_def)
qed

end
