(* ===== verification/Registry.thy ===== *)
theory Registry
  imports Lifecycle NATReset Fakes
begin

text \<open>
  The registry of clusters and the address pools over the life of the program: what create,
  start, stop, delete and the reset of the NAT network keep, for every environment.
\<close>

section \<open>The registry under a rollback\<close>

text \<open>
  Rolling back only takes clusters out of the registry, and a NAT cluster gives back addresses no
  other NAT cluster has.
\<close>

definition retire_step :: "nat \<Rightarrow> mem \<Rightarrow> mem \<Rightarrow> bool" where
  "retire_step r m m' \<longleftrightarrow>
     ConfigDir m' = ConfigDir m \<and> (\<forall>q. q \<noteq> r \<longrightarrow> heap m' q = heap m q) \<and>
     cName (heap m' r) = cName (heap m r) \<and> cNetworkMode (heap m' r) = cNetworkMode (heap m r) \<and>
     subseq (Clusters m') (Clusters m) \<and>
     (\<forall>q \<in> set (Clusters m). cName (heap m q) \<noteq> cName (heap m r) \<longrightarrow> q \<in> set (Clusters m')) \<and>
     set (cIPAddresses (heap m' r)) \<subseteq> set (cIPAddresses (heap m r)) \<and>
     set (cMACAddresses (heap m' r)) \<subseteq> set (cMACAddresses (heap m r)) \<and>
     (\<forall>Q. r \<in> Q \<longrightarrow> is_nat (heap m r) \<longrightarrow> pool_ok_on Q m \<longrightarrow> pool_ok_on Q m')"

interpretation retiring: stage_relation "retire_step r"
proof
  fix m m1 m2 m3
  show "retire_step r m m" by (simp add: retire_step_def)
  assume "retire_step r m1 m2" and "retire_step r m2 m3"
  then show "retire_step r m1 m3"
    using step_names [of r m2 m1] by (auto simp: retire_step_def intro: subseq_order.trans)
qed

lemma subseq_remove_named: "subseq (remove_named m n qs) qs"
  by (induction qs) auto

lemma remove_named_others: "q \<in> set qs \<Longrightarrow> cName (heap m q) \<noteq> n \<Longrightarrow> q \<in> set (remove_named m n qs)"
  by (induction qs) auto

lemma retire_register: "rollback_within (retire_step r) r (registercluster rt)"
  by (auto simp: rollback_within_def registercluster_def registercluster_Rollback_def retire_step_def
      pool_ok_on_def subseq_remove_named remove_named_others)

lemma retire_allocate: "rollback_within (retire_step r) r (allocatenetwork rt rnd)"
  using release_NAT_ok [of _ _ r]
  by (auto simp: rollback_within_def allocatenetwork_def allocatenetwork_Rollback_def retire_step_def release_def)

lemma quiet_retire: "quiet_step r m m' \<Longrightarrow> retire_step r m m'"
  using quiet_registry [of r m m'] by (simp add: quiet_step_def registry_step_def retire_step_def)

lemma quiet_rollbacks:
  "ends_in (quiet_step r m) (no_rollback r m)"
  "ends_in (quiet_step r m) (finalize_Rollback rt r m)"
  "ends_in (quiet_step r m) (ensureclusterdir_Rollback rt r m)"
  "ends_in (quiet_step r m) (upsertdns_Rollback dns r m)"
  "ends_in (quiet_step r m) (createnetwork_Rollback net r m)"
  "ends_in (quiet_step r m) (generatesshkey_Rollback rt r m)"
  "ends_in (quiet_step r m) (generateignition_Rollback rt r m)"
  "ends_in (quiet_step r m) (embedignitioniso_Rollback rt vm r m)"
  "ends_in (quiet_step r m) (publishpxeassets_Rollback rt fs r m)"
  "ends_in (quiet_step r m) (createmastervms_Rollback vm r m)"
  "ends_in (quiet_step r m) (mergekubeconfig_Rollback rt cmd r m)"
  unfolding no_rollback_def finalize_Rollback_def ensureclusterdir_Rollback_def upsertdns_Rollback_def
    createnetwork_Rollback_def generatesshkey_Rollback_def generateignition_Rollback_def
    embedignitioniso_Rollback_def publishpxeassets_Rollback_def createmastervms_Rollback_def
    mergekubeconfig_Rollback_def Let_def
  by (intro ends_intros; auto)+

lemma retire_quiet:
  "(\<And>m. ends_in (quiet_step r m) (Rollback S r m)) \<Longrightarrow> rollback_within (retire_step r) r S"
  using quiet_retire by (auto simp: rollback_within_def ends_in_def)

lemma pipeline_retires: "\<forall>S \<in> set (buildStages v d). rollback_within (retire_step r) r S"
proof -
  have "rollback_within (retire_step r) r (boot_media v d)"
    by (rule retire_quiet) (simp add: boot_media_def stage_defs quiet_rollbacks)
  then show ?thesis
    unfolding buildStages_def Let_def
    by (simp add: retire_register retire_allocate) (intro conjI retire_quiet; simp add: stage_defs quiet_rollbacks)
qed

section \<open>The registry invariant\<close>

text \<open>
  At most three clusters, no two of the same name, every NAT cluster's addresses reserved and
  no address shared.
\<close>

definition registry_ok :: "mem \<Rightarrow> bool" where
  "registry_ok m \<longleftrightarrow>
     distinct (map (\<lambda>q. cName (heap m q)) (Clusters m)) \<and> length (Clusters m) \<le> DefaultClustersMax \<and> pool_ok m"

lemma distinct_subseq: "subseq xs ys \<Longrightarrow> distinct ys \<Longrightarrow> distinct xs"
  by (auto simp: subseq_conv_nths intro: distinct_nthsI)

lemma pool_ok_mono: "pool_ok_on Q m \<Longrightarrow> P \<subseteq> Q \<Longrightarrow> pool_ok_on P m"
  unfolding pool_ok_on_def by blast

lemma find_cluster_simps:
  "find_cluster m n = Some q \<Longrightarrow> q \<in> set (Clusters m) \<and> cName (heap m q) = n"
  "find_cluster m n = None \<longleftrightarrow> \<not> is_registered m n"
  by (auto simp: find_cluster_def find_Some_iff find_None_iff is_registered_def list_ex_iff)

lemma registry_step_ok:
  assumes s: "registry_step r m m'" and ok: "registry_ok m" and p: "pool_ok_on (insert r (set (Clusters m))) m"
    and room: "is_registered m (cName (heap m r)) \<or> length (Clusters m) < DefaultClustersMax"
  shows "registry_ok m'"
proof -
  have n: "cName (heap m' q) = cName (heap m q)" for q
    using s step_names [of r m m'] by (simp add: registry_step_def)
  have "pool_ok_on (insert r (set (Clusters m))) m'"
    using s p by (simp add: registry_step_def)
  moreover have "set (Clusters m') \<subseteq> insert r (set (Clusters m))"
    using s by (auto simp: registry_step_def)
  ultimately have "pool_ok m'" by (rule pool_ok_mono)
  then show ?thesis
    using s ok room by (auto simp: registry_ok_def registry_step_def n is_registered_def list_ex_iff) metis+
qed

lemma retire_step_ok:
  assumes s: "retire_step r m m'" and ok: "registry_ok m" and r: "r \<in> set (Clusters m)" "is_nat (heap m r)"
  shows "registry_ok m'"
proof -
  have n: "cName (heap m' q) = cName (heap m q)" for q
    using s step_names [of r m m'] by (simp add: retire_step_def)
  have c: "subseq (Clusters m') (Clusters m)" using s by (simp add: retire_step_def)
  have "pool_ok_on (set (Clusters m)) m'" using s ok r by (simp add: retire_step_def registry_ok_def)
  moreover have "set (Clusters m') \<subseteq> set (Clusters m)" using list_emb_set [OF c] by auto
  ultimately have "pool_ok m'" by (rule pool_ok_mono)
  moreover have "distinct (map (\<lambda>q. cName (heap m' q)) (Clusters m'))"
    using ok subseq_map [OF c, of "\<lambda>q. cName (heap m q)"] by (auto simp: registry_ok_def n intro: distinct_subseq)
  moreover have "length (Clusters m') \<le> DefaultClustersMax"
    using ok list_emb_length [OF c] by (simp add: registry_ok_def)
  ultimately show ?thesis by (simp add: registry_ok_def)
qed


lemma resolve_version_step: "quiet_step r m (snd (res (resolve_version v d r m) x))"
  by (auto simp: resolve_version_def Let_def split: sum.splits)

lemma ends_runner_Apply:
  assumes "registry_step r m0 m"
  shows "ends_in (registry_step r m0) (runner_Apply rt cd r m (buildStages v d))"
  unfolding ends_in_def
  by (intro allI registry.R_trans [OF assms] registry.runner_Apply_within pipeline_within)

lemma ends_run_pipeline:
  assumes "registry_step r m0 m"
  shows "ends_in (registry_step r m0) (run_pipeline v d r m)"
proof -
  have "registry_step r m0 (set_cluster r (cState_update (\<lambda>_. ClusterStateRunning)) m1)" if "registry_step r m0 m1" for m1
    by (rule registry.R_trans [OF that quiet_registry]) auto
  with assms show ?thesis
    unfolding run_pipeline_def
    by (intro ends_act_check ends_act_seq ends_if ends_save_mem ends_ret ends_runner_Apply)
qed

lemma ends_pipeline:
  "registry_step r m0 m \<Longrightarrow>
     ends_in (registry_step r m0) (act_seq (resolve_version v d r m) (run_pipeline v d r))"
  using registry.R_trans [OF _ quiet_registry [OF resolve_version_step]]
  by (intro ends_act_seq ends_run_pipeline) (auto simp: ends_in_def)

lemma default_network_keeps [simp]:
  "cName (default_network c) = cName c" "cIPAddresses (default_network c) = cIPAddresses c"
  "cMACAddresses (default_network c) = cMACAddresses c" "cState (default_network c) = cState c"
  by (simp_all add: default_network_def resolveMagicDNS_def Let_def)

lemma default_addresses_keeps [simp]:
  "cName (default_addresses c) = cName c" "cIPAddresses (default_addresses c) = cIPAddresses c"
  "cMACAddresses (default_addresses c) = cMACAddresses c" "cState (default_addresses c) = cState c"
  by (simp_all add: default_addresses_def Let_def sum.case_eq_if)

lemma applyDefaults_keeps [simp]:
  "cName (applyDefaults c) = cName c" "cIPAddresses (applyDefaults c) = cIPAddresses c"
  "cMACAddresses (applyDefaults c) = cMACAddresses c" "cState (applyDefaults c) = cState c"
  by (simp_all add: applyDefaults_def default_odf_def default_sizes_def)

lemma fresh_pool_ok:
  "pool_ok m \<Longrightarrow> cIPAddresses (heap m r) = [] \<Longrightarrow> cMACAddresses (heap m r) = [] \<Longrightarrow>
     pool_ok_on (insert r (set (Clusters m))) m"
  unfolding pool_ok_on_def by auto

lemma Create_registry:
  assumes ok: "registry_ok m" and new: "r \<notin> set (Clusters m)"
    "cIPAddresses (heap m r) = []" "cMACAddresses (heap m r) = []"
  shows "registry_ok (snd (res (Create v d r m) x))"
proof (cases "find_cluster m (cName (heap m r))")
  case (Some q)
  have q: "q \<in> set (Clusters m)" "cName (heap m q) = cName (heap m r)" using find_cluster_simps(1) [OF Some] by auto
  have "registry_ok m'" if "registry_step q m m'" for m'
    using that ok q by (intro registry_step_ok [OF that ok])
      (auto simp: registry_ok_def insert_absorb is_registered_def list_ex_iff)
  with Some ends_inD [OF ends_pipeline [OF registry.R_refl [of q m], of v d]] ok show ?thesis
    by (auto simp: Create_def split: option.splits)
next
  case None
  let ?m1 = "set_cluster r applyDefaults m"
  have h: "heap ?m1 q = heap m q" if "q \<in> set (Clusters m)" for q using that new(1) by (cases "q = r") auto
  have ok1: "registry_ok ?m1"
    using ok h by (simp add: registry_ok_def pool_ok_on_def cong: map_cong)
  have "registry_ok m'" if "registry_step r ?m1 m'" "validateNew ?m1 (heap ?m1 r) = None" for m'
  proof (rule registry_step_ok [OF that(1) ok1])
    show "pool_ok_on (insert r (set (Clusters ?m1))) ?m1"
      using ok1 new by (intro fresh_pool_ok) (simp_all add: registry_ok_def)
    show "is_registered ?m1 (cName (heap ?m1 r)) \<or> length (Clusters ?m1) < DefaultClustersMax"
      using that(2) by (auto simp: validateNew_def split: if_splits)
  qed
  with None ends_inD [OF ends_pipeline [OF registry.R_refl [of r ?m1], of v d]] ok ok1 show ?thesis
    by (auto simp: Create_def Let_def split: option.splits)
qed

section \<open>The other operations\<close>

lemma quiet_ok:
  assumes q: "quiet_step r m m'" and ok: "registry_ok m"
  shows "registry_ok m'"
proof -
  have f: "cName (heap m' p) = cName (heap m p)" "cNetworkMode (heap m' p) = cNetworkMode (heap m p)"
    "cIPAddresses (heap m' p) = cIPAddresses (heap m p)" "cMACAddresses (heap m' p) = cMACAddresses (heap m p)" for p
    using q by (cases "p = r"; simp add: quiet_step_def)+
  show ?thesis
    using q ok by (simp add: registry_ok_def quiet_step_def f pool_ok_on_def)
qed

lemma quiet_state [simp]: "quiet_step q m (set_cluster q (cState_update (\<lambda>_. st)) m)"
  by (rule quiet_set_cluster) simp_all

lemma Start_quiet: "\<exists>q. quiet_step q m (snd (res (Start v d n m) x))"
  by (cases "find_cluster m n") (auto simp: Start_def Let_def split: option.splits intro: quiet_refl exI [of _ "the (find_cluster m n)"])

lemma Stop_quiet: "find_cluster m n = Some q \<Longrightarrow> quiet_step q m (snd (res (Stop v d n m) x))"
  by (auto simp: Stop_def Let_def)

lemma Stop_None: "find_cluster m n = None \<Longrightarrow> snd (res (Stop v d n m) x) = m"
  by (simp add: Stop_def)

lemma ends_result:
  "ends_in P a \<Longrightarrow> (\<And>e m. P m \<Longrightarrow> ends_in P (k (e, m))) \<Longrightarrow> ends_in P (io_bind a k)"
  unfolding ends_in_def by (metis res_bind surjective_pairing)

lemma ends_Delete:
  assumes "find_cluster m n = Some q"
  shows "ends_in (retire_step q m) (Delete v d n m)"
proof -
  have s: "ends_in (retire_step q m) (if cState (heap m q) = ClusterStateRunning then Stop v d n m else io_ret (None, m))"
    using quiet_retire [OF Stop_quiet [OF assms]] by (auto simp: ends_in_def retiring.R_refl)
  have r: "ends_in (retire_step q m) (io_bind (runner_Rollback rt cd q m1 (buildStages v d))
      (\<lambda>(e, m2). io_ret (map_option (Wrapf ''rollback: %w'' []) e, m2)))"
    if "retire_step q m m1" for rt cd m1
  proof (rule ends_result)
    show "ends_in (retire_step q m) (runner_Rollback rt cd q m1 (buildStages v d))"
      unfolding ends_in_def
      by (intro allI retiring.R_trans [OF that] retiring.runner_Rollback_within pipeline_retires)
  qed (simp add: ends_ret)
  show ?thesis
    unfolding Delete_def assms option.case
    by (intro ends_act_seq ends_bind ends_save_mem s r)
qed

lemma Delete_ok:
  assumes ok: "registry_ok m" and nat: "\<And>q. find_cluster m n = Some q \<Longrightarrow> is_nat (heap m q)"
  shows "registry_ok (snd (res (Delete v d n m) x))"
proof (cases "find_cluster m n")
  case (Some q)
  from retire_step_ok [OF ends_inD [OF ends_Delete [OF Some]] ok] find_cluster_simps(1) [OF Some] nat [OF Some]
  show ?thesis by blast
qed (simp add: Delete_def ok)

lemma pool_ok_image:
  assumes "pool_ok_on Q m" "inj_on f A" "f ` A \<subseteq> Q" "\<And>i. i \<in> A \<Longrightarrow> heap m' i = heap m (f i)"
    "UsedIPs m' = UsedIPs m" "UsedMACs m' = UsedMACs m"
  shows "pool_ok_on A m'"
proof -
  have f: "f i \<in> Q" "heap m' i = heap m (f i)" if "i \<in> A" for i using that assms by auto
  have n: "f i \<noteq> f j" if "i \<in> A" "j \<in> A" "i \<noteq> j" for i j using that assms(2) by (auto dest: inj_onD)
  show ?thesis
    unfolding pool_ok_on_def assms(5,6)
  proof (intro conjI ballI impI)
    fix i x assume i: "i \<in> A" "is_nat (heap m' i)"
    show "x \<in> set (cIPAddresses (heap m' i)) \<Longrightarrow> map_get (UsedIPs m) x"
      "x \<in> set (cMACAddresses (heap m' i)) \<Longrightarrow> map_get (UsedMACs m) x"
      using pool_okD [OF assms(1) f(1) [OF i(1)]] i by (simp_all add: f)
  next
    fix i j assume i: "i \<in> A" "j \<in> A" "i \<noteq> j" "is_nat (heap m' i)" "is_nat (heap m' j)"
    show "set (cIPAddresses (heap m' i)) \<inter> set (cIPAddresses (heap m' j)) = {}"
      "set (cMACAddresses (heap m' i)) \<inter> set (cMACAddresses (heap m' j)) = {}"
      using pool_ok_disjoint [OF assms(1) f(1) [OF i(1)] f(1) [OF i(2)] n [OF i(1-3)]] i by (auto simp: f)
  qed
qed

lemma cluster_names: "map (\<lambda>q. cName (heap m q)) (Clusters m) = map cName (cluster_list m)"
  by (simp add: cluster_list_def)

lemma reload_ok:
  assumes ok: "registry_ok m"
  shows "registry_ok (thaw (snapshot m))"
proof -
  let ?m = "thaw (snapshot m)"
  have c: "Clusters ?m = [0..<length (Clusters m)]" "i < length (Clusters m) \<Longrightarrow> heap ?m i = heap m (Clusters m ! i)" for i
    by (simp_all add: thaw_def snapshot_def cluster_list_def)
  have d: "distinct (Clusters m)" using ok by (simp add: registry_ok_def distinct_map)
  have "pool_ok_on (set (Clusters ?m)) ?m"
    by (rule pool_ok_image [of "set (Clusters m)" m "\<lambda>i. Clusters m ! i"])
      (use ok d in \<open>auto simp: c registry_ok_def thaw_snapshot inj_on_def nth_eq_iff_index_eq\<close>)
  moreover have "length (Clusters ?m) = length (Clusters m)" by (simp add: c)
  ultimately show ?thesis
    using ok unfolding registry_ok_def cluster_names thaw_snapshot by simp
qed

lemma nat_reset_ok:
  assumes ok: "registry_ok m" and plan: "res (PlanNATReset d force m) s = Inr plan"
  shows "registry_ok (snd (res (ApplyNATReset rt d' plan m) s'))"
proof -
  have "snd (res (ApplyNATReset rt d' plan m) s') = m \<or> snd (res (ApplyNATReset rt d' plan m) s') = prune plan m"
    by (auto simp: ApplyNATReset_def split: option.splits)
  moreover have "registry_ok (prune plan m)"
    using ok prune_pool_ok [OF plan] by (simp add: registry_ok_def)
  ultimately show ?thesis using ok by auto
qed

section \<open>The life of the program\<close>

text \<open>What the commands do to the registry: create or delete a cluster by its name, or keep it.\<close>

datatype reg_event = Creates string | Deletes string | Keeps

inductive mgr_step :: "('x, 'b) env \<Rightarrow> ('x sys) deps \<Rightarrow> reg_event \<Rightarrow> mem \<Rightarrow> mem \<Rightarrow> bool" for v d where
  create: "r \<notin> set (Clusters m) \<Longrightarrow> cIPAddresses c = [] \<Longrightarrow> cMACAddresses c = [] \<Longrightarrow>
    mgr_step v d (Creates (cName c)) m (snd (res (Create v d r (m\<lparr>heap := (heap m)(r := c)\<rparr>)) x))"
| start: "mgr_step v d Keeps m (snd (res (Start v d n m) x))"
| stop: "mgr_step v d Keeps m (snd (res (Stop v d n m) x))"
| delete: "(\<And>q. find_cluster m n = Some q \<Longrightarrow> is_nat (heap m q)) \<Longrightarrow>
    mgr_step v d (Deletes n) m (snd (res (Delete v d n m) x))"
| nat_reset: "res (PlanNATReset d force m) x = Inr plan \<Longrightarrow>
    mgr_step v d Keeps m (snd (res (ApplyNATReset (env_rt v) d plan m) y))"
| reload: "mgr_step v d Keeps m (thaw (snapshot m))"

inductive mgr_run :: "('x, 'b) env \<Rightarrow> ('x sys) deps \<Rightarrow> reg_event list \<Rightarrow> mem \<Rightarrow> bool" for v d where
  start: "mgr_run v d [] (NewDefaultConfig cd)"
| step: "mgr_run v d es m \<Longrightarrow> mgr_step v d e m m' \<Longrightarrow> mgr_run v d (es @ [e]) m'"

definition reachable :: "('x, 'b) env \<Rightarrow> ('x sys) deps \<Rightarrow> mem \<Rightarrow> bool" where
  "reachable v d m \<longleftrightarrow> (\<exists>es. mgr_run v d es m)"

lemma request_ok:
  assumes "registry_ok m" "r \<notin> set (Clusters m)"
  shows "registry_ok (m\<lparr>heap := (heap m)(r := c)\<rparr>)"
proof -
  have e: "map (\<lambda>q. cName (if q = r then c else heap m q)) (Clusters m) = map (\<lambda>q. cName (heap m q)) (Clusters m)"
    by (rule map_cong) (use assms(2) in auto)
  have "distinct (map (\<lambda>q. cName (if q = r then c else heap m q)) (Clusters m))"
    unfolding e using assms(1) by (simp add: registry_ok_def)
  moreover have "pool_ok_on (set (Clusters m)) (m\<lparr>heap := (heap m)(r := c)\<rparr>)"
    by (rule pool_ok_image [of "set (Clusters m)" m id]) (use assms in \<open>auto simp: registry_ok_def\<close>)
  ultimately show ?thesis using assms by (simp add: registry_ok_def fun_upd_apply)
qed

lemma mgr_step_ok: "mgr_step v d e m m' \<Longrightarrow> registry_ok m \<Longrightarrow> registry_ok m'"
proof (induction rule: mgr_step.induct)
  case (start m n x)
  then show ?case using Start_quiet quiet_ok by blast
next
  case (stop m n x)
  then show ?case by (cases "find_cluster m n") (auto simp: Stop_None intro: quiet_ok Stop_quiet)
qed (auto intro: Create_registry request_ok Delete_ok nat_reset_ok reload_ok)

lemma mgr_run_ok: "mgr_run v d es m \<Longrightarrow> registry_ok m"
proof (induction rule: mgr_run.induct)
  case (start cd)
  show ?case by (simp add: registry_ok_def NewDefaultConfig_def pool_ok_on_def)
qed (rule mgr_step_ok)

lemma sim_create_step:
  "mgr_step sim_env (fake_deps sample_rt ''/http'') (Creates ''one'') (NewDefaultConfig ''/sim'')
     (snd (res (Create sim_env (fake_deps sample_rt ''/http'') 0
       ((NewDefaultConfig ''/sim'')\<lparr>heap := (heap (NewDefaultConfig ''/sim''))(0 := sim_request ''one'')\<rparr>)) sim_start))"
  using mgr_step.create [of 0 "NewDefaultConfig ''/sim''" "sim_request ''one''"]
  by (simp add: NewDefaultConfig_def sim_request_def sample_cluster_def)



end
