(* ===== verification/Admission.thy ===== *)
theory Admission
  imports Registry "HOL-Library.Signed_Division"
begin

text \<open>
  What a cluster looks like once \<open>applyDefaults\<close> and \<open>validateNew\<close> let it through, and that the
  network configuration of its boot image can then be written.
\<close>

section \<open>Defaults\<close>

text \<open>A cluster that each group of defaults leaves as it is, and that it produces.\<close>

definition settled_network :: "cluster_config \<Rightarrow> bool" where
  "settled_network c \<longleftrightarrow> cNetworkMode c \<noteq> [] \<and>
     (if cMagicDNS c = [] then cDomain c \<noteq> [] else cMagicDNS c \<noteq> MagicDNSAuto \<and> cMagicDNS c \<noteq> MagicDNSOff)"

definition settled_sizes :: "cluster_config \<Rightarrow> bool" where
  "settled_sizes c \<longleftrightarrow> cOCPVersion c \<noteq> [] \<and> cMasterCPUs c \<noteq> 0 \<and> cWorkerCPUs c \<noteq> 0 \<and> cMasterDiskGB c \<noteq> 0 \<and> cWorkerDiskGB c \<noteq> 0"

definition settled_odf :: "cluster_config \<Rightarrow> bool" where
  "settled_odf c \<longleftrightarrow> (cODF c \<longrightarrow> odfMinCPUs \<le> cMasterCPUs c \<and> odfMinRAMMiB \<le> cMasterRAM c \<and> cODFDiskGB c \<noteq> 0)"

definition settled_addresses :: "cluster_config \<Rightarrow> bool" where
  "settled_addresses c \<longleftrightarrow> cStoragePool c \<noteq> [] \<and>
     (cNetworkMode c = NetworkModeBridge \<longrightarrow>
        (cMachineCIDR c = [] \<and> cMasterIP c \<noteq> [] \<longrightarrow> (\<exists>e. DeriveMachineCIDR (cMasterIP c) = Inl e)) \<and>
        (cGateway c = [] \<and> cMachineCIDR c \<noteq> [] \<longrightarrow> (\<exists>e. DeriveGateway (cMachineCIDR c) = Inl e)))"

lemma same_magic: "cMagicDNS c = x \<Longrightarrow> c\<lparr>cMagicDNS := x\<rparr> = c"
  by (cases c) simp

lemma settled_default_network: "settled_network c \<Longrightarrow> default_network c = c"
proof -
  assume s: "settled_network c"
  then have "resolveMagicDNS c = c"
    by (cases "cMagicDNS c = []") (simp_all add: settled_network_def resolveMagicDNS_def same_magic)
  with s show ?thesis by (cases "cMagicDNS c = []") (simp_all add: default_network_def settled_network_def Let_def)
qed

lemma resolveMagicDNS_fields:
  "cNetworkMode (resolveMagicDNS c) = cNetworkMode c" "cDomain (resolveMagicDNS c) = cDomain c"
  "cMagicDNS (resolveMagicDNS c) \<noteq> MagicDNSAuto" "cMagicDNS (resolveMagicDNS c) \<noteq> MagicDNSOff"
  by (simp_all add: resolveMagicDNS_def)

lemma default_network_eq:
  "default_network c =
     (let c1 = (if cNetworkMode c = [] then c\<lparr>cNetworkMode := NetworkModeNAT\<rparr> else c); c2 = resolveMagicDNS c1
      in if cMagicDNS c2 = [] \<and> cDomain c2 = [] then c2\<lparr>cDomain := ''local''\<rparr> else c2)"
  by (simp add: default_network_def Let_def)

lemma default_network_settles: "settled_network (default_network c)"
proof -
  define c1 where "c1 = (if cNetworkMode c = [] then c\<lparr>cNetworkMode := NetworkModeNAT\<rparr> else c)"
  define c2 where "c2 = resolveMagicDNS c1"
  have "cNetworkMode c2 \<noteq> []" "cMagicDNS c2 \<noteq> MagicDNSAuto" "cMagicDNS c2 \<noteq> MagicDNSOff"
    by (simp_all add: c2_def resolveMagicDNS_fields) (simp add: c1_def)
  then show ?thesis
    unfolding default_network_eq Let_def c1_def [symmetric] c2_def [symmetric] by (simp add: settled_network_def)
qed

lemma settled_default_sizes: "settled_sizes c \<Longrightarrow> default_sizes c = c"
  by (cases c) (simp add: settled_sizes_def default_sizes_def)

lemma default_sizes_settles: "settled_sizes (default_sizes c)"
  by (simp add: settled_sizes_def default_sizes_def)

lemma settled_default_odf: "settled_odf c \<Longrightarrow> default_odf c = c"
  by (cases c) (auto simp: settled_odf_def default_odf_def)

lemma default_odf_settles: "settled_odf (default_odf c)"
  by (simp add: settled_odf_def default_odf_def)

lemma settled_default_addresses: "settled_addresses c \<Longrightarrow> default_addresses c = c"
  by (auto simp: settled_addresses_def default_addresses_def Let_def)

lemma DeriveMachineCIDR_nonempty: "DeriveMachineCIDR ip = Inr s \<Longrightarrow> s \<noteq> []"
  by (auto simp: DeriveMachineCIDR_def split: option.splits)

lemma joined_nonempty: "ws \<noteq> [] \<Longrightarrow> \<forall>w \<in> set ws. w \<noteq> [] \<Longrightarrow> joined sep ws \<noteq> []"
  by (induction sep ws rule: joined.induct) auto

lemma DeriveGateway_nonempty:
  assumes "DeriveGateway c = Inr s" shows "s \<noteq> []"
proof -
  obtain a n ip where "to4 a = Some ip" "s = ipv4_str (ip[3 := (ip ! 3 + 1) mod 256])"
    using assms by (auto simp: DeriveGateway_def split: option.splits)
  moreover from this have "ip \<noteq> []" by (auto simp: to4_def split: if_splits)
  ultimately show ?thesis using joined_nonempty [of "map nat_str (ip[3 := (ip ! 3 + 1) mod 256])"] by (simp add: ipv4_str_def)
qed

definition derive_cidr :: "cluster_config \<Rightarrow> cluster_config" where
  "derive_cidr c =
     (if cNetworkMode c = NetworkModeBridge \<and> cMachineCIDR c = [] \<and> cMasterIP c \<noteq> []
      then (case DeriveMachineCIDR (cMasterIP c) of Inr cidr \<Rightarrow> c\<lparr>cMachineCIDR := cidr\<rparr> | Inl _ \<Rightarrow> c) else c)"

lemma derive_cidr_settles:
  "cNetworkMode (derive_cidr c) = NetworkModeBridge \<Longrightarrow> cMachineCIDR (derive_cidr c) = [] \<Longrightarrow> cMasterIP (derive_cidr c) \<noteq> [] \<Longrightarrow>
     \<exists>e. DeriveMachineCIDR (cMasterIP (derive_cidr c)) = Inl e"
  by (cases "DeriveMachineCIDR (cMasterIP c)") (auto simp: derive_cidr_def dest: DeriveMachineCIDR_nonempty split: if_splits)

definition derive_gateway :: "cluster_config \<Rightarrow> cluster_config" where
  "derive_gateway c =
     (if cNetworkMode c = NetworkModeBridge \<and> cGateway c = [] \<and> cMachineCIDR c \<noteq> []
      then (case DeriveGateway (cMachineCIDR c) of Inr gw \<Rightarrow> c\<lparr>cGateway := gw\<rparr> | Inl _ \<Rightarrow> c) else c)"

lemma default_addresses_eq:
  "default_addresses c = derive_gateway (derive_cidr (if cStoragePool c = [] then c\<lparr>cStoragePool := DefaultStoragePool\<rparr> else c))"
  unfolding default_addresses_def derive_cidr_def derive_gateway_def Let_def ..

lemma derive_gateway_settles:
  "cNetworkMode (derive_gateway c) = NetworkModeBridge \<Longrightarrow> cGateway (derive_gateway c) = [] \<Longrightarrow> cMachineCIDR (derive_gateway c) \<noteq> [] \<Longrightarrow>
     \<exists>e. DeriveGateway (cMachineCIDR (derive_gateway c)) = Inl e"
  by (cases "DeriveGateway (cMachineCIDR c)") (auto simp: derive_gateway_def dest: DeriveGateway_nonempty split: if_splits)

lemma derive_fields [simp]:
  "cStoragePool (derive_cidr c) = cStoragePool c" "cStoragePool (derive_gateway c) = cStoragePool c"
  "cNetworkMode (derive_cidr c) = cNetworkMode c" "cNetworkMode (derive_gateway c) = cNetworkMode c"
  "cMachineCIDR (derive_gateway c) = cMachineCIDR c" "cMasterIP (derive_gateway c) = cMasterIP c"
  by (simp_all add: derive_cidr_def derive_gateway_def split: sum.splits)

lemma default_addresses_settles: "settled_addresses (default_addresses c)"
  unfolding settled_addresses_def default_addresses_eq
  using derive_cidr_settles derive_gateway_settles by auto


lemma later_keep_network:
  "settled_network (default_addresses (default_odf (default_sizes c))) = settled_network c"
  "settled_sizes (default_addresses (default_odf (default_sizes c)))"
  "settled_odf (default_addresses (default_odf (default_sizes c)))"
proof -
  let ?d = "default_odf (default_sizes c)"
  have d: "settled_network ?d = settled_network c" "settled_sizes ?d"
    by (simp_all add: settled_network_def settled_sizes_def default_odf_def default_sizes_def)
  have a: "cNetworkMode (default_addresses e) = cNetworkMode e" "cMagicDNS (default_addresses e) = cMagicDNS e"
    "cDomain (default_addresses e) = cDomain e" "cOCPVersion (default_addresses e) = cOCPVersion e"
    "cMasterCPUs (default_addresses e) = cMasterCPUs e" "cWorkerCPUs (default_addresses e) = cWorkerCPUs e"
    "cMasterDiskGB (default_addresses e) = cMasterDiskGB e" "cWorkerDiskGB (default_addresses e) = cWorkerDiskGB e"
    "cODF (default_addresses e) = cODF e" "cMasterRAM (default_addresses e) = cMasterRAM e"
    "cODFDiskGB (default_addresses e) = cODFDiskGB e" for e
    by (simp_all add: default_addresses_def Let_def sum.case_eq_if)
  have "settled_network (default_addresses e) = settled_network e" "settled_sizes (default_addresses e) = settled_sizes e"
    "settled_odf (default_addresses e) = settled_odf e" for e
    by (simp_all only: settled_network_def settled_sizes_def settled_odf_def a)
  then show "settled_network (default_addresses ?d) = settled_network c" "settled_sizes (default_addresses ?d)"
    "settled_odf (default_addresses ?d)"
    using d default_odf_settles by simp_all
qed

text \<open>The defaults are idempotent: applying them to a defaulted cluster changes nothing.\<close>

lemma applyDefaults_idempotent: "applyDefaults (applyDefaults c) = applyDefaults c"
  using later_keep_network [of "default_network c"] default_network_settles [of c]
    default_addresses_settles [of "default_odf (default_sizes (default_network c))"]
  by (simp add: applyDefaults_def settled_default_network settled_default_sizes settled_default_odf settled_default_addresses)


section \<open>Accepted clusters\<close>

lemma validateNew_mode:
  assumes "validateNew m c = None" "cNetworkMode c = NetworkModeBridge"
  shows "validate_bridge c = None"
proof (cases "validate_bridge c")
  case (Some e)
  with assms show ?thesis by (simp add: validateNew_def split: if_split_asm)
qed simp

lemma validateNew_bridge:
  assumes "validateNew m c = None" "cNetworkMode c = NetworkModeBridge"
  shows "cMasterMAC c \<noteq> []" "cMasterIP c \<noteq> []" "parse_cidr (cMachineCIDR c) \<noteq> None"
  using validateNew_mode [OF assms] by (simp_all add: validate_bridge_def split: if_split_asm)

text \<open>The static network keyfile of an accepted bridge cluster can be written exactly when a gateway is
  given or its machine network is an IPv4 network.\<close>

theorem accepted_bridge_keyfile:
  assumes "validateNew m c = None" "cNetworkMode c = NetworkModeBridge"
  shows "(\<exists>t. StaticNetworkKeyfile c = Inr t) \<longleftrightarrow>
    cGateway c \<noteq> [] \<or> (\<exists>net n ip. parse_cidr (cMachineCIDR c) = Some (net, n) \<and> to4 net = Some ip)"
proof -
  obtain net n where p: "parse_cidr (cMachineCIDR c) = Some (net, n)" using validateNew_bridge(3) [OF assms] by auto
  have "PrimaryMasterMAC c \<noteq> []" "PrimaryMasterIP c \<noteq> []"
    using validateNew_bridge(1,2) [OF assms] by (simp_all add: PrimaryMasterMAC_def PrimaryMasterIP_def)
  then show ?thesis
    by (cases "to4 net") (auto simp: StaticNetworkKeyfile_def prefixLen_def DeriveGateway_def p Let_def)
qed

definition sample_bridge :: cluster_config where
  "sample_bridge = (sample_cluster ''one'')\<lparr>cNetworkMode := NetworkModeBridge, cBridge := ''br0'',
     cMasterMAC := ''52:54:00:00:00:01'', cMasterIP := ''fd00::5'', cMachineCIDR := ''fd00::/64''\<rparr>"

lemma sample_addr:
  "parse_addr ''fd00::'' = Some [253, 0, 0, 0, 0, 0, 0, 0, 0, 0, 0, 0, 0, 0, 0, 0]" "ValidateIP ''fd00::5''"
proof -
  have h: "hex_val (CHR ''f'') = Some 15" "hex_val (CHR ''d'') = Some 13" "hex_val (CHR ''0'') = Some 0"
    "hex_val (CHR ''5'') = Some 5" "hex_val (CHR '':'') = None" by code_simp+
  have g: "hex_group ''fd00::5'' 0 0 = Some (64768, 4, ''::5'')" "hex_group ''fd00::'' 0 0 = Some (64768, 4, ''::'')"
    "hex_group ''5'' 0 0 = Some (5, Suc 0, [])" by (simp_all add: h)
  have s: "ipv6_groups 8 ''fd00::'' None [] = Some ([], Some 2, [253, 0])"
    "ipv6_groups 8 ''fd00::5'' None [] = Some ([], Some 2, [253, 0, 0, 5])"
    using ipv6_groups.simps(2) [of 7 "''fd00::''" None "[]"] ipv6_groups.simps(2) [of 7 "''fd00::5''" None "[]"]
      ipv6_groups.simps(2) [of 6 "''5''" "Some 2" "[253, 0]"]
    by (simp_all del: hex_group.simps add: g numeral_2_eq_2)
  have r: "replicate 14 (0 :: nat) = [0, 0, 0, 0, 0, 0, 0, 0, 0, 0, 0, 0, 0, 0]" by code_simp
  show "parse_addr ''fd00::'' = Some [253, 0, 0, 0, 0, 0, 0, 0, 0, 0, 0, 0, 0, 0, 0, 0]" "ValidateIP ''fd00::5''"
    by (simp_all add: parse_addr_def parse_ipv6_def s r ValidateIP_def parse_ip_def)
qed

theorem accepted_bridge_keyfile_witness:
  "validateNew (sample_mem []) sample_bridge = None \<and>
   \<not> (\<exists>t. StaticNetworkKeyfile sample_bridge = Inr t)"
proof -
  have a: "parse_digits ''64'' = Some 64"
    "cidr_mask 64 128 = [255, 255, 255, 255, 255, 255, 255, 255, 0, 0, 0, 0, 0, 0, 0, 0]"
    "ValidateMAC ''52:54:00:00:00:01''" "cMasterCount sample_bridge = 1"
    by code_simp+
  let ?n = "[253, 0, 0, 0, 0, 0, 0, 0, 0, 0, 0, 0, 0, 0, 0, 0] :: nat list"
  have p: "parse_cidr ''fd00::/64'' = Some (?n, 64)" by (simp add: parse_cidr_def a sample_addr)
  have t: "to4 ?n = None" by (simp add: to4_def v4_in_v6_prefix_def)
  have c: "cNetworkMode sample_bridge = NetworkModeBridge" "cGateway sample_bridge = []" "cMachineCIDR sample_bridge = ''fd00::/64''"
    "cMasterIP sample_bridge = ''fd00::5''" "cMasterMAC sample_bridge = ''52:54:00:00:00:01''" "cBridge sample_bridge = ''br0''"
    "cDNS sample_bridge = []" "cMagicDNS sample_bridge = []" "cODF sample_bridge = False" "cODFDiskGB sample_bridge = 0"
    "cWorkerCount sample_bridge = 0"
    by (simp_all add: sample_bridge_def sample_cluster_def)
  have "trim_space [] = []" "split_on (CHR '','') [] = [[]]" by code_simp+
  then have v: "validateNew (sample_mem []) sample_bridge = None"
    by (simp add: validateNew_def validate_bridge_def c a p sample_addr ValidMagicDNS_def sample_mem_def Let_def)
  moreover have "\<not> (\<exists>t. StaticNetworkKeyfile sample_bridge = Inr t)"
    using accepted_bridge_keyfile [OF v c(1)] by (simp add: c p t)
  ultimately show ?thesis by blast
qed

section \<open>The two boot media agree\<close>

text \<open>For a NAT cluster the keyfile that macOS serves with the ignition is the one that Linux embeds in
  the boot image.\<close>

lemma boot_media_keyfiles_agree:
  assumes "res (allocatenetwork_Apply rt rnd r m) s = (None, m')" "is_nat (heap m r)" "validate_nat (heap m r) = None"
    "cMACAddresses (heap m r) = []" "node_total (heap m r) \<noteq> 0"
  shows "StaticNetworkKeyfile (heap m' r) = Inr (natKeyfile (heap m' r))"
proof -
  note a = allocated_primary [OF assms(1,2,4,5)]
  have g: "cGateway (heap m r) = []" "cDNS (heap m r) = []"
    using assms(3) by (auto simp: validate_nat_def split: if_split_asm)
  have e: "dns_field ''192.168.126.1'' = ''192.168.126.1;''" by code_simp+
  show ?thesis
    using StaticNetworkKeyfile_ok [OF a(1-3)] a(4,5) g e by (simp add: natKeyfile_def connID_def BaseNetworkRange_def Let_def)
qed

theorem boot_media_keyfiles_agree_witness:
  "let m' = snd (res (allocatenetwork_Apply sample_rt sample_rand 0 (sample_mem [sample_cluster ''one''])) (sample_sys ()))
   in StaticNetworkKeyfile (heap m' 0) = Inr (natKeyfile (heap m' 0))"
proof -
  have c: "is_nat (heap (sample_mem [sample_cluster ''one'']) 0)" "validate_nat (heap (sample_mem [sample_cluster ''one'']) 0) = None"
    "cMACAddresses (heap (sample_mem [sample_cluster ''one'']) 0) = []" "node_total (heap (sample_mem [sample_cluster ''one'']) 0) \<noteq> 0"
    by code_simp+
  from boot_media_keyfiles_agree [OF sample_apply_ok c] show ?thesis by (simp add: Let_def)
qed

section \<open>The type of an accepted cluster\<close>

text \<open>
  The shape of a cluster that the pipeline may be run on: one master, a version, sizes that are
  set, a network mode with the addresses it needs, a base domain or a service that derives one, and
  with \<open>--odf\<close> enough memory, processors and a positive volume size.
\<close>

definition cluster_wf :: "cluster_config \<Rightarrow> bool" where
  "cluster_wf c \<longleftrightarrow>
     cMasterCount c = 1 \<and> cWorkerCount c = 0 \<and> cOCPVersion c \<noteq> [] \<and> cMasterCPUs c \<noteq> 0 \<and> cMasterDiskGB c \<noteq> 0 \<and>
     cStoragePool c \<noteq> [] \<and> (cDomain c \<noteq> [] \<or> cMagicDNS c = MagicDNSSslip \<or> cMagicDNS c = MagicDNSNip) \<and>
     (cMagicDNS c = [] \<or> cDNSProvider c = []) \<and>
     (cNetworkMode c = NetworkModeNAT \<and> cBridge c = [] \<and> cMasterIP c = [] \<and> cMasterMAC c = [] \<or>
      cNetworkMode c = NetworkModeBridge \<and> cBridge c \<noteq> [] \<and> ValidateMAC (cMasterMAC c) \<and> ValidateIP (cMasterIP c) \<and>
        parse_cidr (cMachineCIDR c) \<noteq> None \<and> (cGateway c = [] \<or> ValidateIP (cGateway c))) \<and>
     (if cODF c then 8 \<le> cMasterCPUs c \<and> 24576 \<le> cMasterRAM c \<and> 1 \<le> cODFDiskGB c sdiv 3 - 3 else cODFDiskGB c = 0)"

lemma settled_defaults:
  "settled_network (applyDefaults c)" "settled_sizes (applyDefaults c)" "settled_odf (applyDefaults c)"
  "settled_addresses (applyDefaults c)"
  using default_network_settles [of c] later_keep_network [of "default_network c"] default_addresses_settles
  by (simp_all add: applyDefaults_def)

lemma validateNew_fields:
  assumes "validateNew m c = None"
  shows "ValidMagicDNS (cMagicDNS c)" "cMagicDNS c = [] \<or> cDNSProvider c = []" "cMasterCount c = 1" "cWorkerCount c = 0"
    "cODF c \<or> cODFDiskGB c = 0" "cODF c \<longrightarrow> cODFDiskGB c = 0 \<or> 12 \<le> cODFDiskGB c"
    "cNetworkMode c = NetworkModeNAT \<and> validate_nat c = None \<or> cNetworkMode c = NetworkModeBridge \<and> validate_bridge c = None"
  using assms by (auto simp: validateNew_def split: if_split_asm option.splits)

lemma thirds_positive: "12 \<le> x \<Longrightarrow> 1 \<le> x sdiv 3 - (3 :: int)"
  by (simp add: signed_divide_int_def)

text \<open>C7. Type of the clusters the pipeline runs on: a cluster that passes the checks of \<open>create\<close> after its
  defaults were filled in satisfies \<open>cluster_wf\<close>.\<close>

theorem accepted_wf:
  assumes "validateNew m (applyDefaults c) = None"
  shows "cluster_wf (applyDefaults c)"
proof -
  let ?c = "applyDefaults c"
  note v = validateNew_fields [OF assms]
  have d: "cDomain ?c \<noteq> [] \<or> cMagicDNS ?c = MagicDNSSslip \<or> cMagicDNS ?c = MagicDNSNip"
    using settled_defaults(1) [of c] v(1) by (auto simp: settled_network_def ValidMagicDNS_def split: if_splits)
  have o: "if cODF ?c then 8 \<le> cMasterCPUs ?c \<and> 24576 \<le> cMasterRAM ?c \<and> 1 \<le> cODFDiskGB ?c sdiv 3 - 3 else cODFDiskGB ?c = 0"
    using settled_defaults(3) [of c] v(5,6) thirds_positive by (auto simp: settled_odf_def)
  have n: "cNetworkMode ?c = NetworkModeNAT \<and> cBridge ?c = [] \<and> cMasterIP ?c = [] \<and> cMasterMAC ?c = [] \<or>
      cNetworkMode ?c = NetworkModeBridge \<and> cBridge ?c \<noteq> [] \<and> ValidateMAC (cMasterMAC ?c) \<and> ValidateIP (cMasterIP ?c) \<and>
        parse_cidr (cMachineCIDR ?c) \<noteq> None \<and> (cGateway ?c = [] \<or> ValidateIP (cGateway ?c))"
    using v(7) by (auto simp: validate_nat_def validate_bridge_def split: if_split_asm)
  show ?thesis
    using v(2-4) settled_defaults(2,4) [of c] d o n by (simp add: cluster_wf_def settled_sizes_def settled_addresses_def)
qed

theorem accepted_wf_witness: "cluster_wf (applyDefaults (sample_cluster ''one''))"
proof (rule accepted_wf)
  show "validateNew (sample_mem []) (applyDefaults (sample_cluster ''one'')) = None" by code_simp
qed

end
