(* ===== verification/Pipeline.thy ===== *)
theory Pipeline
  imports Registry
begin

text \<open>
  The create pipeline as a whole: what a run from scratch builds, what a successful create ends
  in, and what a create does to a cluster whose stages are all recorded.
\<close>

section \<open>The stage list\<close>

text \<open>What follows \<open>register-cluster\<close> and \<open>allocate-network\<close>.\<close>

definition later_stages :: "('x, 'b) env \<Rightarrow> ('x sys) deps \<Rightarrow> ('x sys) stage list" where
  "later_stages v d = drop 2 (buildStages v d)"

lemma buildStages_eq:
  "buildStages v d = registercluster (env_rt v) # allocatenetwork (env_rt v) (env_rand v) # later_stages v d"
  by (simp add: buildStages_def later_stages_def Let_def)

lemma last_stage: "\<exists>pre. buildStages v d = pre @ [finalize (env_rt v)]"
  by (simp add: buildStages_def Let_def)

lemma stage_names:
  "map Name (buildStages v d) =
     [''register-cluster'', ''allocate-network'', ''upsert-dns'', ''ensure-cluster-dir'', ''download-binaries'',
      ''download-rhcos'', ''bake-image-store'', ''generate-ssh-key'', ''generate-ignition'',
      if GOOS (env_rt v) = ''darwin'' then ''publish-pxe-assets'' else ''embed-ignition-iso'',
      ''create-network'', ''create-master-vms'', ''verify-master-ip'', ''wait-for-install'', ''apply-tls-certs'',
      ''merge-kubeconfig'', ''install-odf'', ''finalize'']"
  by (simp add: buildStages_def Let_def boot_media_def stage_defs)

lemma distinct_stages: "distinct (map Name (buildStages v d))"
  unfolding stage_names by simp

interpretation quiet: stage_relation "quiet_step r"
proof
  show "quiet_step r m1 m2 \<Longrightarrow> quiet_step r m2 m3 \<Longrightarrow> quiet_step r m1 m3" for m1 m2 m3
    by (simp add: quiet_step_def)
qed simp

lemma later_quiet: "\<forall>S \<in> set (later_stages v d). apply_within (quiet_step r) r S"
proof -
  have w: "(\<And>m. ends_in (quiet_step r m) (Apply S r m)) \<Longrightarrow> apply_within (quiet_step r) r S" for S :: "'x stage"
    by (simp add: apply_within_def ends_in_def)
  have "apply_within (quiet_step r) r (boot_media v d)"
    by (rule w) (simp add: boot_media_def stage_defs quiet_stages)
  then show ?thesis
    unfolding later_stages_def buildStages_def Let_def
    by simp (intro conjI w; simp add: stage_defs quiet_stages)
qed

lemma pipeline_keeps_name: "\<forall>S \<in> set (buildStages v d). keeps_name r S"
  using pipeline_within [of v d r] pipeline_retires [of v d r]
  by (auto simp: keeps_name_def apply_within_def rollback_within_def registry_step_def retire_step_def)

lemma step_registered:
  assumes "registry_step r m m'" "is_registered m n"
  shows "is_registered m' n"
proof -
  have "cName (heap m' q) = cName (heap m q)" for q
    using assms(1) step_names [of r m m'] by (simp add: registry_step_def)
  then show ?thesis using assms by (auto simp: registry_step_def is_registered_def)
qed

lemma apply_one:
  assumes "res (apply_loop save now r [S] st m) x = (None, m')" "Name S \<notin> recorded st"
  shows "res (Apply S r m) x = (None, m')"
  using assms by (cases "res (Apply S r m) x") (auto simp: recorded_def split: option.splits if_splits)

lemma apply_two:
  assumes "res (apply_loop save now r [S, T] st m) x = (None, m')" "Name S \<notin> recorded st" "Name T \<notin> recorded st"
    "Name S \<noteq> Name T"
  obtains m1 y where "res (Apply S r m) x = (None, m1)" "res (Apply T r m1) y = (None, m')"
proof -
  have l: "[S, T] = [S] @ [T]" by simp
  obtain st1 m1 y where a: "res (apply_loop save now r [S] st m) x = (None, m1)"
    "res (apply_loop save now r [T] st1 m1) y = (None, m')" "recorded st1 = recorded st \<union> Name ` set [S]"
    using assms(1) unfolding l by (rule apply_loop_append)
  show thesis
  proof (rule that)
    show "res (Apply S r m) x = (None, m1)" by (rule apply_one [OF a(1) assms(2)])
    show "res (Apply T r m1) y = (None, m')" by (rule apply_one [OF a(2)]) (use assms a(3) in auto)
  qed
qed

lemma register_effect:
  assumes "res (registercluster_Apply rt r m) x = (None, m')"
  shows "is_registered m' (cName (heap m r)) \<and> UsedIPs m' = UsedIPs m \<and> UsedMACs m' = UsedMACs m \<and>
    (\<exists>st. heap m' r = (heap m r)\<lparr>cState := st\<rparr>)"
  using assms
  by (auto simp: registercluster_Apply_def is_registered_iff split: if_splits intro: exI [of _ "cState (heap m r)"])

lemma allocate_effect:
  assumes ok: "res (allocatenetwork_Apply rt rnd r m) s = (None, m')" and c: "is_nat (heap m r)" "cMACAddresses (heap m r) = []"
  shows "length (cIPAddresses (heap m' r)) = node_total (heap m r) \<and> length (cMACAddresses (heap m' r)) = node_total (heap m r) \<and>
    (\<forall>ip \<in> set (cIPAddresses (heap m' r)). \<not> map_get (UsedIPs m) ip \<and> map_get (UsedIPs m') ip)"
proof -
  obtain e m1 where q: "res (allocate rnd r m) s = (e, m1)" by force
  with ok c have e: "e = None" "m' = set_cluster r (\<lambda>c. deriveMagicDomain (c\<lparr>cMachineCIDR := cNetworkSubnet c @ ''.0/24''\<rparr>)) m1"
    by (auto simp: allocatenetwork_Apply_def split: option.splits)
  obtain macs m2 ips m3 where d: "mac_pool.draws m macs m2" "length macs = node_total (heap m r)"
    "ip_pool.draws (set_cluster r (cMACAddresses_update (\<lambda>_. macs)) m2) ips m3" "length ips = node_total (heap m r)"
    "m1 = set_cluster r (\<lambda>c. c\<lparr>cIPAddresses := ips, cNetworkSubnet := BaseNetworkRange\<rparr>) m3"
    using q [unfolded e(1)] c(1) by (rule allocate_NAT)
  note f = mac_draws_frame [OF d(1)] ip_draws_frame [OF d(3)]
  have "\<not> map_get (UsedIPs m) ip \<and> map_get (UsedIPs m3) ip" if "ip \<in> set ips" for ip
    using ip_pool.draws_fresh [OF d(3) that] ip_pool.draws_marks [OF d(3), of ip] f(1) that by auto
  with d f e show ?thesis by simp
qed


section \<open>Creating a stopped cluster\<close>

lemma all_recorded_skip:
  assumes "set (map Name ss) \<subseteq> recorded st"
  shows "apply_loop save now r ss st m = io_ret (None, m)"
  using assms by (induction ss) (auto simp: recorded_def)

text \<open>C34. Creating a stopped cluster whose stages are all recorded applies no stage and starts no virtual
  machine: after the pull secret and preflight checks it only marks the cluster as running and saves.\<close>

theorem create_on_stopped:
  assumes c: "find_cluster m (cName (heap m r)) = Some q" "cName (heap m r) \<noteq> []"
      "cState (heap m q) = ClusterStateStopped" "IsResolvedOCPVersion (cOCPVersion (heap m q))"
    and secret: "EnsurePullSecret (env_rt v) (ConfigDir m) x = (None, t1, x1)"
    and checks: "runner_Preflight q m (buildStages v d) x1 = (None, t2, x2)"
    and state: "loadState (env_rt v) (ConfigDir m) (cName (heap m q)) x2 = (Inr st, t3, x3)"
      "set (map Name (buildStages v d)) \<subseteq> recorded st"
  shows "Create v d r m x =
    (let m' = set_cluster q (cState_update (\<lambda>_. ClusterStateRunning)) m in
     case Save (env_rt v) m' x3 of (e, t4, x4) \<Rightarrow> ((e, m'), t1 + t2 + t3 + t4, x4))"
proof -
  have p: "run_pipeline v d q m x1 = (let m' = set_cluster q (cState_update (\<lambda>_. ClusterStateRunning)) m in
     case Save (env_rt v) m' x3 of (e, t4, x4) \<Rightarrow> ((e, m'), t2 + t3 + t4, x4))"
    using checks state c(3)
    by (simp add: run_pipeline_def act_check_def act_seq_def wrap_err_def io_bind_def io_ret_def runner_Apply_def
        all_recorded_skip save_mem_def keep_mem_def Let_def split: prod.splits)
  show ?thesis
    using c secret p
    by (simp add: Create_def validateName_def act_check_def act_seq_def resolve_version_def io_bind_def io_ret_def
        Let_def split: prod.splits)
qed

definition stopped_mem :: mem where
  "stopped_mem = (sample_mem [(sample_cluster ''one'')\<lparr>cState := ClusterStateStopped\<rparr>])\<lparr>ConfigDir := ''/sim''\<rparr>"

definition all_applied :: "progress" where
  "all_applied = map (\<lambda>n. (n, \<lparr>srAppliedAt = 0, srOutcome = StageOutcomeOK\<rparr>))
     (map Name (buildStages sim_env (fake_deps sample_rt ''/http'')))"

definition stopped_sys :: sim where
  "stopped_sys = \<lparr>files = [''/sim/pull-secret'' \<mapsto> File (Raw fake_secret),
      ''/sim/clusters/one/state.json'' \<mapsto> File (StateDoc \<lparr>csStages = Some all_applied\<rparr>)], rest = fresh_bundle ''/http''\<rparr>"

lemma stopped_cluster: "heap stopped_mem 0 = (sample_cluster ''one'')\<lparr>cState := ClusterStateStopped\<rparr>"
  "Clusters stopped_mem = [0]" "ConfigDir stopped_mem = ''/sim''"
  by (simp_all add: stopped_mem_def sample_mem_def)

lemma stopped_reads:
  "os_stat sample_rt (PullSecretPath ''/sim'') stopped_sys = (Inr (File (Raw fake_secret)), 0, stopped_sys)"
  "os_read sample_rt (PullSecretPath ''/sim'') stopped_sys = (Inr (Raw fake_secret), 0, stopped_sys)"
  "os_read sample_rt (statePath ''/sim'' ''one'') stopped_sys = (Inr (StateDoc \<lparr>csStages = Some all_applied\<rparr>), 0, stopped_sys)"
proof -
  have p: "PullSecretPath ''/sim'' = ''/sim/pull-secret''" "statePath ''/sim'' ''one'' = ''/sim/clusters/one/state.json''"
    by code_simp+
  show "os_stat sample_rt (PullSecretPath ''/sim'') stopped_sys = (Inr (File (Raw fake_secret)), 0, stopped_sys)"
    "os_read sample_rt (PullSecretPath ''/sim'') stopped_sys = (Inr (Raw fake_secret), 0, stopped_sys)"
    "os_read sample_rt (statePath ''/sim'' ''one'') stopped_sys = (Inr (StateDoc \<lparr>csStages = Some all_applied\<rparr>), 0, stopped_sys)"
    by (simp_all add: p os_stat_def os_read_def os_call_def sample_rt_def stopped_sys_def)
qed

lemma stopped_steps:
  "EnsurePullSecret sample_rt ''/sim'' stopped_sys = (None, 0, stopped_sys)"
  "ValidatePullSecretJSON sample_rt ''/sim'' stopped_sys = (None, 0, stopped_sys)"
  "loadState sample_rt ''/sim'' ''one'' stopped_sys = (Inr all_applied, 0, stopped_sys)"
  "fake_VM_CheckAccess stopped_sys = (None, 0, stopped_sys)"
  "fake_VM_StoragePoolActive pool stopped_sys = (None, 0, stopped_sys)"
  "fake_LookPath bin stopped_sys = (None, 0, stopped_sys)"
  "fake_HasCPUVirtualization stopped_sys = (Inr True, 0, stopped_sys)"
  "fake_AvailableDiskBytes dir stopped_sys = (Inr (push_bit 62 1), 0, stopped_sys)"
  "fake_PhysicalMemoryBytes stopped_sys = (Inr (push_bit 30 256), 0, stopped_sys)"
proof -
  have "ValidatePullSecretBytes fake_secret = None" by code_simp
  then show "ValidatePullSecretJSON sample_rt ''/sim'' stopped_sys = (None, 0, stopped_sys)"
    by (simp add: ValidatePullSecretJSON_def os_read_bytes_def io_bind_def io_ret_def stopped_reads content_bytes_def)
  show "EnsurePullSecret sample_rt ''/sim'' stopped_sys = (None, 0, stopped_sys)"
    "loadState sample_rt ''/sim'' ''one'' stopped_sys = (Inr all_applied, 0, stopped_sys)"
    by (simp_all add: EnsurePullSecret_def loadState_def io_bind_def io_ret_def stopped_reads Let_def stages_of_def)
qed (simp_all add: fake_VM_CheckAccess_def fake_VM_StoragePoolActive_def fake_LookPath_def unless_err_def
    fake_HasCPUVirtualization_def fake_AvailableDiskBytes_def fake_PhysicalMemoryBytes_def sim_op_def stopped_sys_def
    fresh_bundle_def map_get_def)

lemma stopped_vm_checks:
  "createmastervms_Preflight sample_rt fake_vm_manager (Host (fake_deps sample_rt ''/http'')) 0 stopped_mem stopped_sys = (None, 0, stopped_sys)"
  by (simp add: createmastervms_Preflight_def stopped_cluster io_seq_def io_bind_def io_ret_def stopped_steps hostMemoryReserveMiB_def
      checkHostMemory_def check_disk_def check_bridge_def disk_need_def sample_cluster_def Let_def cluster_list_def sample_rt_def)

lemma stopped_preflight:
  "runner_Preflight 0 stopped_mem (buildStages sim_env (fake_deps sample_rt ''/http'')) stopped_sys = (None, 0, stopped_sys)"
  by (simp add: runner_Preflight_def buildStages_def boot_media_def stage_defs Let_def sim_env_def stopped_vm_checks stopped_steps
    upsertdns_Preflight_def downloadbinaries_Preflight_def bakeimagestore_Preflight_def generatesshkey_Preflight_def
     generateignition_Preflight_def embedignitioniso_Preflight_def createnetwork_Preflight_def applytlscerts_Preflight_def
     stopped_cluster io_bind_def io_ret_def sample_cluster_def io_seq_def)

theorem create_on_stopped_witness:
  "\<exists>m'. fst (Create sim_env (fake_deps sample_rt ''/http'') 0 stopped_mem stopped_sys) = (None, m') \<and>
     cState (heap m' 0) = ClusterStateRunning \<and>
     rest (snd (snd (Create sim_env (fake_deps sample_rt ''/http'') 0 stopped_mem stopped_sys))) = fresh_bundle ''/http''"
proof -
  have e: "env_rt sim_env = sample_rt" by (simp add: sim_env_def)
  have c: "find_cluster stopped_mem (cName (heap stopped_mem 0)) = Some 0" "cName (heap stopped_mem 0) \<noteq> []"
    "cState (heap stopped_mem 0) = ClusterStateStopped" "cName (heap stopped_mem 0) = ''one''"
    by (simp_all add: find_cluster_def stopped_cluster sample_cluster_def)
  have v: "IsResolvedOCPVersion (cOCPVersion (heap stopped_mem 0))"
    unfolding stopped_cluster sample_cluster_def by code_simp
  have r: "set (map Name (buildStages sim_env (fake_deps sample_rt ''/http''))) \<subseteq> recorded all_applied"
    by (auto simp: all_applied_def recorded_def map_of_eq_None_iff image_image simp flip: not_None_eq)
  have s: "EnsurePullSecret (env_rt sim_env) (ConfigDir stopped_mem) stopped_sys = (None, 0, stopped_sys)"
    "loadState (env_rt sim_env) (ConfigDir stopped_mem) (cName (heap stopped_mem 0)) stopped_sys = (Inr all_applied, 0, stopped_sys)"
    using stopped_steps(1,3) by (simp_all add: e stopped_cluster(3) c(4))
  let ?m' = "set_cluster 0 (cState_update (\<lambda>_. ClusterStateRunning)) stopped_mem"
  have w: "fst (Save sample_rt ?m' stopped_sys) = None" "rest (snd (snd (Save sample_rt ?m' stopped_sys))) = fresh_bundle ''/http''"
    by (simp_all add: Save_def os_write_def os_call_def io_bind_def io_ret_def wrap_err_def err_of_def sample_rt_def stopped_sys_def)
  have "Create sim_env (fake_deps sample_rt ''/http'') 0 stopped_mem stopped_sys =
    (case Save sample_rt ?m' stopped_sys of (e, t, x) \<Rightarrow> ((e, ?m'), t, x))"
    using create_on_stopped [OF c(1-3) v s(1) stopped_preflight s(2) r] by (simp add: e Let_def)
  with w show ?thesis by (auto split: prod.splits)
qed

end
