(* ===== verification/Operations.thy ===== *)
theory Operations
  imports Pipeline
begin

text \<open>
  What deleting, stopping and starting a cluster end in: a delete gives back the registration and
  the addresses of the cluster, a stop leaves its virtual machines off, and the wait after a start
  ends.

  The locale \<open>vm_power\<close> is the contract of the power switch; the simulated VM manager is its
  interpretation.
\<close>

section \<open>Delete\<close>

lemma later_rollbacks: "\<forall>S \<in> set (later_stages v d). rollback_within (quiet_step r) r S"
proof -
  have w: "(\<And>m. ends_in (quiet_step r m) (Rollback S r m)) \<Longrightarrow> rollback_within (quiet_step r) r S" for S :: "'x stage"
    by (simp add: rollback_within_def ends_in_def)
  have "rollback_within (quiet_step r) r (boot_media v d)"
    by (rule w) (simp add: boot_media_def stage_defs quiet_rollbacks)
  then show ?thesis
    unfolding later_stages_def buildStages_def Let_def
    by simp (intro conjI w; simp add: stage_defs quiet_rollbacks)
qed

lemma rollback_one:
  assumes "res (rollback_loop save r [S] st m) x = (None, m')" "Name S \<in> recorded st"
  obtains e where "res (Rollback S r m) x = (e, m')"
  using assms by (cases "res (Rollback S r m) x") (auto simp: recorded_def split: option.splits if_splits)

lemma remove_named_set:
  "distinct (map (\<lambda>q. cName (heap m q)) qs) \<Longrightarrow> set (remove_named m n qs) = {q \<in> set qs. cName (heap m q) \<noteq> n}"
  by (induction qs) (auto simp: image_iff)

lemma rev_buildStages:
  "rev (buildStages v d) = rev (later_stages v d) @ [allocatenetwork (env_rt v) (env_rand v)] @ [registercluster (env_rt v)]"
  by (simp add: buildStages_eq)

text \<open>A complete rollback over the pipeline, seen from its two first stages.\<close>

lemma rollback_pipeline:
  assumes ok: "res (runner_Rollback (env_rt v) cd r m (buildStages v d)) x = (None, m')"
    and st: "holds_state cd (cName (heap m r)) st x" "{''register-cluster'', ''allocate-network''} \<subseteq> recorded st"
  obtains m1 where "quiet_step r m m1"
    "m' = (let m2 = set_cluster r (\<lambda>c. c\<lparr>cIPAddresses := [], cMACAddresses := []\<rparr>) (release r m1)
           in m2\<lparr>Clusters := remove_named m2 (cName (heap m2 r)) (Clusters m2)\<rparr>)"
proof -
  let ?loop = "rollback_loop (saveState (env_rt v) cd) r"
  obtain st0 where l: "res (loadState (env_rt v) cd (cName (heap m r))) x = Inr st0"
    using ok by (cases "res (loadState (env_rt v) cd (cName (heap m r))) x") (auto simp: runner_Rollback_def)
  have "st0 = st" using state_file.load_fun [OF st(1) l] .
  with l ok have a: "res (?loop (rev (later_stages v d) @ ([allocatenetwork (env_rt v) (env_rand v)] @ [registercluster (env_rt v)])) st m)
     (after (loadState (env_rt v) cd (cName (heap m r))) x) = (None, m')"
    by (simp add: runner_Rollback_def rev_buildStages)
  obtain st1 m1 y where r1: "res (?loop (rev (later_stages v d)) st m) (after (loadState (env_rt v) cd (cName (heap m r))) x) = (None, m1)"
    "res (?loop ([allocatenetwork (env_rt v) (env_rand v)] @ [registercluster (env_rt v)]) st1 m1) y = (None, m')"
    "recorded st1 = recorded st - Name ` set (rev (later_stages v d))"
    using a by (rule rollback_loop_append)
  obtain st2 m2 z where r2: "res (?loop [allocatenetwork (env_rt v) (env_rand v)] st1 m1) y = (None, m2)"
    "res (?loop [registercluster (env_rt v)] st2 m2) z = (None, m')"
    "recorded st2 = recorded st1 - Name ` set [allocatenetwork (env_rt v) (env_rand v)]"
    using r1(2) by (rule rollback_loop_append)
  have "distinct (map Name (registercluster (env_rt v) # allocatenetwork (env_rt v) (env_rand v) # later_stages v d))"
    using distinct_stages [of v d] unfolding buildStages_eq .
  then have n: "''register-cluster'' \<in> recorded st2" "''allocate-network'' \<in> recorded st1"
    using st(2) r1(3) r2(3) by (auto simp: stage_defs)
  have q: "quiet_step r m m1"
    using quiet.rollback_loop_within [of "rev (later_stages v d)"] later_rollbacks r1(1) by (metis set_rev snd_conv)
  obtain e2 where "res (Rollback (allocatenetwork (env_rt v) (env_rand v)) r m1) y = (e2, m2)"
    using r2(1) by (rule rollback_one) (simp add: stage_defs n)
  moreover obtain e3 where "res (Rollback (registercluster (env_rt v)) r m2) z = (e3, m')"
    using r2(2) by (rule rollback_one) (simp add: stage_defs n)
  ultimately show thesis
    using that [OF q] by (simp add: stage_defs allocatenetwork_Rollback_def registercluster_Rollback_def Let_def)
qed



lemma rollback_skip:
  "Name ` set pre \<inter> recorded st = {} \<Longrightarrow> rollback_loop save r (pre @ ss) st m = rollback_loop save r ss st m"
  by (induction pre) (auto simp: recorded_def)

definition half_built :: mem where
  "half_built = (sample_mem [(sample_cluster ''one'')\<lparr>cIPAddresses := [''192.168.126.5''], cMACAddresses := [''52:54:00:00:00:01'']\<rparr>])
     \<lparr>ConfigDir := ''/sim'', UsedIPs := [(''192.168.126.5'', True)], UsedMACs := [(''52:54:00:00:00:01'', True)]\<rparr>"

definition half_progress :: progress where
  "half_progress = [(''register-cluster'', \<lparr>srAppliedAt = 0, srOutcome = StageOutcomeOK\<rparr>),
     (''allocate-network'', \<lparr>srAppliedAt = 0, srOutcome = StageOutcomeOK\<rparr>)]"

definition half_sys :: sim where
  "half_sys = \<lparr>files = [''/sim/clusters/one/state.json'' \<mapsto> File (StateDoc \<lparr>csStages = Some half_progress\<rparr>)], rest = fresh_bundle ''/http''\<rparr>"


text \<open>With the sample runtime every call succeeds as long as no file is where the cluster directory goes.\<close>

definition dir_free :: "sim \<Rightarrow> bool" where
  "dir_free x \<longleftrightarrow> (case files x ''/sim/clusters/one'' of Some (File _) \<Rightarrow> False | _ \<Rightarrow> True)"

lemma sim_paths:
  "statePath ''/sim'' ''one'' = ''/sim/clusters/one/state.json''" "path_dir ''/sim/clusters/one/state.json'' = ''/sim/clusters/one''"
  "config_path ''/sim'' = ''/sim/config.json''"
  by code_simp+

lemma sim_write:
  "res (os_write sample_rt p c) x = None" "p \<noteq> ''/sim/clusters/one'' \<Longrightarrow> dir_free x \<Longrightarrow> dir_free (after (os_write sample_rt p c) x)"
  by (simp_all add: os_write_def os_call_def sample_rt_def res_def after_def io_bind_def io_ret_def err_of_def dir_free_def)

lemma sim_mkdir:
  "dir_free x \<Longrightarrow> res (os_mkdirall sample_rt ''/sim/clusters/one'') x = None \<and> dir_free (after (os_mkdirall sample_rt ''/sim/clusters/one'') x)"
  by (auto simp: os_mkdirall_def os_call_def sample_rt_def res_def after_def io_bind_def io_ret_def err_of_def dir_free_def
      split: option.splits node.splits)

lemma sim_saveState:
  "dir_free x \<Longrightarrow> res (saveState sample_rt ''/sim'' ''one'' st) x = None"
  "dir_free x \<Longrightarrow> dir_free (after (saveState sample_rt ''/sim'' ''one'' st) x)"
  by (simp_all add: saveState_def sim_paths Let_def sim_mkdir sim_write)

lemma sim_Save:
  "ConfigDir m = ''/sim'' \<Longrightarrow> res (Save sample_rt m) x = None"
  "ConfigDir m = ''/sim'' \<Longrightarrow> dir_free x \<Longrightarrow> dir_free (after (Save sample_rt m) x)"
  by (simp_all add: Save_def sim_paths sim_write)


lemma half_built_simps:
  "heap half_built 0 = (sample_cluster ''one'')\<lparr>cIPAddresses := [''192.168.126.5''], cMACAddresses := [''52:54:00:00:00:01'']\<rparr>"
  "Clusters half_built = [0]" "ConfigDir half_built = ''/sim''"
  by (simp_all add: half_built_def sample_mem_def)

lemma half_load: "loadState sample_rt ''/sim'' ''one'' half_sys = (Inr half_progress, 0, half_sys)"
  by (simp add: loadState_def sim_paths os_read_def os_call_def sample_rt_def half_sys_def io_bind_def io_ret_def stages_of_def)

lemma half_holds: "holds_state ''/sim'' ''one'' half_progress half_sys"
  by (simp add: holds_state_def sim_paths half_sys_def stages_of_def)

lemma half_recorded: "recorded half_progress = {''register-cluster'', ''allocate-network''}"
  by (auto simp: recorded_def half_progress_def)

lemma half_rollback:
  "fst (res (runner_Rollback sample_rt ''/sim'' 0 half_built (buildStages sim_env (fake_deps sample_rt ''/http''))) half_sys) = None"
proof -
  let ?d = "fake_deps sample_rt ''/http''"
  have e: "env_rt sim_env = sample_rt" by (simp add: sim_env_def)
  have "distinct (map Name (registercluster sample_rt # allocatenetwork sample_rt (env_rand sim_env) # later_stages sim_env ?d))"
    using distinct_stages [of sim_env ?d] unfolding buildStages_eq e .
  then have s: "Name ` set (rev (later_stages sim_env ?d)) \<inter> recorded half_progress = {}"
    by (auto simp: stage_defs half_recorded)
  have d: "dir_free half_sys" by (simp add: dir_free_def half_sys_def)
  have n: "cName (sample_cluster ''one'') = ''one''" by (simp add: sample_cluster_def)
  have l: "res (loadState sample_rt ''/sim'' ''one'') half_sys = Inr half_progress"
    "after (loadState sample_rt ''/sim'' ''one'') half_sys = half_sys"
    using half_load by (simp_all add: res_def after_def)
  have m: "map_of half_progress ''allocate-network'' \<noteq> None" "map_of (AList.delete ''allocate-network'' half_progress) ''register-cluster'' \<noteq> None"
    by (simp_all add: half_progress_def)
  show ?thesis
    unfolding runner_Rollback_def rev_buildStages e using d m
    by (simp add: n l rollback_skip [OF s] stage_defs allocatenetwork_Rollback_def registercluster_Rollback_def sim_saveState sim_Save
       half_built_simps release_def)
qed



section \<open>Stop\<close>

text \<open>
  What the manager relies on when it switches machines: switching is observed by a later probe, and
  touches no other machine. \<open>up\<close> tells which machines run.
\<close>

locale vm_power =
  fixes vm :: "'s vm_manager" and up :: "'s \<Rightarrow> string \<Rightarrow> bool" and reliable :: "'s \<Rightarrow> bool"
  assumes probe: "reliable s \<Longrightarrow> res (VM_IsRunning vm n) s = (up s n, None)"
    and start: "reliable s \<Longrightarrow> res (VM_Start vm n) s = None \<and> reliable (after (VM_Start vm n) s) \<and>
      up (after (VM_Start vm n) s) = (up s)(n := True)"
    and stop: "reliable s \<Longrightarrow> res (VM_Stop vm n) s = None \<and> reliable (after (VM_Stop vm n) s) \<and>
      up (after (VM_Stop vm n) s) = (up s)(n := False)"
begin

lemma stop_vms_off:
  "reliable s \<Longrightarrow> reliable (after (stop_vms vm ns) s) \<and>
     up (after (stop_vms vm ns) s) = (\<lambda>n. up s n \<and> n \<notin> set ns)"
proof (induction ns arbitrary: s)
  case (Cons n ns)
  then show ?case using stop [OF Cons.prems, of n] by (auto simp: fun_eq_iff)
qed simp

lemma start_vms_on:
  "reliable s \<Longrightarrow> res (start_vms vm ns) s = None \<and> reliable (after (start_vms vm ns) s) \<and>
     up (after (start_vms vm ns) s) = (\<lambda>n. up s n \<or> n \<in> set ns)"
proof (induction ns arbitrary: s)
  case (Cons n ns)
  then show ?case using start [OF Cons.prems, of n] by (auto simp: fun_eq_iff)
qed simp

lemma restart: "reliable s \<Longrightarrow> up (after (start_vms vm ns) (after (stop_vms vm ns) s)) = (\<lambda>n. up s n \<or> n \<in> set ns)"
  using stop_vms_off start_vms_on by (auto simp: fun_eq_iff)

end

definition sim_up :: "sim \<Rightarrow> string \<Rightarrow> bool" where
  "sim_up s n = map_get (fvRunning (bVM (rest s))) n"

interpretation sim_power: vm_power fake_vm_manager sim_up "\<lambda>s. fvErr (bVM (rest s)) = None"
  by unfold_locales
    (auto simp: sim_up_def fun_eq_iff fake_VM_IsRunning_def fake_VM_Start_def fake_VM_Stop_def vm_op_def map_get_def update_conv' delete_conv')


text \<open>C31. In the simulation a stop succeeds, turns exactly the machines of the cluster off, and records the
  cluster as stopped in memory and in \<open>config.json\<close>.\<close>

theorem Stop_powers_off:
  assumes "find_cluster m n = Some q" "cState (heap m q) = ClusterStateRunning" "fvErr (bVM (rest x)) = None"
  shows "case Stop sim_env (fake_deps sample_rt root) n m x of ((e, m'), t, x') \<Rightarrow>
    e = None \<and> cState (heap m' q) = ClusterStateStopped \<and>
    files x' (config_path (ConfigDir m)) = Some (File (ConfigDoc (snapshot m'))) \<and>
    (\<forall>k. sim_up x' k = (sim_up x k \<and> k \<notin> set (vmNames (heap m q))))"
proof -
  let ?m' = "set_cluster q (cState_update (\<lambda>_. ClusterStateStopped)) m"
  let ?y = "after (stop_vms fake_vm_manager (vmNames (heap m q))) x"
  have e: "env_rt sim_env = sample_rt" by (simp add: sim_env_def)
  have s: "Stop sim_env (fake_deps sample_rt root) n m x =
      ((res (Save sample_rt ?m') ?y, ?m'), took (Stop sim_env (fake_deps sample_rt root) n m) x, after (Save sample_rt ?m') ?y)"
    by (rule trans [OF io_split]) (use assms in \<open>simp add: Stop_def e Let_def\<close>)
  have w: "res (Save sample_rt ?m') ?y = None" "rest (after (Save sample_rt ?m') ?y) = rest ?y"
    by (simp_all add: Save_def os_write_def os_call_def sample_rt_def res_def after_def io_bind_def io_ret_def wrap_err_def err_of_def)
  have "sim_up (after (Save sample_rt ?m') ?y) = sim_up ?y" by (simp add: sim_up_def w fun_eq_iff)
  also have "\<dots> = (\<lambda>k. sim_up x k \<and> k \<notin> set (vmNames (heap m q)))"
    using sim_power.stop_vms_off assms(3) by blast
  finally show ?thesis using s w(1) Save_None [OF w(1)] by simp
qed

definition running_sim :: sim where
  "running_sim = \<lparr>files = (\<lambda>_. None), rest = bVM_update (fake_SetRunning ''master-0-one'' True) (fresh_bundle ''/http'')\<rparr>"

theorem Stop_powers_off_witness:
  "sim_up running_sim ''master-0-one'' \<and>
   \<not> sim_up (after (Stop sim_env (fake_deps sample_rt ''/http'') ''one''
       (sample_mem [(sample_cluster ''one'')\<lparr>cState := ClusterStateRunning\<rparr>])) running_sim) ''master-0-one''"
proof -
  let ?m = "sample_mem [(sample_cluster ''one'')\<lparr>cState := ClusterStateRunning\<rparr>]"
  have m: "find_cluster ?m ''one'' = Some 0" "cState (heap ?m 0) = ClusterStateRunning"
    by (simp_all add: find_cluster_def sample_mem_def sample_cluster_def)
  have v: "vmNames (heap ?m 0) = [''master-0-one'']"
    unfolding sample_mem_def vmNames_def sample_cluster_def by code_simp
  have f: "fvErr (bVM (rest running_sim)) = None" by (simp add: running_sim_def fake_SetRunning_def fresh_bundle_def)
  have "sim_up running_sim ''master-0-one''"
    by (simp add: sim_up_def running_sim_def fake_SetRunning_def fresh_bundle_def map_get_def)
  with Stop_powers_off [OF m f, of "''/http''"] v show ?thesis by (auto simp: after_def split: prod.splits)
qed


section \<open>Start\<close>

lemma repeat_turn_time: "(\<And>x. took a x \<le> D) \<Longrightarrow> took (repeat_turn n a) x \<le> n * D"
  by (induction n arbitrary: x) (simp_all add: add_mono)



end
