(* ===== verification/Processes.thy ===== *)
theory Processes
  imports Polling
begin

text \<open>
  What the macOS providers use of \<open>os/exec\<close>, \<open>os.Process\<close> and \<open>time.Sleep\<close>, and the loops that
  check their deadline before each round (\<open>for time.Now().Before(deadline)\<close>), as opposed to the
  loops of \<open>Polling\<close>, which check it after a failed probe.

  The programs that are run are outside the repository: \<open>exec_rt\<close> gives the effect of starting
  one, of signalling it and of running one to its end (with its output, also when it fails). \<open>spares p m\<close> says that the effect \<open>m\<close>
  leaves the file \<open>p\<close> alone, whatever its outcome.
\<close>

section \<open>Processes\<close>

text \<open>
  A \<open>handle\<close> is an \<open>*os.Process\<close> of a child: it names that child even after it has exited,
  when a process id may name another process.
\<close>

datatype signal = SIG0 | SIGTERM | SIGKILL

type_synonym handle = nat

record 'x exec_rt =
  ex_start :: "string \<Rightarrow> string list \<Rightarrow> ('x sys, handle result) io"
  ex_pid :: "handle \<Rightarrow> int"
  ex_signal :: "handle \<Rightarrow> signal \<Rightarrow> ('x sys, error option) io"
  ex_kill :: "int \<Rightarrow> signal \<Rightarrow> ('x sys, error option) io"
  ex_output :: "string \<Rightarrow> string list \<Rightarrow> ('x sys, string \<times> error option) io"

text \<open>\<open>time.Sleep\<close> is not cancelled.\<close>

definition uncancelled :: "'x rt \<Rightarrow> 'x rt" where
  "uncancelled rt = rt\<lparr>rt_wait := \<lambda>d x. (case rt_wait rt d x of (c, u, y) \<Rightarrow> (False, u, y))\<rparr>"

definition sleep :: "'x rt \<Rightarrow> nat \<Rightarrow> ('x sys, unit) io" where
  "sleep rt d = io_bind (pause (uncancelled rt) d) (\<lambda>_. io_ret ())"

text \<open>
  \<open>for time.Now().Before(deadline) { body; wait }; give_up\<close>, where the body may leave the loop with
  a result, and a cancelled wait leaves it with \<open>cancel\<close>.
\<close>

function watch_loop :: "'x rt \<Rightarrow> nat \<Rightarrow> nat \<Rightarrow> ('x sys, 'a option) io \<Rightarrow> ('x sys, 'a) io \<Rightarrow>
    ('x sys, 'a) io \<Rightarrow> nat \<Rightarrow> 'x sys \<Rightarrow> 'a \<times> nat \<times> 'x sys" where
  "watch_loop rt timeout interval body give_up cancel el s =
     (if timeout \<le> el then give_up s
      else (case body s of (v, t, s1) \<Rightarrow>
        (case v of
           Some a \<Rightarrow> (a, t, s1)
         | None \<Rightarrow> (case pause rt interval s1 of (c, u, s2) \<Rightarrow>
             (case (if c then cancel s2 else watch_loop rt timeout interval body give_up cancel (el + t + u) s2) of
                (a, w, s3) \<Rightarrow> (a, t + u + w, s3))))))"
  by pat_completeness auto

termination
  by (relation "measure (\<lambda>(rt, timeout, interval, body, g, c, el, s). timeout - el)")
    (auto dest!: pause_positive [OF sym])

declare watch_loop.simps [simp del]

section \<open>Effects that spare a file\<close>

definition spares :: "string \<Rightarrow> ('x sys, 'a) io \<Rightarrow> bool" where
  "spares p m \<longleftrightarrow> (\<forall>s. files (after m s) p = files s p)"

named_theorems spares_intros "effects that leave a file alone"

lemma sparesD: "spares p m \<Longrightarrow> files (after m s) p = files s p"
  by (simp add: spares_def)

lemma spares_ret [spares_intros]: "spares p (io_ret x)"
  by (simp add: spares_def)

lemma spares_bind [spares_intros]: "spares p m \<Longrightarrow> (\<And>x. spares p (k x)) \<Longrightarrow> spares p (io_bind m k)"
  by (simp add: spares_def)

lemma spares_seq [spares_intros]: "spares p m \<Longrightarrow> spares p k \<Longrightarrow> spares p (io_seq m k)"
  by (simp add: spares_def split: option.splits)

lemma spares_try [spares_intros]: "spares p m \<Longrightarrow> (\<And>x. spares p (k x)) \<Longrightarrow> spares p (io_try m k)"
  by (simp add: spares_def split: sum.splits)

lemma spares_wrap [spares_intros]: "spares p m \<Longrightarrow> spares p (wrap_err f args m)"
  by (simp add: spares_def)

lemma spares_wrap_res [spares_intros]: "spares p m \<Longrightarrow> spares p (wrap_res f args m)"
  by (simp add: spares_def)

lemma spares_pause [spares_intros]: "spares p (pause rt d)"
  by (simp add: spares_def)

lemma spares_sleep [spares_intros]: "spares p (sleep rt d)"
  by (simp add: sleep_def spares_def)

lemma spares_stat [spares_intros]: "spares p (os_stat rt q)"
  by (simp add: spares_def)

lemma spares_read [spares_intros]: "spares p (os_read rt q)"
  by (simp add: spares_def)

lemma spares_read_bytes [spares_intros]: "spares p (os_read_bytes rt q)"
  by (simp add: os_read_bytes_def spares_def)

lemma spares_write [spares_intros]: "p \<noteq> q \<Longrightarrow> spares p (os_write rt q c)"
  unfolding spares_def by (metis fun_upd_other not_Some_eq os_write_None os_write_Some)

lemma spares_mkdirall [spares_intros]: "p \<noteq> q \<Longrightarrow> spares p (os_mkdirall rt q)"
  by (simp add: spares_def os_mkdirall_files)

lemma spares_remove [spares_intros]: "p \<noteq> q \<Longrightarrow> spares p (os_remove rt q)"
  by (auto simp: spares_def os_remove_def os_call_def after_def io_bind_def io_ret_def
      split: prod.splits option.splits)

lemma spares_removeall [spares_intros]:
  "p \<noteq> q \<Longrightarrow> \<not> has_prefix p (q @ ''/'') \<Longrightarrow> spares p (os_removeall rt q)"
  by (auto simp: spares_def os_removeall_def os_call_def after_def io_bind_def io_ret_def
      split: prod.splits option.splits)

text \<open>A directory that exists is not turned into something else by \<open>os.MkdirAll\<close>.\<close>

lemma mkdirall_file: "files s p = Some (File c) \<Longrightarrow> files (after (os_mkdirall rt q) s) p = Some (File c)"
  by (cases "p = q") (auto simp: os_mkdirall_def os_call_def after_def io_bind_def io_ret_def
      split: prod.splits option.splits node.splits)

lemma spares_watch_loop [spares_intros]:
  assumes "spares p body" "spares p give_up" "spares p cancel"
  shows "spares p (\<lambda>s. watch_loop rt timeout interval body give_up cancel el s)"
proof -
  have "files (snd (snd (watch_loop rt timeout interval body give_up cancel el s))) p = files s p" for el s
  proof (induction "timeout - el" arbitrary: el s rule: less_induct)
    case less
    have B: "\<And>s. files (snd (snd (body s))) p = files s p" and G: "\<And>s. files (snd (snd (give_up s))) p = files s p"
      and C: "\<And>s. files (snd (snd (cancel s))) p = files s p"
      and P: "\<And>s. files (snd (snd (pause rt interval s))) p = files s p"
      using assms spares_pause [of p rt interval] by (simp_all add: spares_def after_def)
    obtain v t s1 where b: "body s = (v, t, s1)" by (cases "body s")
    obtain c u s2 where q: "pause rt interval s1 = (c, u, s2)" by (cases "pause rt interval s1")
    have 1: "files s1 p = files s p" "files s2 p = files s1 p" using B [of s] b P [of s1] q by simp_all
    have 2: "files (snd (snd (watch_loop rt timeout interval body give_up cancel (el + t + u) s2))) p = files s2 p"
      if "\<not> timeout \<le> el" "\<not> c"
      using less [of "el + t + u" s2] pause_positive [of rt interval s1 u s2] q that by simp
    show ?case
      using 1 2 G [of s] C [of s2]
      by (subst watch_loop.simps) (auto simp: b q split: option.splits prod.splits)
  qed
  then show ?thesis by (simp add: spares_def after_def)
qed

text \<open>A round that does not end the loop has waited, so the loop's length is bounded.\<close>

lemma watch_loop_time:
  assumes B: "\<And>s. took body s \<le> B" and U: "\<And>s. took (pause rt interval) s \<le> U"
    and G: "\<And>s. took give_up s \<le> G" and C: "\<And>s. took cancel s \<le> G"
    and l: "watch_loop rt timeout interval body give_up cancel el s = (a, w, s')"
  shows "w \<le> (timeout - el) + B + U + G"
  using l
proof (induction "timeout - el" arbitrary: el s a w s' rule: less_induct)
  case less
  show ?case
  proof (cases "timeout \<le> el")
    case True
    with less.prems G [of s] show ?thesis by (subst (asm) watch_loop.simps) (simp add: took_def)
  next
    case False
    obtain v t s1 where b: "body s = (v, t, s1)" by (cases "body s")
    have t: "t \<le> B" using B [of s] b by (simp add: took_def)
    obtain c u s2 where q: "pause rt interval s1 = (c, u, s2)" by (cases "pause rt interval s1")
    have u: "u \<le> U" using U [of s1] q by (simp add: took_def)
    show ?thesis
    proof (cases v)
      case (Some x)
      with less.prems False b have "w = t" by (subst (asm) watch_loop.simps) simp
      with t show ?thesis by simp
    next
      case None
      show ?thesis
      proof (cases c)
        case True
        with less.prems False b None q have "w = t + u + took cancel s2"
          by (subst (asm) watch_loop.simps) (simp add: took_def split: prod.splits)
        with t u C [of s2] show ?thesis by simp
      next
        case nc: False
        obtain a3 w3 s3 where
          l: "watch_loop rt timeout interval body give_up cancel (el + t + u) s2 = (a3, w3, s3)"
          by (cases "watch_loop rt timeout interval body give_up cancel (el + t + u) s2")
        have "w = t + u + w3" using less.prems False b None q nc l by (subst (asm) watch_loop.simps) simp
        moreover have "w3 \<le> (timeout - (el + t + u)) + B + U + G"
          using less.hyps [OF _ l] pause_positive [of rt interval s1 u s2] q nc False by simp
        moreover have "w3 \<le> G" if "timeout \<le> el + t + u"
        proof -
          have "give_up s2 = (a3, w3, s3)" using l that by (subst (asm) watch_loop.simps) simp
          then show ?thesis using G [of s2] by (simp add: took_def)
        qed
        ultimately show ?thesis using t u by (cases "timeout \<le> el + t + u") simp_all
      qed
    qed
  qed
qed

end
