(* ===== verification/Sidecar.thy ===== *)
theory Sidecar
  imports Processes
begin

text \<open>
  The package \<open>vmnethelper\<close> (\<open>vmnethelper.go\<close>, \<open>sidecar.go\<close>, \<open>preflight.go\<close>): the macOS network
  provisioner, the search for the \<open>vmnet-helper\<close> binary, and the helper process each virtual
  machine gets, with its cleanup across processes.

  The closure \<open>stop\<close> returned by \<open>StartSidecar\<close> is the pair of the handle and the socket it
  captures; \<open>stop_sidecar\<close> is its body.
\<close>

record stop_func =
  sfHandle :: handle
  sfSocket :: string

record 's sidecar_launcher =
  Sc_StartSidecar :: "string \<Rightarrow> string \<Rightarrow> ('s, stop_func result) io"
  Sc_Stop :: "stop_func \<Rightarrow> ('s, unit) io"
  Sc_StopSidecar :: "string \<Rightarrow> string \<Rightarrow> ('s, error option) io"

section \<open>The helper binary\<close>

definition trimNL :: "string \<Rightarrow> string" where
  "trimNL b = trim_right_by (\<lambda>c. c = CHR 0x0A \<or> c = CHR 0x0D) b"

definition candidateBinaries :: "'x exec_rt \<Rightarrow> ('x sys, string list) io" where
  "candidateBinaries ex =
     (let paths = [''/opt/vmnet-helper/bin/vmnet-helper''] in
      io_bind (ex_output ex ''brew'' [''--prefix'', ''vmnet-helper'']) (\<lambda>(out, err). io_ret (case err of
        None \<Rightarrow> path_join [path_clean (trimNL out), ''libexec'', ''vmnet-helper''] # paths
      | Some _ \<Rightarrow> paths)))"

fun first_binary :: "'x rt \<Rightarrow> string list \<Rightarrow> string list \<Rightarrow> ('x sys, string result) io" where
  "first_binary rt cands [] =
     io_ret (Inl (Errorf ''vmnet-helper not found (looked in %v); install with `brew install vmnet-helper`''
                    [strs_text cands]))"
| "first_binary rt cands (p # ps) =
     io_bind (os_stat rt p) (\<lambda>r. case r of
       Inr (File _) \<Rightarrow> io_ret (Inr p)
     | _ \<Rightarrow> first_binary rt cands ps)"

definition ResolveBinary :: "'x rt \<Rightarrow> 'x exec_rt \<Rightarrow> ('x sys, string result) io" where
  "ResolveBinary rt ex = io_bind (candidateBinaries ex) (\<lambda>cands. first_binary rt cands cands)"

definition SidecarArgv :: "string \<Rightarrow> string \<Rightarrow> string list" where
  "SidecarArgv socketPath subnet =
     [''--socket'', socketPath,
      ''--operation-mode'', ''shared'',
      ''--start-address'', subnet @ ''.1'',
      ''--end-address'', subnet @ ''.254'',
      ''--subnet-mask'', ''255.255.255.0'']"

section \<open>Reaping by socket\<close>

definition sidecar_line :: "string \<Rightarrow> string \<Rightarrow> int option" where
  "sidecar_line socketPath raw =
     (let line = trim_space raw in
      if line = [] \<or> \<not> contains line ''vmnet-helper'' \<or> \<not> contains line socketPath then None
      else (case Prelude.fields line of [] \<Rightarrow> None | f # _ \<Rightarrow> atoi f))"

definition matchingSidecarPIDs :: "string \<Rightarrow> string \<Rightarrow> int list" where
  "matchingSidecarPIDs psOutput socketPath =
     List.map_filter (sidecar_line socketPath) (split_on (CHR 0x0A) psOutput)"

definition reapSidecar :: "'x rt \<Rightarrow> 'x exec_rt \<Rightarrow> string \<Rightarrow> ('x sys, unit) io" where
  "reapSidecar rt ex socketPath =
     io_bind (ex_output ex ''ps'' [''-axww'', ''-o'', ''pid=,command='']) (\<lambda>(out, err).
     io_bind (case err of
         Some _ \<Rightarrow> io_ret ()
       | None \<Rightarrow>
           let pids = matchingSidecarPIDs out socketPath in
           if pids \<noteq> []
           then io_bind (ex_output ex ''sudo'' ([''--non-interactive'', ''kill''] @ map int_str pids)) (\<lambda>_. io_ret ())
           else io_ret ()) (\<lambda>_.
     io_bind (os_remove rt socketPath) (\<lambda>_. io_ret ())))"

definition StopSidecar :: "'x rt \<Rightarrow> 'x exec_rt \<Rightarrow> string \<Rightarrow> string \<Rightarrow> ('x sys, error option) io" where
  "StopSidecar rt ex name socketPath = io_bind (reapSidecar rt ex socketPath) (\<lambda>_. io_ret None)"

section \<open>Starting a helper\<close>

definition stop_sidecar :: "'x rt \<Rightarrow> 'x exec_rt \<Rightarrow> stop_func \<Rightarrow> ('x sys, unit) io" where
  "stop_sidecar rt ex f =
     io_bind (ex_output ex ''sudo'' [''--non-interactive'', ''kill'', int_str (ex_pid ex (sfHandle f))]) (\<lambda>_.
     io_bind (ex_signal ex (sfHandle f) SIGKILL) (\<lambda>_.
     io_bind (os_remove rt (sfSocket f)) (\<lambda>_. io_ret ())))"

definition sidecarSocketWait :: nat where "sidecarSocketWait = 10000"

definition await_socket :: "'x rt \<Rightarrow> 'x exec_rt \<Rightarrow> string \<Rightarrow> stop_func \<Rightarrow> ('x sys, stop_func result) io" where
  "await_socket rt ex name f =
     watch_loop rt sidecarSocketWait 200
       (io_bind (os_stat rt (sfSocket f)) (\<lambda>r. io_ret (case r of Inr _ \<Rightarrow> Some (Inr f) | Inl _ \<Rightarrow> None)))
       (io_bind (stop_sidecar rt ex f) (\<lambda>_. io_ret (Inl
          (Errorf ''sidecar %s: vmnet-helper did not bind %s within %s'' [name, sfSocket f, ''10s'']))))
       (io_bind (stop_sidecar rt ex f) (\<lambda>_. io_ret (Inl ErrCanceled)))
       0"

definition StartSidecar :: "'x rt \<Rightarrow> 'x exec_rt \<Rightarrow> string \<Rightarrow> string \<Rightarrow> ('x sys, stop_func result) io" where
  "StartSidecar rt ex name socketPath =
     io_try (ResolveBinary rt ex) (\<lambda>bin.
     io_bind (os_mkdirall rt (path_dir socketPath)) (\<lambda>e. case e of
       Some e \<Rightarrow> io_ret (Inl (Wrapf ''sidecar %s: mkdir socket dir: %w'' [name] e))
     | None \<Rightarrow>
     io_bind (reapSidecar rt ex socketPath) (\<lambda>_.
     io_bind (ex_start ex ''sudo'' ([''--non-interactive'', bin] @ SidecarArgv socketPath BaseNetworkRange)) (\<lambda>r.
       case r of
         Inl e \<Rightarrow> io_ret (Inl (Wrapf ''sidecar %s: start vmnet-helper: %w'' [name] e))
       | Inr h \<Rightarrow> await_socket rt ex name \<lparr>sfHandle = h, sfSocket = socketPath\<rparr>))))"

definition sidecar_launcher :: "'x rt \<Rightarrow> 'x exec_rt \<Rightarrow> 'x sys sidecar_launcher" where
  "sidecar_launcher rt ex =
     \<lparr>Sc_StartSidecar = StartSidecar rt ex, Sc_Stop = stop_sidecar rt ex, Sc_StopSidecar = StopSidecar rt ex\<rparr>"

section \<open>The network provisioner\<close>

definition vmnet_EnsureNetwork :: "network_spec \<Rightarrow> ('s, error option) io" where
  "vmnet_EnsureNetwork spec =
     io_ret (if nsSubnet spec = [] then Some (Errorf ''vmnethelper: empty subnet in NetworkSpec'' []) else None)"

definition PrivilegeHint :: "string \<Rightarrow> string" where
  "PrivilegeHint bin =
     ''Install the vmnet-helper sudoers rule (one time):'' @ nl @
     ''  VH=$(brew --prefix vmnet-helper)'' @ nl @
     ''  sudo sh -c '' @ [CHR 0x22] @ ''sed 's#/opt/vmnet-helper/bin/vmnet-helper#'' @ bin @ ''#' '' @ [CHR 0x5C] @ nl @
     ''    '' @ [CHR 0x5C, CHR 0x22] @ ''$VH/share/doc/vmnet-helper/sudoers.d/vmnet-helper'' @ [CHR 0x5C, CHR 0x22] @
     '' > /etc/sudoers.d/vmnet-helper '' @ [CHR 0x5C] @ nl @
     ''    && chmod 0640 /etc/sudoers.d/vmnet-helper'' @ [CHR 0x22] @ nl @
     ''Then re-run. (vmnet-helper opens the vmnet interface; easyshift never needs root itself.)''"

definition vmnet_NetworkPreflight :: "'x rt \<Rightarrow> 'x exec_rt \<Rightarrow> 'x sys command_runner \<Rightarrow> ('x sys, error option) io" where
  "vmnet_NetworkPreflight rt ex cmd =
     io_bind (ResolveBinary rt ex) (\<lambda>r. case r of
       Inl e \<Rightarrow> io_ret (Some e)
     | Inr bin \<Rightarrow>
         io_bind (Cmd_Run cmd ''sudo'' [''--non-interactive'', bin, ''--version'']) (\<lambda>(out, err). io_ret (case err of
           None \<Rightarrow> None
         | Some e \<Rightarrow> Some (Wrapf (''vmnet-helper is not runnable under passwordless sudo: %w'' @ nl @ nl @ ''%s'')
                            [PrivilegeHint bin] e))))"

definition vmnet_network_provisioner :: "'x rt \<Rightarrow> 'x exec_rt \<Rightarrow> 'x sys command_runner \<Rightarrow> 'x sys network_provisioner" where
  "vmnet_network_provisioner rt ex cmd =
     \<lparr>Net_EnsureNetwork = vmnet_EnsureNetwork,
      Net_AddHost = (\<lambda>_ _. io_ret None),
      Net_RemoveHost = (\<lambda>_ _. io_ret None),
      Net_InspectNetwork = (\<lambda>_. io_ret (Inr \<lparr>niExists = True, niDHCPRangeStart = [], niDHCPRangeEnd = [],
                                              niReservations = [], niLeases = []\<rparr>)),
      Net_ResetNetwork = (\<lambda>_. io_ret None),
      Net_Preflight = Some (vmnet_NetworkPreflight rt ex cmd)\<rparr>"

section \<open>Which processes are reaped\<close>

text \<open>
  A table of processes as \<open>ps -o pid=,command=\<close> prints it: one line each, the process id padded
  on the left.
\<close>

definition ps_line :: "nat \<times> nat \<times> string \<Rightarrow> string" where
  "ps_line p = (case p of (pad, pid, cmd) \<Rightarrow> replicate pad (CHR '' '') @ nat_str pid @ '' '' @ cmd)"

fun ps_text :: "(nat \<times> nat \<times> string) list \<Rightarrow> string" where
  "ps_text [] = []"
| "ps_text (p # ps) = ps_line p @ nl @ ps_text ps"

text \<open>A command line as \<open>ps\<close> shows it: no line break, no blank at either end, not empty.\<close>

definition plain_command :: "string \<Rightarrow> bool" where
  "plain_command cmd \<longleftrightarrow> cmd \<noteq> [] \<and> CHR 0x0A \<notin> set cmd \<and> \<not> is_space (hd cmd) \<and> \<not> is_space (last cmd)"

lemma digit_not_space: "is_digit c \<Longrightarrow> \<not> is_space c"
  by (auto simp: is_digit_def is_space_def char_le_iff)

lemma nat_str_no_space: "c \<in> set (nat_str n) \<Longrightarrow> \<not> is_space c"
  using nat_str_digits [of n] digit_not_space by (auto simp: list_all_iff)

lemma trim_ps_line:
  assumes "plain_command cmd"
  shows "trim_space (ps_line (pad, pid, cmd)) = nat_str pid @ '' '' @ cmd"
proof -
  obtain d ds where d: "nat_str pid = d # ds" by (cases "nat_str pid") auto
  have nd: "\<not> is_space d" using nat_str_no_space [of d pid] d by simp
  have sp: "is_space (CHR '' '')" by (simp add: is_space_def)
  have 1: "dropWhile is_space (replicate pad (CHR '' '') @ nat_str pid @ '' '' @ cmd) = nat_str pid @ '' '' @ cmd"
    using nd sp by (induction pad) (simp_all add: d)
  obtain c cs where c: "cmd = cs @ [c]" using assms by (cases cmd rule: rev_cases) (auto simp: plain_command_def)
  have nc: "\<not> is_space c" using assms c by (simp add: plain_command_def)
  have 2: "rev (dropWhile is_space (rev (nat_str pid @ '' '' @ cmd))) = nat_str pid @ '' '' @ cmd"
    using nc by (simp add: c)
  show ?thesis using 1 2 by (simp add: ps_line_def trim_space_def trim_by_def trim_right_by_def)
qed

lemma first_field: "(\<forall>c \<in> set w. \<not> is_space c) \<Longrightarrow> w \<noteq> [] \<Longrightarrow> is_space c \<Longrightarrow> \<exists>r. Prelude.fields (w @ c # s) = w # r"
proof -
  assume w: "\<forall>c \<in> set w. \<not> is_space c" "w \<noteq> []" and c: "is_space c"
  then obtain a v where a: "w = a # v" by (cases w) auto
  have "takeWhile (\<lambda>d. \<not> is_space d) (v @ c # s) = v" using w c a by (induction v arbitrary: w a) auto
  then show "\<exists>r. Prelude.fields (w @ c # s) = w # r" using w a by (subst Prelude.fields.simps) simp
qed

text \<open>A pattern that starts with neither a digit nor a blank is found in the command, not before it.\<close>

lemma contains_skip: "c \<noteq> p \<Longrightarrow> contains (c # s) (p # sub) = contains s (p # sub)"
  by (simp add: has_prefix_def)

lemma contains_after_pid:
  "\<not> is_digit p \<Longrightarrow> p \<noteq> CHR '' '' \<Longrightarrow> contains (nat_str pid @ '' '' @ cmd) (p # sub) = contains cmd (p # sub)"
proof -
  assume p: "\<not> is_digit p" "p \<noteq> CHR '' ''"
  have "\<forall>c \<in> set ds. is_digit c \<Longrightarrow> contains (ds @ '' '' @ cmd) (p # sub) = contains cmd (p # sub)" for ds
  proof (induction ds)
    case Nil
    show ?case using contains_skip [of "CHR '' ''" p cmd sub] p by simp
  next
    case (Cons c ds)
    then have "c \<noteq> p" using p by auto
    then show ?case using Cons contains_skip [of c p "ds @ '' '' @ cmd" sub] by simp
  qed
  then show ?thesis using nat_str_digits [of pid] by (simp add: list_all_iff)
qed

lemma sidecar_line_ps:
  assumes "plain_command cmd" "pid < 2 ^ 63" "sock = CHR ''/'' # rs"
  shows "sidecar_line sock (ps_line (pad, pid, cmd)) =
     (if contains cmd ''vmnet-helper'' \<and> contains cmd sock then Some (int pid) else None)"
proof -
  have "\<not> is_digit (CHR ''v'')" "\<not> is_digit (CHR ''/'')" by (simp_all add: is_digit_def char_le_iff)
  then have "contains (nat_str pid @ '' '' @ cmd) ''vmnet-helper'' = contains cmd ''vmnet-helper''"
    "contains (nat_str pid @ '' '' @ cmd) sock = contains cmd sock"
    using contains_after_pid assms(3) by simp_all
  moreover obtain r where "Prelude.fields (nat_str pid @ CHR '' '' # cmd) = nat_str pid # r"
    using first_field [of "nat_str pid" "CHR '' ''" cmd] nat_str_no_space by (auto simp: is_space_def)
  ultimately show ?thesis
    using trim_ps_line [OF assms(1), of pad pid] atoi_nat_str [OF assms(2)]
    by (simp add: sidecar_line_def Let_def)
qed

lemma ps_line_no_nl: "plain_command cmd \<Longrightarrow> CHR 0x0A \<notin> set (ps_line (pad, pid, cmd))"
  using nat_str_no_space [of "CHR 0x0A" pid] by (auto simp: ps_line_def plain_command_def is_space_def)

text \<open>C26. Reaping by socket selects exactly this machine's helpers. On a process table as \<open>ps\<close> prints
  it, whatever the padding, \<open>matchingSidecarPIDs\<close> returns, in order, the process ids of the
  commands that name both \<open>vmnet-helper\<close> and the (absolute) socket path, and no others: neither
  the \<open>vfkit\<close> process on the same socket nor the helper of another machine.
\<close>

theorem matchingSidecarPIDs_exact:
  assumes "\<forall>(pad, pid, cmd) \<in> set ps. plain_command cmd \<and> pid < 2 ^ 63" and "sock = CHR ''/'' # rs"
  shows "matchingSidecarPIDs (ps_text ps) sock =
     map (\<lambda>(pad, pid, cmd). int pid)
       (filter (\<lambda>(pad, pid, cmd). contains cmd ''vmnet-helper'' \<and> contains cmd sock) ps)"
  using assms(1)
proof (induction ps)
  case Nil
  have "sidecar_line sock [] = None" by (simp add: sidecar_line_def trim_space_def trim_by_def trim_right_by_def)
  then show ?case by (simp add: matchingSidecarPIDs_def map_filter_simps)
next
  case (Cons p ps)
  obtain pad pid cmd where p: "p = (pad, pid, cmd)" by (cases p)
  with Cons.prems have c: "plain_command cmd" "pid < 2 ^ 63" by auto
  show ?case
    using Cons sidecar_line_ps [OF c assms(2), of pad] split_on_append [OF ps_line_no_nl [OF c(1)], of pad pid "ps_text ps"]
    by (auto simp: matchingSidecarPIDs_def map_filter_simps p)
qed

lemma matchingSidecarPIDs_exact_witness:
  "matchingSidecarPIDs (ps_text
     [(2, 46235, ''sudo --non-interactive /opt/vmnet-helper --socket /s/m/net.sock''),
      (2, 77001, ''vfkit --device virtio-net,unixSocketPath=/s/m/net.sock''),
      (2, 88002, ''/opt/vmnet-helper --socket /s/n/net.sock'')]) ''/s/m/net.sock'' = [46235]"
proof -
  let ?ps = "[(2, 46235, ''sudo --non-interactive /opt/vmnet-helper --socket /s/m/net.sock''),
      (2, 77001, ''vfkit --device virtio-net,unixSocketPath=/s/m/net.sock''),
      (2, 88002, ''/opt/vmnet-helper --socket /s/n/net.sock'')] :: (nat \<times> nat \<times> string) list"
  have "\<forall>(pad, pid, cmd) \<in> set ?ps. plain_command cmd \<and> pid < 2 ^ 63"
    by (simp add: plain_command_def is_space_def)
  from matchingSidecarPIDs_exact [OF this, of "''/s/m/net.sock''" "''s/m/net.sock''"]
  show ?thesis by (simp add: has_prefix_def)
qed

end
