(* ===== verification/Vfkit.thy ===== *)
theory Vfkit
  imports Sidecar
begin

text \<open>
  \<open>providers/vfkit/vfkit.go\<close>: virtual machines on macOS, one \<open>vfkit\<close> process per running
  machine, with two boot phases kept in the file \<open>phase\<close> of the machine's directory.

  The maps of \<open>VMManager\<close> live in the memory of the \<open>easyshift\<close> process (\<open>vfkit_mem\<close>, part of the
  external state \<open>mac\<close>); they are empty in a new process. The watcher is a goroutine:
  \<open>watchInstallReboot\<close> is its whole run, \<open>watch_check\<close>, \<open>forceStop\<close> and \<open>relaunch_run\<close> are the pieces
  between which the other operations may run. \<open>vfkit_step\<close> is that interleaving, and
  \<open>phase_step\<close> the abstract machine it refines: what the next launch boots.
\<close>

section \<open>State\<close>

record vfkit_mem =
  sidecarStops :: "string \<Rightarrow> stop_func option"
  watching :: "string \<Rightarrow> bool"
  vprocs :: "string \<Rightarrow> handle option"

record 'y mac =
  vmem :: vfkit_mem
  outside :: 'y

type_synonym 'y msys = "'y mac sys"

definition NewVMManager_mem :: vfkit_mem where
  "NewVMManager_mem = \<lparr>sidecarStops = (\<lambda>_. None), watching = (\<lambda>_. False), vprocs = (\<lambda>_. None)\<rparr>"

definition get_mem :: "('y msys, vfkit_mem) io" where
  "get_mem s = (vmem (rest s), 0, s)"

definition upd_mem :: "(vfkit_mem \<Rightarrow> vfkit_mem) \<Rightarrow> ('y msys, unit) io" where
  "upd_mem f s = ((), 0, s\<lparr>rest := (rest s)\<lparr>vmem := f (vmem (rest s))\<rparr>\<rparr>)"

definition phaseInstall :: string where "phaseInstall = ''install''"
definition phaseRun :: string where "phaseRun = ''run''"
definition rebootWatchPoll :: nat where "rebootWatchPoll = 2000"
definition rebootWatchTimeout :: nat where "rebootWatchTimeout = 30 * 60 * 1000"

text \<open>The paths; \<open>sd\<close> is \<open>stateDir\<close>.\<close>

definition vmDir :: "string \<Rightarrow> string \<Rightarrow> string" where "vmDir sd name = path_join [sd, name]"
definition specPath :: "string \<Rightarrow> string \<Rightarrow> string" where "specPath sd name = path_join [vmDir sd name, ''spec.json'']"
definition pidPath :: "string \<Rightarrow> string \<Rightarrow> string" where "pidPath sd name = path_join [vmDir sd name, ''vfkit.pid'']"
definition phasePath :: "string \<Rightarrow> string \<Rightarrow> string" where "phasePath sd name = path_join [vmDir sd name, ''phase'']"
definition sockPath :: "string \<Rightarrow> string \<Rightarrow> string" where "sockPath sd name = path_join [vmDir sd name, ''net.sock'']"
definition efiPath :: "string \<Rightarrow> string \<Rightarrow> string" where "efiPath sd name = path_join [vmDir sd name, ''efistore'']"
definition consolePath :: "string \<Rightarrow> string \<Rightarrow> string" where "consolePath sd name = path_join [vmDir sd name, ''console.log'']"
definition launchLogPath :: "string \<Rightarrow> string \<Rightarrow> string" where "launchLogPath sd name = path_join [vmDir sd name, ''vfkit-launch.log'']"
definition diskPath :: "string \<Rightarrow> string \<Rightarrow> string" where "diskPath sd name = path_join [vmDir sd name, ''disk.img'']"

section \<open>The files of a machine\<close>

definition phase :: "'y mac rt \<Rightarrow> string \<Rightarrow> string \<Rightarrow> ('y msys, string) io" where
  "phase rt sd name =
     io_bind (os_read_bytes rt (phasePath sd name)) (\<lambda>r. io_ret (case r of
       Inl _ \<Rightarrow> phaseInstall | Inr d \<Rightarrow> trim_space d))"

definition setPhase :: "'y mac rt \<Rightarrow> string \<Rightarrow> string \<Rightarrow> string \<Rightarrow> ('y msys, error option) io" where
  "setPhase rt sd name ph =
     io_seq (os_mkdirall rt (vmDir sd name)) (os_write rt (phasePath sd name) (Raw ph))"

definition readPID :: "'y mac rt \<Rightarrow> string \<Rightarrow> string \<Rightarrow> ('y msys, int result) io" where
  "readPID rt sd name =
     io_try (os_read_bytes rt (pidPath sd name)) (\<lambda>d. io_ret (case atoi (trim_space d) of
       Some pid \<Rightarrow> Inr pid | None \<Rightarrow> Inl (ExtErr ''invalid syntax'')))"

definition load :: "'y mac rt \<Rightarrow> string \<Rightarrow> string \<Rightarrow> ('y msys, (vm_spec \<times> string) result) io" where
  "load rt sd name =
     io_bind (os_read rt (specPath sd name)) (\<lambda>r. io_ret (case r of
       Inl e \<Rightarrow> Inl (Wrapf ''vfkit: read spec %s: %w'' [name] e)
     | Inr (SpecDoc spec disk) \<Rightarrow> Inr (spec, disk)
     | Inr _ \<Rightarrow> Inl (ExtErr ''invalid JSON'')))"

text \<open>\<open>int64(sizeGiB) * 1024 * 1024 * 1024\<close> wraps; \<open>Truncate\<close> refuses a negative size.\<close>

definition disk_bytes :: "int \<Rightarrow> int" where
  "disk_bytes sizeGiB = sint (word_of_int sizeGiB * 1024 * 1024 * 1024 :: 64 word)"

definition createDisk :: "'y mac rt \<Rightarrow> string \<Rightarrow> int \<Rightarrow> ('y msys, error option) io" where
  "createDisk rt path size0 =
     io_bind (os_exists rt path) (\<lambda>present. if present then io_ret None else
       (let sizeGiB = (if size0 \<le> 0 then 120 else size0); n = disk_bytes sizeGiB in
        io_seq (wrap_err ''vfkit: create disk dir: %w'' [] (os_mkdirall rt (path_dir path)))
       (io_seq (wrap_err ''vfkit: create disk: %w'' [] (os_write rt path (Raw [])))
         (wrap_err ''vfkit: size disk: %w'' []
           (if n < 0 then io_ret (Some (ExtErr ''truncate: invalid argument''))
            else os_write rt path (Raw (replicate (nat n) (CHR 0x00))))))))"

section \<open>The command line\<close>

definition disk_args :: "extra_disk list \<Rightarrow> string list" where
  "disk_args ds = concat (map (\<lambda>d. [''--device'', ''virtio-blk,path='' @ edPath d]) ds)"

definition bootloader_args :: "string \<Rightarrow> string \<Rightarrow> vm_spec \<Rightarrow> string \<Rightarrow> string list" where
  "bootloader_args sd name spec ph =
     (if ph = phaseRun then [''--bootloader'', ''efi,variable-store='' @ efiPath sd name @ '',create'']
      else [''--bootloader'', joined '','' [
              ''linux'',
              ''kernel='' @ vKernelPath spec,
              ''initrd='' @ vInitrdPath spec,
              ''cmdline='' @ quoted (vKernelArgs spec)]])"

definition buildArgs :: "string \<Rightarrow> string \<Rightarrow> vm_spec \<times> string \<Rightarrow> string \<Rightarrow> string list" where
  "buildArgs sd name ls ph =
     (case ls of (spec, disk) \<Rightarrow>
       [''--cpus'', int_str (vVCPUs spec),
        ''--memory'', int_str (vMemoryMiB spec),
        ''--device'', ''virtio-blk,path='' @ disk] @
       disk_args (vExtraDisks spec) @
       [''--device'', ''virtio-net,unixSocketPath='' @ sockPath sd name @ '',mac='' @ vMAC spec,
        ''--device'', ''rosetta,mountTag=rosetta'',
        ''--device'', ''virtio-serial,logFilePath='' @ consolePath sd name,
        ''--pidfile'', pidPath sd name] @
       bootloader_args sd name spec ph)"

text \<open>\<open>bytes.Count\<close> of a non-empty pattern: the occurrences that do not overlap, from the left.\<close>

function byte_count :: "string \<Rightarrow> string \<Rightarrow> nat" where
  "byte_count s sub =
     (case s of [] \<Rightarrow> 0
      | c # r \<Rightarrow> if sub \<noteq> [] \<and> has_prefix s sub then 1 + byte_count (drop (length sub) s) sub else byte_count r sub)"
  by pat_completeness auto

termination
  by (relation "measure (\<lambda>(s, sub). length s)") auto

declare byte_count.simps [simp del]

definition rebootDetected :: "string \<Rightarrow> bool" where
  "rebootDetected console \<longleftrightarrow> 2 \<le> byte_count console ''First Boot Complete''"

section \<open>Processes and helpers\<close>

text \<open>Without a launcher (\<open>sidecar\<close> is nil) no stop function is ever kept.\<close>

definition stopSidecar :: "'y msys sidecar_launcher option \<Rightarrow> string \<Rightarrow> string \<Rightarrow> ('y msys, unit) io" where
  "stopSidecar sc sd name =
     io_bind get_mem (\<lambda>m.
     io_bind (upd_mem (\<lambda>m. m\<lparr>sidecarStops := (sidecarStops m)(name := None)\<rparr>)) (\<lambda>_.
     case sc of
       None \<Rightarrow> io_ret ()
     | Some l \<Rightarrow>
         io_bind (case sidecarStops m name of Some f \<Rightarrow> Sc_Stop l f | None \<Rightarrow> io_ret ()) (\<lambda>_.
         io_bind (Sc_StopSidecar l name (sockPath sd name)) (\<lambda>_. io_ret ()))))"

definition take_proc :: "string \<Rightarrow> ('y msys, handle option) io" where
  "take_proc name =
     io_bind get_mem (\<lambda>m.
     io_bind (upd_mem (\<lambda>m. m\<lparr>vprocs := (vprocs m)(name := None)\<rparr>)) (\<lambda>_. io_ret (vprocs m name)))"

definition await_exit :: "'y mac rt \<Rightarrow> 'y mac exec_rt \<Rightarrow> handle \<Rightarrow> ('y msys, unit) io" where
  "await_exit rt ex p =
     watch_loop (uncancelled rt) 10000 100
       (io_bind (ex_signal ex p SIG0) (\<lambda>e. io_ret (if e \<noteq> None then Some () else None)))
       (io_ret ()) (io_ret ()) 0"

definition forceStop :: "'y mac rt \<Rightarrow> 'y mac exec_rt \<Rightarrow> 'y msys sidecar_launcher option \<Rightarrow> string \<Rightarrow> string \<Rightarrow>
    ('y msys, unit) io" where
  "forceStop rt ex sc sd name =
     io_bind (take_proc name) (\<lambda>p.
     io_bind (case p of
         Some p \<Rightarrow> io_bind (ex_signal ex p SIGKILL) (\<lambda>_. await_exit rt ex p)
       | None \<Rightarrow> io_bind (readPID rt sd name) (\<lambda>r. case r of
             Inl _ \<Rightarrow> io_ret ()
           | Inr pid \<Rightarrow> io_bind (ex_kill ex pid SIGKILL) (\<lambda>_. sleep rt 1000))) (\<lambda>_.
     io_bind (stopSidecar sc sd name) (\<lambda>_.
     io_bind (os_remove rt (sockPath sd name)) (\<lambda>_. io_ret ()))))"

definition vfkit_IsRunning :: "'y mac rt \<Rightarrow> 'y mac exec_rt \<Rightarrow> string \<Rightarrow> string \<Rightarrow> ('y msys, bool \<times> error option) io" where
  "vfkit_IsRunning rt ex sd name =
     io_bind (readPID rt sd name) (\<lambda>r. case r of
       Inl _ \<Rightarrow> io_ret (False, None)
     | Inr pid \<Rightarrow> io_bind (ex_kill ex pid SIG0) (\<lambda>e. io_ret (e = None, None)))"

text \<open>The log file of the launch is created if it can be; its contents come from \<open>vfkit\<close>.\<close>

definition open_append :: "'y mac rt \<Rightarrow> string \<Rightarrow> ('y msys, unit) io" where
  "open_append rt p =
     io_bind (os_call rt (OpWrite p) (\<lambda>fs. (Inr (), if fs p = None then fs(p \<mapsto> File (Raw [])) else fs))) (\<lambda>_. io_ret ())"

text \<open>Start the helper and keep its stop function; the machine's watcher is claimed once.\<close>

definition start_sidecar :: "'y msys sidecar_launcher option \<Rightarrow> string \<Rightarrow> string \<Rightarrow> ('y msys, error option) io" where
  "start_sidecar sc sd name =
     (case sc of
        None \<Rightarrow> io_ret None
      | Some l \<Rightarrow>
          io_bind (Sc_StartSidecar l name (sockPath sd name)) (\<lambda>r. case r of
            Inl e \<Rightarrow> io_ret (Some (Wrapf ''vfkit %s: start network sidecar: %w'' [name] e))
          | Inr f \<Rightarrow> io_bind (upd_mem (\<lambda>m. m\<lparr>sidecarStops := (sidecarStops m)(name \<mapsto> f)\<rparr>)) (\<lambda>_. io_ret None)))"

definition claim_watch :: "string \<Rightarrow> string \<Rightarrow> ('y msys, unit) io" where
  "claim_watch ph name =
     (if ph = phaseInstall then upd_mem (\<lambda>m. m\<lparr>watching := (watching m)(name := True)\<rparr>) else io_ret ())"

definition launch :: "'y mac rt \<Rightarrow> 'y mac exec_rt \<Rightarrow> 'y msys sidecar_launcher option \<Rightarrow> string \<Rightarrow> string \<Rightarrow>
    ('y msys, error option) io" where
  "launch rt ex sc sd name =
     io_bind (load rt sd name) (\<lambda>r. case r of
       Inl e \<Rightarrow> io_ret (Some e)
     | Inr ls \<Rightarrow>
         io_bind (phase rt sd name) (\<lambda>ph.
         io_bind (stopSidecar sc sd name) (\<lambda>_.
         io_seq (start_sidecar sc sd name)
        (io_bind (open_append rt (launchLogPath sd name)) (\<lambda>_.
         io_bind (ex_start ex ''vfkit'' (buildArgs sd name ls ph)) (\<lambda>r. case r of
           Inl e \<Rightarrow> io_ret (Some (Wrapf ''vfkit %s: launch: %w'' [name] e))
         | Inr h \<Rightarrow>
             io_bind (upd_mem (\<lambda>m. m\<lparr>vprocs := (vprocs m)(name \<mapsto> h)\<rparr>)) (\<lambda>_.
             io_bind (claim_watch ph name) (\<lambda>_. io_ret None))))))))"

section \<open>The watcher of the install phase\<close>

datatype watch_verdict = Transitioned | Rebooted | KeepWatching

definition watch_check :: "'y mac rt \<Rightarrow> string \<Rightarrow> string \<Rightarrow> ('y msys, watch_verdict) io" where
  "watch_check rt sd name =
     io_bind (phase rt sd name) (\<lambda>ph.
       if ph \<noteq> phaseInstall then io_ret Transitioned
       else io_bind (os_read_bytes rt (consolePath sd name)) (\<lambda>r. io_ret (case r of
         Inr d \<Rightarrow> if rebootDetected d then Rebooted else KeepWatching
       | Inl _ \<Rightarrow> KeepWatching)))"

definition relaunch_run :: "'y mac rt \<Rightarrow> 'y mac exec_rt \<Rightarrow> 'y msys sidecar_launcher option \<Rightarrow> string \<Rightarrow> string \<Rightarrow>
    ('y msys, unit) io" where
  "relaunch_run rt ex sc sd name =
     io_bind (io_seq (setPhase rt sd name phaseRun) (launch rt ex sc sd name)) (\<lambda>_. io_ret ())"

definition transitionToRun :: "'y mac rt \<Rightarrow> 'y mac exec_rt \<Rightarrow> 'y msys sidecar_launcher option \<Rightarrow> string \<Rightarrow> string \<Rightarrow>
    ('y msys, unit) io" where
  "transitionToRun rt ex sc sd name =
     io_bind (forceStop rt ex sc sd name) (\<lambda>_. relaunch_run rt ex sc sd name)"

definition unwatch :: "string \<Rightarrow> ('y msys, unit) io" where
  "unwatch name = upd_mem (\<lambda>m. m\<lparr>watching := (watching m)(name := False)\<rparr>)"

definition watchInstallReboot :: "'y mac rt \<Rightarrow> 'y mac exec_rt \<Rightarrow> 'y msys sidecar_launcher option \<Rightarrow> string \<Rightarrow> string \<Rightarrow>
    ('y msys, unit) io" where
  "watchInstallReboot rt ex sc sd name =
     io_bind (watch_loop (uncancelled rt) rebootWatchTimeout rebootWatchPoll
       (io_bind (watch_check rt sd name) (\<lambda>v. case v of
          Transitioned \<Rightarrow> io_ret (Some ())
        | Rebooted \<Rightarrow> io_bind (transitionToRun rt ex sc sd name) (\<lambda>_. io_ret (Some ()))
        | KeepWatching \<Rightarrow> io_ret None))
       (io_ret ()) (io_ret ()) 0) (\<lambda>_. unwatch name)"

section \<open>The operations of \<open>VMManager\<close>\<close>

definition vfkit_Create :: "'y mac rt \<Rightarrow> 'y mac exec_rt \<Rightarrow> 'y msys sidecar_launcher option \<Rightarrow> string \<Rightarrow> vm_spec \<Rightarrow>
    ('y msys, error option) io" where
  "vfkit_Create rt ex sc sd spec =
     (let name = vName spec; disk = diskPath sd name in
      io_seq (wrap_err ''vfkit: mkdir vm dir: %w'' [] (os_mkdirall rt (vmDir sd name)))
     (io_seq (createDisk rt disk (vDiskSizeGiB spec))
     (io_seq (os_write rt (specPath sd name) (SpecDoc spec disk))
     (io_seq (setPhase rt sd name phaseInstall)
       (launch rt ex sc sd name)))))"

definition vfkit_Start :: "'y mac rt \<Rightarrow> 'y mac exec_rt \<Rightarrow> 'y msys sidecar_launcher option \<Rightarrow> string \<Rightarrow> string \<Rightarrow>
    ('y msys, error option) io" where
  "vfkit_Start rt ex sc sd name =
     io_bind (vfkit_IsRunning rt ex sd name) (\<lambda>(running, _).
       if running then io_ret None
       else io_bind (phase rt sd name) (\<lambda>ph.
         io_seq (if ph = phaseInstall then setPhase rt sd name phaseRun else io_ret None)
           (launch rt ex sc sd name)))"

definition vfkit_Stop :: "'y mac rt \<Rightarrow> 'y mac exec_rt \<Rightarrow> 'y msys sidecar_launcher option \<Rightarrow> string \<Rightarrow> string \<Rightarrow>
    ('y msys, error option) io" where
  "vfkit_Stop rt ex sc sd name =
     io_bind (take_proc name) (\<lambda>p.
     io_bind (case p of
         Some p \<Rightarrow> io_bind (ex_signal ex p SIGTERM) (\<lambda>_. io_ret ())
       | None \<Rightarrow> io_bind (readPID rt sd name) (\<lambda>r. case r of
             Inl _ \<Rightarrow> io_ret ()
           | Inr pid \<Rightarrow> io_bind (ex_kill ex pid SIGTERM) (\<lambda>_. io_ret ()))) (\<lambda>_.
     io_bind (stopSidecar sc sd name) (\<lambda>_.
     io_bind (os_remove rt (sockPath sd name)) (\<lambda>_. io_ret None))))"

definition vfkit_Delete :: "'y mac rt \<Rightarrow> 'y mac exec_rt \<Rightarrow> 'y msys sidecar_launcher option \<Rightarrow> string \<Rightarrow> string \<Rightarrow>
    ('y msys, error option) io" where
  "vfkit_Delete rt ex sc sd name =
     io_bind (vfkit_Stop rt ex sc sd name) (\<lambda>_.
     io_bind (os_remove rt (path_join [sd, ImageStoreVolName (GOOS rt) name])) (\<lambda>_.
     io_bind (os_remove rt (path_join [sd, ODFVolName (GOOS rt) name])) (\<lambda>_.
     os_removeall rt (vmDir sd name))))"

text \<open>\<open>io.Copy\<close> of a file the program has opened; both ends may fail.\<close>

definition vfkit_copyFile :: "'y mac rt \<Rightarrow> string \<Rightarrow> string \<Rightarrow> ('y msys, error option) io" where
  "vfkit_copyFile rt src dst =
     io_bind (os_read rt src) (\<lambda>r. case r of Inl e \<Rightarrow> io_ret (Some e) | Inr c \<Rightarrow> os_write rt dst c)"

definition vfkit_ImportDisk :: "'y mac rt \<Rightarrow> 'y mac exec_rt \<Rightarrow> string \<Rightarrow> string \<Rightarrow> string \<Rightarrow> ('y msys, string result) io" where
  "vfkit_ImportDisk rt ex sd volName localPath =
     (let dst = path_join [sd, volName] in
      io_try (wrap_res ''vfkit: import disk: source %s: %w (did the bake-image-store stage run?)'' [localPath]
               (os_stat rt localPath)) (\<lambda>_.
      io_bind (os_mkdirall rt sd) (\<lambda>e. case e of
        Some e \<Rightarrow> io_ret (Inl (Wrapf ''vfkit: import disk dir: %w'' [] e))
      | None \<Rightarrow>
      io_bind (os_remove rt dst) (\<lambda>_.
      io_bind (ex_output ex ''cp'' [''-c'', localPath, dst]) (\<lambda>(out, err). case err of
        None \<Rightarrow> io_ret (Inr dst)
      | Some e \<Rightarrow> io_bind (vfkit_copyFile rt localPath dst) (\<lambda>ce. io_ret (case ce of
          None \<Rightarrow> Inr dst
        | Some ce \<Rightarrow> Inl (Wrapf ''vfkit: import disk: clone failed (%v: %s) and copy failed: %w''
                           [error_text e, trim_space out] ce))))))))"

definition vfkit_CreateDataDisk :: "'y mac rt \<Rightarrow> string \<Rightarrow> string \<Rightarrow> int \<Rightarrow> ('y msys, string result) io" where
  "vfkit_CreateDataDisk rt sd volName sizeGiB =
     (let dst = path_join [sd, volName] in
      io_bind (createDisk rt dst sizeGiB) (\<lambda>e. io_ret (case e of Some e \<Rightarrow> Inl e | None \<Rightarrow> Inr dst)))"

definition vfkit_vm_manager :: "'y mac rt \<Rightarrow> 'y mac exec_rt \<Rightarrow> 'y msys sidecar_launcher option \<Rightarrow> string \<Rightarrow>
    'y msys vm_manager" where
  "vfkit_vm_manager rt ex sc sd =
     \<lparr>VM_Create = vfkit_Create rt ex sc sd, VM_Start = vfkit_Start rt ex sc sd, VM_Stop = vfkit_Stop rt ex sc sd,
      VM_Delete = vfkit_Delete rt ex sc sd, VM_IsRunning = vfkit_IsRunning rt ex sd,
      VM_ImportISO = (\<lambda>_ _ _. io_ret (Inr [])),
      VM_ImportDisk = (\<lambda>_ vol loc. vfkit_ImportDisk rt ex sd vol loc),
      VM_CreateDataDisk = (\<lambda>_ vol sz. vfkit_CreateDataDisk rt sd vol sz),
      VM_RemoveISO = (\<lambda>_ _. io_ret None), VM_CheckAccess = io_ret None, VM_StoragePoolActive = (\<lambda>_. io_ret None)\<rparr>"

end
