(* ===== verification/VfkitFacts.thy ===== *)
theory VfkitFacts
  imports Vfkit
begin

text \<open>
  Properties of the macOS virtual machines: which boot phase a launch uses, the refinement of the
  two-phase machine by the interleaving of the operations with the watcher, and what the watcher
  does to a machine that is gone or started meanwhile.
\<close>

section \<open>What the environment leaves alone\<close>

text \<open>Neither the programs the manager runs nor the helper touch the file \<open>p\<close>.\<close>

definition env_spares :: "'y mac exec_rt \<Rightarrow> 'y msys sidecar_launcher option \<Rightarrow> string \<Rightarrow> bool" where
  "env_spares ex sc p \<longleftrightarrow>
     (\<forall>c a. spares p (ex_start ex c a)) \<and> (\<forall>h g. spares p (ex_signal ex h g)) \<and>
     (\<forall>i g. spares p (ex_kill ex i g)) \<and>
     (\<forall>l. sc = Some l \<longrightarrow> (\<forall>n k. spares p (Sc_StartSidecar l n k)) \<and> (\<forall>f. spares p (Sc_Stop l f)) \<and>
        (\<forall>n k. spares p (Sc_StopSidecar l n k)))"

text \<open>The phase file is none of the other files of the machine.\<close>

definition phase_apart :: "string \<Rightarrow> string \<Rightarrow> string \<Rightarrow> bool" where
  "phase_apart goos sd name \<longleftrightarrow>
     list_all (\<lambda>q. phasePath sd name \<noteq> q)
       [vmDir sd name, specPath sd name, sockPath sd name, launchLogPath sd name, diskPath sd name,
        path_dir (diskPath sd name), path_join [sd, ImageStoreVolName goos name],
        path_join [sd, ODFVolName goos name]] \<and>
     has_prefix (phasePath sd name) (vmDir sd name @ ''/'')"

lemma get_mem_simps [simp]: "after get_mem s = s" "res get_mem s = vmem (rest s)"
  by (simp_all add: get_mem_def after_def res_def)

lemma upd_mem_simps [simp]: "files (after (upd_mem f) s) = files s" "vmem (rest (after (upd_mem f) s)) = f (vmem (rest s))"
  by (simp_all add: upd_mem_def after_def)

lemma spares_mem [spares_intros]: "spares p get_mem" "spares p (upd_mem f)"
  by (simp_all add: spares_def)

lemma env_simps:
  assumes "env_spares ex sc p"
  shows "spares p (ex_start ex c a)" "spares p (ex_signal ex h g)" "spares p (ex_kill ex i g)"
    "sc = Some l \<Longrightarrow> spares p (Sc_StartSidecar l n k)" "sc = Some l \<Longrightarrow> spares p (Sc_Stop l f)"
    "sc = Some l \<Longrightarrow> spares p (Sc_StopSidecar l n k)"
  using assms by (auto simp: env_spares_def)

lemma spares_reads [spares_intros]:
  "spares p (phase rt sd name)" "spares p (readPID rt sd name)" "spares p (load rt sd name)"
  "spares p (os_exists rt q)" "spares p (take_proc name)" "spares p (unwatch name)" "spares p (claim_watch ph name)"
  by (auto simp: phase_def readPID_def load_def os_exists_def take_proc_def unwatch_def claim_watch_def
      intro!: spares_intros split: option.splits)

lemma spares_open_append [spares_intros]: "p \<noteq> q \<Longrightarrow> spares p (open_append rt q)"
  by (auto simp: spares_def open_append_def os_call_def after_def io_bind_def io_ret_def
      split: prod.splits option.splits)

lemma spares_await_exit: "env_spares ex sc p \<Longrightarrow> spares p (await_exit rt ex h)"
  unfolding await_exit_def by (intro spares_intros env_simps)

lemma spares_stopSidecar:
  assumes "env_spares ex sc p" shows "spares p (stopSidecar sc sd name)"
  unfolding stopSidecar_def
  by (cases sc) (auto intro!: spares_intros env_simps [OF assms] split: option.splits)

lemma spares_start_sidecar:
  assumes "env_spares ex sc p" shows "spares p (start_sidecar sc sd name)"
  unfolding start_sidecar_def
  by (cases sc) (auto intro!: spares_intros env_simps [OF assms] split: sum.splits)

lemma spares_launch:
  assumes "env_spares ex sc p" "p \<noteq> launchLogPath sd name" shows "spares p (launch rt ex sc sd name)"
  unfolding launch_def
  by (auto intro!: spares_intros env_simps [OF assms(1)] spares_stopSidecar [OF assms(1)]
      spares_start_sidecar [OF assms(1)] assms(2) split: sum.splits)

lemma spares_forceStop:
  assumes "env_spares ex sc p" "p \<noteq> sockPath sd name" shows "spares p (forceStop rt ex sc sd name)"
  unfolding forceStop_def
  by (auto intro!: spares_intros env_simps [OF assms(1)] spares_stopSidecar [OF assms(1)]
      spares_await_exit [OF assms(1)] assms(2) split: option.splits sum.splits)

lemma spares_IsRunning: "env_spares ex sc p \<Longrightarrow> spares p (vfkit_IsRunning rt ex sd name)"
  unfolding vfkit_IsRunning_def by (auto intro!: spares_intros env_simps split: sum.splits)

lemma spares_Stop:
  assumes "env_spares ex sc p" "p \<noteq> sockPath sd name" shows "spares p (vfkit_Stop rt ex sc sd name)"
  unfolding vfkit_Stop_def
  by (auto intro!: spares_intros env_simps [OF assms(1)] spares_stopSidecar [OF assms(1)] assms(2)
      split: option.splits sum.splits)

lemma spares_createDisk:
  "p \<noteq> q \<Longrightarrow> p \<noteq> path_dir q \<Longrightarrow> spares p (createDisk rt q n)"
  unfolding createDisk_def by (auto simp: Let_def intro!: spares_intros)

lemma spares_watch_check [spares_intros]: "spares p (watch_check rt sd name)"
  unfolding watch_check_def by (auto intro!: spares_intros)

section \<open>What the next launch boots\<close>

datatype boot = LiveInstaller | InstalledDisk

text \<open>The phases in the order of a machine's life.\<close>

instantiation boot :: linorder
begin

definition less_eq_boot :: "boot \<Rightarrow> boot \<Rightarrow> bool" where
  "less_eq_boot b c \<longleftrightarrow> b = LiveInstaller \<or> c = InstalledDisk"

definition less_boot :: "boot \<Rightarrow> boot \<Rightarrow> bool" where
  "less_boot b c \<longleftrightarrow> b = LiveInstaller \<and> c = InstalledDisk"

instance
  by standard (auto simp: less_eq_boot_def less_boot_def intro: boot.exhaust)

end

lemma InstalledDisk_le [simp]: "InstalledDisk \<le> b \<longleftrightarrow> b = InstalledDisk"
  by (simp add: less_eq_boot_def)

lemma le_InstalledDisk [simp]: "b \<le> InstalledDisk"
  by (simp add: less_eq_boot_def)

definition next_boot :: "string \<Rightarrow> string \<Rightarrow> 'y msys \<Rightarrow> boot" where
  "next_boot sd name s =
     (case files s (phasePath sd name) of
        Some (File c) \<Rightarrow> if trim_space (content_bytes c) = phaseRun then InstalledDisk else LiveInstaller
      | _ \<Rightarrow> LiveInstaller)"

lemma next_boot_spares: "spares (phasePath sd name) m \<Longrightarrow> next_boot sd name (after m s) = next_boot sd name s"
  by (simp add: next_boot_def sparesD)

lemma trim_phases [simp]: "trim_space phaseRun = phaseRun" "trim_space phaseInstall = phaseInstall"
  "phaseInstall \<noteq> phaseRun" "phaseRun \<noteq> phaseInstall"
  by code_simp+

lemma setPhase_boot:
  assumes "vmDir sd name \<noteq> phasePath sd name"
  shows "next_boot sd name (after (setPhase rt sd name ph) s) =
     (if res (setPhase rt sd name ph) s = None
      then (if trim_space ph = phaseRun then InstalledDisk else LiveInstaller) else next_boot sd name s)"
proof -
  let ?a = "os_mkdirall rt (vmDir sd name)"
  let ?b = "os_write rt (phasePath sd name) (Raw ph)"
  have 1: "files (after ?a s) (phasePath sd name) = files s (phasePath sd name)"
    using os_mkdirall_files assms by metis
  show ?thesis
  proof (cases "res ?a s")
    case None
    then show ?thesis
      using 1 os_write_None [of rt "phasePath sd name" "Raw ph" "after ?a s"]
        os_write_Some [of rt "phasePath sd name" "Raw ph" "after ?a s"]
      by (cases "res ?b (after ?a s)") (simp_all add: setPhase_def next_boot_def content_bytes_def)
  qed (simp add: setPhase_def next_boot_def 1)
qed

text \<open>The abstract machine: what each operation may do to the boot phase.\<close>

datatype vm_event = CreateEv | StartEv | StopEv | DeleteEv | WatchEv | OtherEv

inductive phase_step :: "vm_event \<Rightarrow> boot \<Rightarrow> boot \<Rightarrow> bool" where
  stay: "phase_step e b b"
| created: "phase_step CreateEv b LiveInstaller"
| started: "phase_step StartEv b InstalledDisk"
| switched: "phase_step WatchEv b InstalledDisk"
| deleted: "phase_step DeleteEv b LiveInstaller"

text \<open>Only creating or deleting a machine takes it back.\<close>

lemma phase_step_mono: "phase_step e b b' \<Longrightarrow> e \<noteq> CreateEv \<Longrightarrow> e \<noteq> DeleteEv \<Longrightarrow> b \<le> b'"
  by (induction rule: phase_step.induct) auto

section \<open>The interleaving of the operations with the watcher\<close>

text \<open>Where the watcher of the machine is: not running, polling, or past \<open>forceStop\<close>.\<close>

datatype watcher = NoWatcher | Polling | Killed

definition spawned :: "string \<Rightarrow> watcher \<Rightarrow> 'y msys \<Rightarrow> watcher" where
  "spawned name w s = (if w = NoWatcher \<and> watching (vmem (rest s)) name then Polling else w)"

type_synonym 'y vm_config = "watcher \<times> 'y msys"

inductive vfkit_step :: "'y mac rt \<Rightarrow> 'y mac exec_rt \<Rightarrow> 'y msys sidecar_launcher option \<Rightarrow> string \<Rightarrow> string \<Rightarrow>
    vm_event \<Rightarrow> 'y vm_config \<Rightarrow> 'y vm_config \<Rightarrow> bool"
  for rt ex sc sd name where
  create: "vName spec = name \<Longrightarrow> s' = after (vfkit_Create rt ex sc sd spec) s \<Longrightarrow>
     vfkit_step rt ex sc sd name CreateEv (w, s) (spawned name w s', s')"
| start: "s' = after (vfkit_Start rt ex sc sd name) s \<Longrightarrow>
     vfkit_step rt ex sc sd name StartEv (w, s) (spawned name w s', s')"
| stop: "vfkit_step rt ex sc sd name StopEv (w, s) (w, after (vfkit_Stop rt ex sc sd name) s)"
| delete: "vfkit_step rt ex sc sd name DeleteEv (w, s) (w, after (vfkit_Delete rt ex sc sd name) s)"
| watch_again: "res (watch_check rt sd name) s = KeepWatching \<Longrightarrow>
     vfkit_step rt ex sc sd name WatchEv (Polling, s) (Polling, after (watch_check rt sd name) s)"
| watch_done: "res (watch_check rt sd name) s = Transitioned \<Longrightarrow>
     s' = after (unwatch name) (after (watch_check rt sd name) s) \<Longrightarrow>
     vfkit_step rt ex sc sd name WatchEv (Polling, s) (NoWatcher, s')"
| watch_kill: "res (watch_check rt sd name) s = Rebooted \<Longrightarrow>
     s' = after (forceStop rt ex sc sd name) (after (watch_check rt sd name) s) \<Longrightarrow>
     vfkit_step rt ex sc sd name WatchEv (Polling, s) (Killed, s')"
| watch_relaunch: "s' = after (unwatch name) (after (relaunch_run rt ex sc sd name) s) \<Longrightarrow>
     vfkit_step rt ex sc sd name WatchEv (Killed, s) (NoWatcher, s')"
| watch_timeout:
    "vfkit_step rt ex sc sd name WatchEv (Polling, s) (NoWatcher, after (unwatch name) s)"
| other: "vmem (rest s') = vmem (rest s) \<Longrightarrow> files s' (phasePath sd name) = files s (phasePath sd name) \<Longrightarrow>
     vfkit_step rt ex sc sd name OtherEv (w, s) (w, s')"

inductive vfkit_run :: "'y mac rt \<Rightarrow> 'y mac exec_rt \<Rightarrow> 'y msys sidecar_launcher option \<Rightarrow> string \<Rightarrow> string \<Rightarrow>
    vm_event list \<Rightarrow> 'y vm_config \<Rightarrow> 'y vm_config \<Rightarrow> bool"
  for rt ex sc sd name where
  run_nil: "vfkit_run rt ex sc sd name [] c c"
| run_cons: "vfkit_step rt ex sc sd name e c c1 \<Longrightarrow> vfkit_run rt ex sc sd name es c1 c2 \<Longrightarrow>
     vfkit_run rt ex sc sd name (e # es) c c2"

lemma phase_apart_simps:
  assumes "phase_apart goos sd name"
  shows "phasePath sd name \<noteq> vmDir sd name" "phasePath sd name \<noteq> specPath sd name"
    "phasePath sd name \<noteq> sockPath sd name" "phasePath sd name \<noteq> launchLogPath sd name"
    "phasePath sd name \<noteq> diskPath sd name" "phasePath sd name \<noteq> path_dir (diskPath sd name)"
    "phasePath sd name \<noteq> path_join [sd, ImageStoreVolName goos name]"
    "phasePath sd name \<noteq> path_join [sd, ODFVolName goos name]"
    "has_prefix (phasePath sd name) (vmDir sd name @ ''/'')"
  using assms by (simp_all add: phase_apart_def)

text \<open>The four ways an operation moves the phase.\<close>

lemma launch_boot:
  assumes "env_spares ex sc (phasePath sd name)" "phase_apart goos sd name"
  shows "next_boot sd name (after (launch rt ex sc sd name) s) = next_boot sd name s"
  by (rule next_boot_spares) (rule spares_launch [OF assms(1) phase_apart_simps(4) [OF assms(2)]])

lemma set_launch_boot:
  assumes "env_spares ex sc (phasePath sd name)" "phase_apart goos sd name"
  shows "next_boot sd name (after (io_seq (setPhase rt sd name ph) (launch rt ex sc sd name)) s) =
    (if res (setPhase rt sd name ph) s = None
     then (if trim_space ph = phaseRun then InstalledDisk else LiveInstaller) else next_boot sd name s)"
  using setPhase_boot [of sd name rt ph s] phase_apart_simps(1) [OF assms(2)] launch_boot [OF assms]
  by (auto split: option.splits)

lemma Create_boot:
  assumes "env_spares ex sc (phasePath sd (vName spec))" "phase_apart goos sd (vName spec)"
  shows "next_boot sd (vName spec) (after (vfkit_Create rt ex sc sd spec) s) \<in> {LiveInstaller, next_boot sd (vName spec) s}"
proof -
  let ?n = "vName spec" and ?p = "phasePath sd (vName spec)"
  let ?a = "wrap_err ''vfkit: mkdir vm dir: %w'' [] (os_mkdirall rt (vmDir sd ?n))"
  let ?b = "createDisk rt (diskPath sd ?n) (vDiskSizeGiB spec)"
  let ?c = "os_write rt (specPath sd ?n) (SpecDoc spec (diskPath sd ?n))"
  let ?d = "io_seq (setPhase rt sd ?n phaseInstall) (launch rt ex sc sd ?n)"
  note ap = phase_apart_simps [OF assms(2)]
  have a: "spares ?p ?a" and b: "spares ?p ?b" and c: "spares ?p ?c"
    using ap by (auto intro!: spares_intros spares_createDisk)
  have d: "next_boot sd ?n (after ?d t) \<in> {LiveInstaller, next_boot sd ?n t}" for t
    using set_launch_boot [OF assms, of rt phaseInstall t] by (simp del: after_seq)
  have e: "vfkit_Create rt ex sc sd spec = io_seq ?a (io_seq ?b (io_seq ?c ?d))"
    by (simp add: vfkit_Create_def Let_def)
  show ?thesis unfolding e
    using d [of "after ?c (after ?b (after ?a s))"] next_boot_spares [OF a, of s]
      next_boot_spares [OF b, of "after ?a s"] next_boot_spares [OF c, of "after ?b (after ?a s)"]
    by (simp only: after_seq [of ?a] after_seq [of ?b] after_seq [of ?c] split: option.splits) auto
qed

lemma Start_boot:
  assumes "env_spares ex sc (phasePath sd name)" "phase_apart goos sd name"
  shows "next_boot sd name (after (vfkit_Start rt ex sc sd name) s) \<in> {InstalledDisk, next_boot sd name s}"
proof -
  let ?i = "vfkit_IsRunning rt ex sd name" and ?q = "phase rt sd name"
  have i: "next_boot sd name (after ?i s) = next_boot sd name s"
    by (rule next_boot_spares) (rule spares_IsRunning [OF assms(1)])
  have q: "next_boot sd name (after ?q (after ?i s)) = next_boot sd name s"
    using i by (simp add: next_boot_spares [OF spares_reads(1)])
  show ?thesis
  proof (cases "res ?i s")
    case (Pair running e)
    show ?thesis
      using i q Pair launch_boot [OF assms, of rt "after ?q (after ?i s)"]
        set_launch_boot [OF assms, of rt phaseRun "after ?q (after ?i s)"]
      by (simp add: vfkit_Start_def del: after_seq) (simp add: io_seq_def [of "io_ret None"] del: after_seq)
  qed
qed

lemma Delete_boot:
  assumes "env_spares ex sc (phasePath sd name)" "phase_apart (GOOS rt) sd name"
  shows "next_boot sd name (after (vfkit_Delete rt ex sc sd name) s) \<in> {LiveInstaller, next_boot sd name s}"
proof -
  note ap = phase_apart_simps [OF assms(2)]
  let ?m = "io_bind (vfkit_Stop rt ex sc sd name) (\<lambda>_.
     io_bind (os_remove rt (path_join [sd, ImageStoreVolName (GOOS rt) name])) (\<lambda>_.
     os_remove rt (path_join [sd, ODFVolName (GOOS rt) name])))"
  have m: "spares (phasePath sd name) ?m"
    by (intro spares_intros spares_Stop [OF assms(1) ap(3)] ap)
  have e: "after (vfkit_Delete rt ex sc sd name) s = after (os_removeall rt (vmDir sd name)) (after ?m s)"
    by (simp add: vfkit_Delete_def)
  have "files (after (os_removeall rt (vmDir sd name)) t) (phasePath sd name) \<in> {None, files t (phasePath sd name)}" for t
    by (auto simp: os_removeall_def os_call_def after_def io_bind_def io_ret_def split: prod.splits option.splits)
  from this [of "after ?m s"] show ?thesis
    unfolding e using next_boot_spares [OF m, of s] by (auto simp: next_boot_def)
qed

lemma vfkit_step_refines:
  assumes "env_spares ex sc (phasePath sd name)" "phase_apart (GOOS rt) sd name"
    and "vfkit_step rt ex sc sd name e (w, s) (w', s')"
  shows "phase_step e (next_boot sd name s) (next_boot sd name s')"
proof -
  note ap = phase_apart_simps [OF assms(2)]
  have sp: "next_boot sd name (after (watch_check rt sd name) t) = next_boot sd name t"
    "next_boot sd name (after (unwatch name) t) = next_boot sd name t"
    "next_boot sd name (after (forceStop rt ex sc sd name) t) = next_boot sd name t"
    "next_boot sd name (after (vfkit_Stop rt ex sc sd name) t) = next_boot sd name t" for t
    by (intro next_boot_spares spares_intros spares_forceStop [OF assms(1) ap(3)] spares_Stop [OF assms(1) ap(3)])+
  have rl: "next_boot sd name (after (relaunch_run rt ex sc sd name) t) \<in> {InstalledDisk, next_boot sd name t}" for t
    using set_launch_boot [OF assms(1,2), of rt phaseRun t] by (simp add: relaunch_run_def del: after_seq)
  show ?thesis
    using assms(3)
  proof cases
    case (create spec)
    then have "next_boot sd name s' \<in> {LiveInstaller, next_boot sd name s}"
      using Create_boot [of ex sc sd spec "GOOS rt" rt s] assms(1,2) by simp
    with create show ?thesis by (auto intro: phase_step.intros)
  next
    case start
    then have "next_boot sd name s' \<in> {InstalledDisk, next_boot sd name s}"
      using Start_boot [OF assms(1,2), of rt s] by simp
    with start show ?thesis by (auto intro: phase_step.intros)
  next
    case delete
    then have "next_boot sd name s' \<in> {LiveInstaller, next_boot sd name s}"
      using Delete_boot [OF assms(1,2), of s] by simp
    with delete show ?thesis by (auto intro: phase_step.intros)
  next
    case watch_relaunch
    then have "next_boot sd name s' \<in> {InstalledDisk, next_boot sd name s}" using rl [of s] by (simp add: sp)
    with watch_relaunch show ?thesis by (auto intro: phase_step.intros)
  next
    case other
    then show ?thesis by (simp add: next_boot_def stay)
  qed (auto simp: sp intro: phase_step.intros)
qed


text \<open>The abstract machine along a run, and what it keeps.\<close>

inductive phase_run :: "vm_event list \<Rightarrow> boot \<Rightarrow> boot \<Rightarrow> bool" where
  phase_nil: "phase_run [] b b"
| phase_cons: "phase_step e b b1 \<Longrightarrow> phase_run es b1 b2 \<Longrightarrow> phase_run (e # es) b b2"

lemma vfkit_run_refines:
  assumes "env_spares ex sc (phasePath sd name)" "phase_apart (GOOS rt) sd name"
    and "vfkit_run rt ex sc sd name es c c'"
  shows "phase_run es (next_boot sd name (snd c)) (next_boot sd name (snd c'))"
  using assms(3)
proof induction
  case (run_cons e c c1 es c2)
  have "phase_step e (next_boot sd name (snd c)) (next_boot sd name (snd c1))"
    by (cases c, cases c1) (use vfkit_step_refines [OF assms(1,2)] run_cons.hyps(1) in auto)
  then show ?case by (rule phase_cons) (rule run_cons.IH)
qed (rule phase_nil)

lemma phase_run_mono: "phase_run es b b' \<Longrightarrow> CreateEv \<notin> set es \<Longrightarrow> DeleteEv \<notin> set es \<Longrightarrow> b \<le> b'"
  by (induction rule: phase_run.induct) (auto dest: phase_step_mono)

section \<open>A simulated machine\<close>

text \<open>
  \<open>vfkit\<close> as far as the manager relies on it: it writes the file named by \<open>--pidfile\<close>, runs until
  it is signalled, and then is gone.
\<close>

record vfkit_sim =
  launched :: "string list list"
  alive :: "handle list"

definition pid_arg :: "string list \<Rightarrow> string" where
  "pid_arg a = (case drop 1 (dropWhile (\<lambda>w. w \<noteq> ''--pidfile'') a) of [] \<Rightarrow> [] | w # _ \<Rightarrow> w)"

definition sim_start :: "string \<Rightarrow> string list \<Rightarrow> (vfkit_sim msys, handle result) io" where
  "sim_start c a s =
     (let x = outside (rest s); h = length (launched x); p = pid_arg a
      in (Inr h, 0,
          s\<lparr>files := (if has_suffix p ''vfkit.pid'' then (files s)(p \<mapsto> File (Raw (nat_str (100 + h)))) else files s),
            rest := (rest s)\<lparr>outside := \<lparr>launched = launched x @ [a], alive = h # alive x\<rparr>\<rparr>\<rparr>))"

definition sim_signal :: "handle \<Rightarrow> signal \<Rightarrow> (vfkit_sim msys, error option) io" where
  "sim_signal h g s =
     (let x = outside (rest s) in
      if h \<in> set (alive x)
      then (None, 0, if g = SIG0 then s else
              s\<lparr>rest := (rest s)\<lparr>outside := x\<lparr>alive := filter (\<lambda>k. k \<noteq> h) (alive x)\<rparr>\<rparr>\<rparr>)
      else (Some (ExtErr ''os: process already finished''), 0, s))"

definition sim_exec :: "vfkit_sim mac exec_rt" where
  "sim_exec =
     \<lparr>ex_start = sim_start, ex_pid = (\<lambda>h. 100 + int h), ex_signal = sim_signal,
      ex_kill = (\<lambda>pid g. sim_signal (nat (pid - 100)) g), ex_output = (\<lambda>_ _. io_ret ([], None))\<rparr>"

definition sim_mac :: "(string \<Rightarrow> node option) \<Rightarrow> vfkit_sim msys" where
  "sim_mac fs = \<lparr>files = fs, rest = \<lparr>vmem = NewVMManager_mem, outside = \<lparr>launched = [], alive = []\<rparr>\<rparr>\<rparr>"

definition sim_vm :: vm_spec where
  "sim_vm =
     \<lparr>vName = ''m'', vMemoryMiB = 16384, vVCPUs = 8, vDiskSizeGiB = 120, vStoragePool = [], vMAC = ''52:54:00:00:00:01'',
      vNetworkArg = [], vBootISO = [], vKernelArgs = ''rd.neednet=1'', vKernelPath = ''/k'', vInitrdPath = ''/i'',
      vExtraDisks = []\<rparr>"

lemma sim_spares: "\<not> has_suffix p ''vfkit.pid'' \<Longrightarrow> env_spares sim_exec None p"
  by (auto simp: env_spares_def spares_def sim_exec_def sim_start_def sim_signal_def after_def Let_def)

lemma sim_apart: "phase_apart ''linux'' ''/v'' ''m''" "\<not> has_suffix (phasePath ''/v'' ''m'') ''vfkit.pid''"
  by code_simp+

text \<open>C8. Refinement of the two-phase machine. Whatever the interleaving of the operations with the
  watcher and the rest of the system, and whatever fails, every run of the manager is a run of
  the abstract machine: only creating or deleting a machine makes the next launch boot the live
  installer, only \<open>Start\<close> and the watcher make it boot the installed disk.
\<close>

theorem vfkit_refines:
  assumes "env_spares ex sc (phasePath sd name)" "phase_apart (GOOS rt) sd name"
    and "vfkit_run rt ex sc sd name es (w, s) (w', s')"
  shows "phase_run es (next_boot sd name s) (next_boot sd name s')"
  using vfkit_run_refines [OF assms] by simp

lemma stop_run: "vfkit_run rt ex sc sd name [StopEv] (w, s) (w, after (vfkit_Stop rt ex sc sd name) s)"
  by (rule run_cons [OF vfkit_step.stop run_nil])

lemma vfkit_refines_witness:
  "phase_run [StopEv] (next_boot ''/v'' ''m'' (sim_mac (\<lambda>_. None)))
     (next_boot ''/v'' ''m'' (after (vfkit_Stop sample_rt sim_exec None ''/v'' ''m'') (sim_mac (\<lambda>_. None))))"
  using vfkit_refines [OF sim_spares [OF sim_apart(2)] _ stop_run, of sample_rt] sim_apart(1)
  by (simp add: sample_rt_def)

text \<open>An installed machine is never sent back to the installer: from a state whose next launch
  boots the installed disk, no interleaving of \<open>Start\<close>, \<open>Stop\<close> and the watcher changes that, as
  long as the machine is neither created again nor deleted.
\<close>

theorem installed_stays:
  assumes "env_spares ex sc (phasePath sd name)" "phase_apart (GOOS rt) sd name"
    and "vfkit_run rt ex sc sd name es (w, s) (w', s')" "CreateEv \<notin> set es" "DeleteEv \<notin> set es"
    and "next_boot sd name s = InstalledDisk"
  shows "next_boot sd name s' = InstalledDisk"
  using phase_run_mono [OF vfkit_run_refines [OF assms(1-3)] assms(4,5)] assms(6) by simp

definition sim_installed :: "vfkit_sim msys" where
  "sim_installed = sim_mac [''/v/m/phase'' \<mapsto> File (Raw ''run'')]"

lemma sim_installed_boot: "next_boot ''/v'' ''m'' sim_installed = InstalledDisk"
  by code_simp

lemma installed_stays_witness:
  "next_boot ''/v'' ''m'' (after (vfkit_Stop sample_rt sim_exec None ''/v'' ''m'') sim_installed) = InstalledDisk"
  using installed_stays [OF sim_spares [OF sim_apart(2)] _ stop_run _ _ sim_installed_boot, of sample_rt] sim_apart(1)
  by (simp add: sample_rt_def)

section \<open>Start never runs the installer\<close>

definition boots_disk :: "string \<Rightarrow> string \<Rightarrow> string list \<Rightarrow> bool" where
  "boots_disk sd name args \<longleftrightarrow>
     drop (length args - 2) args = [''--bootloader'', ''efi,variable-store='' @ efiPath sd name @ '',create'']"

text \<open>The environment in which any other launch of \<open>vfkit\<close> does something else, \<open>bad\<close>.\<close>

definition only_disk :: "string \<Rightarrow> string \<Rightarrow> ('y msys, handle result) io \<Rightarrow> 'y mac exec_rt \<Rightarrow> 'y mac exec_rt" where
  "only_disk sd name bad ex =
     ex\<lparr>ex_start := (\<lambda>c a. if c = ''vfkit'' \<and> \<not> boots_disk sd name a then bad else ex_start ex c a)\<rparr>"

lemma buildArgs_run: "boots_disk sd name (buildArgs sd name ls phaseRun)"
  by (cases ls) (simp add: boots_disk_def buildArgs_def bootloader_args_def)

lemma io_bind_cong: "k (res m s) (after m s) = k' (res m s) (after m s) \<Longrightarrow> io_bind m k s = io_bind m k' s"
  by (cases "m s") (simp add: io_bind_def res_def after_def)

lemma phase_read:
  assumes "\<forall>x. fst (os_fault rt (OpRead (phasePath sd name)) x) = None"
  shows "res (phase rt sd name) s =
    (case files s (phasePath sd name) of Some (File c) \<Rightarrow> trim_space (content_bytes c) | _ \<Rightarrow> phaseInstall)"
  using assms [rule_format, of "rest s"]
  by (auto simp: phase_def os_read_bytes_def os_read_def os_call_def res_def io_bind_def io_ret_def
      split: prod.splits option.splits node.splits)

lemma launch_disk:
  assumes "\<forall>x. fst (os_fault rt (OpRead (phasePath sd name)) x) = None"
    and "files s (phasePath sd name) = Some (File (Raw phaseRun))"
  shows "launch rt (only_disk sd name bad ex) sc sd name s = launch rt ex sc sd name s"
  unfolding launch_def
proof (rule io_bind_cong, goal_cases)
  case 1
  let ?s = "after (load rt sd name) s"
  have r: "res (phase rt sd name) ?s = phaseRun"
    using assms(2) sparesD [OF spares_reads(3), where s = s]
    by (simp add: phase_read [OF assms(1)] content_bytes_def)
  show ?case
  proof (cases "res (load rt sd name) s")
    case (Inr ls)
    show ?thesis unfolding Inr sum.case
      by (rule io_bind_cong) (simp only: r, simp add: only_disk_def buildArgs_run)
  qed simp
qed

text \<open>C27. \<open>Start\<close> boots the installed disk. When the phase file is as the manager writes it (or
  missing) and can be read, \<open>Start\<close> behaves the same whatever a launch with any other
  boot loader than EFI with the machine's variable store would do: it never makes one.
\<close>

theorem start_boots_disk:
  assumes "env_spares ex sc (phasePath sd name)" "phase_apart goos sd name"
    and "\<forall>x. fst (os_fault rt (OpRead (phasePath sd name)) x) = None"
    and "files s (phasePath sd name) \<in> {None, Some (File (Raw phaseInstall)), Some (File (Raw phaseRun))}"
  shows "vfkit_Start rt (only_disk sd name bad ex) sc sd name s = vfkit_Start rt ex sc sd name s"
proof -
  let ?ex = "only_disk sd name bad ex" and ?p = "phasePath sd name"
  let ?s1 = "after (vfkit_IsRunning rt ex sd name) s"
  let ?s2 = "after (phase rt sd name) ?s1"
  have i: "vfkit_IsRunning rt ?ex sd name = vfkit_IsRunning rt ex sd name"
    by (simp add: vfkit_IsRunning_def only_disk_def cong: sum.case_cong)
  have f1: "files ?s1 ?p = files s ?p" using sparesD [OF spares_IsRunning [OF assms(1)]] .
  have f2: "files ?s2 ?p = files s ?p" using f1 by (simp add: sparesD [OF spares_reads(1)])
  have ph: "res (phase rt sd name) ?s1 = (if files s ?p = Some (File (Raw phaseRun)) then phaseRun else phaseInstall)"
    using assms(4) f1 by (auto simp: phase_read [OF assms(3)] content_bytes_def)
  show ?thesis
    unfolding vfkit_Start_def i
  proof (rule io_bind_cong, goal_cases)
    case 1
    obtain running e where r: "res (vfkit_IsRunning rt ex sd name) s = (running, e)" by fastforce
    show ?case
    proof (cases running)
      case False
      show ?thesis unfolding r case_prod_conv using False
      proof (simp only: if_False, intro io_bind_cong, goal_cases)
        case 1
        show ?case
        proof (cases "files s ?p = Some (File (Raw phaseRun))")
          case True
          then show ?thesis using f2 launch_disk [OF assms(3), of ?s2 bad ex sc]
            by (simp add: ph io_seq_def)
        next
          case nr: False
          show ?thesis unfolding ph using nr
          proof (simp add: io_seq_def, intro io_bind_cong, goal_cases)
            case 1
            have "files (after (setPhase rt sd name phaseRun) ?s2) ?p = Some (File (Raw phaseRun))"
              if "res (setPhase rt sd name phaseRun) ?s2 = None"
              using that os_write_None [of rt ?p "Raw phaseRun"]
              by (auto simp: setPhase_def split: option.splits)
            then show ?case using launch_disk [OF assms(3)] by (auto split: option.splits)
          qed
        qed
      qed
    qed (simp add: r)
  qed
qed

lemma start_boots_disk_witness:
  "vfkit_Start sample_rt (only_disk ''/v'' ''m'' (io_ret (Inl ErrCanceled)) sim_exec) None ''/v'' ''m'' sim_installed =
   vfkit_Start sample_rt sim_exec None ''/v'' ''m'' sim_installed"
proof -
  have "phasePath ''/v'' ''m'' = ''/v/m/phase''" by code_simp
  then have "files sim_installed (phasePath ''/v'' ''m'') = Some (File (Raw phaseRun))"
    by (simp add: sim_installed_def sim_mac_def phaseRun_def)
  then show ?thesis
    by (intro start_boots_disk [OF sim_spares [OF sim_apart(2)] sim_apart(1)]) (simp_all add: sample_rt_def)
qed

section \<open>What the watcher does to a machine that changed meanwhile\<close>

text \<open>The watcher outlives the machine. Once \<open>Delete\<close> has removed the directory of a machine, a
  round of its watcher neither finds the transition done nor the guest rebooted, so it keeps
  polling: a missing phase file reads as the install phase.
\<close>

theorem watcher_outlives_machine:
  assumes "has_prefix (phasePath sd name) (vmDir sd name @ ''/'')"
    and "has_prefix (consolePath sd name) (vmDir sd name @ ''/'')"
    and "res (vfkit_Delete rt ex sc sd name) s = None"
  shows "res (watch_check rt sd name) (after (vfkit_Delete rt ex sc sd name) s) = KeepWatching"
proof -
  let ?s = "after (vfkit_Delete rt ex sc sd name) s"
  have ra: "res (os_removeall rt d) t = None \<Longrightarrow> has_prefix q (d @ ''/'') \<Longrightarrow> files (after (os_removeall rt d) t) q = None"
    for d t q
    by (auto simp: os_removeall_def os_call_def res_def after_def io_bind_def io_ret_def err_of_def
        split: prod.splits option.splits sum.splits)
  then have f: "files ?s (phasePath sd name) = None" "files ?s (consolePath sd name) = None"
    using assms by (simp_all add: vfkit_Delete_def)
  have rd: "\<exists>e. res (os_read_bytes rt q) t = Inl e" if "files t q = None" for q t
    using that by (auto simp: os_read_bytes_def os_read_def os_call_def res_def io_bind_def io_ret_def
        split: prod.splits option.splits)
  have "res (phase rt sd name) ?s = phaseInstall" using rd [OF f(1)] by (auto simp: phase_def)
  moreover have "files (after (phase rt sd name) ?s) (consolePath sd name) = None"
    using f(2) sparesD [OF spares_reads(1), where s = ?s] by simp
  moreover obtain e where "res (os_read_bytes rt (consolePath sd name)) (after (phase rt sd name) ?s) = Inl e"
    using rd calculation(2) by blast
  ultimately show ?thesis by (simp add: watch_check_def)
qed

lemma watcher_outlives_machine_witness:
  "res (watch_check sample_rt ''/v'' ''m'') (after (vfkit_Delete sample_rt sim_exec None ''/v'' ''m'') sim_installed) = KeepWatching"
proof -
  have "has_prefix (phasePath ''/v'' ''m'') (vmDir ''/v'' ''m'' @ ''/'')"
    "has_prefix (consolePath ''/v'' ''m'') (vmDir ''/v'' ''m'' @ ''/'')"
    "res (vfkit_Delete sample_rt sim_exec None ''/v'' ''m'') sim_installed = None"
    by code_simp+
  then show ?thesis by (rule watcher_outlives_machine)
qed

text \<open>The state in which the guest of a created machine has rebooted once.\<close>

lemma calm_os:
  "os_read sample_rt p s = (case files s p of None \<Rightarrow> Inl ErrNotExist
     | Some Dir \<Rightarrow> Inl (ExtErr (''read '' @ p @ '': is a directory'')) | Some (File c) \<Rightarrow> Inr c, 0, s)"
  "os_write sample_rt p c s = (None, 0, s\<lparr>files := (files s)(p \<mapsto> File c)\<rparr>)"
  "os_remove sample_rt p s = (case files s p of None \<Rightarrow> Some ErrNotExist | Some _ \<Rightarrow> None, 0,
     s\<lparr>files := (files s)(p := None)\<rparr>)"
  "open_append sample_rt p s = ((), 0, s\<lparr>files := (if files s p = None then (files s)(p \<mapsto> File (Raw [])) else files s)\<rparr>)"
  by (auto simp: os_read_def os_write_def os_remove_def open_append_def os_call_def sample_rt_def io_bind_def io_ret_def
      err_of_def fun_eq_iff split: option.splits)

definition sim_state :: "(string \<Rightarrow> node option) \<Rightarrow> (string \<Rightarrow> handle option) \<Rightarrow> bool \<Rightarrow> string list list \<Rightarrow> handle list \<Rightarrow>
    vfkit_sim msys" where
  "sim_state fs ps w l a =
     \<lparr>files = fs, rest = \<lparr>vmem = \<lparr>sidecarStops = (\<lambda>_. None), watching = (\<lambda>n. w \<and> n = ''m''), vprocs = ps\<rparr>,
                          outside = \<lparr>launched = l, alive = a\<rparr>\<rparr>\<rparr>"

definition sim_args :: "string \<Rightarrow> string list" where
  "sim_args ph = buildArgs ''/v'' ''m'' (sim_vm, ''/v/m/disk.img'') ph"

definition sim_rebooted :: "vfkit_sim msys" where
  "sim_rebooted = sim_state
     [''/v/m'' \<mapsto> Dir, ''/v/m/spec.json'' \<mapsto> File (SpecDoc sim_vm ''/v/m/disk.img''),
      ''/v/m/phase'' \<mapsto> File (Raw phaseInstall), ''/v/m/vfkit.pid'' \<mapsto> File (Raw ''100''),
      ''/v/m/console.log'' \<mapsto> File (Raw (''First Boot Complete'' @ nl @ ''First Boot Complete''))]
     [''m'' \<mapsto> 0] True [sim_args phaseInstall] [0]"

lemma sim_files:
  "vmDir ''/v'' ''m'' = ''/v/m''" "specPath ''/v'' ''m'' = ''/v/m/spec.json''" "pidPath ''/v'' ''m'' = ''/v/m/vfkit.pid''"
  "phasePath ''/v'' ''m'' = ''/v/m/phase''" "sockPath ''/v'' ''m'' = ''/v/m/net.sock''"
  "consolePath ''/v'' ''m'' = ''/v/m/console.log''" "launchLogPath ''/v'' ''m'' = ''/v/m/vfkit-launch.log''"
  by code_simp+

lemma sim_pid_arg: "pid_arg (sim_args ph) = ''/v/m/vfkit.pid''"
proof -
  have "nat_str n \<noteq> CHR ''-'' # r" for n r
    using not_digit_iff [of "CHR ''-''" n] by (auto simp: is_digit_def char_le_iff)
  then have "int_str 8 \<noteq> ''--pidfile''" "int_str 16384 \<noteq> ''--pidfile''" by (simp_all add: int_str_def)
  then show ?thesis by (simp add: pid_arg_def sim_args_def buildArgs_def sim_files sim_vm_def disk_args_def)
qed

definition sim_launch_files :: "(string \<Rightarrow> node option) \<Rightarrow> nat \<Rightarrow> string \<Rightarrow> node option" where
  "sim_launch_files fs h =
     (if fs ''/v/m/vfkit-launch.log'' = None then fs(''/v/m/vfkit-launch.log'' \<mapsto> File (Raw [])) else fs)
       (''/v/m/vfkit.pid'' \<mapsto> File (Raw (nat_str (100 + h))))"

lemma sim_launch:
  assumes "fs ''/v/m/spec.json'' = Some (File (SpecDoc sim_vm ''/v/m/disk.img''))"
    and "fs ''/v/m/phase'' = Some (File (Raw phaseRun))"
  shows "launch sample_rt sim_exec None ''/v'' ''m'' (sim_state fs ps w l a) =
     (None, 0, sim_state (sim_launch_files fs (length l)) (ps(''m'' \<mapsto> length l)) w (l @ [sim_args phaseRun]) (length l # a))"
proof -
  have ss: "sim_start ''vfkit'' (sim_args phaseRun) s = (Inr (length (launched (outside (rest s)))), 0,
      s\<lparr>files := (files s)(''/v/m/vfkit.pid'' \<mapsto> File (Raw (nat_str (100 + length (launched (outside (rest s))))))),
        rest := (rest s)\<lparr>outside := \<lparr>launched = launched (outside (rest s)) @ [sim_args phaseRun],
                                    alive = length (launched (outside (rest s))) # alive (outside (rest s))\<rparr>\<rparr>\<rparr>)" for s
    by (simp add: sim_start_def sim_pid_arg has_suffix_def Let_def)
  show ?thesis
    using assms
    by (simp add: launch_def load_def phase_def os_read_bytes_def stopSidecar_def start_sidecar_def get_mem_def upd_mem_def
        claim_watch_def io_bind_def io_ret_def io_seq_def sim_state_def calm_os sim_files content_bytes_def
        sim_exec_def ss sim_args_def [symmetric] sim_launch_files_def)
qed


lemma sim_stopSidecar:
  "stopSidecar None sd name (sim_state fs ps w l a) = ((), 0, sim_state fs ps w l a)"
  by (simp add: stopSidecar_def get_mem_def upd_mem_def io_bind_def io_ret_def sim_state_def)

lemma sim_setPhase:
  "fs ''/v/m'' = Some Dir \<Longrightarrow> setPhase sample_rt ''/v'' ''m'' ph (sim_state fs ps w l a) =
     (None, 0, sim_state (fs(''/v/m/phase'' \<mapsto> File (Raw ph))) ps w l a)"
  by (simp add: setPhase_def sim_files os_mkdirall_def os_call_def sample_rt_def io_seq_def io_bind_def io_ret_def
      err_of_def os_write_def sim_state_def)

lemma sim_check: "watch_check sample_rt ''/v'' ''m'' sim_rebooted = (Rebooted, 0, sim_rebooted)"
proof -
  have "rebootDetected (''First Boot Complete'' @ nl @ ''First Boot Complete'')"
    by (simp add: rebootDetected_def byte_count.simps has_prefix_def)
  then show ?thesis
    by (simp add: watch_check_def phase_def os_read_bytes_def calm_os sim_files sim_rebooted_def sim_state_def
        io_bind_def io_ret_def content_bytes_def)
qed

lemma sim_forceStop:
  assumes "fs ''/v/m/net.sock'' = None" "h \<in> set a"
  shows "forceStop sample_rt sim_exec None ''/v'' ''m'' (sim_state fs [''m'' \<mapsto> h] w l a) =
     ((), 0, sim_state fs (\<lambda>_. None) w l (filter (\<lambda>k. k \<noteq> h) a))"
proof -
  have u: "fs(''/v/m/net.sock'' := None) = fs" using assms(1) by auto
  have "await_exit sample_rt sim_exec h (sim_state fs ps w l (filter (\<lambda>k. k \<noteq> h) a)) =
      ((), 0, sim_state fs ps w l (filter (\<lambda>k. k \<noteq> h) a))" for ps
    by (subst await_exit_def, subst watch_loop.simps)
      (simp add: sim_exec_def sim_signal_def sim_state_def io_bind_def io_ret_def Let_def)
  then show ?thesis
    using assms u sim_stopSidecar [of "''/v''" "''m''" fs "\<lambda>_. None" w l "filter (\<lambda>k. k \<noteq> h) a"]
    by (simp add: forceStop_def take_proc_def get_mem_def upd_mem_def io_bind_def io_ret_def sim_files calm_os
        sim_exec_def sim_signal_def sim_state_def fun_upd_def Let_def cong: if_cong)
qed

lemma sim_start_dead:
  assumes "fs ''/v/m'' = Some Dir" "fs ''/v/m/phase'' = Some (File (Raw phaseInstall))"
    and "fs ''/v/m/spec.json'' = Some (File (SpecDoc sim_vm ''/v/m/disk.img''))"
    and "fs ''/v/m/vfkit.pid'' = Some (File (Raw ''100''))" "0 \<notin> set a"
  shows "vfkit_Start sample_rt sim_exec None ''/v'' ''m'' (sim_state fs ps w l a) =
     launch sample_rt sim_exec None ''/v'' ''m'' (sim_state (fs(''/v/m/phase'' \<mapsto> File (Raw phaseRun))) ps w l a)"
proof -
  have p: "atoi (trim_space ''100'') = Some 100"
    by (simp add: trim_space_def trim_by_def trim_right_by_def is_space_def atoi_def parse_digits_def is_digit_def
        digit_val_def char_le_iff)
  have r: "vfkit_IsRunning sample_rt sim_exec ''/v'' ''m'' (sim_state fs ps w l a) = ((False, None), 0, sim_state fs ps w l a)"
    using assms(4,5) by (simp add: vfkit_IsRunning_def readPID_def os_read_bytes_def calm_os sim_files io_try_def io_bind_def
        io_ret_def content_bytes_def p sim_exec_def sim_signal_def sim_state_def)
  have q: "phase sample_rt ''/v'' ''m'' (sim_state fs ps w l a) = (phaseInstall, 0, sim_state fs ps w l a)"
    using assms(2) by (simp add: phase_def os_read_bytes_def calm_os sim_files io_bind_def io_ret_def content_bytes_def sim_state_def)
  show ?thesis
    using sim_setPhase [where fs = fs and ph = phaseRun and ps = ps and w = w and l = l and a = a, OF assms(1)]
    by (simp add: vfkit_Start_def io_bind_def r q io_seq_def split: prod.splits)
qed


end
