(* ===== verification/Libvirt.thy ===== *)
theory Libvirt
  imports StagesCore NATReset
begin

text \<open>
  \<open>providers/libvirt/libvirt.go\<close>: virtual machines and the shared NAT network on Linux, through
  \<open>virsh\<close> and \<open>virt-install\<close>, and the parsers of what \<open>virsh\<close> prints.

  The regular expressions are matchers on the rest of the text (\<open>range_at\<close>, \<open>host_at\<close>,
  \<open>attr_at\<close>), searched for from the left by \<open>find_first\<close>. What \<open>virsh\<close> does is the command
  runner's business; \<open>st_size\<close> is the size \<open>os.Stat\<close> reports, \<open>tmpname\<close> the name \<open>os.CreateTemp\<close>
  picks.
\<close>

definition LibvirtSystemURI :: string where "LibvirtSystemURI = ''qemu:///system''"
definition virshCmd :: string where "virshCmd = ''virsh''"
definition virtInstallCmd :: string where "virtInstallCmd = ''virt-install''"
definition defaultCPUMode :: string where "defaultCPUMode = ''host-passthrough''"
definition defaultOSInfo :: string where "defaultOSInfo = ''detect=on,require=off''"

definition virsh :: "'s command_runner \<Rightarrow> string list \<Rightarrow> ('s, string \<times> error option) io" where
  "virsh cmd args = Cmd_Run cmd virshCmd ([''-c'', LibvirtSystemURI] @ args)"

text \<open>\<open>if _, err := virsh(...); err != nil { return fmt.Errorf(f, args..., err) }\<close>, and the same
  with the result ignored.\<close>

definition virsh_or :: "'s command_runner \<Rightarrow> string list \<Rightarrow> string \<Rightarrow> string list \<Rightarrow> ('s, error option) io" where
  "virsh_or cmd args f fargs =
     io_bind (virsh cmd args) (\<lambda>(out, err). io_ret (map_option (Wrapf f fargs) err))"

definition virsh_ignored :: "'s command_runner \<Rightarrow> string list \<Rightarrow> ('s, unit) io" where
  "virsh_ignored cmd args = io_bind (virsh cmd args) (\<lambda>_. io_ret ())"

section \<open>Virtual machines\<close>

definition extra_disk_arg :: "extra_disk \<Rightarrow> string" where
  "extra_disk_arg d =
     ''path='' @ edPath d @ '',bus=virtio'' @ (if edReadOnly d then '',readonly=on'' else []) @
     (if edShareable d then '',shareable=on'' else [])"

definition boot_args :: "vm_spec \<Rightarrow> string list" where
  "boot_args spec =
     (if vBootISO spec \<noteq> [] then [''--cdrom'', vBootISO spec]
      else ''--pxe'' # (if vKernelArgs spec \<noteq> [] then [''--extra-args'', vKernelArgs spec] else []))"

definition virt_install_args :: "vm_spec \<Rightarrow> string list" where
  "virt_install_args spec =
     [''--connect'', LibvirtSystemURI,
      ''--name'', vName spec,
      ''--memory'', int_str (vMemoryMiB spec),
      ''--vcpus'', int_str (vVCPUs spec),
      ''--cpu'', defaultCPUMode,
      ''--osinfo'', defaultOSInfo,
      ''--disk'', ''pool='' @ vStoragePool spec @ '',size='' @ int_str (vDiskSizeGiB spec) @ '',bus=virtio'',
      ''--network'', vNetworkArg spec,
      ''--boot'', ''hd,cdrom'',
      ''--noautoconsole''] @
     concat (map (\<lambda>d. [''--disk'', extra_disk_arg d]) (vExtraDisks spec)) @
     boot_args spec"

definition libvirt_Create :: "'s command_runner \<Rightarrow> vm_spec \<Rightarrow> ('s, error option) io" where
  "libvirt_Create cmd spec =
     io_bind (Cmd_Run cmd virtInstallCmd (virt_install_args spec)) (\<lambda>(out, err). io_ret
       (map_option (Wrapf ''virt-install %s: %w'' [vName spec]) err))"

definition libvirt_IsRunning :: "'s command_runner \<Rightarrow> string \<Rightarrow> ('s, bool \<times> error option) io" where
  "libvirt_IsRunning cmd name =
     io_bind (virsh cmd [''domstate'', name]) (\<lambda>(out, err). io_ret (case err of
       Some e \<Rightarrow> (False, Some e) | None \<Rightarrow> (trim_space out = ''running'', None)))"

text \<open>
  \<open>for i := 0; i < n; i++\<close>: poll until the machine is (or is not) running, two seconds apart;
  \<open>None\<close> when the rounds are used up.
\<close>

fun await_running :: "'x rt \<Rightarrow> 'x sys command_runner \<Rightarrow> string \<Rightarrow> bool \<Rightarrow> nat \<Rightarrow> ('x sys, error option option) io" where
  "await_running rt cmd name want 0 = io_ret None"
| "await_running rt cmd name want (Suc n) =
     io_bind (libvirt_IsRunning cmd name) (\<lambda>(running, err).
       if err = None \<and> running = want then io_ret (Some None)
       else io_bind (pause rt 2000) (\<lambda>cancelled.
         if cancelled then io_ret (Some (Some ErrCanceled)) else await_running rt cmd name want n))"

definition libvirt_Start :: "'x rt \<Rightarrow> 'x sys command_runner \<Rightarrow> string \<Rightarrow> ('x sys, error option) io" where
  "libvirt_Start rt cmd name =
     io_seq (virsh_or cmd [''start'', name] ''virsh start %s: %w'' [name])
       (io_bind (await_running rt cmd name True 30) (\<lambda>r. io_ret (case r of
          Some e \<Rightarrow> e | None \<Rightarrow> Some (Errorf ''timeout waiting for VM %s to start'' [name]))))"

definition libvirt_Stop :: "'x rt \<Rightarrow> 'x sys command_runner \<Rightarrow> string \<Rightarrow> ('x sys, error option) io" where
  "libvirt_Stop rt cmd name =
     io_seq (virsh_or cmd [''shutdown'', name] ''virsh shutdown %s: %w'' [name])
       (io_bind (await_running rt cmd name False 30) (\<lambda>r. case r of
          Some e \<Rightarrow> io_ret e
        | None \<Rightarrow> virsh_or cmd [''destroy'', name] ''virsh destroy %s: %w'' [name]))"

definition libvirt_Delete :: "'x rt \<Rightarrow> 'x sys command_runner \<Rightarrow> string \<Rightarrow> ('x sys, error option) io" where
  "libvirt_Delete rt cmd name =
     io_bind (libvirt_IsRunning cmd name) (\<lambda>(running, _).
       io_seq (if running then libvirt_Stop rt cmd name else io_ret None)
         (virsh_or cmd [''undefine'', name, ''--remove-all-storage''] ''virsh undefine %s: %w'' [name]))"

section \<open>Volumes\<close>

definition vol_path :: "'s command_runner \<Rightarrow> string \<Rightarrow> string \<Rightarrow> string \<Rightarrow> ('s, string result) io" where
  "vol_path cmd f pool volName =
     io_bind (virsh cmd [''vol-path'', ''--pool'', pool, volName]) (\<lambda>(out, err). io_ret (case err of
       Some e \<Rightarrow> Inl (Wrapf f [volName] e) | None \<Rightarrow> Inr (trim_space out)))"

definition import_volume :: "'x rt \<Rightarrow> 'x sys command_runner \<Rightarrow> (node \<Rightarrow> int) \<Rightarrow> string \<Rightarrow> string \<Rightarrow> string \<Rightarrow> string \<Rightarrow>
    string \<Rightarrow> ('x sys, string result) io" where
  "import_volume rt cmd st_size what fmt pool volName localPath =
     io_try (wrap_res (''stat '' @ what @ '' %s: %w'') [localPath] (os_stat rt localPath)) (\<lambda>fi.
     io_bind (virsh_ignored cmd [''vol-delete'', ''--pool'', pool, volName]) (\<lambda>_.
     io_bind (io_seq
         (virsh_or cmd [''vol-create-as'', pool, volName, int_str (st_size fi), ''--format'', fmt]
            ''vol-create-as %s: %w'' [volName])
         (virsh_or cmd [''vol-upload'', ''--pool'', pool, volName, localPath] ''vol-upload %s: %w'' [volName])) (\<lambda>e.
     case e of
       Some e \<Rightarrow> io_ret (Inl e)
     | None \<Rightarrow> vol_path cmd ''vol-path %s: %w'' pool volName)))"

definition libvirt_ImportISO :: "'x rt \<Rightarrow> 'x sys command_runner \<Rightarrow> (node \<Rightarrow> int) \<Rightarrow> string \<Rightarrow> string \<Rightarrow> string \<Rightarrow>
    ('x sys, string result) io" where
  "libvirt_ImportISO rt cmd st_size = import_volume rt cmd st_size ''iso'' ''raw''"

definition libvirt_ImportDisk :: "'x rt \<Rightarrow> 'x sys command_runner \<Rightarrow> (node \<Rightarrow> int) \<Rightarrow> string \<Rightarrow> string \<Rightarrow> string \<Rightarrow>
    ('x sys, string result) io" where
  "libvirt_ImportDisk rt cmd st_size = import_volume rt cmd st_size ''disk'' ''qcow2''"

definition libvirt_CreateDataDisk :: "'s command_runner \<Rightarrow> string \<Rightarrow> string \<Rightarrow> int \<Rightarrow> ('s, string result) io" where
  "libvirt_CreateDataDisk cmd pool volName sizeGiB =
     io_bind (virsh cmd [''vol-path'', ''--pool'', pool, volName]) (\<lambda>(out, err). case err of
       None \<Rightarrow> io_ret (Inr (trim_space out))
     | Some _ \<Rightarrow>
         io_bind (virsh_or cmd [''vol-create-as'', pool, volName, int_str sizeGiB @ ''G'', ''--format'', ''qcow2'']
                    ''create data disk volume %s: %w'' [volName]) (\<lambda>e. case e of
           Some e \<Rightarrow> io_ret (Inl e)
         | None \<Rightarrow> vol_path cmd ''resolve data disk path %s: %w'' pool volName))"

definition libvirt_RemoveISO :: "'s command_runner \<Rightarrow> string \<Rightarrow> string \<Rightarrow> ('s, error option) io" where
  "libvirt_RemoveISO cmd pool volName =
     io_bind (virsh_ignored cmd [''vol-delete'', ''--pool'', pool, volName]) (\<lambda>_. io_ret None)"

section \<open>Access checks\<close>

definition libvirt_CheckAccess :: "'s command_runner \<Rightarrow> ('s, error option) io" where
  "libvirt_CheckAccess cmd =
     io_bind (virsh cmd [''list'', ''--name'']) (\<lambda>(out, err). io_ret (case err of
       None \<Rightarrow> None
     | Some e \<Rightarrow> Some (
         if error_is e ErrExecNotFound
         then Wrapf (''`virsh` not found on PATH: %w'' @ nl @ ''  hint: install the libvirt client tools '' @
                     ''(libvirt-client on Fedora/RHEL, libvirt-clients on Debian/Ubuntu)'') [] e
         else Wrapf (''libvirt at %s is not reachable: %w'' @ nl @ ''  hint: ensure libvirtd/virtqemud is running '' @
                     ''and your user is in the 'libvirt' group'') [LibvirtSystemURI] e)))"

definition libvirt_StoragePoolActive :: "'s command_runner \<Rightarrow> string \<Rightarrow> ('s, error option) io" where
  "libvirt_StoragePoolActive cmd pool =
     io_bind (virsh cmd [''pool-info'', ''--pool'', pool]) (\<lambda>(out, err). io_ret (case err of
       Some e \<Rightarrow> Some (Wrapf (''libvirt storage pool %q not found: %w'' @ nl @
           ''  hint: pass --storage-pool <name> to use an existing pool (see `virsh pool-list --all`), or create it: '' @
           ''virsh pool-define-as %s dir --target /var/lib/libvirt/images && virsh pool-autostart %s && '' @
           ''virsh pool-start %s'') [quoted pool, pool, pool, pool] e)
     | None \<Rightarrow>
         if \<not> contains out ''running''
         then Some (Errorf (''libvirt storage pool %q exists but is not running'' @ nl @ ''  hint: virsh pool-start %s'')
                      [quoted pool, pool])
         else None))"

definition libvirt_vm_manager :: "'x rt \<Rightarrow> 'x sys command_runner \<Rightarrow> (node \<Rightarrow> int) \<Rightarrow> 'x sys vm_manager" where
  "libvirt_vm_manager rt cmd st_size =
     \<lparr>VM_Create = libvirt_Create cmd, VM_Start = libvirt_Start rt cmd, VM_Stop = libvirt_Stop rt cmd,
      VM_Delete = libvirt_Delete rt cmd, VM_IsRunning = libvirt_IsRunning cmd,
      VM_ImportISO = libvirt_ImportISO rt cmd st_size, VM_ImportDisk = libvirt_ImportDisk rt cmd st_size,
      VM_CreateDataDisk = libvirt_CreateDataDisk cmd, VM_RemoveISO = libvirt_RemoveISO cmd,
      VM_CheckAccess = libvirt_CheckAccess cmd, VM_StoragePoolActive = libvirt_StoragePoolActive cmd\<rparr>"

section \<open>The definition of the network\<close>

definition buildNetworkXML :: "network_spec \<Rightarrow> string" where
  "buildNetworkXML spec =
     (let domain = (if nsDomain spec \<noteq> [] then nl @ ''  <domain name='' @ [CHR 0x27] @ nsDomain spec @ [CHR 0x27] @
                      '' localOnly='' @ [CHR 0x27] @ ''yes'' @ [CHR 0x27] @ ''/>'' else []);
          bridge = (if nsBridge spec \<noteq> []
                    then ''<bridge name='' @ [CHR 0x27] @ nsBridge spec @ [CHR 0x27] @ '' stp='' @ [CHR 0x27] @ ''on'' @
                         [CHR 0x27] @ '' delay='' @ [CHR 0x27] @ ''0'' @ [CHR 0x27] @ ''/>''
                    else ''<bridge stp='' @ [CHR 0x27] @ ''on'' @ [CHR 0x27] @ '' delay='' @ [CHR 0x27] @ ''0'' @
                         [CHR 0x27] @ ''/>'')
      in ''<network>'' @ nl @
         ''  <name>'' @ nsName spec @ ''</name>'' @ nl @
         ''  <forward mode='' @ [CHR 0x27] @ ''nat'' @ [CHR 0x27] @ ''>'' @ nl @
         ''    <nat>'' @ nl @
         ''      <port start='' @ [CHR 0x27] @ ''1024'' @ [CHR 0x27] @ '' end='' @ [CHR 0x27] @ ''65535'' @ [CHR 0x27] @ ''/>'' @ nl @
         ''    </nat>'' @ nl @
         ''  </forward>'' @ nl @
         ''  '' @ bridge @ domain @ nl @
         ''  <ip address='' @ [CHR 0x27] @ nsSubnet spec @ ''.1'' @ [CHR 0x27] @ '' netmask='' @ [CHR 0x27] @
         ''255.255.255.0'' @ [CHR 0x27] @ ''>'' @ nl @
         ''    <dhcp>'' @ nl @
         ''      <range start='' @ [CHR 0x27] @ nsSubnet spec @ ''.'' @ nat_str DHCPDynamicStart @ [CHR 0x27] @
         '' end='' @ [CHR 0x27] @ nsSubnet spec @ ''.'' @ nat_str DHCPDynamicEnd @ [CHR 0x27] @ ''/>'' @ nl @
         ''    </dhcp>'' @ nl @
         ''  </ip>'' @ nl @
         ''</network>'')"

section \<open>What virsh prints\<close>

text \<open>\<open>\s\<close> of the expressions, and the word characters of \<open>\b\<close>.\<close>

definition re_space :: "char \<Rightarrow> bool" where
  "re_space c \<longleftrightarrow> c = CHR '' '' \<or> c = CHR 0x09 \<or> c = CHR 0x0A \<or> c = CHR 0x0C \<or> c = CHR 0x0D"

definition re_word :: "char \<Rightarrow> bool" where
  "re_word c \<longleftrightarrow> is_digit c \<or> (CHR ''a'' \<le> c \<and> c \<le> CHR ''z'') \<or> (CHR ''A'' \<le> c \<and> c \<le> CHR ''Z'') \<or> c = CHR ''_''"

definition strip :: "string \<Rightarrow> string \<Rightarrow> string option" where
  "strip lit s = (if has_prefix s lit then Some (drop (length lit) s) else None)"

definition strip_spaces :: "string \<Rightarrow> string option" where
  "strip_spaces s = (case s of c # _ \<Rightarrow> if re_space c then Some (dropWhile re_space s) else None | [] \<Rightarrow> None)"

text \<open>\<open>([^']{n,})'\<close>: the text up to the next quote, at least \<open>n\<close> characters.\<close>

definition till_quote :: "nat \<Rightarrow> string \<Rightarrow> (string \<times> string) option" where
  "till_quote n s =
     (let v = takeWhile (\<lambda>c. c \<noteq> CHR 0x27) s in
      case dropWhile (\<lambda>c. c \<noteq> CHR 0x27) s of [] \<Rightarrow> None | _ # r \<Rightarrow> if n \<le> length v then Some (v, r) else None)"

fun find_first :: "(string \<Rightarrow> 'a option) \<Rightarrow> string \<Rightarrow> 'a option" where
  "find_first f [] = f []"
| "find_first f (c # s) = (case f (c # s) of Some a \<Rightarrow> Some a | None \<Rightarrow> find_first f s)"

definition range_at :: "string \<Rightarrow> (string \<times> string) option" where
  "range_at s =
     Option.bind (strip ''<range'' s) (\<lambda>s. Option.bind (strip_spaces s) (\<lambda>s.
     Option.bind (strip (''start='' @ [CHR 0x27]) s) (\<lambda>s. Option.bind (till_quote 1 s) (\<lambda>(a, s).
     Option.bind (strip_spaces s) (\<lambda>s. Option.bind (strip (''end='' @ [CHR 0x27]) s) (\<lambda>s.
     Option.bind (till_quote 1 s) (\<lambda>(b, s). Some (a, b))))))))"

definition parseDHCPRange :: "string \<Rightarrow> string \<times> string" where
  "parseDHCPRange xml = (case find_first range_at xml of Some m \<Rightarrow> m | None \<Rightarrow> ([], []))"

definition host_at :: "string \<Rightarrow> string option" where
  "host_at s =
     Option.bind (strip ''<host'' s) (\<lambda>r.
       if r \<noteq> [] \<and> re_word (hd r) then None
       else (case dropWhile (\<lambda>c. c \<noteq> CHR ''>'') r of
               [] \<Rightarrow> None | _ # _ \<Rightarrow> Some (''<host'' @ takeWhile (\<lambda>c. c \<noteq> CHR ''>'') r @ ''>'')))"

function host_lines :: "string \<Rightarrow> string list" where
  "host_lines s =
     (case s of [] \<Rightarrow> []
      | c # r \<Rightarrow> (case host_at s of
           Some m \<Rightarrow> m # host_lines (drop (length m - 1) r)
         | None \<Rightarrow> host_lines r))"
  by pat_completeness auto
termination
  by (relation "measure length") auto

declare host_lines.simps [simp del]

definition attr_at :: "string \<Rightarrow> nat \<Rightarrow> string \<Rightarrow> string option" where
  "attr_at lit n s = Option.bind (strip (lit @ ''='' @ [CHR 0x27]) s) (\<lambda>s. map_option fst (till_quote n s))"

definition attr :: "string \<Rightarrow> nat \<Rightarrow> string \<Rightarrow> string" where
  "attr lit n line = (case find_first (attr_at lit n) line of Some v \<Rightarrow> v | None \<Rightarrow> [])"

definition parse_host :: "string \<Rightarrow> dhcp_host" where
  "parse_host line = \<lparr>hMAC = attr ''mac'' 1 line, hIP = attr ''ip'' 1 line, hHostname = attr ''name'' 0 line\<rparr>"

definition parseReservations :: "string \<Rightarrow> dhcp_host list" where
  "parseReservations xml =
     filter (\<lambda>h. hMAC h \<noteq> [] \<or> hIP h \<noteq> []) (map parse_host (host_lines xml))"

definition lease_line :: "string \<Rightarrow> dhcp_lease option" where
  "lease_line line =
     (let f = Prelude.fields line in
      if length f < 5 \<or> \<not> contains (f ! 2) '':'' then None
      else Some \<lparr>lMAC = f ! 2, lIP = takeWhile (\<lambda>c. c \<noteq> CHR ''/'') (f ! 4),
                 lHostname = (if 6 \<le> length f \<and> f ! 5 \<noteq> ''-'' then f ! 5 else [])\<rparr>)"

definition parseLeases :: "string \<Rightarrow> dhcp_lease list" where
  "parseLeases out = List.map_filter lease_line (split_on (CHR 0x0A) out)"

section \<open>The network provisioner\<close>

definition writeTempFile :: "'x rt \<Rightarrow> string \<Rightarrow> string \<Rightarrow> ('x sys, string result) io" where
  "writeTempFile rt tmpname dat =
     io_try (os_call rt (OpCreateTemp tmpname) (\<lambda>fs. (Inr (), fs(tmpname \<mapsto> File (Raw []))))) (\<lambda>_.
     io_bind (os_write rt tmpname (Raw dat)) (\<lambda>e. io_ret (case e of Some e \<Rightarrow> Inl e | None \<Rightarrow> Inr tmpname)))"

text \<open>Define, start and mark the network, undoing the definition when a later step fails.\<close>

definition define_network :: "'s command_runner \<Rightarrow> string \<Rightarrow> string \<Rightarrow> ('s, error option) io" where
  "define_network cmd name xmlFile =
     io_seq (virsh_or cmd [''net-define'', xmlFile] ''net-define %s: %w'' [name])
       (io_bind (virsh_or cmd [''net-start'', name] ''net-start %s: %w'' [name]) (\<lambda>e. case e of
          Some e \<Rightarrow> io_bind (virsh_ignored cmd [''net-undefine'', name]) (\<lambda>_. io_ret (Some e))
        | None \<Rightarrow>
            io_bind (virsh_or cmd [''net-autostart'', name] ''net-autostart %s: %w'' [name]) (\<lambda>e. case e of
              Some e \<Rightarrow>
                io_bind (virsh_ignored cmd [''net-destroy'', name]) (\<lambda>_.
                io_bind (virsh_ignored cmd [''net-undefine'', name]) (\<lambda>_. io_ret (Some e)))
            | None \<Rightarrow> io_ret None)))"

definition libvirt_EnsureNetwork :: "'x rt \<Rightarrow> 'x sys command_runner \<Rightarrow> string \<Rightarrow> network_spec \<Rightarrow> ('x sys, error option) io" where
  "libvirt_EnsureNetwork rt cmd tmpname spec =
     io_bind (virsh cmd [''net-info'', nsName spec]) (\<lambda>(out, err). case err of
       None \<Rightarrow> io_bind (virsh_ignored cmd [''net-start'', nsName spec]) (\<lambda>_. io_ret None)
     | Some _ \<Rightarrow>
         io_bind (wrap_res ''write network XML: %w'' [] (writeTempFile rt tmpname (buildNetworkXML spec))) (\<lambda>r. case r of
           Inl e \<Rightarrow> io_ret (Some e)
         | Inr xmlFile \<Rightarrow>
             io_bind (define_network cmd (nsName spec) xmlFile) (\<lambda>e.
             io_bind (os_remove rt xmlFile) (\<lambda>_. io_ret e))))"

definition host_entry :: "dhcp_host \<Rightarrow> string" where
  "host_entry h =
     ''<host mac='' @ [CHR 0x27] @ hMAC h @ [CHR 0x27] @ '' name='' @ [CHR 0x27] @ hHostname h @ [CHR 0x27] @
     '' ip='' @ [CHR 0x27] @ hIP h @ [CHR 0x27] @ ''/>''"

definition libvirt_AddHost :: "'s command_runner \<Rightarrow> string \<Rightarrow> dhcp_host \<Rightarrow> ('s, error option) io" where
  "libvirt_AddHost cmd network h =
     io_bind (virsh cmd [''net-update'', network, ''add'', ''ip-dhcp-host'', host_entry h, ''--live'', ''--config''])
       (\<lambda>(out, err). io_ret (case err of
          None \<Rightarrow> None
        | Some e \<Rightarrow>
            if \<not> contains out ''already'' \<and> \<not> contains (error_text e) ''already''
            then Some (Wrapf ''net-update add host %s on %s: %w'' [hMAC h, network] e) else None))"

definition libvirt_RemoveHost :: "'s command_runner \<Rightarrow> string \<Rightarrow> dhcp_host \<Rightarrow> ('s, error option) io" where
  "libvirt_RemoveHost cmd network h =
     io_bind (virsh cmd [''net-update'', network, ''delete'', ''ip-dhcp-host'', host_entry h, ''--live'', ''--config''])
       (\<lambda>(out, err). io_ret (case err of
          None \<Rightarrow> None
        | Some e \<Rightarrow>
            if \<not> contains out ''no '' \<and> \<not> contains (error_text e) ''matching''
            then Some (Wrapf ''net-update delete host %s on %s: %w'' [hMAC h, network] e) else None))"

definition libvirt_InspectNetwork :: "'s command_runner \<Rightarrow> string \<Rightarrow> ('s, network_info result) io" where
  "libvirt_InspectNetwork cmd name =
     io_bind (virsh cmd [''net-dumpxml'', name]) (\<lambda>(xml, err). case err of
       Some _ \<Rightarrow> io_ret (Inr \<lparr>niExists = False, niDHCPRangeStart = [], niDHCPRangeEnd = [], niReservations = [], niLeases = []\<rparr>)
     | None \<Rightarrow>
         io_bind (virsh cmd [''net-dhcp-leases'', name]) (\<lambda>(out, lerr). io_ret (Inr
           \<lparr>niExists = True, niDHCPRangeStart = fst (parseDHCPRange xml), niDHCPRangeEnd = snd (parseDHCPRange xml),
            niReservations = parseReservations xml,
            niLeases = (if lerr = None then parseLeases out else [])\<rparr>)))"

definition libvirt_ResetNetwork :: "'s command_runner \<Rightarrow> string \<Rightarrow> ('s, error option) io" where
  "libvirt_ResetNetwork cmd name =
     io_bind (virsh_ignored cmd [''net-destroy'', name]) (\<lambda>_.
     io_bind (virsh cmd [''net-undefine'', name]) (\<lambda>(out, err). io_ret (case err of
       None \<Rightarrow> None
     | Some e \<Rightarrow>
         if \<not> contains out ''not found'' \<and> \<not> contains (error_text e) ''Network not found''
         then Some (Wrapf ''net-undefine %s: %w'' [name] e) else None)))"

definition libvirt_network_provisioner :: "'x rt \<Rightarrow> 'x sys command_runner \<Rightarrow> string \<Rightarrow> 'x sys network_provisioner" where
  "libvirt_network_provisioner rt cmd tmpname =
     \<lparr>Net_EnsureNetwork = libvirt_EnsureNetwork rt cmd tmpname, Net_AddHost = libvirt_AddHost cmd,
      Net_RemoveHost = libvirt_RemoveHost cmd, Net_InspectNetwork = libvirt_InspectNetwork cmd,
      Net_ResetNetwork = libvirt_ResetNetwork cmd, Net_Preflight = None\<rparr>"

end
