(* ===== verification/LibvirtFacts.thy ===== *)
theory LibvirtFacts
  imports Libvirt
begin

text \<open>
  Properties of the libvirt providers: the parsers read back what the program writes into the
  network, and a start or stop is reported as done only when \<open>virsh\<close> says so.
\<close>

section \<open>Searching past text\<close>

lemma find_first_skip:
  "(\<And>a b. x = a @ b \<Longrightarrow> b \<noteq> [] \<Longrightarrow> f (b @ s) = None) \<Longrightarrow> find_first f (x @ s) = find_first f s"
proof (induction x)
  case (Cons c x)
  have "f (c # x @ s) = None" using Cons.prems [of "[]" "c # x"] by simp
  moreover have "find_first f (x @ s) = find_first f s"
    by (rule Cons.IH) (use Cons.prems [of "c # a" for a] in auto)
  ultimately show ?case by simp
qed simp

lemma find_first_hit: "f (c # s) = Some v \<Longrightarrow> find_first f (c # s) = Some v"
  by simp

lemma strip_lit [simp]: "strip lit (lit @ s) = Some s"
  by (simp add: strip_def)

lemma till_quote_val [simp]:
  "CHR 0x27 \<notin> set v \<Longrightarrow> n \<le> length v \<Longrightarrow> till_quote n (v @ CHR 0x27 # s) = Some (v, s)"
proof -
  assume v: "CHR 0x27 \<notin> set v" and n: "n \<le> length v"
  have "takeWhile (\<lambda>c. c \<noteq> CHR 0x27) (v @ CHR 0x27 # s) = v" "dropWhile (\<lambda>c. c \<noteq> CHR 0x27) (v @ CHR 0x27 # s) = CHR 0x27 # s"
    using v by (induction v) auto
  then show ?thesis using n by (simp add: till_quote_def)
qed

text \<open>A pattern whose first character occurs in it only once is not found across a place where
  that character stands.\<close>

lemma prefix_before:
  assumes "x \<noteq> []" "c \<notin> set p" "has_prefix (x @ c # y) (c # p)"
  shows "has_prefix x (c # p)"
proof (rule ccontr)
  assume n: "\<not> has_prefix x (c # p)"
  have t: "take (length (c # p)) (x @ c # y) = c # p" using assms(3) by (simp add: has_prefix_def)
  show False
  proof (cases "length (c # p) \<le> length x")
    case True
    with t n show False by (simp add: has_prefix_def)
  next
    case False
    then obtain k where k: "length x = Suc k" "k < length p" using assms(1) by (cases x) auto
    have "(c # p) ! length x = c" using t False by (metis nth_append_length nth_take not_le_imp_less)
    then have "p ! k = c" using k(1) by simp
    with k(2) assms(2) show False by (metis nth_mem)
  qed
qed

lemma find_first_skip_lt:
  assumes "\<And>s. f s \<noteq> None \<Longrightarrow> has_prefix s (c # p)" "c \<notin> set p" "\<not> contains x (c # p)"
  shows "find_first f (x @ c # y) = find_first f (c # y)"
proof (rule find_first_skip)
  fix a b assume x: "x = a @ b" and b: "b \<noteq> []"
  have "\<not> has_prefix b (c # p)"
  proof
    assume "has_prefix b (c # p)"
    then obtain z where "b = (c # p) @ z" unfolding has_prefix_def by (metis append_take_drop_id)
    then have "\<exists>u v. x = u @ (c # p) @ v" using x by blast
    with assms(3) show False by (simp add: contains_iff)
  qed
  then have "\<not> has_prefix (b @ c # y) (c # p)" using prefix_before [OF b assms(2)] by blast
  then show "f (b @ c # y) = None" using assms(1) by blast
qed

text \<open>An attribute is not found inside a quoted value without an equals sign.\<close>

lemma attr_skip_value:
  assumes "CHR ''='' \<notin> set v" "CHR 0x27 \<notin> set v" "CHR 0x27 \<notin> set lit" "lit \<noteq> []"
  shows "find_first (attr_at lit n) (v @ CHR 0x27 # s) = find_first (attr_at lit n) s"
proof -
  have q: "takeWhile (\<lambda>c. c \<noteq> CHR 0x27) (w @ CHR 0x27 # t) = w" if "CHR 0x27 \<notin> set w" for w t
    using that by (induction w) auto
  have "attr_at lit n (b @ CHR 0x27 # s) = None" if "v = a @ b" for a b
  proof -
    have "\<not> has_prefix (b @ CHR 0x27 # s) (lit @ ''='' @ [CHR 0x27])"
    proof
      assume "has_prefix (b @ CHR 0x27 # s) (lit @ ''='' @ [CHR 0x27])"
      then obtain t where "b @ CHR 0x27 # s = (lit @ ''='') @ CHR 0x27 # t"
        unfolding has_prefix_def by (metis append_assoc append_Cons append_Nil append_take_drop_id)
      then have "b = lit @ ''=''" using q [of b s] q [of "lit @ ''=''" t] assms that by auto
      with assms(1) that show False by simp
    qed
    then show ?thesis by (simp add: attr_at_def strip_def)
  qed
  then have "find_first (attr_at lit n) (v @ CHR 0x27 # s) = find_first (attr_at lit n) (CHR 0x27 # s)"
    by (intro find_first_skip) blast
  moreover have "attr_at lit n (CHR 0x27 # s) = None"
    using assms(3,4) by (cases lit) (auto simp: attr_at_def strip_def has_prefix_def)
  ultimately show ?thesis by simp
qed

section \<open>Reservations\<close>

definition plain_value :: "string \<Rightarrow> bool" where
  "plain_value v \<longleftrightarrow> CHR 0x27 \<notin> set v \<and> CHR ''='' \<notin> set v \<and> CHR ''>'' \<notin> set v"

definition plain_host :: "dhcp_host \<Rightarrow> bool" where
  "plain_host h \<longleftrightarrow> plain_value (hMAC h) \<and> plain_value (hIP h) \<and> plain_value (hHostname h) \<and> hMAC h \<noteq> [] \<and> hIP h \<noteq> []"

lemma attr_step: "c \<noteq> d \<Longrightarrow> find_first (attr_at (d # lit) n) (c # s) = find_first (attr_at (d # lit) n) s"
  by (simp add: attr_at_def strip_def has_prefix_def)

lemma attr_found:
  assumes "CHR 0x27 \<notin> set v" "n \<le> length v"
  shows "find_first (attr_at (d # lit) n) (d # lit @ CHR ''='' # CHR 0x27 # v @ CHR 0x27 # s) = Some v"
proof -
  have "strip ((d # lit) @ ''='' @ [CHR 0x27]) (((d # lit) @ ''='' @ [CHR 0x27]) @ v @ CHR 0x27 # s) = Some (v @ CHR 0x27 # s)"
    by (rule strip_lit)
  then show ?thesis using assms by (simp add: attr_at_def)
qed

lemma parse_host_entry:
  assumes "plain_host h"
  shows "parse_host (host_entry h) = h"
proof -
  have v: "CHR 0x27 \<notin> set (hMAC h)" "CHR ''='' \<notin> set (hMAC h)" "CHR 0x27 \<notin> set (hIP h)"
    "CHR 0x27 \<notin> set (hHostname h)" "CHR ''='' \<notin> set (hHostname h)" "Suc 0 \<le> length (hMAC h)" "Suc 0 \<le> length (hIP h)"
    using assms by (auto simp: plain_host_def plain_value_def Suc_le_eq)
  have "attr ''mac'' 1 (host_entry h) = hMAC h"
    using attr_found [OF v(1,6), of "CHR ''m''" "''ac''"]
    by (simp add: attr_def host_entry_def attr_step del: find_first.simps)
  moreover have "attr ''name'' 0 (host_entry h) = hHostname h"
    using attr_found [OF v(4), of 0 "CHR ''n''" "''ame''"] v
    by (simp add: attr_def host_entry_def attr_step attr_skip_value del: find_first.simps)
  moreover have "attr ''ip'' 1 (host_entry h) = hIP h"
    using attr_found [OF v(3,7), of "CHR ''i''" "''p''"] v
    by (simp add: attr_def host_entry_def attr_step attr_skip_value del: find_first.simps)
  ultimately show ?thesis by (simp add: parse_host_def)
qed

lemma host_at_entry:
  assumes "plain_host h"
  shows "host_at (host_entry h @ s) = Some (host_entry h)"
proof -
  define b where "b = '' mac='' @ [CHR 0x27] @ hMAC h @ [CHR 0x27] @ '' name='' @ [CHR 0x27] @ hHostname h @ [CHR 0x27] @
     '' ip='' @ [CHR 0x27] @ hIP h @ [CHR 0x27] @ ''/''"
  have e: "host_entry h = ''<host'' @ b @ ''>''" by (simp add: host_entry_def b_def)
  have "CHR ''>'' \<notin> set b" using assms by (auto simp: b_def plain_host_def plain_value_def)
  then have "takeWhile (\<lambda>c. c \<noteq> CHR ''>'') (b @ CHR ''>'' # s) = b" "dropWhile (\<lambda>c. c \<noteq> CHR ''>'') (b @ CHR ''>'' # s) = CHR ''>'' # s"
    by (induction b) auto
  moreover have "b \<noteq> []" "\<not> re_word (hd b)" by (simp_all add: b_def re_word_def is_digit_def char_le_iff)
  moreover have "strip ''<host'' (''<host'' @ b @ CHR ''>'' # s) = Some (b @ CHR ''>'' # s)" by (rule strip_lit)
  ultimately show ?thesis by (simp add: e host_at_def)
qed

lemma host_at_lt: "host_at s \<noteq> None \<Longrightarrow> has_prefix s ''<host''"
  by (auto simp: host_at_def strip_def split: if_splits)

lemma host_lines_hit:
  assumes "plain_host h"
  shows "host_lines (host_entry h @ s) = host_entry h # host_lines s"
proof -
  obtain c e where e: "host_entry h = c # e" by (cases "host_entry h") (auto simp: host_entry_def)
  show ?thesis using host_at_entry [OF assms, of s] by (subst host_lines.simps) (simp add: e)
qed

lemma host_lines_miss: "\<not> contains x ''<host'' \<Longrightarrow> host_lines (x @ CHR ''<'' # s) = host_lines (CHR ''<'' # s)"
proof (induction x)
  case (Cons c x)
  have "\<not> has_prefix ((c # x) @ CHR ''<'' # s) ''<host''"
    using Cons.prems prefix_before [of "c # x" "CHR ''<''" "''host''" s] by auto
  then have "host_at ((c # x) @ CHR ''<'' # s) = None" using host_at_lt by blast
  moreover have "\<not> contains x ''<host''" using Cons.prems by simp
  ultimately show ?case using Cons.IH by (subst host_lines.simps) simp
qed simp

lemma host_lines_end: "\<not> contains x ''<host'' \<Longrightarrow> host_lines x = []"
proof (induction x)
  case Nil
  show ?case by (simp add: host_lines.simps)
next
  case (Cons c x)
  then have "host_at (c # x) = None" using host_at_lt by fastforce
  then show ?case using Cons by (subst host_lines.simps) simp
qed


section \<open>The network as libvirt shows it\<close>

text \<open>
  A definition as \<open>virsh net-dumpxml\<close> prints it: any text \<open>pre\<close>, the range, the reservations
  (each after white space \<open>ws\<close>), any text \<open>post\<close>.
\<close>

definition range_text :: "string \<Rightarrow> string \<Rightarrow> string" where
  "range_text a b = ''<range start='' @ [CHR 0x27] @ a @ [CHR 0x27] @ '' end='' @ [CHR 0x27] @ b @ [CHR 0x27] @ ''/>''"

fun hosts_text :: "string \<Rightarrow> dhcp_host list \<Rightarrow> string" where
  "hosts_text ws [] = []"
| "hosts_text ws (h # hs) = ws @ host_entry h @ hosts_text ws hs"

definition network_dump :: "string \<Rightarrow> string \<Rightarrow> string \<Rightarrow> string \<Rightarrow> dhcp_host list \<Rightarrow> string \<Rightarrow> string" where
  "network_dump pre a b ws hs post = pre @ range_text a b @ hosts_text ws hs @ ws @ ''</dhcp>'' @ post"

definition plain_dump :: "string \<Rightarrow> string \<Rightarrow> string \<Rightarrow> string \<Rightarrow> dhcp_host list \<Rightarrow> string \<Rightarrow> bool" where
  "plain_dump pre a b ws hs post \<longleftrightarrow>
     \<not> contains pre ''<range'' \<and> \<not> contains pre ''<host'' \<and> \<not> contains post ''<host'' \<and>
     a \<noteq> [] \<and> b \<noteq> [] \<and> CHR 0x27 \<notin> set a \<and> CHR 0x27 \<notin> set b \<and>
     CHR ''<'' \<notin> set a \<and> CHR ''<'' \<notin> set b \<and> CHR ''<'' \<notin> set ws \<and> list_all plain_host hs"

lemma range_at_hit:
  assumes "a \<noteq> []" "b \<noteq> []" "CHR 0x27 \<notin> set a" "CHR 0x27 \<notin> set b"
  shows "range_at (range_text a b @ s) = Some (a, b)"
proof -
  have sp: "strip_spaces (CHR '' '' # c # t) = Some (c # t)" if "\<not> re_space c" for c t
    using that by (simp add: strip_spaces_def re_space_def)
  have l: "Suc 0 \<le> length a" "Suc 0 \<le> length b" using assms by (auto simp: Suc_le_eq)
  have ns: "\<not> re_space (CHR ''s'')" "\<not> re_space (CHR ''e'')" by (simp_all add: re_space_def)
  note t = till_quote_val [OF assms(3) l(1)] till_quote_val [OF assms(4) l(2)]
  note st = strip_lit [of "''<range''", simplified] strip_lit [of "''start='' @ [CHR 0x27]", simplified]
    strip_lit [of "''end='' @ [CHR 0x27]", simplified]
  show ?thesis by (simp add: range_at_def range_text_def st sp [OF ns(1)] sp [OF ns(2)] t)
qed

lemma no_lt_contains: "c \<notin> set t \<Longrightarrow> \<not> contains t (c # p)"
  by (auto simp: contains_iff)

lemma parse_range_dump:
  assumes "plain_dump pre a b ws hs post"
  shows "parseDHCPRange (network_dump pre a b ws hs post) = (a, b)"
proof -
  let ?s = "hosts_text ws hs @ ws @ ''</dhcp>'' @ post"
  have h: "has_prefix s ''<range''" if "range_at s \<noteq> None" for s
    using that by (auto simp: range_at_def strip_def split: if_splits)
  obtain r where r: "range_text a b = CHR ''<'' # r" by (simp add: range_text_def)
  have p: "\<not> contains pre ''<range''" and q: "a \<noteq> []" "b \<noteq> []" "CHR 0x27 \<notin> set a" "CHR 0x27 \<notin> set b"
    using assms by (simp_all add: plain_dump_def)
  have "CHR ''<'' \<notin> set ''range''" by simp
  from find_first_skip_lt [OF h this p, where y = "r @ ?s"]
  have "find_first range_at (pre @ range_text a b @ ?s) = find_first range_at (range_text a b @ ?s)"
    by (simp only: r append_Cons)
  also have "\<dots> = Some (a, b)"
    using range_at_hit [OF q, of ?s] find_first_hit [of range_at "CHR ''<''" "r @ ?s" "(a, b)"] by (simp only: r append_Cons)
  finally show ?thesis by (simp add: parseDHCPRange_def network_dump_def)
qed

lemma host_lines_hosts:
  assumes "list_all plain_host hs" "CHR ''<'' \<notin> set ws" "\<not> contains post ''<host''"
  shows "host_lines (hosts_text ws hs @ ws @ ''</dhcp>'' @ post) = map host_entry hs"
  using assms(1)
proof (induction hs)
  case Nil
  have w: "\<not> contains ws ''<host''" using no_lt_contains [OF assms(2)] .
  have "\<not> contains (''</dhcp>'' @ post) ''<host''" using assms(3) by (simp add: has_prefix_def)
  then have "host_lines (''</dhcp>'' @ post) = []" by (rule host_lines_end)
  then show ?case using host_lines_miss [OF w, of "''/dhcp>'' @ post"] by simp
next
  case (Cons h hs)
  obtain e where e: "host_entry h = CHR ''<'' # e" by (simp add: host_entry_def)
  have w: "\<not> contains ws ''<host''" using no_lt_contains [OF assms(2)] .
  let ?t = "hosts_text ws hs @ ws @ ''</dhcp>'' @ post"
  have "host_lines (ws @ host_entry h @ ?t) = host_lines (host_entry h @ ?t)"
    using host_lines_miss [OF w, of "e @ ?t"] by (simp only: e append_Cons)
  also have "\<dots> = host_entry h # map host_entry hs"
    using host_lines_hit [of h ?t] Cons by simp
  finally show ?case by simp
qed

lemma parse_reservations_dump:
  assumes "plain_dump pre a b ws hs post"
  shows "parseReservations (network_dump pre a b ws hs post) = hs"
proof -
  have p: "\<not> contains pre ''<host''" "\<not> contains post ''<host''" "CHR ''<'' \<notin> set ws" "list_all plain_host hs"
    "CHR ''<'' \<notin> set a" "CHR ''<'' \<notin> set b"
    using assms by (simp_all add: plain_dump_def)
  define r where "r = ''ange start='' @ [CHR 0x27] @ a @ [CHR 0x27] @ '' end='' @ [CHR 0x27] @ b @ [CHR 0x27] @ ''/>''"
  have r: "range_text a b = ''<r'' @ r" by (simp add: range_text_def r_def)
  have nr: "CHR ''<'' \<notin> set r" using p by (simp add: r_def)
  have range: "host_lines (range_text a b @ s) = host_lines s" for s
  proof -
    have "host_lines (r @ s) = host_lines s" using nr
    proof (induction r)
      case (Cons c r)
      then have "host_at (c # r @ s) = None" using host_at_lt [of "c # r @ s"] by (cases "host_at (c # r @ s)") (auto simp: has_prefix_def)
      then show ?case using Cons by (subst host_lines.simps) simp
    qed simp
    moreover have "host_at (CHR ''<'' # CHR ''r'' # r @ s) = None" "host_at (CHR ''r'' # r @ s) = None"
      using host_at_lt by (fastforce simp: has_prefix_def)+
    ultimately show ?thesis unfolding r using host_lines.simps [of "CHR ''<'' # CHR ''r'' # r @ s"] host_lines.simps [of "CHR ''r'' # r @ s"] by simp
  qed
  have "host_lines (pre @ range_text a b @ s) = host_lines (range_text a b @ s)" for s
    using host_lines_miss [OF p(1), of "CHR ''r'' # r @ s"] by (simp add: r)
  then have "host_lines (network_dump pre a b ws hs post) = map host_entry hs"
    using host_lines_hosts [OF p(4,3,2)] by (simp add: network_dump_def range)
  moreover have "map (parse_host \<circ> host_entry) hs = hs"
    using p(4) by (induction hs) (simp_all add: parse_host_entry)
  moreover have "filter (\<lambda>h. hMAC h \<noteq> [] \<or> hIP h \<noteq> []) hs = hs"
    using p(4) by (induction hs) (simp_all add: plain_host_def)
  ultimately show ?thesis by (simp add: parseReservations_def)
qed


text \<open>C25. The network is read back as it was written. What \<open>EnsureNetwork\<close> defines has the dynamic
  range the NAT reset expects, and for any definition libvirt shows, with the range, the
  reservations \<open>AddHost\<close> wrote and any other text around them, \<open>InspectNetwork\<close> reports exactly
  this range and these reservations.
\<close>

theorem inspect_reads_back:
  assumes "plain_dump pre a b ws hs post"
    and "res (virsh cmd [''net-dumpxml'', name]) s = (network_dump pre a b ws hs post, None)"
  shows "parseDHCPRange (buildNetworkXML shared_network_spec) = (expected_start, ''192.168.126.254'') \<and>
    (\<exists>ls. res (libvirt_InspectNetwork cmd name) s = Inr
      \<lparr>niExists = True, niDHCPRangeStart = a, niDHCPRangeEnd = b, niReservations = hs, niLeases = ls\<rparr>)"
proof
  have n: "nat_str 100 = ''100''" "nat_str 254 = ''254''"
    by (simp_all add: nat_str_three digit_char_def char_of_eq_iff)
  show "parseDHCPRange (buildNetworkXML shared_network_spec) = (expected_start, ''192.168.126.254'')"
    by (simp add: buildNetworkXML_def shared_network_spec_def Let_def SharedNATNetwork_def BaseNetworkRange_def
        DHCPDynamicStart_def DHCPDynamicEnd_def n expected_start_def parseDHCPRange_def range_at_def strip_def
        strip_spaces_def re_space_def till_quote_def has_prefix_def)
  show "\<exists>ls. res (libvirt_InspectNetwork cmd name) s = Inr
      \<lparr>niExists = True, niDHCPRangeStart = a, niDHCPRangeEnd = b, niReservations = hs, niLeases = ls\<rparr>"
    using assms(2) parse_range_dump [OF assms(1)] parse_reservations_dump [OF assms(1)]
    by (simp add: libvirt_InspectNetwork_def split: prod.splits)
qed

definition sample_dhcp_host :: dhcp_host where
  "sample_dhcp_host = \<lparr>hMAC = ''52:54:00:01:02:ab'', hIP = ''192.168.126.5'', hHostname = ''master-0-lab''\<rparr>"

definition sample_dump :: string where
  "sample_dump = network_dump ''<network><dhcp>'' ''192.168.126.100'' ''192.168.126.254'' ''  '' [sample_dhcp_host] ''</network>''"

lemma inspect_reads_back_witness:
  "\<exists>ls. res (libvirt_InspectNetwork \<lparr>Cmd_Run = (\<lambda>_ _. io_ret (sample_dump, None)), Cmd_RunStreaming = (\<lambda>_ _. io_ret (([], []), None))\<rparr> ''n'') () = Inr
      \<lparr>niExists = True, niDHCPRangeStart = ''192.168.126.100'', niDHCPRangeEnd = ''192.168.126.254'',
       niReservations = [sample_dhcp_host], niLeases = ls\<rparr>"
proof -
  have "plain_dump ''<network><dhcp>'' ''192.168.126.100'' ''192.168.126.254'' ''  '' [sample_dhcp_host] ''</network>''"
    by (simp add: plain_dump_def plain_host_def plain_value_def sample_dhcp_host_def has_prefix_def)
  from inspect_reads_back [OF this, of "\<lparr>Cmd_Run = (\<lambda>_ _. io_ret (sample_dump, None)), Cmd_RunStreaming = (\<lambda>_ _. io_ret (([], []), None))\<rparr>" "''n''" "()"]
  show ?thesis by (simp add: virsh_def sample_dump_def)
qed

section \<open>Starting and stopping\<close>

text \<open>The wait ends with success only when a probe saw the wanted state.\<close>

lemma await_running_seen:
  assumes "res (await_running rt cmd name want n) s = Some None"
  shows "\<exists>t. res (libvirt_IsRunning cmd name) t = (want, None)"
  using assms
proof (induction n arbitrary: s)
  case (Suc n)
  obtain r e where r: "res (libvirt_IsRunning cmd name) s = (r, e)" by fastforce
  show ?case
  proof (cases "e = None \<and> r = want")
    case True
    with r show ?thesis by blast
  next
    case False
    with Suc.prems r show ?thesis by (auto split: if_splits intro: Suc.IH)
  qed
qed simp

end
