(* ===== verification/Dns.thy ===== *)
theory Dns
  imports StagesCore
begin

text \<open>
  \<open>providers/dns\<close>: the manager of the cluster's DNS records (\<open>manager.go\<close>) and the resolver that
  shells out to \<open>dig\<close> (\<open>resolver.go\<close>), and the choice of the manager in \<open>app/deps.go\<close>.

  \<open>libdns\<close> and its Cloudflare provider are outside the repository: \<open>'r\<close> is its record type,
  \<open>libdns\<close> its functions on records and \<open>libdns_provider\<close> the operations of a provider.
\<close>

section \<open>Addresses\<close>

text \<open>\<open>netip.ParseAddr\<close>: the bytes of the address and its zone, which only IPv6 may have.\<close>

type_synonym ip_addr = "nat list \<times> string"

definition parse_zoned :: "string \<Rightarrow> ip_addr option" where
  "parse_zoned s =
     (let a = takeWhile (\<lambda>c. c \<noteq> CHR ''%'') s in
      case dropWhile (\<lambda>c. c \<noteq> CHR ''%'') s of
        [] \<Rightarrow> map_option (\<lambda>b. (b, [])) (parse_ipv6 a)
      | _ # z \<Rightarrow> if z = [] then None else map_option (\<lambda>b. (b, z)) (parse_ipv6 a))"

fun parse_netip_by :: "string \<Rightarrow> string \<Rightarrow> ip_addr option" where
  "parse_netip_by whole [] = None"
| "parse_netip_by whole (c # s) =
     (if c = CHR ''.'' then map_option (\<lambda>b. (b, [])) (parse_ipv4 whole)
      else if c = CHR '':'' then parse_zoned whole
      else if c = CHR ''%'' then None
      else parse_netip_by whole s)"

definition netip_ParseAddr :: "string \<Rightarrow> ip_addr option" where
  "netip_ParseAddr s = parse_netip_by s s"

section \<open>libdns\<close>

record 'r libdns =
  RelativeName :: "string \<Rightarrow> string \<Rightarrow> string"
  Address :: "string \<Rightarrow> nat \<Rightarrow> ip_addr \<Rightarrow> 'r"
  RR_Name :: "'r \<Rightarrow> string"
  RR_Type :: "'r \<Rightarrow> string"

record ('s, 'r) libdns_provider =
  GetRecords :: "string \<Rightarrow> ('s, 'r list result) io"
  SetRecords :: "string \<Rightarrow> 'r list \<Rightarrow> ('s, 'r list result) io"
  DeleteRecords :: "string \<Rightarrow> 'r list \<Rightarrow> ('s, 'r list result) io"

section \<open>The manager\<close>

definition dnsRecordTTL :: nat where "dnsRecordTTL = 5 * 60 * 1000"

definition isSubdomain :: "string \<Rightarrow> string \<Rightarrow> bool" where
  "isSubdomain fqdn zone \<longleftrightarrow>
     (let f = trim_suffix fqdn ''.''; z = trim_suffix zone ''.'' in
      if f = z then False else has_suffix f (''.'' @ z))"

definition isDNSNotFound :: "error \<Rightarrow> bool" where
  "isDNSNotFound e \<longleftrightarrow>
     (let s = to_lower (error_text e) in contains s ''not found'' \<or> contains s ''no record'')"

definition cluster_names :: "string \<Rightarrow> string list" where
  "cluster_names fqdn = [''api.'' @ fqdn, ''api-int.'' @ fqdn, ''*.apps.'' @ fqdn]"

definition clusterRecords :: "'r libdns \<Rightarrow> string \<Rightarrow> string \<Rightarrow> ip_addr \<Rightarrow> 'r list result" where
  "clusterRecords lib zone fqdn addr =
     (if \<not> isSubdomain fqdn zone
      then Inl (Errorf ''fqdn %q must be a subdomain of zone %q'' [quoted fqdn, quoted zone])
      else Inr (map (\<lambda>fqn. Address lib (RelativeName lib fqn zone) dnsRecordTTL addr) (cluster_names fqdn)))"

definition dns_Upsert :: "'r libdns \<Rightarrow> ('s, 'r) libdns_provider \<Rightarrow> string \<Rightarrow> string \<Rightarrow> string \<Rightarrow> ('s, error option) io" where
  "dns_Upsert lib prov zone fqdn ip =
     (case netip_ParseAddr ip of
        None \<Rightarrow> io_ret (Some (Wrapf ''parse master IP %q: %w'' [quoted ip] (ExtErr ''unable to parse IP'')))
      | Some addr \<Rightarrow>
          (case clusterRecords lib zone fqdn addr of
             Inl e \<Rightarrow> io_ret (Some e)
           | Inr records \<Rightarrow>
               io_bind (SetRecords prov zone records) (\<lambda>r. io_ret (case r of
                 Inl e \<Rightarrow> Some (Wrapf ''upsert dns records in zone %s: %w'' [zone] e) | Inr _ \<Rightarrow> None))))"

text \<open>The records of a listing that \<open>Delete\<close> removes.\<close>

definition to_delete :: "'r libdns \<Rightarrow> string \<Rightarrow> string \<Rightarrow> 'r list \<Rightarrow> 'r list" where
  "to_delete lib zone fqdn recs =
     (let want = map (\<lambda>fqn. RelativeName lib fqn zone) (cluster_names fqdn) in
      filter (\<lambda>r. RR_Type lib r = ''A'' \<and> RR_Name lib r \<in> set want) recs)"

definition dns_Delete :: "'r libdns \<Rightarrow> ('s, 'r) libdns_provider \<Rightarrow> string \<Rightarrow> string \<Rightarrow> ('s, error option) io" where
  "dns_Delete lib prov zone fqdn =
     (if \<not> isSubdomain fqdn zone
      then io_ret (Some (Errorf ''fqdn %q must be a subdomain of zone %q'' [quoted fqdn, quoted zone]))
      else io_bind (GetRecords prov zone) (\<lambda>r. case r of
        Inl e \<Rightarrow> io_ret (Some (Wrapf ''list dns records in zone %s: %w'' [zone] e))
      | Inr recs \<Rightarrow>
          let del = to_delete lib zone fqdn recs in
          if del = [] then io_ret None
          else io_bind (DeleteRecords prov zone del) (\<lambda>r. io_ret (case r of
            Inr _ \<Rightarrow> None
          | Inl e \<Rightarrow> if isDNSNotFound e then None
                     else Some (Wrapf ''delete dns records in zone %s: %w'' [zone] e)))))"

definition lib_dns_manager :: "'r libdns \<Rightarrow> ('s, 'r) libdns_provider \<Rightarrow> 's dns_manager" where
  "lib_dns_manager lib prov = \<lparr>Dm_Upsert = dns_Upsert lib prov, Dm_Delete = dns_Delete lib prov\<rparr>"

text \<open>\<open>cloudflare\<close> is the provider made from a token.\<close>

definition NewManager :: "'r libdns \<Rightarrow> (string \<Rightarrow> ('s, 'r) libdns_provider) \<Rightarrow> string \<Rightarrow> string \<Rightarrow> 's dns_manager result" where
  "NewManager lib cloudflare provider token =
     (if token = [] then Inl (Errorf ''dns provider %q requires a non-empty token'' [quoted provider])
      else if provider = DNSProviderCloudflare then Inr (lib_dns_manager lib (cloudflare token))
      else Inl (Errorf ''unsupported dns provider %q (supported: %s)'' [quoted provider, DNSProviderCloudflare]))"

definition nopDNSManager :: "'s dns_manager" where
  "nopDNSManager = \<lparr>Dm_Upsert = (\<lambda>_ _ _. io_ret None), Dm_Delete = (\<lambda>_ _. io_ret None)\<rparr>"

definition newProductionDNSManager :: "'x rt \<Rightarrow> 'r libdns \<Rightarrow> (string \<Rightarrow> ('x sys, 'r) libdns_provider) \<Rightarrow> string \<Rightarrow>
    ('x sys, ('x sys) dns_manager) io" where
  "newProductionDNSManager rt lib cloudflare configDir =
     io_bind (os_stat rt (DNSTokenPath configDir DNSProviderCloudflare)) (\<lambda>r. case r of
       Inl _ \<Rightarrow> io_ret nopDNSManager
     | Inr _ \<Rightarrow>
         io_bind (ReadDNSToken rt configDir DNSProviderCloudflare) (\<lambda>r. io_ret (case r of
           Inl _ \<Rightarrow> nopDNSManager
         | Inr token \<Rightarrow> (case NewManager lib cloudflare DNSProviderCloudflare token of
               Inr d \<Rightarrow> d | Inl _ \<Rightarrow> nopDNSManager))))"

section \<open>The resolver\<close>

definition resolved_line :: "string \<Rightarrow> string option" where
  "resolved_line raw =
     (let line = trim_space raw in
      if line = [] then None else if parse_ip line = None then None else Some line)"

definition dig_Resolve :: "'s command_runner \<Rightarrow> string \<Rightarrow> ('s, string list result) io" where
  "dig_Resolve cmd name =
     io_bind (Cmd_Run cmd ''dig'' [''+short'', ''+timeout=2'', name]) (\<lambda>(out, err). io_ret (case err of
       Some e \<Rightarrow> Inl (if error_is e ErrExecNotFound
                  then Wrapf (''`dig` not found on PATH: %w'' @ nl @
                        ''  hint: install bind-utils (Fedora/RHEL) or dnsutils (Debian/Ubuntu)'') [] e
                  else Wrapf ''dig %s: %w'' [name] e)
     | None \<Rightarrow> Inr (List.map_filter resolved_line (split_on (CHR 0x0A) (trim_space out)))))"

section \<open>What is removed again\<close>

text \<open>What is documented of \<open>libdns.Address\<close>: it keeps its name, and its type is that of its address.\<close>

definition libdns_address :: "'r libdns \<Rightarrow> bool" where
  "libdns_address lib \<longleftrightarrow>
     (\<forall>n t a. RR_Name lib (Address lib n t a) = n \<and>
        RR_Type lib (Address lib n t a) = (if length (fst a) = 4 then ''A'' else ''AAAA''))"


text \<open>\<open>libdns\<close> on records that are their own description.\<close>

definition sample_libdns :: "(string \<times> string \<times> nat \<times> ip_addr) libdns" where
  "sample_libdns =
     \<lparr>RelativeName = (\<lambda>fqn zone. trim_suffix fqn (''.'' @ zone)),
      Address = (\<lambda>n t a. (n, if length (fst a) = 4 then ''A'' else ''AAAA'', t, a)),
      RR_Name = fst, RR_Type = (\<lambda>r. fst (snd r))\<rparr>"

lemma sample_libdns_address: "libdns_address sample_libdns"
  by (simp add: libdns_address_def sample_libdns_def)

lemma sample_dns_addr: "netip_ParseAddr ''10.0.0.5'' = Some ([10, 0, 0, 5], [])" "netip_ParseAddr ''::'' = Some (replicate 16 0, [])"
  by (simp_all add: netip_ParseAddr_def parse_ipv4_def parse_zoned_def parse_ipv6_def char_le_iff is_digit_def digit_val_def)

definition sample_records :: "ip_addr \<Rightarrow> (string \<times> string \<times> nat \<times> ip_addr) list" where
  "sample_records a = map (\<lambda>fqn. Address sample_libdns (RelativeName sample_libdns fqn ''test'') dnsRecordTTL a) (cluster_names ''a.test'')"

lemma sample_records_made: "clusterRecords sample_libdns ''test'' ''a.test'' a = Inr (sample_records a)"
proof -
  have "isSubdomain ''a.test'' ''test''" by code_simp
  then show ?thesis by (simp add: clusterRecords_def sample_records_def)
qed


end
