(* ===== verification/HostProviders.thy ===== *)
theory HostProviders
  imports Processes
begin

text \<open>
  The providers that talk to the host: \<open>providers/host\<close> (the inspector on Linux and macOS and the
  hostname injector), \<open>providers/csr\<close> (the certificate approver) and \<open>providers/exec\<close> (the command
  runner and the downloader).

  \<open>host_rt\<close> is what they use of the system beyond files and processes: \<open>exec.LookPath\<close>,
  \<open>statfs\<close>, TCP connections, the entries of a directory, and HTTP.
\<close>

record http_response =
  hrStatus :: nat
  hrBody :: string
  hrReadErr :: "error option"

record 'x host_rt =
  look_path :: "string \<Rightarrow> ('x sys, error option) io"
  statfs :: "string \<Rightarrow> ('x sys, (64 word \<times> 64 word) result) io"
  dial_tcp :: "string \<Rightarrow> nat \<Rightarrow> ('x sys, error option) io"
  conn_close :: "('x sys, error option) io"
  read_dir :: "string \<Rightarrow> ('x sys, string list result) io"
  new_request :: "string \<Rightarrow> error option"
  http_get :: "string \<Rightarrow> ('x sys, http_response result) io"

section \<open>The host inspector\<close>

definition host_LookPath :: "'x host_rt \<Rightarrow> string \<Rightarrow> ('x sys, error option) io" where
  "host_LookPath h name =
     wrap_err ''required binary %q not found on PATH: %w'' [quoted name] (look_path h name)"

definition host_AvailableDiskBytes :: "'x host_rt \<Rightarrow> string \<Rightarrow> ('x sys, 64 word result) io" where
  "host_AvailableDiskBytes h path =
     io_bind (statfs h path) (\<lambda>r. io_ret (case r of
       Inl e \<Rightarrow> Inl (Wrapf ''statfs %s: %w'' [path] e)
     | Inr (bavail, bsize) \<Rightarrow> Inr (bavail * bsize)))"

definition host_DialTCP :: "'x host_rt \<Rightarrow> string \<Rightarrow> nat \<Rightarrow> ('x sys, error option) io" where
  "host_DialTCP h addr timeout = io_seq (dial_tcp h addr timeout) (conn_close h)"

subsection \<open>Linux\<close>

definition cpu_flags :: "string \<Rightarrow> bool" where
  "cpu_flags dat \<longleftrightarrow>
     contains dat '' vmx '' \<or> contains dat (tab @ ''vmx '') \<or>
     contains dat '' svm '' \<or> contains dat (tab @ ''svm '')"

definition linux_HasCPUVirtualization :: "'x rt \<Rightarrow> ('x sys, bool result) io" where
  "linux_HasCPUVirtualization rt =
     io_bind (os_read_bytes rt ''/proc/cpuinfo'') (\<lambda>r. io_ret (case r of
       Inl e \<Rightarrow> Inl (Wrapf ''read /proc/cpuinfo: %w'' [] e) | Inr dat \<Rightarrow> Inr (cpu_flags dat)))"

definition linux_InspectBridge :: "'x rt \<Rightarrow> 'x host_rt \<Rightarrow> string \<Rightarrow> ('x sys, bridge_info result) io" where
  "linux_InspectBridge rt h name =
     (let base = path_join [''/sys/class/net'', name] in
      io_bind (os_stat rt (path_join [base, ''bridge''])) (\<lambda>r. case r of
        Inl e \<Rightarrow> io_ret (if error_is e ErrNotExist then Inr \<lparr>brExists = False, brSlaves = [], brUp = False\<rparr> else Inl e)
      | Inr _ \<Rightarrow>
      io_bind (read_dir h (path_join [base, ''brif''])) (\<lambda>r. case r of
        Inl e \<Rightarrow>
          if error_is e ErrNotExist
          then io_bind (os_read_bytes rt (path_join [base, ''operstate''])) (\<lambda>r. io_ret (case r of
                 Inl e \<Rightarrow> Inl (Wrapf ''read operstate for %s: %w'' [name] e)
               | Inr state \<Rightarrow> Inr \<lparr>brExists = True, brSlaves = [], brUp = (trim_space state = ''up'')\<rparr>))
          else io_ret (Inl (Wrapf ''read brif for %s: %w'' [name] e))
      | Inr entries \<Rightarrow>
          io_bind (os_read_bytes rt (path_join [base, ''operstate''])) (\<lambda>r. io_ret (case r of
            Inl e \<Rightarrow> Inl (Wrapf ''read operstate for %s: %w'' [name] e)
          | Inr state \<Rightarrow> Inr \<lparr>brExists = True, brSlaves = entries, brUp = (trim_space state = ''up'')\<rparr>)))))"

fun arp_scan :: "string \<Rightarrow> string list \<Rightarrow> string" where
  "arp_scan want [] = []"
| "arp_scan want (line # ls) =
     (let f = Prelude.fields line in
      if length f < 4 then arp_scan want ls
      else if to_lower (f ! 3) = want then f ! 0 else arp_scan want ls)"

definition linux_ARPLookup :: "'x rt \<Rightarrow> string \<Rightarrow> ('x sys, string \<times> error option) io" where
  "linux_ARPLookup rt mac =
     io_bind (os_read_bytes rt ''/proc/net/arp'') (\<lambda>r. io_ret (case r of
       Inl e \<Rightarrow> ([], Some (Wrapf ''read /proc/net/arp: %w'' [] e))
     | Inr dat \<Rightarrow> (arp_scan (to_lower mac) (tl (split_on (CHR 0x0A) dat)), None)))"

fun mem_total :: "string list \<Rightarrow> 64 word result" where
  "mem_total [] = Inl (Errorf ''MemTotal not found in /proc/meminfo'' [])"
| "mem_total (line # ls) =
     (if \<not> has_prefix line ''MemTotal:'' then mem_total ls
      else (case Prelude.fields line of
              _ # f # _ \<Rightarrow> (case parse_uint64 f of
                 None \<Rightarrow> Inl (Wrapf ''parse MemTotal %q: %w'' [quoted line] (ExtErr ''invalid syntax''))
               | Some kib \<Rightarrow> Inr (of_nat kib * 1024))
            | _ \<Rightarrow> Inl (Errorf ''MemTotal not found in /proc/meminfo'' [])))"

definition linux_PhysicalMemoryBytes :: "'x rt \<Rightarrow> ('x sys, 64 word result) io" where
  "linux_PhysicalMemoryBytes rt =
     io_bind (os_read_bytes rt ''/proc/meminfo'') (\<lambda>r. io_ret (case r of
       Inl e \<Rightarrow> Inl (Wrapf ''read /proc/meminfo: %w'' [] e)
     | Inr dat \<Rightarrow> mem_total (split_on (CHR 0x0A) dat)))"

subsection \<open>macOS\<close>

definition darwin_HasCPUVirtualization :: "'x exec_rt \<Rightarrow> ('x sys, bool result) io" where
  "darwin_HasCPUVirtualization ex =
     io_bind (ex_output ex ''sysctl'' [''-n'', ''hw.optional.arm64'']) (\<lambda>(out, err). io_ret (Inr
       (err = None \<and> out \<noteq> [] \<and> hd out = CHR ''1'')))"

definition darwin_PhysicalMemoryBytes :: "'x exec_rt \<Rightarrow> ('x sys, 64 word result) io" where
  "darwin_PhysicalMemoryBytes ex =
     io_bind (ex_output ex ''sysctl'' [''-n'', ''hw.memsize'']) (\<lambda>(out, err). io_ret (case err of
       Some e \<Rightarrow> Inl (Wrapf ''sysctl hw.memsize: %w'' [] e)
     | None \<Rightarrow> (case parse_uint64 (trim_space out) of
         None \<Rightarrow> Inl (Wrapf ''parse hw.memsize %q: %w'' [quoted (trim_space out)] (ExtErr ''invalid syntax''))
       | Some v \<Rightarrow> Inr (of_nat v))))"

text \<open>The build constraint of the file picks the probes.\<close>

definition SystemHostInspector :: "'x rt \<Rightarrow> 'x exec_rt \<Rightarrow> 'x host_rt \<Rightarrow> ('x sys) host_inspector" where
  "SystemHostInspector rt ex h =
     (let darwin = (GOOS rt = ''darwin'') in
      \<lparr>Ho_HasCPUVirtualization = (if darwin then darwin_HasCPUVirtualization ex else linux_HasCPUVirtualization rt),
       Ho_InspectBridge = (if darwin then (\<lambda>_. io_ret (Inr \<lparr>brExists = False, brSlaves = [], brUp = False\<rparr>))
                           else linux_InspectBridge rt h),
       Ho_LookPath = host_LookPath h,
       Ho_AvailableDiskBytes = host_AvailableDiskBytes h,
       Ho_PhysicalMemoryBytes = (if darwin then darwin_PhysicalMemoryBytes ex else linux_PhysicalMemoryBytes rt),
       Ho_ARPLookup = (if darwin then (\<lambda>_. io_ret ([], None)) else linux_ARPLookup rt),
       Ho_DialTCP = host_DialTCP h\<rparr>)"

section \<open>The hostname injector and the certificate approver\<close>

definition try_hostname :: "'s command_runner \<Rightarrow> string \<Rightarrow> string \<Rightarrow> string \<Rightarrow> ('s, unit) io" where
  "try_hostname cmd ip sshKeyPath hostname =
     (let remote = ''cur=$(hostname); if [ '' @ [CHR 0x22] @ ''$cur'' @ [CHR 0x22] @ '' != '' @ [CHR 0x22] @ hostname @
            [CHR 0x22] @ '' ]; then sudo hostnamectl set-hostname '' @ hostname @ ''; fi'' in
      io_bind (Cmd_Run cmd ''ssh''
        [''-i'', sshKeyPath,
         ''-o'', ''StrictHostKeyChecking=no'',
         ''-o'', ''UserKnownHostsFile=/dev/null'',
         ''-o'', ''ConnectTimeout=8'',
         ''-o'', ''LogLevel=ERROR'',
         ''core@'' @ ip,
         remote]) (\<lambda>_. io_ret ()))"

definition SSHHostnameInjector :: "'s command_runner \<Rightarrow> 's hostname_injector" where
  "SSHHostnameInjector cmd = \<lparr>Hn_Turn = try_hostname cmd\<rparr>"

definition after_last_slash :: "string \<Rightarrow> string" where
  "after_last_slash s = rev (takeWhile (\<lambda>c. c \<noteq> CHR ''/'') (rev s))"

fun approve_all :: "'s command_runner \<Rightarrow> string \<Rightarrow> string \<Rightarrow> string list \<Rightarrow> ('s, unit) io" where
  "approve_all cmd oc kc [] = io_ret ()"
| "approve_all cmd oc kc (raw # ls) =
     (let line = trim_space raw in
      if line = [] then approve_all cmd oc kc ls
      else io_bind (Cmd_Run cmd oc [''--kubeconfig'', kc, ''adm'', ''certificate'', ''approve'', after_last_slash line])
             (\<lambda>_. approve_all cmd oc kc ls))"

definition sweep :: "'s command_runner \<Rightarrow> string \<Rightarrow> string \<Rightarrow> ('s, unit) io" where
  "sweep cmd oc kc =
     io_bind (Cmd_Run cmd oc [''--kubeconfig'', kc, ''get'', ''csr'', ''-o'', ''name'']) (\<lambda>(out, err). case err of
       Some _ \<Rightarrow> io_ret ()
     | None \<Rightarrow> approve_all cmd oc kc (split_on (CHR 0x0A) (trim_space out)))"

definition OCCSRApprover :: "'s command_runner \<Rightarrow> 's csr_approver" where
  "OCCSRApprover cmd = \<lparr>Csr_Turn = sweep cmd\<rparr>"

section \<open>Commands and downloads\<close>

text \<open>
  \<open>combined\<close> runs a program and returns its two outputs interleaved (\<open>CombinedOutput\<close>), also when
  it fails; \<open>run_split\<close> keeps them apart.
\<close>

definition exec_Run :: "(string \<Rightarrow> string list \<Rightarrow> ('x sys, string \<times> error option) io) \<Rightarrow>
    string \<Rightarrow> string list \<Rightarrow> ('x sys, string \<times> error option) io" where
  "exec_Run combined name args =
     io_bind (combined name args) (\<lambda>(out, err). io_ret
       (out, map_option (Wrapf (''command %s failed: %w'' @ nl @ ''output: %s'') [name, out]) err))"

definition exec_RunStreaming :: "(string \<Rightarrow> string list \<Rightarrow> ('x sys, (string \<times> string) \<times> error option) io) \<Rightarrow>
    string \<Rightarrow> string list \<Rightarrow> ('x sys, (string \<times> string) \<times> error option) io" where
  "exec_RunStreaming run_split name args =
     io_bind (run_split name args) (\<lambda>(outs, err). io_ret
       (outs, map_option (Wrapf ''command %s failed: %w'' [name]) err))"

definition ExecCommandRunner :: "(string \<Rightarrow> string list \<Rightarrow> ('x sys, string \<times> error option) io) \<Rightarrow>
    (string \<Rightarrow> string list \<Rightarrow> ('x sys, (string \<times> string) \<times> error option) io) \<Rightarrow> ('x sys) command_runner" where
  "ExecCommandRunner combined run_split =
     \<lparr>Cmd_Run = exec_Run combined, Cmd_RunStreaming = exec_RunStreaming run_split\<rparr>"

text \<open>\<open>io.Copy\<close> writes what could be read before an error of the body.\<close>

definition save_body :: "'x rt \<Rightarrow> string \<Rightarrow> http_response \<Rightarrow> ('x sys, error option) io" where
  "save_body rt destPath resp =
     io_seq (wrap_err ''create %s: %w'' [destPath] (os_write rt destPath (Raw [])))
       (wrap_err ''write %s: %w'' [destPath]
         (io_seq (os_write rt destPath (Raw (hrBody resp))) (io_ret (hrReadErr resp))))"

definition http_Download :: "'x rt \<Rightarrow> 'x host_rt \<Rightarrow> string \<Rightarrow> string \<Rightarrow> ('x sys, error option) io" where
  "http_Download rt h url destPath =
     io_seq (wrap_err ''create dest dir: %w'' [] (os_mkdirall rt (path_dir destPath)))
    (io_seq (io_ret (map_option (Wrapf ''build request: %w'' []) (new_request h url)))
       (io_bind (http_get h url) (\<lambda>r. case r of
          Inl e \<Rightarrow> io_ret (Some (Wrapf ''http get %s: %w'' [url] e))
        | Inr resp \<Rightarrow>
            if hrStatus resp \<noteq> 200 then io_ret (Some (Errorf ''http get %s: status %d'' [url, nat_str (hrStatus resp)]))
            else save_body rt destPath resp)))"

definition HTTPDownloader :: "'x rt \<Rightarrow> 'x host_rt \<Rightarrow> ('x sys) downloader" where
  "HTTPDownloader rt h = \<lparr>Dl_Download = http_Download rt h\<rparr>"

section \<open>What the parsers read\<close>

text \<open>The memory of \<open>/proc/meminfo\<close>: the line of \<open>MemTotal\<close>, wherever it stands.\<close>

lemma mem_total_line:
  assumes "\<forall>l \<in> set pre. \<not> has_prefix l ''MemTotal:''" "n < 2 ^ 64"
  shows "mem_total (pre @ (''MemTotal: '' @ nat_str n @ '' kB'') # ls) = Inr (of_nat n * 1024)"
proof -
  have d: "\<forall>c \<in> set (nat_str n). \<not> is_space c"
    using nat_str_digits [of n] by (auto simp: list_all_iff is_digit_def is_space_def char_le_iff)
  obtain c r where c: "nat_str n = c # r" by (cases "nat_str n") auto
  have t: "takeWhile (\<lambda>d. \<not> is_space d) (r @ '' kB'') = r" "dropWhile (\<lambda>d. \<not> is_space d) (r @ '' kB'') = '' kB''"
    using d c by (auto simp: takeWhile_append dropWhile_append is_space_def)
  have f: "\<exists>ws. Prelude.fields (''MemTotal: '' @ nat_str n @ '' kB'') = ''MemTotal:'' # nat_str n # ws"
    using t d c by (subst Prelude.fields.simps, simp add: is_space_def)
      (subst Prelude.fields.simps, simp add: is_space_def)
  obtain ws where ws: "Prelude.fields (''MemTotal: '' @ nat_str n @ '' kB'') = ''MemTotal:'' # nat_str n # ws" using f by blast
  have "mem_total ((''MemTotal: '' @ nat_str n @ '' kB'') # ls) = Inr (of_nat n * 1024)"
    using ws assms(2) by (simp add: has_prefix_def parse_uint64_def)
  with assms(1) show ?thesis by (induction pre) simp_all
qed

end
