(* ===== verification/Odf.thy ===== *)
theory Odf
  imports StagesInstall
begin

text \<open>
  The package \<open>providers/odf\<close>: the manifests of \<open>--odf\<close> (\<open>render.go\<close>) and the installer that
  applies them with \<open>oc\<close> and waits for the operators (\<open>installer.go\<close>). \<open>pollUntil\<close> is the
  \<open>poll_loop\<close> of \<open>Polling\<close>, keeping the last error of the probe.
\<close>

section \<open>Manifests (\<open>render.go\<close>)\<close>

definition ImmediateStorageClassName :: string where "ImmediateStorageClassName = ''easyshift-odf-immediate''"
definition RBDStorageClass :: string where "RBDStorageClass = ''ocs-storagecluster-ceph-rbd''"
definition CephFSStorageClass :: string where "CephFSStorageClass = ''ocs-storagecluster-cephfs''"
definition lvmsNamespace :: string where "lvmsNamespace = ''openshift-lvm-storage''"
definition lvmsOGName :: string where "lvmsOGName = ''lvms-operator-group''"
definition lvmsSubName :: string where "lvmsSubName = ''lvms-operator''"
definition odfNamespace :: string where "odfNamespace = ''openshift-storage''"
definition odfOGName :: string where "odfOGName = ''openshift-storage-operator-group''"
definition odfSubName :: string where "odfSubName = ''odf-operator''"
definition catalogSource :: string where "catalogSource = ''redhat-operators''"
definition catalogSourceNamespace :: string where "catalogSourceNamespace = ''openshift-marketplace''"
definition lvmDeviceClass :: string where "lvmDeviceClass = ''odf''"

definition RenderOperators :: "string \<Rightarrow> string" where
  "RenderOperators channel =
     unlines
      [''apiVersion: v1'', ''kind: Namespace'', ''metadata:'', ''  name: '' @ lvmsNamespace, ''---'',
       ''apiVersion: operators.coreos.com/v1'', ''kind: OperatorGroup'', ''metadata:'',
       ''  name: '' @ lvmsOGName, ''  namespace: '' @ lvmsNamespace, ''spec:'', ''  targetNamespaces:'',
       ''  - '' @ lvmsNamespace, ''---'', ''apiVersion: operators.coreos.com/v1alpha1'',
       ''kind: Subscription'', ''metadata:'', ''  name: '' @ lvmsSubName, ''  namespace: '' @ lvmsNamespace,
       ''spec:'', ''  channel: '' @ channel, ''  name: '' @ lvmsSubName, ''  source: '' @ catalogSource,
       ''  sourceNamespace: '' @ catalogSourceNamespace, ''  installPlanApproval: Automatic'', ''---'',
       ''apiVersion: v1'', ''kind: Namespace'', ''metadata:'', ''  name: '' @ odfNamespace, ''---'',
       ''apiVersion: operators.coreos.com/v1'', ''kind: OperatorGroup'', ''metadata:'',
       ''  name: '' @ odfOGName, ''  namespace: '' @ odfNamespace, ''spec:'', ''  targetNamespaces:'',
       ''  - '' @ odfNamespace, ''---'', ''apiVersion: operators.coreos.com/v1alpha1'', ''kind: Subscription'',
       ''metadata:'', ''  name: '' @ odfSubName, ''  namespace: '' @ odfNamespace, ''spec:'',
       ''  channel: '' @ channel, ''  name: '' @ odfSubName, ''  source: '' @ catalogSource,
       ''  sourceNamespace: '' @ catalogSourceNamespace, ''  installPlanApproval: Automatic'']"

definition RenderLVMCluster :: "string \<Rightarrow> string" where
  "RenderLVMCluster devicePath =
     unlines
      [''apiVersion: lvm.topolvm.io/v1alpha1'', ''kind: LVMCluster'', ''metadata:'', ''  name: easyshift-odf'',
       ''  namespace: '' @ lvmsNamespace, ''spec:'', ''  storage:'', ''    deviceClasses:'',
       ''    - name: '' @ lvmDeviceClass, ''      default: true'', ''      fstype: xfs'',
       ''      deviceSelector:'', ''        paths:'', ''        - '' @ devicePath, ''      thinPoolConfig:'',
       ''        name: thin'', ''        overprovisionRatio: 10'', ''        sizePercent: 90'']"

definition RenderImmediateStorageClass :: "string" where
  "RenderImmediateStorageClass =
     unlines
      [''apiVersion: storage.k8s.io/v1'', ''kind: StorageClass'', ''metadata:'',
       ''  name: '' @ ImmediateStorageClassName, ''provisioner: topolvm.io'', ''parameters:'',
       ''  csi.storage.k8s.io/fstype: xfs'', ''  topolvm.io/device-class: '' @ lvmDeviceClass,
       ''reclaimPolicy: Delete'', ''volumeBindingMode: Immediate'', ''allowVolumeExpansion: true'']"

definition RenderDriver :: "string \<Rightarrow> string" where
  "RenderDriver driver =
     unlines
      [''apiVersion: csi.ceph.io/v1'', ''kind: Driver'', ''metadata:'', ''  name: '' @ driver,
       ''  namespace: '' @ odfNamespace, ''spec:'', ''  controllerPlugin:'', ''    replicas: 1'',
       ''    resources:'', ''      plugin:'', ''        requests:'', ''          memory: 100Mi'',
       ''          cpu: 50m'', ''      attacher:'', ''        requests:'', ''          memory: 50Mi'',
       ''          cpu: 25m'', ''      provisioner:'', ''        requests:'', ''          memory: 50Mi'',
       ''          cpu: 25m'', ''      resizer:'', ''        requests:'', ''          memory: 50Mi'',
       ''          cpu: 25m'', ''      snapshotter:'', ''        requests:'', ''          memory: 50Mi'',
       ''          cpu: 25m'', ''      omapGenerator:'', ''        requests:'', ''          memory: 50Mi'',
       ''          cpu: 10m'', ''      addons:'', ''        requests:'', ''          memory: 32Mi'',
       ''          cpu: 10m'']"

definition RenderMonitoringTrim :: "string" where
  "RenderMonitoringTrim =
     unlines
      [''apiVersion: v1'', ''kind: ConfigMap'', ''metadata:'', ''  name: cluster-monitoring-config'',
       ''  namespace: openshift-monitoring'', ''data:'', ''  config.yaml: |'', ''    prometheusK8s:'',
       ''      retention: 4h'', ''      resources:'', ''        requests:'', ''          memory: 300Mi'',
       ''          cpu: 50m'', ''    alertmanagerMain:'', ''      resources:'', ''        requests:'',
       ''          memory: 50Mi'', ''          cpu: 10m'', ''    prometheusOperator:'', ''      resources:'',
       ''        requests:'', ''          memory: 50Mi'', ''          cpu: 10m'', ''    metricsServer:'',
       ''      resources:'', ''        requests:'', ''          memory: 50Mi'', ''          cpu: 10m'',
       ''    kubeStateMetrics:'', ''      resources:'', ''        requests:'', ''          memory: 50Mi'',
       ''          cpu: 10m'', ''    openshiftStateMetrics:'', ''      resources:'', ''        requests:'',
       ''          memory: 50Mi'', ''          cpu: 10m'', ''    telemeterClient:'', ''      resources:'',
       ''        requests:'', ''          memory: 50Mi'', ''          cpu: 10m'', ''    monitoringPlugin:'',
       ''      resources:'', ''        requests:'', ''          memory: 50Mi'', ''          cpu: 10m'']"

definition deviceSetTSC :: "string" where
  "deviceSetTSC =
     unlines
      [''      topologySpreadConstraints:'', ''      - maxSkew: 1'',
       ''        topologyKey: kubernetes.io/hostname'', ''        whenUnsatisfiable: ScheduleAnyway'',
       ''        labelSelector:'', ''          matchExpressions:'', ''          - key: ceph.rook.io/pvc'',
       ''            operator: Exists'']"

definition RenderStorageCluster :: "int \<Rightarrow> string" where
  "RenderStorageCluster pvcGi =
     unlines
      [''apiVersion: ocs.openshift.io/v1'', ''kind: StorageCluster'', ''metadata:'',
       ''  name: ocs-storagecluster'', ''  namespace: '' @ odfNamespace, ''spec:'', ''  monPVCTemplate:'',
       ''    spec:'', ''      storageClassName: '' @ ImmediateStorageClassName, ''      accessModes:'',
       ''      - ReadWriteOnce'', ''      resources:'', ''        requests:'', ''          storage: 2Gi'',
       ''  placement:'', ''    mon: {}'', ''    mds: {}'', ''    mgr: {}'', ''    rbd-mirror: {}'',
       ''    rgw: {}'', ''    nfs: {}'', ''    noobaa-core: {}'', ''    noobaa-standalone: {}'',
       ''    osd-prepare: {}'', ''  resources:'', ''    mon:'', ''      requests:'', ''        cpu: 125m'',
       ''        memory: 128Mi'', ''    mds:'', ''      requests:'', ''        cpu: 125m'',
       ''        memory: 128Mi'', ''    mgr:'', ''      requests:'', ''        cpu: 125m'',
       ''        memory: 128Mi'', ''    mgr-sidecar:'', ''      requests:'', ''        cpu: 125m'',
       ''        memory: 128Mi'', ''    nfs:'', ''      requests:'', ''        cpu: 125m'',
       ''        memory: 128Mi'', ''    noobaa-core:'', ''      requests:'', ''        cpu: 125m'',
       ''        memory: 128Mi'', ''    noobaa-db:'', ''      requests:'', ''        cpu: 125m'',
       ''        memory: 128Mi'', ''    noobaa-db-vol:'', ''      requests:'', ''        storage: 5Gi'',
       ''    noobaa-endpoint:'', ''      requests:'', ''        cpu: 125m'', ''        memory: 128Mi'',
       ''    rbd-mirror:'', ''      requests:'', ''        cpu: 125m'', ''        memory: 128Mi'',
       ''    rgw:'', ''      requests:'', ''        cpu: 125m'', ''        memory: 128Mi'',
       ''  storageDeviceSets:'', ''  - count: 3'', ''    name: ocs-deviceset'', ''    dataPVCTemplate:'',
       ''      spec:'', ''        storageClassName: '' @ ImmediateStorageClassName, ''        accessModes:'',
       ''        - ReadWriteOnce'', ''        resources:'', ''          requests:'',
       ''            storage: '' @ int_str pvcGi @ ''Gi'', ''        volumeMode: Block'', ''    placement:''] @
     deviceSetTSC @ unlines [''    preparePlacement:''] @
     deviceSetTSC @ unlines
      [''    portable: false'', ''    replica: 1'', ''    resources:'', ''      requests:'', ''        cpu: 125m'',
       ''        memory: 128Mi'']"

definition SingleNodePatch :: string where
  "SingleNodePatch =
     (let str = (\<lambda>s. [CHR 0x22] @ s @ [CHR 0x22]) in
      ''{'' @ str ''spec'' @ '':{'' @ str ''config'' @ '':{'' @ str ''env'' @ '':[{'' @ str ''name'' @ '':'' @
      str ''SINGLE_NODE'' @ '','' @ str ''value'' @ '':'' @ str ''true'' @ ''}]}}}'')"

section \<open>The installer (\<open>installer.go\<close>)\<close>

text \<open>Durations in milliseconds; their text is that of whole minutes below an hour.\<close>

definition waitCSV :: nat where "waitCSV = 15 * 60 * 1000"
definition waitLVM :: nat where "waitLVM = 5 * 60 * 1000"
definition waitSettle :: nat where "waitSettle = 5 * 60 * 1000"
definition waitStorageCluster :: nat where "waitStorageCluster = 30 * 60 * 1000"
definition waitStorageClasses :: nat where "waitStorageClasses = 10 * 60 * 1000"
definition odfPollInterval :: nat where "odfPollInterval = 10 * 1000"

definition minutes_text :: "nat \<Rightarrow> string" where
  "minutes_text d = nat_str (d div 60000) @ ''m0s''"

text \<open>Every caller drops the output of a failed \<open>oc\<close>.\<close>

definition odf_oc :: "'s command_runner \<Rightarrow> odf_spec \<Rightarrow> string list \<Rightarrow> ('s, string result) io" where
  "odf_oc cmd spec args =
     io_bind (Cmd_Run cmd (osOCBinaryPath spec) ([''--kubeconfig'', osKubeconfigPath spec] @ args)) (\<lambda>(out, err).
       io_ret (case err of Some e \<Rightarrow> Inl e | None \<Rightarrow> Inr out))"

definition ocJSONPath :: "'s command_runner \<Rightarrow> odf_spec \<Rightarrow> string \<Rightarrow> string list \<Rightarrow> ('s, string result) io" where
  "ocJSONPath cmd spec jp args =
     io_bind (odf_oc cmd spec (args @ [''-o'', ''jsonpath='' @ jp])) (\<lambda>r. io_ret (map_sum id trim_space r))"

text \<open>\<open>strings.Cut\<close> at the first \<open>=\<close>.\<close>

fun csv_scan :: "string \<Rightarrow> string list \<Rightarrow> bool" where
  "csv_scan namePrefix [] = False"
| "csv_scan namePrefix (line # ls) =
     (case dropWhile (\<lambda>c. c \<noteq> CHR ''='') line of
        [] \<Rightarrow> csv_scan namePrefix ls
      | _ # phase \<Rightarrow>
          if has_prefix (takeWhile (\<lambda>c. c \<noteq> CHR ''='') line) namePrefix \<and> phase = ''Succeeded'' then True
          else csv_scan namePrefix ls)"

definition csv_jsonpath :: string where
  "csv_jsonpath =
     ''jsonpath={range .items[*]}{.metadata.name}{'' @ [CHR 0x22] @ ''='' @ [CHR 0x22] @ ''}{.status.phase}{'' @
     [CHR 0x22, CHR 0x5C, CHR ''n'', CHR 0x22] @ ''}{end}''"

definition csvSucceeded :: "'s command_runner \<Rightarrow> odf_spec \<Rightarrow> string \<Rightarrow> string \<Rightarrow> ('s, bool result) io" where
  "csvSucceeded cmd spec namespace namePrefix =
     io_bind (odf_oc cmd spec [''get'', ''csv'', ''-n'', namespace, ''-o'', csv_jsonpath]) (\<lambda>r.
       io_ret (map_sum id (\<lambda>out. csv_scan namePrefix (split_on (CHR 0x0A) (trim_space out))) r))"

definition poll_probe :: "('s, bool result) io \<Rightarrow> error option \<Rightarrow> ('s, error option + error option) io" where
  "poll_probe probe lastErr =
     io_bind probe (\<lambda>r. io_ret (case r of
       Inr True \<Rightarrow> Inr None | Inr False \<Rightarrow> Inl lastErr | Inl e \<Rightarrow> Inl (Some e)))"

definition pollUntil :: "'x rt \<Rightarrow> nat \<Rightarrow> string \<Rightarrow> ('x sys, bool result) io \<Rightarrow> ('x sys, error option) io" where
  "pollUntil rt timeout desc probe =
     poll_loop rt timeout odfPollInterval (poll_probe probe)
       (\<lambda>lastErr. case lastErr of
          Some e \<Rightarrow> Some (Errorf ''timed out after %s waiting for %s: last error: %v'' [minutes_text timeout, desc, error_text e])
        | None \<Rightarrow> Some (Errorf ''timed out after %s waiting for %s'' [minutes_text timeout, desc]))
       (Some ErrCanceled) None 0"

text \<open>\<open>manifest_path\<close> is where \<open>apply\<close> writes a manifest.\<close>

definition manifest_path :: "odf_spec \<Rightarrow> string \<Rightarrow> string" where
  "manifest_path spec filename = path_join [path_join [osWorkDir spec, ''odf''], filename]"

definition odf_apply :: "'x rt \<Rightarrow> ('x sys) command_runner \<Rightarrow> odf_spec \<Rightarrow> string \<Rightarrow> string \<Rightarrow> ('x sys, error option) io" where
  "odf_apply rt cmd spec filename content =
     (let dir = path_join [osWorkDir spec, ''odf'']; path = manifest_path spec filename in
      io_seq (wrap_err ''mkdir %s: %w'' [dir] (os_mkdirall rt dir))
     (io_seq (wrap_err ''write %s: %w'' [path] (os_write rt path (Raw content)))
             (io_bind (odf_oc cmd spec [''apply'', ''-f'', path]) (\<lambda>r. io_ret (case r of
                Inl e \<Rightarrow> Some (Wrapf ''apply %s: %w'' [filename] e) | Inr _ \<Rightarrow> None)))))"

text \<open>A probe that asks one question after the other and stops at the first \<open>False\<close> or error.\<close>

definition also_true :: "('s, bool result) io \<Rightarrow> ('s, bool result) io \<Rightarrow> ('s, bool result) io" where
  "also_true p q = io_try p (\<lambda>ok. if ok then q else io_ret (Inr False))"

definition oc_exists :: "'s command_runner \<Rightarrow> odf_spec \<Rightarrow> string list \<Rightarrow> ('s, bool result) io" where
  "oc_exists cmd spec args = io_try (odf_oc cmd spec args) (\<lambda>_. io_ret (Inr True))"

definition oc_reads :: "'s command_runner \<Rightarrow> odf_spec \<Rightarrow> string \<Rightarrow> string list \<Rightarrow> string \<Rightarrow> ('s, bool result) io" where
  "oc_reads cmd spec jp args want = io_try (ocJSONPath cmd spec jp args) (\<lambda>v. io_ret (Inr (v = want)))"

definition operators_probe :: "'s command_runner \<Rightarrow> odf_spec \<Rightarrow> ('s, bool result) io" where
  "operators_probe cmd spec =
     also_true (csvSucceeded cmd spec lvmsNamespace ''lvms-operator'')
    (also_true (csvSucceeded cmd spec odfNamespace ''ocs-operator'')
               (oc_exists cmd spec [''get'', ''crd'', ''storageclusters.ocs.openshift.io'']))"

definition odf_InstallOperators :: "'x rt \<Rightarrow> ('x sys) command_runner \<Rightarrow> odf_spec \<Rightarrow> ('x sys, error option) io" where
  "odf_InstallOperators rt cmd spec =
     io_seq (odf_apply rt cmd spec ''01-operators.yaml'' (RenderOperators (osChannel spec)))
       (pollUntil rt waitCSV ''lvms-operator + ocs-operator CSVs and the StorageCluster CRD'' (operators_probe cmd spec))"

definition lvm_probe :: "'s command_runner \<Rightarrow> odf_spec \<Rightarrow> ('s, bool result) io" where
  "lvm_probe cmd spec =
     oc_reads cmd spec ''{.status.state}'' [''get'', ''lvmcluster'', ''easyshift-odf'', ''-n'', lvmsNamespace] ''Ready''"

definition odf_SetupLVM :: "'x rt \<Rightarrow> ('x sys) command_runner \<Rightarrow> odf_spec \<Rightarrow> ('x sys, error option) io" where
  "odf_SetupLVM rt cmd spec =
     io_seq (odf_apply rt cmd spec ''02-lvmcluster.yaml'' (RenderLVMCluster (osDevicePath spec)))
    (io_seq (pollUntil rt waitLVM ''LVMCluster easyshift-odf Ready'' (lvm_probe cmd spec))
            (odf_apply rt cmd spec ''03-storageclass-immediate.yaml'' RenderImmediateStorageClass))"

definition env_jsonpath :: string where
  "env_jsonpath =
     ''{.spec.template.spec.containers[0].env[?(@.name=='' @ [CHR 0x22] @ ''SINGLE_NODE'' @ [CHR 0x22] @ '')].value}''"

definition available_jsonpath :: string where
  "available_jsonpath =
     ''{range .status.conditions[?(@.type=='' @ [CHR 0x22] @ ''Available'' @ [CHR 0x22] @ '')]}{.status}{end}''"

definition settle_probe :: "'s command_runner \<Rightarrow> odf_spec \<Rightarrow> ('s, bool result) io" where
  "settle_probe cmd spec =
     (let get = [''get'', ''deploy'', ''ocs-operator'', ''-n'', odfNamespace] in
      also_true (oc_reads cmd spec env_jsonpath get ''true'') (oc_reads cmd spec available_jsonpath get ''True''))"

definition sub_jsonpath :: string where
  "sub_jsonpath =
     ''{range .items[?(@.spec.name=='' @ [CHR 0x22] @ ''ocs-operator'' @ [CHR 0x22] @ '')]}{.metadata.name}{end}''"

definition oc_must :: "'s command_runner \<Rightarrow> odf_spec \<Rightarrow> string \<Rightarrow> string list \<Rightarrow> string list \<Rightarrow> ('s, error option) io" where
  "oc_must cmd spec f as args =
     io_bind (odf_oc cmd spec args) (\<lambda>r. io_ret (case r of Inl e \<Rightarrow> Some (Wrapf f as e) | Inr _ \<Rightarrow> None))"

definition odf_EnableSingleNode :: "'x rt \<Rightarrow> ('x sys) command_runner \<Rightarrow> odf_spec \<Rightarrow> ('x sys, error option) io" where
  "odf_EnableSingleNode rt cmd spec =
     io_bind (ocJSONPath cmd spec sub_jsonpath [''get'', ''sub'', ''-n'', odfNamespace]) (\<lambda>r. case r of
       Inl e \<Rightarrow> io_ret (Some (Wrapf ''find ocs-operator subscription: %w'' [] e))
     | Inr subName \<Rightarrow>
         if subName = []
         then io_ret (Some (Errorf ''no Subscription with spec.name=ocs-operator found in %s'' [odfNamespace]))
         else
           io_seq (oc_must cmd spec ''patch subscription %s: %w'' [subName]
             [''patch'', ''sub'', ''-n'', odfNamespace, subName, ''--type'', ''merge'', ''-p'', SingleNodePatch])
          (io_seq (pollUntil rt waitSettle ''ocs-operator deployment SINGLE_NODE + Available'' (settle_probe cmd spec))
          (io_seq (oc_must cmd spec ''label node for openshift-storage: %w'' []
             [''label'', ''nodes'', ''--all'', ''cluster.ocs.openshift.io/openshift-storage='', ''--overwrite''])
          (io_seq (odf_apply rt cmd spec ''04-driver-rbd.yaml'' (RenderDriver ''openshift-storage.rbd.csi.ceph.com''))
          (io_seq (odf_apply rt cmd spec ''05-driver-cephfs.yaml'' (RenderDriver ''openshift-storage.cephfs.csi.ceph.com''))
                  (odf_apply rt cmd spec ''06-monitoring-trim.yaml'' RenderMonitoringTrim))))))"

definition storagecluster_probe :: "'s command_runner \<Rightarrow> odf_spec \<Rightarrow> ('s, bool result) io" where
  "storagecluster_probe cmd spec =
     oc_reads cmd spec ''{.status.phase}'' [''get'', ''storagecluster'', ''ocs-storagecluster'', ''-n'', odfNamespace] ''Ready''"

definition classes_probe :: "'s command_runner \<Rightarrow> odf_spec \<Rightarrow> ('s, bool result) io" where
  "classes_probe cmd spec =
     also_true (oc_exists cmd spec [''get'', ''sc'', RBDStorageClass]) (oc_exists cmd spec [''get'', ''sc'', CephFSStorageClass])"

definition odf_CreateStorageCluster :: "'x rt \<Rightarrow> ('x sys) command_runner \<Rightarrow> odf_spec \<Rightarrow> ('x sys, error option) io" where
  "odf_CreateStorageCluster rt cmd spec =
     io_seq (odf_apply rt cmd spec ''07-storagecluster.yaml'' (RenderStorageCluster (osDataPVCSizeGi spec)))
    (io_seq (pollUntil rt waitStorageCluster ''StorageCluster ocs-storagecluster Ready'' (storagecluster_probe cmd spec))
            (pollUntil rt waitStorageClasses
               (''ceph StorageClasses '' @ RBDStorageClass @ '' and '' @ CephFSStorageClass) (classes_probe cmd spec)))"

definition oc_odf_installer :: "'x rt \<Rightarrow> ('x sys) command_runner \<Rightarrow> ('x sys) odf_installer" where
  "oc_odf_installer rt cmd =
     \<lparr>Odf_InstallOperators = odf_InstallOperators rt cmd, Odf_SetupLVM = odf_SetupLVM rt cmd,
      Odf_EnableSingleNode = odf_EnableSingleNode rt cmd, Odf_CreateStorageCluster = odf_CreateStorageCluster rt cmd\<rparr>"

end
