(* ===== verification/OdfFacts.thy ===== *)
theory OdfFacts
  imports Odf
begin

text \<open>
  What \<open>install-odf\<close> does to the cluster, in terms of the commands it runs: \<open>lg\<close> reads the list
  of all commands run so far from the rest of the world, and \<open>emits lg Q m\<close> says that every
  command the effect \<open>m\<close> runs satisfies \<open>Q\<close>.
\<close>

type_synonym command = "string \<times> string list"

definition logged :: "'x rt \<Rightarrow> ('x sys) command_runner \<Rightarrow> ('x \<Rightarrow> command list) \<Rightarrow> bool" where
  "logged rt cmd lg \<longleftrightarrow>
     (\<forall>opn x. lg (snd (snd (os_fault rt opn x))) = lg x) \<and>
     (\<forall>d x. lg (snd (snd (rt_wait rt d x))) = lg x) \<and>
     (\<forall>p args s. lg (rest (after (Cmd_Run cmd p args) s)) = lg (rest s) @ [(p, args)])"

definition emits :: "('x \<Rightarrow> command list) \<Rightarrow> (command \<Rightarrow> bool) \<Rightarrow> ('x sys, 'a) io \<Rightarrow> bool" where
  "emits lg Q m \<longleftrightarrow> (\<forall>s. \<exists>new. lg (rest (after m s)) = lg (rest s) @ new \<and> list_all Q new)"

named_theorems emits_intros "the commands of composed effects"

lemma emits_ret [emits_intros]: "emits lg Q (io_ret x)"
  by (simp add: emits_def)

lemma emits_bind [emits_intros]:
  assumes "emits lg Q m" "\<And>x. emits lg Q (k x)"
  shows "emits lg Q (io_bind m k)"
  unfolding emits_def
proof
  fix s
  obtain a where a: "lg (rest (after m s)) = lg (rest s) @ a" "list_all Q a" using assms(1) emits_def by blast
  obtain b where b: "lg (rest (after (k (res m s)) (after m s))) = lg (rest (after m s)) @ b" "list_all Q b"
    using assms(2) emits_def by blast
  show "\<exists>new. lg (rest (after (io_bind m k) s)) = lg (rest s) @ new \<and> list_all Q new"
    using a b by (intro exI [of _ "a @ b"]) simp
qed

lemma emits_seq [emits_intros]: "emits lg Q m \<Longrightarrow> emits lg Q k \<Longrightarrow> emits lg Q (io_seq m k)"
  unfolding io_seq_def by (intro emits_bind) (auto split: option.splits intro: emits_ret)

lemma emits_try [emits_intros]: "emits lg Q m \<Longrightarrow> (\<And>x. emits lg Q (k x)) \<Longrightarrow> emits lg Q (io_try m k)"
  unfolding io_try_def by (intro emits_bind) (auto split: sum.splits intro: emits_ret)

lemma emits_wrap [emits_intros]: "emits lg Q m \<Longrightarrow> emits lg Q (wrap_err f args m)"
  unfolding wrap_err_def by (intro emits_bind emits_ret)

lemma emitsE:
  assumes "emits lg Q m"
  obtains new where "lg (rest (after m s)) = lg (rest s) @ new" "list_all Q new"
  using assms unfolding emits_def by blast

lemma lg_os_call: "logged rt cmd lg \<Longrightarrow> lg (rest (after (os_call rt opn f) s)) = lg (rest s)"
  unfolding logged_def os_call_def after_def
  by (cases "os_fault rt opn (rest s)") (auto split: prod.splits option.splits dest: spec [of _ opn], (metis snd_conv)+)

lemma lg_pause: "logged rt cmd lg \<Longrightarrow> lg (rest (after (pause rt d) s)) = lg (rest s)"
  unfolding logged_def pause_def after_def by (cases "rt_wait rt d (rest s)") (auto dest: spec [of _ d], (metis snd_conv)+)

lemma lg_write: "logged rt cmd lg \<Longrightarrow> lg (rest (after (os_write rt p c) s)) = lg (rest s)"
  and lg_mkdirall: "logged rt cmd lg \<Longrightarrow> lg (rest (after (os_mkdirall rt p) s)) = lg (rest s)"
  by (simp_all add: os_write_def os_mkdirall_def lg_os_call)

lemma lg_Run: "logged rt cmd lg \<Longrightarrow> lg (rest (after (Cmd_Run cmd p args) s)) = lg (rest s) @ [(p, args)]"
  by (simp add: logged_def)

definition oc_cmd :: "odf_spec \<Rightarrow> string list \<Rightarrow> command" where
  "oc_cmd spec args = (osOCBinaryPath spec, ''--kubeconfig'' # osKubeconfigPath spec # args)"

definition apply_cmd :: "odf_spec \<Rightarrow> string \<Rightarrow> command" where
  "apply_cmd spec filename = oc_cmd spec [''apply'', ''-f'', manifest_path spec filename]"

lemma lg_oc: "logged rt cmd lg \<Longrightarrow> lg (rest (after (odf_oc cmd spec args) s)) = lg (rest s) @ [oc_cmd spec args]"
  by (simp add: odf_oc_def oc_cmd_def lg_Run split: prod.splits)

lemma emits_oc [emits_intros]: "logged rt cmd lg \<Longrightarrow> Q (oc_cmd spec args) \<Longrightarrow> emits lg Q (odf_oc cmd spec args)"
  by (simp add: emits_def lg_oc)

lemma emits_loop [emits_intros]:
  assumes "logged (rt :: 'a rt) cmd lg" "\<And>b. emits lg Q (probe b)"
  shows "emits lg Q (poll_loop rt timeout interval probe g c b el)"
  unfolding emits_def
proof
  fix s :: "'a sys"
  let ?inv = "\<lambda>s'. \<exists>new. lg (rest s') = lg (rest s) @ new \<and> list_all Q new"
  have "deadline_loop rt probe ?inv (\<lambda>_. True)"
  proof
    show "?inv (after (probe b) s')" if "?inv s'" for s' b
      using that emitsE [OF assms(2), of b s'] by (metis append.assoc list_all_append)
    show "?inv (after (pause rt d) s')" if "?inv s'" for s' d
      using that by (simp add: lg_pause [OF assms(1)])
  qed simp
  then show "?inv (after (poll_loop rt timeout interval probe g c b el) s)"
    using deadline_loop.loop_result [of rt probe ?inv "\<lambda>_. True" s timeout interval g c b el] io_split [of "poll_loop rt timeout interval probe g c b el" s]
    by simp
qed

lemma emits_pollUntil [emits_intros]:
  "logged rt cmd lg \<Longrightarrow> emits lg Q p \<Longrightarrow> emits lg Q (pollUntil rt t d p)"
  unfolding pollUntil_def poll_probe_def by (intro emits_intros)

lemma lg_apply:
  assumes "logged rt cmd lg"
  shows "lg (rest (after (odf_apply rt cmd spec f c) s)) = lg (rest s) @ [apply_cmd spec f] \<or>
    lg (rest (after (odf_apply rt cmd spec f c) s)) = lg (rest s) \<and> res (odf_apply rt cmd spec f c) s \<noteq> None"
  using assms by (auto simp: odf_apply_def Let_def apply_cmd_def lg_oc lg_write lg_mkdirall split: option.splits)

lemma lg_apply_ok:
  "logged rt cmd lg \<Longrightarrow> res (odf_apply rt cmd spec f c) s = None \<Longrightarrow>
     lg (rest (after (odf_apply rt cmd spec f c) s)) = lg (rest s) @ [apply_cmd spec f]"
  using lg_apply by fastforce

lemma emits_apply [emits_intros]:
  "logged rt cmd lg \<Longrightarrow> Q (apply_cmd spec f) \<Longrightarrow> emits lg Q (odf_apply rt cmd spec f c)"
  unfolding emits_def using lg_apply by (metis append_Nil2 list.pred_inject)

lemma manifest_path_ends: "f \<noteq> [] \<Longrightarrow> CHR ''/'' \<notin> set f \<Longrightarrow> f \<noteq> ''.'' \<Longrightarrow> f \<noteq> ''..'' \<Longrightarrow> \<exists>p. manifest_path spec f = p @ f"
proof -
  assume f: "f \<noteq> []" "CHR ''/'' \<notin> set f" "f \<noteq> ''.''" "f \<noteq> ''..''"
  have "path_join [osWorkDir spec, ''odf''] \<noteq> []"
  proof (cases "osWorkDir spec")
    case Nil
    have "path_clean ''odf'' \<noteq> []" by code_simp
    with Nil show ?thesis by (simp add: path_join_def)
  next
    case (Cons a as)
    then show ?thesis using path_join_file [of "''odf''" "[osWorkDir spec]"] by auto
  qed
  then show ?thesis using path_join_file [OF f(2,1,3,4), of "[path_join [osWorkDir spec, ''odf'']]"]
    by (simp add: manifest_path_def)
qed

text \<open>The commands other than applying the storage cluster.\<close>

definition not_cluster :: "odf_spec \<Rightarrow> command \<Rightarrow> bool" where
  "not_cluster spec c \<longleftrightarrow> c \<noteq> apply_cmd spec ''07-storagecluster.yaml''"

lemma not_cluster_args: "length args \<noteq> 3 \<or> hd args \<noteq> ''apply'' \<Longrightarrow> not_cluster spec (oc_cmd spec args)"
  by (auto simp: not_cluster_def apply_cmd_def oc_cmd_def)

lemma not_cluster_apply:
  assumes "f \<in> {''01-operators.yaml'', ''02-lvmcluster.yaml'', ''03-storageclass-immediate.yaml'',
    ''04-driver-rbd.yaml'', ''05-driver-cephfs.yaml'', ''06-monitoring-trim.yaml''}"
  shows "not_cluster spec (apply_cmd spec f)"
proof -
  obtain p where p: "manifest_path spec f = p @ f" using manifest_path_ends [of f spec] assms by auto
  obtain q where q: "manifest_path spec ''07-storagecluster.yaml'' = q @ ''07-storagecluster.yaml''"
    using manifest_path_ends [of "''07-storagecluster.yaml''" spec] by auto
  have "p @ f \<noteq> q @ ''07-storagecluster.yaml''"
  proof
    assume "p @ f = q @ ''07-storagecluster.yaml''"
    then have "rev f @ rev p = rev ''07-storagecluster.yaml'' @ rev q" by (metis rev_append)
    with assms show False by auto
  qed
  with p q show ?thesis by (simp add: not_cluster_def apply_cmd_def oc_cmd_def)
qed

text \<open>A poll that succeeds ended with a probe that answered yes.\<close>

lemma poll_loop_decided:
  "poll_loop rt timeout interval probe g c b el s = (a, w, s') \<Longrightarrow> a \<noteq> c \<Longrightarrow> (\<And>b. a \<noteq> g b) \<Longrightarrow>
     \<exists>b s1. res (probe b) s1 = Inr a \<and> after (probe b) s1 = s'"
proof (induction "timeout - el" arbitrary: b el s a w s' rule: less_induct)
  case less
  obtain v t s1 where p: "probe b s = (v, t, s1)" by (cases "probe b s")
  obtain d u s2 where q: "pause rt interval s1 = (d, u, s2)" by (cases "pause rt interval s1")
  show ?case
  proof (cases "\<exists>b'. v = Inl b' \<and> \<not> timeout \<le> el + t \<and> \<not> d")
    case False
    with less.prems p q have "v = Inr a \<and> s' = s1"
      by (subst (asm) poll_loop.simps) (auto split: sum.splits if_splits)
    with p show ?thesis by (intro exI [of _ b] exI [of _ s]) (simp add: res_def after_def)
  next
    case True
    then obtain b' where v: "v = Inl b'" "\<not> timeout \<le> el + t" "\<not> d" by blast
    obtain a3 w3 s3 where l: "poll_loop rt timeout interval probe g c b' (el + t + u) s2 = (a3, w3, s3)"
      by (cases "poll_loop rt timeout interval probe g c b' (el + t + u) s2")
    have "a3 = a" "s3 = s'" using less.prems(1) p q v l by (subst (asm) poll_loop.simps, simp)+
    then show ?thesis
      using less.hyps [OF _ l] pause_positive [of rt interval s1 u s2] q v less.prems(2,3) by auto
  qed
qed

lemma pollUntil_ready:
  assumes "res (pollUntil rt t d p) s = None"
  shows "\<exists>s1. res p s1 = Inr True \<and> after p s1 = after (pollUntil rt t d p) s"
proof -
  obtain w s' where l: "pollUntil rt t d p s = (None, w, s')" using assms io_split [of "pollUntil rt t d p" s] by metis
  have "\<exists>b s1. res (poll_probe p b) s1 = Inr None \<and> after (poll_probe p b) s1 = s'"
    by (rule poll_loop_decided [OF l [unfolded pollUntil_def]]) (auto split: option.splits)
  then obtain b s1 where "res (poll_probe p b) s1 = Inr None" "after (poll_probe p b) s1 = s'" by blast
  then have "res p s1 = Inr True \<and> after p s1 = s'"
    by (cases "res p s1") (auto simp: poll_probe_def split: bool.splits)
  moreover have "after (pollUntil rt t d p) s = s'" using l by (simp add: after_def)
  ultimately show ?thesis by (intro exI [of _ s1]) simp
qed

section \<open>The steps of \<open>install-odf\<close>\<close>

definition label_cmd :: "odf_spec \<Rightarrow> command" where
  "label_cmd spec = oc_cmd spec [''label'', ''nodes'', ''--all'', ''cluster.ocs.openshift.io/openshift-storage='', ''--overwrite'']"

lemmas probe_defs = operators_probe_def lvm_probe_def settle_probe_def classes_probe_def storagecluster_probe_def
  also_true_def oc_exists_def oc_reads_def csvSucceeded_def ocJSONPath_def oc_must_def Let_def

lemma emits_must [emits_intros]: "logged rt cmd lg \<Longrightarrow> Q (oc_cmd spec args) \<Longrightarrow> emits lg Q (oc_must cmd spec f as args)"
  unfolding oc_must_def by (intro emits_intros)

lemma lg_must: "logged rt cmd lg \<Longrightarrow> lg (rest (after (oc_must cmd spec f as args) s)) = lg (rest s) @ [oc_cmd spec args]"
  by (simp add: oc_must_def lg_oc)

lemma emits_if [emits_intros]: "(b \<Longrightarrow> emits lg Q m) \<Longrightarrow> (\<not> b \<Longrightarrow> emits lg Q k) \<Longrightarrow> emits lg Q (if b then m else k)"
  by simp

lemma operators_no_cluster: "logged rt cmd lg \<Longrightarrow> emits lg (not_cluster spec) (odf_InstallOperators rt cmd spec)"
  unfolding odf_InstallOperators_def probe_defs by (intro emits_intros) (auto intro!: not_cluster_args not_cluster_apply)

lemma lvm_no_cluster: "logged rt cmd lg \<Longrightarrow> emits lg (not_cluster spec) (odf_SetupLVM rt cmd spec)"
  unfolding odf_SetupLVM_def probe_defs by (intro emits_intros) (auto intro!: not_cluster_args not_cluster_apply)

lemma enable_no_cluster: "logged rt cmd lg \<Longrightarrow> emits lg (not_cluster spec) (odf_EnableSingleNode rt cmd spec)"
  unfolding odf_EnableSingleNode_def probe_defs
  by (intro emits_intros; (auto split: sum.splits)?; (intro emits_intros)?) (auto intro!: not_cluster_args not_cluster_apply emits_intros)

definition driver_manifests :: "string list" where
  "driver_manifests = [''04-driver-rbd.yaml'', ''05-driver-cephfs.yaml'', ''06-monitoring-trim.yaml'']"

lemma enable_ok:
  assumes lgd: "logged rt cmd lg" and ok: "res (odf_EnableSingleNode rt cmd spec) s = None"
  shows "\<exists>a s1. res (settle_probe cmd spec) s1 = Inr True \<and>
    lg (rest (after (settle_probe cmd spec) s1)) = lg (rest s) @ a \<and>
    lg (rest (after (odf_EnableSingleNode rt cmd spec) s)) = lg (rest s) @ a @ label_cmd spec # map (apply_cmd spec) driver_manifests"
proof -
  let ?find = "ocJSONPath cmd spec sub_jsonpath [''get'', ''sub'', ''-n'', odfNamespace]"
  let ?poll = "pollUntil rt waitSettle ''ocs-operator deployment SINGLE_NODE + Available'' (settle_probe cmd spec)"
  obtain sub where sub: "res ?find s = Inr sub" "sub \<noteq> []"
    using ok by (cases "res ?find s") (auto simp: odf_EnableSingleNode_def split: if_splits)
  let ?patch = "oc_must cmd spec ''patch subscription %s: %w'' [sub]
    [''patch'', ''sub'', ''-n'', odfNamespace, sub, ''--type'', ''merge'', ''-p'', SingleNodePatch]"
  let ?s2 = "after ?patch (after ?find s)"
  have poll: "res ?poll ?s2 = None"
    using ok sub by (simp add: odf_EnableSingleNode_def split: option.splits)
  obtain s1 where s1: "res (settle_probe cmd spec) s1 = Inr True" "after (settle_probe cmd spec) s1 = after ?poll ?s2"
    using pollUntil_ready [OF poll] by blast
  have e: "emits lg (\<lambda>_. True) (io_bind ?find (\<lambda>_. io_bind ?patch (\<lambda>_. ?poll)))"
    unfolding probe_defs using lgd by (intro emits_intros) simp_all
  obtain a where a: "lg (rest (after ?poll ?s2)) = lg (rest s) @ a" using emitsE [OF e, of s] by auto
  have "lg (rest (after (odf_EnableSingleNode rt cmd spec) s)) =
      lg (rest (after ?poll ?s2)) @ label_cmd spec # map (apply_cmd spec) driver_manifests"
    using ok sub by (simp add: odf_EnableSingleNode_def driver_manifests_def label_cmd_def lg_must [OF lgd] lg_apply_ok [OF lgd] split: option.splits)
  with a s1 show ?thesis by (intro exI [of _ a] exI [of _ s1]) simp
qed

lemma create_log:
  assumes lgd: "logged rt cmd lg"
  shows "(\<exists>b. lg (rest (after (odf_CreateStorageCluster rt cmd spec) s)) =
      lg (rest s) @ apply_cmd spec ''07-storagecluster.yaml'' # b) \<or>
    lg (rest (after (odf_CreateStorageCluster rt cmd spec) s)) = lg (rest s) \<and>
    res (odf_apply rt cmd spec ''07-storagecluster.yaml'' (RenderStorageCluster (osDataPVCSizeGi spec))) s \<noteq> None"
proof -
  let ?app = "odf_apply rt cmd spec ''07-storagecluster.yaml'' (RenderStorageCluster (osDataPVCSizeGi spec))"
  let ?k = "io_seq (pollUntil rt waitStorageCluster ''StorageCluster ocs-storagecluster Ready'' (storagecluster_probe cmd spec))
    (pollUntil rt waitStorageClasses (''ceph StorageClasses '' @ RBDStorageClass @ '' and '' @ CephFSStorageClass) (classes_probe cmd spec))"
  have k: "emits lg (\<lambda>_. True) ?k" unfolding probe_defs using lgd by (intro emits_intros) simp_all
  obtain b where "lg (rest (after ?k (after ?app s))) = lg (rest (after ?app s)) @ b" using emitsE [OF k] by blast
  then show ?thesis using lg_apply [OF lgd, of spec "''07-storagecluster.yaml''" "RenderStorageCluster (osDataPVCSizeGi spec)" s]
    by (auto simp: odf_CreateStorageCluster_def after_seq [of ?app] simp del: after_seq split: option.splits)
qed

lemma four_steps:
  assumes "emits lg Q i" "emits lg Q l" "emits lg Q e"
    and "lg (rest (after (io_seq i (io_seq l (io_seq e c))) s)) = lg (rest s) @ new" "\<not> list_all Q new"
  shows "\<exists>s1 n1. lg (rest s1) = lg (rest s) @ n1 \<and> list_all Q n1 \<and> res e s1 = None \<and>
    lg (rest (after c (after e s1))) = lg (rest s) @ new"
proof -
  obtain n1 where n1: "lg (rest (after i s)) = lg (rest s) @ n1" "list_all Q n1" using emitsE [OF assms(1)] .
  obtain n2 where n2: "lg (rest (after l (after i s))) = lg (rest (after i s)) @ n2" "list_all Q n2" using emitsE [OF assms(2)] .
  obtain n3 where n3: "lg (rest (after e (after l (after i s)))) = lg (rest (after l (after i s))) @ n3" "list_all Q n3"
    using emitsE [OF assms(3)] .
  from assms(4,5) n1 n2 n3 show ?thesis
    by (intro exI [of _ "after l (after i s)"] exI [of _ "n1 @ n2"]) (auto split: option.splits)
qed

text \<open>C9. \<open>install-odf\<close> applies the storage cluster only as the next command after the monitoring
  trim, the two driver manifests and the node label, and only after a probe has seen the
  \<open>ocs-operator\<close> deployment available in single-node mode.\<close>

theorem drivers_before_cluster:
  assumes lgd: "logged rt cmd lg" and spec: "spec = installodf_spec m (heap m r)"
    and new: "lg (rest (after (installodf_Apply (oc_odf_installer rt cmd) r m) s)) = lg (rest s) @ new"
    and ran: "apply_cmd spec ''07-storagecluster.yaml'' \<in> set new"
  shows "\<exists>a b s1. new = a @ label_cmd spec # map (apply_cmd spec) (driver_manifests @ [''07-storagecluster.yaml'']) @ b \<and>
    res (settle_probe cmd spec) s1 = Inr True \<and> lg (rest (after (settle_probe cmd spec) s1)) = lg (rest s) @ a"
proof -
  let ?w = "\<lambda>f m. wrap_err f [] m"
  let ?i = "?w ''odf operators: %w'' (odf_InstallOperators rt cmd spec)" and ?l = "?w ''odf lvm: %w'' (odf_SetupLVM rt cmd spec)"
  let ?e = "?w ''odf single-node enablement: %w'' (odf_EnableSingleNode rt cmd spec)"
  let ?c = "?w ''odf storagecluster: %w'' (odf_CreateStorageCluster rt cmd spec)"
  have odf: "cODF (heap m r)" using new ran by (cases "cODF (heap m r)") (auto simp: installodf_Apply_def Let_def)
  have q: "\<not> list_all (not_cluster spec) new" using ran by (auto simp: list_all_iff not_cluster_def)
  have "lg (rest (after (io_seq ?i (io_seq ?l (io_seq ?e ?c))) s)) = lg (rest s) @ new"
    using new odf by (simp add: installodf_Apply_def oc_odf_installer_def keep_mem_def spec Let_def del: after_seq)
  from four_steps [OF emits_wrap [OF operators_no_cluster [OF lgd]] emits_wrap [OF lvm_no_cluster [OF lgd]]
      emits_wrap [OF enable_no_cluster [OF lgd]] this q] obtain s2 n1 where s2: "lg (rest s2) = lg (rest s) @ n1" "list_all (not_cluster spec) n1"
      "res (odf_EnableSingleNode rt cmd spec) s2 = None"
      "lg (rest (after (odf_CreateStorageCluster rt cmd spec) (after (odf_EnableSingleNode rt cmd spec) s2))) = lg (rest s) @ new"
    by auto
  obtain a s1 where a: "res (settle_probe cmd spec) s1 = Inr True" "lg (rest (after (settle_probe cmd spec) s1)) = lg (rest s2) @ a"
      "lg (rest (after (odf_EnableSingleNode rt cmd spec) s2)) = lg (rest s2) @ a @ label_cmd spec # map (apply_cmd spec) driver_manifests"
    using enable_ok [OF lgd s2(3)] by blast
  obtain n2 where n2: "lg (rest (after (odf_EnableSingleNode rt cmd spec) s2)) = lg (rest s2) @ n2" "list_all (not_cluster spec) n2"
    using emitsE [OF enable_no_cluster [OF lgd]] .
  have "lg (rest s) @ new \<noteq> lg (rest (after (odf_EnableSingleNode rt cmd spec) s2))"
    using n2 s2(1,2) q by auto
  then obtain b where "lg (rest s) @ new = lg (rest (after (odf_EnableSingleNode rt cmd spec) s2)) @ apply_cmd spec ''07-storagecluster.yaml'' # b"
    using create_log [OF lgd] s2(4) by metis
  with a s2(1) show ?thesis by (intro exI [of _ "n1 @ a"] exI [of _ b] exI [of _ s1]) simp
qed

section \<open>A cluster on which \<open>install-odf\<close> runs through\<close>

definition sample_csvs :: string where
  "sample_csvs = ''lvms-operator.v4=Succeeded'' @ nl @ ''ocs-operator.v4=Succeeded''"

definition sample_answer :: "string list \<Rightarrow> string" where
  "sample_answer args =
     (case args of
        _ # _ # _ # what # tl_args \<Rightarrow>
          if what = ''csv'' then sample_csvs
          else if what = ''deploy'' then (if last tl_args = ''jsonpath='' @ env_jsonpath then ''true'' else ''True'')
          else if what = ''sub'' then ''ocs-operator-stable''
          else ''Ready''
      | _ \<Rightarrow> [])"

definition sample_odf_oc :: "(command list sys) command_runner" where
  "sample_odf_oc =
     \<lparr>Cmd_Run = (\<lambda>p args s. ((sample_answer args, None), 0, s\<lparr>rest := rest s @ [(p, args)]\<rparr>)),
      Cmd_RunStreaming = (\<lambda>p args. io_ret (([], []), None))\<rparr>"

lemma sample_odf_oc_logged: "logged sample_rt sample_odf_oc id"
  by (simp add: logged_def sample_rt_def sample_odf_oc_def after_def)

lemma sample_odf_oc_run:
  "res (odf_oc sample_odf_oc spec args) s = Inr (sample_answer (''--kubeconfig'' # osKubeconfigPath spec # args))"
  "files (after (odf_oc sample_odf_oc spec args) s) = files s"
  by (simp_all add: odf_oc_def sample_odf_oc_def res_def after_def io_bind_def io_ret_def)

lemma sample_csv:
  "csv_scan ''lvms-operator'' (split_on (CHR 0x0A) (trim_space sample_csvs))"
  "csv_scan ''ocs-operator'' (split_on (CHR 0x0A) (trim_space sample_csvs))"
  "trim_space ''Ready'' = ''Ready''" "trim_space ''true'' = ''true''" "trim_space ''True'' = ''True''"
  "trim_space ''ocs-operator-stable'' = ''ocs-operator-stable''"
  "available_jsonpath \<noteq> env_jsonpath"
  by code_simp+

lemma sample_probes:
  "res (operators_probe sample_odf_oc spec) s = Inr True" "res (lvm_probe sample_odf_oc spec) s = Inr True"
  "res (settle_probe sample_odf_oc spec) s = Inr True"
  "files (after (operators_probe sample_odf_oc spec) s) = files s" "files (after (lvm_probe sample_odf_oc spec) s) = files s"
  "files (after (settle_probe sample_odf_oc spec) s) = files s"
  using sample_csv by (simp_all add: probe_defs sample_odf_oc_run sample_answer_def csv_jsonpath_def split: sum.splits)

lemma pollUntil_first:
  assumes "res p s = Inr True"
  shows "res (pollUntil rt t d p) s = None" "after (pollUntil rt t d p) s = after p s"
  using assms io_split [of "poll_probe p None" s]
  by (simp_all add: pollUntil_def res_def [of "poll_loop _ _ _ _ _ _ _ _"] after_def [of "poll_loop _ _ _ _ _ _ _ _"]
      poll_loop.simps [of _ _ _ _ _ _ None] poll_probe_def)

definition odf_ready :: "odf_spec \<Rightarrow> 'x sys \<Rightarrow> bool" where
  "odf_ready spec s \<longleftrightarrow> files s (path_join [osWorkDir spec, ''odf'']) \<in> {None, Some Dir}"

lemma odf_ready_files: "files s = files s' \<Longrightarrow> odf_ready spec s = odf_ready spec s'"
  by (simp add: odf_ready_def)

text \<open>A manifest does not take the place of its directory.\<close>

lemma manifest_not_dir:
  assumes "osWorkDir spec \<noteq> []" "f \<noteq> []" "CHR ''/'' \<notin> set f" "f \<noteq> ''.''" "f \<noteq> ''..''" "last f \<noteq> CHR ''f''"
  shows "manifest_path spec f \<noteq> path_join [osWorkDir spec, ''odf'']"
proof -
  obtain p where "manifest_path spec f = p @ f" using manifest_path_ends assms by blast
  moreover obtain q where "path_join [osWorkDir spec, ''odf''] = q @ ''odf''"
    using path_join_file [of "''odf''" "[osWorkDir spec]"] assms(1) by auto
  ultimately show ?thesis using assms(2,6) by (metis last_appendR last_ConsL last_ConsR list.distinct(1))
qed

lemma sample_apply:
  assumes "odf_ready spec s" "osWorkDir spec \<noteq> []" "f \<noteq> []" "CHR ''/'' \<notin> set f" "f \<noteq> ''.''" "f \<noteq> ''..''" "last f \<noteq> CHR ''f''"
  shows "res (odf_apply sample_rt sample_odf_oc spec f c) s = None \<and> odf_ready spec (after (odf_apply sample_rt sample_odf_oc spec f c) s)"
  using assms(1) manifest_not_dir [OF assms(2-7)]
  by (auto simp: odf_ready_def odf_apply_def Let_def sample_odf_oc_run os_mkdirall_def os_write_def os_call_def
      sample_rt_def res_def [of "os_call _ _ _"] after_def [of "os_call _ _ _"] err_of_def split: option.splits node.splits)

lemma sample_steps:
  assumes "odf_ready spec s" "osWorkDir spec \<noteq> []"
  shows "res (odf_InstallOperators sample_rt sample_odf_oc spec) s = None \<and> odf_ready spec (after (odf_InstallOperators sample_rt sample_odf_oc spec) s)"
    and "res (odf_SetupLVM sample_rt sample_odf_oc spec) s = None \<and> odf_ready spec (after (odf_SetupLVM sample_rt sample_odf_oc spec) s)"
    and "res (odf_EnableSingleNode sample_rt sample_odf_oc spec) s = None \<and> odf_ready spec (after (odf_EnableSingleNode sample_rt sample_odf_oc spec) s)"
proof -
  note a = sample_apply [OF _ assms(2)]
  have f: "odf_ready spec (after (operators_probe sample_odf_oc spec) s') = odf_ready spec s'"
    "odf_ready spec (after (lvm_probe sample_odf_oc spec) s') = odf_ready spec s'"
    "odf_ready spec (after (settle_probe sample_odf_oc spec) s') = odf_ready spec s'"
    "odf_ready spec (after (oc_must sample_odf_oc spec g as args) s') = odf_ready spec s'"
    "odf_ready spec (after (ocJSONPath sample_odf_oc spec jp args) s') = odf_ready spec s'" for s' g as args jp
    by (rule odf_ready_files, simp add: sample_probes oc_must_def ocJSONPath_def sample_odf_oc_run)+
  have m: "res (oc_must sample_odf_oc spec g as args) s' = None"
    "res (ocJSONPath sample_odf_oc spec jp [''get'', ''sub'', ''-n'', odfNamespace]) s' = Inr ''ocs-operator-stable''" for s' g as args jp
    using sample_csv by (simp_all add: oc_must_def ocJSONPath_def sample_odf_oc_run sample_answer_def)
  show "res (odf_InstallOperators sample_rt sample_odf_oc spec) s = None \<and> odf_ready spec (after (odf_InstallOperators sample_rt sample_odf_oc spec) s)"
    using assms(1) by (simp add: odf_InstallOperators_def a f pollUntil_first sample_probes)
  show "res (odf_SetupLVM sample_rt sample_odf_oc spec) s = None \<and> odf_ready spec (after (odf_SetupLVM sample_rt sample_odf_oc spec) s)"
    using assms(1) by (simp add: odf_SetupLVM_def a f pollUntil_first sample_probes)
  show "res (odf_EnableSingleNode sample_rt sample_odf_oc spec) s = None \<and> odf_ready spec (after (odf_EnableSingleNode sample_rt sample_odf_oc spec) s)"
    using assms(1) by (simp add: odf_EnableSingleNode_def a f m pollUntil_first sample_probes)
qed

definition sample_odf_mem :: mem where
  "sample_odf_mem = sample_mem [(sample_cluster ''odf'')\<lparr>cODF := True, cODFDiskGB := 300\<rparr>]"

definition sample_odf_log :: "command list" where
  "sample_odf_log = rest (after (installodf_Apply (oc_odf_installer sample_rt sample_odf_oc) 0 sample_odf_mem) (sample_sys []))"

lemma sample_odf_runs: "apply_cmd (installodf_spec sample_odf_mem (heap sample_odf_mem 0)) ''07-storagecluster.yaml'' \<in> set sample_odf_log"
proof -
  let ?spec = "installodf_spec sample_odf_mem (heap sample_odf_mem 0)"
  let ?i = "odf_InstallOperators sample_rt sample_odf_oc ?spec" and ?l = "odf_SetupLVM sample_rt sample_odf_oc ?spec"
    and ?e = "odf_EnableSingleNode sample_rt sample_odf_oc ?spec" and ?c = "odf_CreateStorageCluster sample_rt sample_odf_oc ?spec"
  let ?s = "after ?e (after ?l (after ?i (sample_sys [])))"
  have w: "osWorkDir ?spec \<noteq> []" by code_simp
  have o: "cODF (heap sample_odf_mem 0)" by (simp add: sample_odf_mem_def sample_mem_def)
  have "odf_ready ?spec (sample_sys [])" by (simp add: odf_ready_def sample_sys_def)
  then have r: "res ?i (sample_sys []) = None" "res ?l (after ?i (sample_sys [])) = None"
      "res ?e (after ?l (after ?i (sample_sys []))) = None" "odf_ready ?spec ?s"
    using sample_steps [OF _ w] by blast+
  then have s: "sample_odf_log = rest (after ?c ?s)"
    using o by (simp add: sample_odf_log_def installodf_Apply_def oc_odf_installer_def keep_mem_def Let_def)
  let ?a = "odf_apply sample_rt sample_odf_oc ?spec ''07-storagecluster.yaml'' (RenderStorageCluster (osDataPVCSizeGi ?spec))"
  have "res ?a ?s = None" using sample_apply [OF r(4) w] by simp
  then show ?thesis using create_log [OF sample_odf_oc_logged, of ?spec ?s] by (auto simp: s)
qed

lemma drivers_before_cluster_witness:
  "\<exists>a b s1. sample_odf_log = a @ label_cmd (installodf_spec sample_odf_mem (heap sample_odf_mem 0)) #
      map (apply_cmd (installodf_spec sample_odf_mem (heap sample_odf_mem 0))) (driver_manifests @ [''07-storagecluster.yaml'']) @ b \<and>
    res (settle_probe sample_odf_oc (installodf_spec sample_odf_mem (heap sample_odf_mem 0))) s1 = Inr True \<and>
    rest (after (settle_probe sample_odf_oc (installodf_spec sample_odf_mem (heap sample_odf_mem 0))) s1) = a"
  using drivers_before_cluster [OF sample_odf_oc_logged refl, where m = sample_odf_mem and r = 0 and s = "sample_sys []" and new = sample_odf_log]
    sample_odf_runs by (simp add: sample_odf_log_def sample_sys_def)

section \<open>The waits come to an end\<close>

text \<open>C21. Liveness of the waits for the cluster: if every question that is not answered with yes, be it
  answered with no or with an error, takes at most \<open>P\<close> and leaves the cluster, one uncancelled wait of at
  most \<open>U\<close> later, closer to being ready, and there is time for as many rounds as it needs, then \<open>pollUntil\<close>
  returns without an error.\<close>

theorem pollUntil_live:
  fixes rank :: "'x sys \<Rightarrow> nat"
  assumes progress: "\<And>s. res p s \<noteq> Inr True \<Longrightarrow> took p s \<le> P \<and>
      \<not> res (pause rt odfPollInterval) (after p s) \<and> took (pause rt odfPollInterval) (after p s) \<le> U \<and>
      rank (after (pause rt odfPollInterval) (after p s)) < rank s"
    and enough: "rank s * (P + U) < timeout"
  shows "res (pollUntil rt timeout desc p) s = None"
  unfolding pollUntil_def
proof (rule poll_loop_live [where good = "\<lambda>r. r = None" and rank = rank and P = P and U = U])
  fix b s
  have a: "after (poll_probe p b) s = after p s" "took (poll_probe p b) s = took p s"
    "res (poll_probe p b) s = (case res p s of Inr True \<Rightarrow> Inr None | Inr False \<Rightarrow> Inl b | Inl e \<Rightarrow> Inl (Some e))"
    using io_split [of p s] by (simp_all add: poll_probe_def res_def after_def took_def io_bind_def io_ret_def split: prod.splits)
  show "(\<exists>a. res (poll_probe p b) s = Inr a \<and> a = None) \<or>
      (\<exists>b'. res (poll_probe p b) s = Inl b') \<and> took (poll_probe p b) s \<le> P \<and>
      \<not> res (pause rt odfPollInterval) (after (poll_probe p b) s) \<and>
      took (pause rt odfPollInterval) (after (poll_probe p b) s) \<le> U \<and>
      rank (after (pause rt odfPollInterval) (after (poll_probe p b) s)) < rank s"
    using progress [of s] by (cases "res p s = Inr True") (auto simp: a split: sum.splits bool.splits)
qed (use enough in simp)

text \<open>A cluster whose \<open>LVMCluster\<close> needs as many waits to be \<open>Ready\<close> as its state says.\<close>

definition slow_rt :: "nat rt" where
  "slow_rt = sample_rt\<lparr>rt_wait := \<lambda>_ n. (False, 0, n - 1)\<rparr>"

definition slow_oc :: "(nat sys) command_runner" where
  "slow_oc =
     \<lparr>Cmd_Run = (\<lambda>p args s. ((if rest s = 0 then ''Ready'' else if rest s = 1 then [] else ''Progressing'',
                               if rest s = 1 then Some (ExtErr ''connection refused'') else None), 500, s)),
      Cmd_RunStreaming = (\<lambda>p args. io_ret (([], []), None))\<rparr>"

lemma slow_trim: "trim_space ''Progressing'' = ''Progressing''"
  by code_simp

lemma slow_progress:
  "res (lvm_probe slow_oc spec) s \<noteq> Inr True \<Longrightarrow> took (lvm_probe slow_oc spec) s \<le> 1000 \<and>
   \<not> res (pause slow_rt d) (after (lvm_probe slow_oc spec) s) \<and>
   took (pause slow_rt d) (after (lvm_probe slow_oc spec) s) \<le> max 1 d \<and>
   rest (after (pause slow_rt d) (after (lvm_probe slow_oc spec) s)) < rest s"
  using sample_csv(3) slow_trim by (cases "rest s")
    (auto simp: probe_defs odf_oc_def slow_oc_def slow_rt_def pause_def res_def after_def took_def io_bind_def io_ret_def io_try_def split: prod.splits sum.splits if_splits)

theorem pollUntil_live_witness:
  "res (pollUntil slow_rt waitLVM ''LVMCluster easyshift-odf Ready'' (lvm_probe slow_oc (installodf_spec sample_odf_mem (heap sample_odf_mem 0)))) (sample_sys 5) = None"
  using pollUntil_live [of "lvm_probe slow_oc (installodf_spec sample_odf_mem (heap sample_odf_mem 0))" 1000 slow_rt 10000 rest "sample_sys 5" waitLVM]
    slow_progress [of "installodf_spec sample_odf_mem (heap sample_odf_mem 0)" _ odfPollInterval]
  by (simp add: sample_sys_def odfPollInterval_def waitLVM_def)

end
