(* ===== verification/Redhat.thy ===== *)
theory Redhat
  imports HostProviders OpenShift
begin

text \<open>
  The package \<open>providers/redhat\<close>: the device login at Red Hat's single sign-on and the download of
  the pull secret. The fetcher is a record that its operations return changed; \<open>interval\<close> is the
  64-bit number of nanoseconds of the code, \<open>fExpiresAt\<close> a time of day in milliseconds. The HTTP
  client is a parameter.
\<close>

record http_request =
  rqURL :: string
  rqHeader :: "(string \<times> string) list"
  rqBody :: string

record 'x http_client =
  hc_new_request :: "string \<Rightarrow> error option"
  hc_post :: "http_request \<Rightarrow> ('x sys, http_response result) io"

definition DefaultSSORealmURL :: string where
  "DefaultSSORealmURL = ''https://sso.redhat.com/auth/realms/redhat-external''"
definition DefaultAPIURL :: string where "DefaultAPIURL = ''https://api.openshift.com''"
definition clientID :: string where "clientID = ''ocm-cli''"
definition deviceGrantType :: string where "deviceGrantType = ''urn:ietf:params:oauth:grant-type:device_code''"
definition second_ns :: "64 word" where "second_ns = 1000000000"
definition defaultInterval :: "64 word" where "defaultInterval = 5 * second_ns"
definition slowDownIncrement :: "64 word" where "slowDownIncrement = 5 * second_ns"

record fetcher =
  fSSORealmURL :: string
  fAPIURL :: string
  fDeviceCode :: string
  fInterval :: "64 word"
  fExpiresAt :: int

definition NewFetcher :: "string \<Rightarrow> string \<Rightarrow> fetcher" where
  "NewFetcher ssoRealmURL apiURL =
     (let strip = trim_right_by (\<lambda>c. c = CHR ''/'') in
      \<lparr>fSSORealmURL = strip ssoRealmURL, fAPIURL = strip apiURL, fDeviceCode = [], fInterval = 0, fExpiresAt = 0\<rparr>)"

section \<open>Posting forms\<close>

text \<open>\<open>url.QueryEscape\<close> and \<open>url.Values.Encode\<close>, which sorts the form by its keys.\<close>

definition query_escape_char :: "char \<Rightarrow> string" where
  "query_escape_char c =
     (if CHR ''a'' \<le> c \<and> c \<le> CHR ''z'' \<or> CHR ''A'' \<le> c \<and> c \<le> CHR ''Z'' \<or> is_digit c \<or> c \<in> set ''-_.~'' then [c]
      else if c = CHR '' '' then ''+''
      else CHR 0x25 # to_upper (hex2 (of_char c)))"

definition query_escape :: "string \<Rightarrow> string" where
  "query_escape s = concat (map query_escape_char s)"

definition form_encode :: "(string \<times> string) list \<Rightarrow> string" where
  "form_encode kvs = joined ''&'' (map (\<lambda>(k, v). query_escape k @ ''='' @ query_escape v) kvs)"

definition send :: "'x http_client \<Rightarrow> http_request \<Rightarrow> ('x sys, (nat \<times> string) result) io" where
  "send h rq =
     io_try (hc_post h rq) (\<lambda>resp. io_ret (case hrReadErr resp of
       Some e \<Rightarrow> Inl e | None \<Rightarrow> Inr (hrStatus resp, hrBody resp)))"

definition postForm :: "'x http_client \<Rightarrow> string \<Rightarrow> (string \<times> string) list \<Rightarrow> ('x sys, (nat \<times> string) result) io" where
  "postForm h endpoint form =
     (case hc_new_request h endpoint of
        Some e \<Rightarrow> io_ret (Inl e)
      | None \<Rightarrow> send h \<lparr>rqURL = endpoint, rqHeader = [(''Content-Type'', ''application/x-www-form-urlencoded'')],
                       rqBody = form_encode form\<rparr>)"

section \<open>Starting the login\<close>

text \<open>A Go \<open>int\<close>: the literal must be an integer within 64 bits.\<close>

definition as_int :: "json option \<Rightarrow> int option" where
  "as_int j = (case j of None \<Rightarrow> Some 0 | Some JNull \<Rightarrow> Some 0 | Some (JNum s) \<Rightarrow> atoi s | _ \<Rightarrow> None)"

definition as_int_ptr :: "json option \<Rightarrow> int option option" where
  "as_int_ptr j = (case j of None \<Rightarrow> Some None | Some JNull \<Rightarrow> Some None | _ \<Rightarrow> map_option Some (as_int j))"

record device_response =
  drDeviceCode :: string
  drUserCode :: string
  drVerificationURI :: string
  drExpiresIn :: int
  drInterval :: "int option"

definition decode_device :: "string \<Rightarrow> device_response option" where
  "decode_device body =
     (case Option.bind (json_parse body) (\<lambda>j. as_struct (Some j)) of
        None \<Rightarrow> None
      | Some j \<Rightarrow>
          (case (as_string (struct_field j ''device_code''), as_string (struct_field j ''user_code''),
                 as_string (struct_field j ''verification_uri''), as_int (struct_field j ''expires_in''),
                 as_int_ptr (struct_field j ''interval'')) of
             (Some d, Some u, Some v, Some e, Some i) \<Rightarrow>
               Some \<lparr>drDeviceCode = d, drUserCode = u, drVerificationURI = v, drExpiresIn = e, drInterval = i\<rparr>
           | _ \<Rightarrow> None))"

text \<open>\<open>time.Duration(n) * time.Second\<close> in 64 bits, and the milliseconds of a duration.\<close>

definition seconds :: "int \<Rightarrow> 64 word" where "seconds n = of_int n * second_ns"
definition duration_ms :: "64 word \<Rightarrow> int" where "duration_ms d = sint d div 1000000"

definition StartDeviceAuth :: "'x rt \<Rightarrow> 'x http_client \<Rightarrow> fetcher \<Rightarrow> ('x sys, device_auth_prompt result \<times> fetcher) io" where
  "StartDeviceAuth rt h f =
     io_bind (postForm h (fSSORealmURL f @ ''/protocol/openid-connect/auth/device'') [(''client_id'', clientID)]) (\<lambda>r. case r of
       Inl e \<Rightarrow> io_ret (Inl (Wrapf ''request device code from Red Hat SSO: %w'' [] e), f)
     | Inr (status, body) \<Rightarrow>
         if status \<noteq> 200
         then io_ret (Inl (Errorf ''device-code request to Red Hat SSO returned HTTP %d: %s'' [nat_str status, body]), f)
         else (case decode_device body of
           None \<Rightarrow> io_ret (Inl (Wrapf ''parse device code response: %w'' [] (ExtErr ''invalid JSON'')), f)
         | Some resp \<Rightarrow> (\<lambda>s.
             (let f' = f\<lparr>fDeviceCode := drDeviceCode resp,
                         fInterval := (case drInterval resp of None \<Rightarrow> defaultInterval | Some i \<Rightarrow> seconds i),
                         fExpiresAt := int (rt_now rt (rest s)) + duration_ms (seconds (drExpiresIn resp))\<rparr>
              in io_ret (Inr \<lparr>dapVerificationURI = drVerificationURI resp, dapUserCode = drUserCode resp\<rparr>, f') s))))"

section \<open>Waiting for the user\<close>

definition token_form :: "fetcher \<Rightarrow> (string \<times> string) list" where
  "token_form f = [(''client_id'', clientID), (''device_code'', fDeviceCode f), (''grant_type'', deviceGrantType)]"

text \<open>A member of a small answer, decoded without (\<open>Some\<close>) or with an error.\<close>

definition string_member :: "string \<Rightarrow> string \<Rightarrow> string option" where
  "string_member key body =
     Option.bind (Option.bind (json_parse body) (\<lambda>j. as_struct (Some j))) (\<lambda>j. as_string (struct_field j key))"

definition expired_error :: error where
  "expired_error = Errorf ''the device code expired before the login was authorized; run the command again'' []"

datatype poll_verdict = Decided "string result" | KeepPolling | SlowDown

definition token_verdict :: "(nat \<times> string) result \<Rightarrow> poll_verdict" where
  "token_verdict r =
     (case r of
        Inl e \<Rightarrow> Decided (Inl (Wrapf ''poll Red Hat SSO token endpoint: %w'' [] e))
      | Inr (status, body) \<Rightarrow>
          if status = 200
          then (case string_member ''access_token'' body of
                  None \<Rightarrow> Decided (Inl (Errorf ''parse token response: %v (body: %s)'' [''invalid JSON'', body]))
                | Some [] \<Rightarrow> Decided (Inl (Errorf ''parse token response: %v (body: %s)'' [''<nil>'', body]))
                | Some tok \<Rightarrow> Decided (Inr tok))
          else (let code = (case string_member ''error'' body of None \<Rightarrow> [] | Some c \<Rightarrow> c) in
            if code = ''authorization_pending'' then KeepPolling
            else if code = ''slow_down'' then SlowDown
            else if code = ''expired_token'' then Decided (Inl expired_error)
            else if code = ''access_denied'' then Decided (Inl (Errorf ''the login request was denied'' []))
            else Decided (Inl (Errorf ''token request to Red Hat SSO returned HTTP %d: %s'' [nat_str status, body]))))"

definition slowed :: "poll_verdict \<Rightarrow> fetcher \<Rightarrow> fetcher" where
  "slowed v f = (if v = SlowDown then f\<lparr>fInterval := fInterval f + slowDownIncrement\<rparr> else f)"

definition token_endpoint :: "fetcher \<Rightarrow> string" where
  "token_endpoint f = fSSORealmURL f @ ''/protocol/openid-connect/token''"

text \<open>
  The loop of \<open>pollToken\<close>: \<open>left\<close> is the time to the expiry of the code when it starts, \<open>el\<close> the
  time since. A wait of a non-positive interval ends at once.
\<close>

function poll_token :: "'x rt \<Rightarrow> 'x http_client \<Rightarrow> fetcher \<Rightarrow> int \<Rightarrow> nat \<Rightarrow> 'x sys \<Rightarrow> (string result \<times> fetcher) \<times> nat \<times> 'x sys" where
  "poll_token rt h f left el s =
     (case postForm h (token_endpoint f) (token_form f) s of (r, t, s1) \<Rightarrow>
        (case token_verdict r of
           Decided a \<Rightarrow> ((a, f), t, s1)
         | v \<Rightarrow>
             if left < int (el + t) then ((Inl expired_error, slowed v f), t, s1)
             else (case pause rt (nat (duration_ms (fInterval (slowed v f)))) s1 of (c, u, s2) \<Rightarrow>
               if c then ((Inl ErrCanceled, slowed v f), t + u, s2)
               else (case poll_token rt h (slowed v f) left (el + t + u) s2 of (a, w, s3) \<Rightarrow> (a, t + u + w, s3)))))"
  by pat_completeness auto

termination
  by (relation "measure (\<lambda>(rt, h, f, left, el, s). nat (left + 1 - int el))") (auto dest!: pause_positive [OF sym])

declare poll_token.simps [simp del]

definition pollToken :: "'x rt \<Rightarrow> 'x http_client \<Rightarrow> fetcher \<Rightarrow> ('x sys, string result \<times> fetcher) io" where
  "pollToken rt h f s = poll_token rt h f (fExpiresAt f - int (rt_now rt (rest s))) 0 s"

definition fetchPullSecret :: "'x http_client \<Rightarrow> fetcher \<Rightarrow> string \<Rightarrow> ('x sys, string result) io" where
  "fetchPullSecret h f token =
     (let endpoint = fAPIURL f @ ''/api/accounts_mgmt/v1/access_token'' in
      case hc_new_request h endpoint of
        Some e \<Rightarrow> io_ret (Inl e)
      | None \<Rightarrow>
          io_bind (hc_post h \<lparr>rqURL = endpoint, rqHeader = [(''Authorization'', ''Bearer '' @ token)], rqBody = []\<rparr>) (\<lambda>r.
            io_ret (case r of
              Inl e \<Rightarrow> Inl (Wrapf ''fetch pull secret from %s: %w'' [fAPIURL f] e)
            | Inr resp \<Rightarrow>
                (case hrReadErr resp of
                   Some e \<Rightarrow> Inl (Wrapf ''read pull secret response: %w'' [] e)
                 | None \<Rightarrow>
                     if hrStatus resp < 200 \<or> 299 < hrStatus resp
                     then Inl (Errorf ''OCM pull secret endpoint returned HTTP %d: %s'' [nat_str (hrStatus resp), hrBody resp])
                     else Inr (hrBody resp)))))"

definition WaitAndFetch :: "'x rt \<Rightarrow> 'x http_client \<Rightarrow> fetcher \<Rightarrow> ('x sys, string result \<times> fetcher) io" where
  "WaitAndFetch rt h f =
     (if fDeviceCode f = []
      then io_ret (Inl (Errorf ''device login not started (StartDeviceAuth must be called first)'' []), f)
      else io_bind (pollToken rt h f) (\<lambda>(r, f'). case r of
        Inl e \<Rightarrow> io_ret (Inl e, f')
      | Inr token \<Rightarrow> io_bind (fetchPullSecret h f' token) (\<lambda>a. io_ret (a, f'))))"

section \<open>What the login returns\<close>

lemma token_verdict_token:
  "token_verdict r = Decided (Inr tok) \<Longrightarrow>
     \<exists>body. r = Inr (200, body) \<and> string_member ''access_token'' body = Some tok \<and> tok \<noteq> []"
  by (auto simp: token_verdict_def Let_def split: sum.splits prod.splits if_splits option.splits list.splits)

lemma slowed_simps [simp]:
  "fSSORealmURL (slowed v f) = fSSORealmURL f" "fAPIURL (slowed v f) = fAPIURL f" "fDeviceCode (slowed v f) = fDeviceCode f"
  by (simp_all add: slowed_def)

lemma token_endpoint_slowed [simp]: "token_endpoint (slowed v f) = token_endpoint f" "token_form (slowed v f) = token_form f"
  by (simp_all add: token_endpoint_def token_form_def)

lemma poll_token_sound:
  "poll_token rt h f left el s = ((Inr tok, f'), w, s') \<Longrightarrow>
     (\<exists>s1 body. res (postForm h (token_endpoint f) (token_form f)) s1 = Inr (200, body) \<and>
        after (postForm h (token_endpoint f) (token_form f)) s1 = s' \<and>
        string_member ''access_token'' body = Some tok \<and> tok \<noteq> []) \<and> fAPIURL f' = fAPIURL f"
proof (induction rt h f left el s arbitrary: w s' rule: poll_token.induct)
  case (1 rt h f left el s)
  obtain r t s1 where p: "postForm h (token_endpoint f) (token_form f) s = (r, t, s1)"
    by (cases "postForm h (token_endpoint f) (token_form f) s")
  obtain c u s2 where q: "pause rt (nat (duration_ms (fInterval (slowed (token_verdict r) f)))) s1 = (c, u, s2)"
    by (cases "pause rt (nat (duration_ms (fInterval (slowed (token_verdict r) f)))) s1")
  show ?case
  proof (cases "\<exists>a. token_verdict r = Decided a")
    case True
    then have "token_verdict r = Decided (Inr tok)" "f' = f" "s' = s1"
      using 1(3) p by (auto simp: poll_token.simps [of rt h f left el s])
    then show ?thesis using p token_verdict_token by (auto simp: res_def after_def intro!: exI [of _ s])
  next
    case False
    obtain a w3 s3 where l: "poll_token rt h (slowed (token_verdict r) f) left (el + t + u) s2 = (a, w3, s3)"
      by (cases "poll_token rt h (slowed (token_verdict r) f) left (el + t + u) s2")
    have go: "\<not> left < int (el + t)" "\<not> c" "a = (Inr tok, f')" "s3 = s'"
      using 1(3) p q l False by (auto simp: poll_token.simps [of rt h f left el s] split: poll_verdict.splits if_splits)
    then have l': "poll_token rt h (slowed (token_verdict r) f) left (el + t + u) s2 = ((Inr tok, f'), w3, s')" using l by simp
    show ?thesis
    proof (cases "token_verdict r")
      case KeepPolling
      with 1(1) p q go l' show ?thesis by (auto simp: slowed_def)
    next
      case SlowDown
      with 1(2) p q go l' show ?thesis by auto
    qed (use False in auto)
  qed
qed

definition bearer_request :: "fetcher \<Rightarrow> string \<Rightarrow> http_request" where
  "bearer_request f token =
     \<lparr>rqURL = fAPIURL f @ ''/api/accounts_mgmt/v1/access_token'', rqHeader = [(''Authorization'', ''Bearer '' @ token)], rqBody = []\<rparr>"

lemma fetchPullSecret_secret:
  "res (fetchPullSecret h f token) s = Inr secret \<Longrightarrow>
     \<exists>resp. res (hc_post h (bearer_request f token)) s = Inr resp \<and> 200 \<le> hrStatus resp \<and> hrStatus resp \<le> 299 \<and>
       hrReadErr resp = None \<and> secret = hrBody resp"
  by (auto simp: fetchPullSecret_def bearer_request_def Let_def split: option.splits sum.splits if_splits)

text \<open>C24. A pull secret comes only from a login that was started and authorized: the token endpoint answered 200
  with a token, and the accounts service answered the request with this token in the header with a
  success status and the secret as its body.\<close>

theorem WaitAndFetch_sound:
  assumes "res (WaitAndFetch rt h f) s = (Inr secret, f')"
  shows "fDeviceCode f \<noteq> [] \<and>
    (\<exists>s1 body token resp.
       res (postForm h (token_endpoint f) (token_form f)) s1 = Inr (200, body) \<and>
       string_member ''access_token'' body = Some token \<and> token \<noteq> [] \<and>
       res (hc_post h (bearer_request f token)) (after (postForm h (token_endpoint f) (token_form f)) s1) = Inr resp \<and>
       200 \<le> hrStatus resp \<and> hrStatus resp \<le> 299 \<and> secret = hrBody resp)"
proof -
  let ?left = "fExpiresAt f - int (rt_now rt (rest s))"
  obtain a f1 w s2 where l: "poll_token rt h f ?left 0 s = ((a, f1), w, s2)"
    by (cases "poll_token rt h f ?left 0 s") (metis prod.exhaust_sel)
  then have p: "res (pollToken rt h f) s = (a, f1)" "after (pollToken rt h f) s = s2"
    by (simp_all add: pollToken_def res_def after_def)
  have d: "fDeviceCode f \<noteq> []" using assms by (auto simp: WaitAndFetch_def)
  obtain token where a: "a = Inr token" using assms d p by (cases a) (auto simp: WaitAndFetch_def)
  have "res (fetchPullSecret h f1 token) s2 = Inr secret" using assms d p a by (auto simp: WaitAndFetch_def)
  moreover have "bearer_request f1 token = bearer_request f token"
    using poll_token_sound [OF l [unfolded a]] by (simp add: bearer_request_def)
  ultimately obtain resp where "res (hc_post h (bearer_request f token)) s2 = Inr resp" "200 \<le> hrStatus resp"
      "hrStatus resp \<le> 299" "secret = hrBody resp"
    using fetchPullSecret_secret by metis
  then show ?thesis using poll_token_sound [OF l [unfolded a]] d by blast
qed

text \<open>A server that reports a pending login once and then hands out the token.\<close>

definition sample_answer_body :: "string \<Rightarrow> string \<Rightarrow> string" where
  "sample_answer_body k v = (let q = (\<lambda>w. [CHR 0x22] @ w @ [CHR 0x22]) in ''{'' @ q k @ '':'' @ q v @ ''}'')"

definition sample_http :: "nat http_client" where
  "sample_http =
     \<lparr>hc_new_request = (\<lambda>_. None),
      hc_post = (\<lambda>rq s. (Inr (if rqBody rq = [] then \<lparr>hrStatus = 200, hrBody = ''secret'', hrReadErr = None\<rparr>
         else if rest s = 0 then \<lparr>hrStatus = 400, hrBody = sample_answer_body ''error'' ''authorization_pending'', hrReadErr = None\<rparr>
         else \<lparr>hrStatus = 200, hrBody = sample_answer_body ''access_token'' ''tok'', hrReadErr = None\<rparr>), 10, s\<lparr>rest := rest s + 1\<rparr>))\<rparr>"

definition sample_fetcher :: fetcher where
  "sample_fetcher =
     \<lparr>fSSORealmURL = ''https://sso'', fAPIURL = ''https://api'', fDeviceCode = ''dev'', fInterval = 0, fExpiresAt = 600000\<rparr>"

lemma sample_members:
  "string_member ''error'' (sample_answer_body ''error'' ''authorization_pending'') = Some ''authorization_pending''"
  "string_member ''access_token'' (sample_answer_body ''access_token'' ''tok'') = Some ''tok''"
  "form_encode (token_form sample_fetcher) \<noteq> []"
  by code_simp+

lemma sample_post:
  "postForm sample_http url (token_form sample_fetcher) s =
     (Inr (if rest s = 0 then (400, sample_answer_body ''error'' ''authorization_pending'')
           else (200, sample_answer_body ''access_token'' ''tok'')), 10, s\<lparr>rest := rest s + 1\<rparr>)"
  using sample_members(3) by (simp add: postForm_def send_def sample_http_def io_try_def io_bind_def io_ret_def)

lemma sample_poll:
  "poll_token sample_rt sample_http sample_fetcher 600000 0 (sample_sys 0) = ((Inr ''tok'', sample_fetcher), 21, (sample_sys 0)\<lparr>rest := 2\<rparr>)"
proof -
  have i: "duration_ms (fInterval sample_fetcher) = 0" by (simp add: duration_ms_def sample_fetcher_def)
  have v: "token_verdict (Inr (400, sample_answer_body ''error'' ''authorization_pending'')) = KeepPolling"
    "token_verdict (Inr (200, sample_answer_body ''access_token'' ''tok'')) = Decided (Inr ''tok'')"
    by (simp_all add: token_verdict_def sample_members)
  have "poll_token sample_rt sample_http sample_fetcher 600000 11 ((sample_sys 0)\<lparr>rest := 1\<rparr>) =
      ((Inr ''tok'', sample_fetcher), 10, (sample_sys 0)\<lparr>rest := 2\<rparr>)"
    by (subst poll_token.simps) (simp add: sample_post v)
  then show ?thesis
    by (subst poll_token.simps) (simp add: sample_post v slowed_def i pause_def sample_rt_def sample_sys_def)
qed

lemma sample_fetch: "res (fetchPullSecret sample_http f tok) s = Inr ''secret''"
  by (simp add: fetchPullSecret_def) (simp add: sample_http_def res_def io_bind_def io_ret_def)

lemma WaitAndFetch_sound_witness:
  "\<exists>s1 body token resp.
     res (postForm sample_http (token_endpoint sample_fetcher) (token_form sample_fetcher)) s1 = Inr (200, body) \<and>
     string_member ''access_token'' body = Some token \<and>
     res (hc_post sample_http (bearer_request sample_fetcher token))
       (after (postForm sample_http (token_endpoint sample_fetcher) (token_form sample_fetcher)) s1) = Inr resp \<and>
     ''secret'' = hrBody resp"
proof -
  have "res (pollToken sample_rt sample_http sample_fetcher) (sample_sys 0) = (Inr ''tok'', sample_fetcher)"
    using sample_poll by (simp add: pollToken_def res_def sample_rt_def sample_fetcher_def)
  then have "res (WaitAndFetch sample_rt sample_http sample_fetcher) (sample_sys 0) = (Inr ''secret'', sample_fetcher)"
    by (simp add: WaitAndFetch_def sample_fetch) (simp add: sample_fetcher_def)
  from WaitAndFetch_sound [OF this] show ?thesis by blast
qed

end
