(* ===== verification/Truststore.thy ===== *)
theory Truststore
  imports HostProviders
begin

text \<open>
  The package \<open>providers/truststore\<close>: installing the local CA into the trust stores of the host.
  The probes of the installer are a record, as in the code; \<open>ts_glob\<close> is \<open>filepath.Glob\<close>, whose
  error the code drops.
\<close>

definition anchorName :: string where "anchorName = ''easyshift-local-ca.crt''"
definition nssNickname :: string where "nssNickname = ''easyshift local CA''"
definition fedoraAnchors :: string where "fedoraAnchors = ''/etc/pki/ca-trust/source/anchors''"
definition debianAnchors :: string where "debianAnchors = ''/usr/local/share/ca-certificates''"
definition systemKeychain :: string where "systemKeychain = ''/Library/Keychains/System.keychain''"

record 's ts_installer =
  ts_cmd :: "'s command_runner"
  ts_goos :: string
  ts_home :: string
  ts_pathExists :: "string \<Rightarrow> ('s, bool) io"
  ts_lookPath :: "string \<Rightarrow> ('s, error option) io"
  ts_glob :: "string \<Rightarrow> ('s, string list) io"

text \<open>\<open>New\<close>: an unknown home directory is the empty string.\<close>

definition new_truststore :: "'x rt \<Rightarrow> 'x host_rt \<Rightarrow> (string \<Rightarrow> ('x sys, string list) io) \<Rightarrow>
    ('x sys) command_runner \<Rightarrow> ('x sys) ts_installer" where
  "new_truststore rt h glob cmd =
     \<lparr>ts_cmd = cmd, ts_goos = GOOS rt, ts_home = (case UserHomeDir rt of Inl _ \<Rightarrow> [] | Inr p \<Rightarrow> p),
      ts_pathExists = os_exists rt, ts_lookPath = look_path h, ts_glob = glob\<rparr>"

definition ts_run :: "'s ts_installer \<Rightarrow> string \<Rightarrow> string list \<Rightarrow> ('s, error option) io" where
  "ts_run t name args = io_bind (Cmd_Run (ts_cmd t) name args) (\<lambda>(_, err). io_ret err)"

definition anchor :: "string \<Rightarrow> string" where "anchor dir = path_join [dir, anchorName]"

text \<open>The stores of Fedora and Debian: \<open>k dir refresh\<close> with the command that rereads them.\<close>

definition linux_store :: "'s ts_installer \<Rightarrow> (string \<Rightarrow> string list \<Rightarrow> ('s, error option) io) \<Rightarrow>
    ('s, error option) io \<Rightarrow> ('s, error option) io" where
  "linux_store t k none =
     io_bind (ts_pathExists t fedoraAnchors) (\<lambda>fedora.
       if fedora then k fedoraAnchors [''update-ca-trust'', ''extract'']
       else io_bind (ts_pathExists t debianAnchors) (\<lambda>debian.
         if debian then k debianAnchors [''update-ca-certificates''] else none))"

definition installSystem :: "'s ts_installer \<Rightarrow> string \<Rightarrow> ('s, error option) io" where
  "installSystem t caCertPath =
     (if ts_goos t = ''darwin''
      then ts_run t ''sudo'' [''security'', ''add-trusted-cert'', ''-d'', ''-r'', ''trustRoot'', ''-k'', systemKeychain, caCertPath]
      else linux_store t
        (\<lambda>dir refresh. io_seq (ts_run t ''sudo'' [''cp'', caCertPath, anchor dir]) (ts_run t ''sudo'' refresh))
        (io_ret (Some (Errorf ''no known system trust store found (looked for %s and %s)'' [fedoraAnchors, debianAnchors]))))"

section \<open>The NSS databases\<close>

fun existing :: "'s ts_installer \<Rightarrow> (string \<Rightarrow> string) \<Rightarrow> string list \<Rightarrow> ('s, string list) io" where
  "existing t probe [] = io_ret []"
| "existing t probe (m # ms) =
     io_bind (ts_pathExists t (probe m)) (\<lambda>b.
     io_bind (existing t probe ms) (\<lambda>dirs. io_ret (if b then m # dirs else dirs)))"

fun profile_dirs :: "'s ts_installer \<Rightarrow> string list \<Rightarrow> ('s, string list) io" where
  "profile_dirs t [] = io_ret []"
| "profile_dirs t (g # gs) =
     io_bind (ts_glob t g) (\<lambda>matches.
     io_bind (existing t (\<lambda>m. path_join [m, ''cert9.db'']) matches) (\<lambda>dirs.
     io_bind (profile_dirs t gs) (\<lambda>ds. io_ret (dirs @ ds))))"

definition profile_globs :: "string \<Rightarrow> string list" where
  "profile_globs home =
     [path_join [home, ''.mozilla'', ''firefox'', ''*''],
      path_join [home, ''snap'', ''firefox'', ''common'', ''.mozilla'', ''firefox'', ''*''],
      path_join [home, ''.var'', ''app'', ''org.mozilla.firefox'', ''.mozilla'', ''firefox'', ''*''],
      path_join [home, ''Library'', ''Application Support'', ''Firefox'', ''Profiles'', ''*'']]"

text \<open>A failure of \<open>fn\<close> is only logged.\<close>

fun each_dir :: "(string \<Rightarrow> ('s, error option) io) \<Rightarrow> string list \<Rightarrow> ('s, unit) io" where
  "each_dir fn [] = io_ret ()"
| "each_dir fn (dir # dirs) = io_bind (fn dir) (\<lambda>_. each_dir fn dirs)"

definition eachNSSDB :: "'s ts_installer \<Rightarrow> (string \<Rightarrow> ('s, error option) io) \<Rightarrow> ('s, unit) io" where
  "eachNSSDB t fn =
     io_bind (ts_lookPath t ''certutil'') (\<lambda>e.
       if e \<noteq> None then io_ret ()
       else if ts_home t = [] then io_ret ()
       else io_bind (existing t id [path_join [ts_home t, ''.pki'', ''nssdb'']]) (\<lambda>own.
            io_bind (profile_dirs t (profile_globs (ts_home t))) (\<lambda>dirs. each_dir fn (own @ dirs))))"

definition trust_Install :: "'s ts_installer \<Rightarrow> string \<Rightarrow> ('s, error option) io" where
  "trust_Install t caCertPath =
     io_seq (installSystem t caCertPath)
       (io_bind (eachNSSDB t (\<lambda>dir. ts_run t ''certutil''
          [''-A'', ''-d'', ''sql:'' @ dir, ''-t'', ''C,,'', ''-n'', nssNickname, ''-i'', caCertPath])) (\<lambda>_. io_ret None))"

section \<open>Uninstalling\<close>

definition uninstall_keychain :: "'s ts_installer \<Rightarrow> string \<Rightarrow> ('s, error option) io" where
  "uninstall_keychain t caCertPath =
     io_bind (Cmd_Run (ts_cmd t) ''sudo'' [''security'', ''remove-trusted-cert'', ''-d'', caCertPath]) (\<lambda>(out, err).
       case err of
         Some e \<Rightarrow>
           if \<not> contains out ''could not be found'' then io_ret (Some (Wrapf ''remove trust settings: %w'' [] e))
           else io_bind (ts_run t ''sudo'' [''security'', ''delete-certificate'', ''-c'', nssNickname, systemKeychain]) (\<lambda>_. io_ret None)
       | None \<Rightarrow> io_bind (ts_run t ''sudo'' [''security'', ''delete-certificate'', ''-c'', nssNickname, systemKeychain]) (\<lambda>_. io_ret None))"

definition trust_Uninstall :: "'s ts_installer \<Rightarrow> string \<Rightarrow> ('s, error option) io" where
  "trust_Uninstall t caCertPath =
     io_seq
       (if ts_goos t = ''darwin'' then uninstall_keychain t caCertPath
        else linux_store t
          (\<lambda>dir refresh. io_seq (ts_run t ''sudo'' [''rm'', ''-f'', anchor dir]) (ts_run t ''sudo'' refresh)) (io_ret None))
       (io_bind (eachNSSDB t (\<lambda>dir. ts_run t ''certutil'' [''-D'', ''-d'', ''sql:'' @ dir, ''-n'', nssNickname])) (\<lambda>_. io_ret None))"

definition truststore_installer :: "'s ts_installer \<Rightarrow> 's trust_store_installer" where
  "truststore_installer t = \<lparr>Ts_Install = trust_Install t, Ts_Uninstall = trust_Uninstall t\<rparr>"

section \<open>The databases are best effort\<close>

text \<open>Whatever \<open>certutil\<close> does, the verdict of installing is that of the system store.\<close>

lemma trust_Install_verdict: "res (trust_Install t ca) s = res (installSystem t ca) s"
  by (simp add: trust_Install_def split: option.splits)

lemma trust_Uninstall_darwin:
  "ts_goos t = ''darwin'' \<Longrightarrow> res (trust_Uninstall t ca) s = res (uninstall_keychain t ca) s"
  by (simp add: trust_Uninstall_def split: option.splits)

end
