(* ===== verification/Certificates.thy ===== *)
theory Certificates
  imports StagesInstall
begin

text \<open>
  The certificate issuers: \<open>providers/localca\<close> (a CA of the host, persisted in the configuration
  directory), \<open>providers/tls\<close> (Let's Encrypt through \<open>lego\<close>) and \<open>app/localca.go\<close>.

  \<open>crypto\<close> is given by the record \<open>pki\<close>: \<open>'c\<close> are certificates, \<open>'k\<close> private keys. The
  contract of the formats (\<open>lawful_pki\<close>: what is encoded is read back) is a named hypothesis of
  the lemmas that need it.
\<close>

section \<open>The local CA\<close>

datatype key_usage = DigitalSignature | CertSign | CRLSign

record cert_template =
  ctSerial :: nat
  ctCommonName :: string
  ctNotBefore :: int
  ctNotAfter :: int
  ctKeyUsage :: "key_usage list"
  ctServerAuth :: bool
  ctIsCA :: bool
  ctDNSNames :: "string list"

text \<open>
  \<open>pki_sign tmpl parent pub priv\<close> is \<open>x509.CreateCertificate\<close>, \<open>parent = None\<close> when the template is
  its own parent; \<open>pki_parse_key\<close> gives \<open>None\<close> for a key that is not ECDSA.
\<close>

record ('x, 'c, 'k) pki =
  pki_gen_key :: "('x sys, 'k result) io"
  pki_random :: "('x sys, nat result) io"
  pki_sign :: "cert_template \<Rightarrow> 'c option \<Rightarrow> 'k \<Rightarrow> 'k \<Rightarrow> ('x sys, string result) io"
  pki_raw :: "'c \<Rightarrow> string"
  pki_parse_cert :: "string \<Rightarrow> 'c result"
  pki_marshal_key :: "'k \<Rightarrow> string result"
  pki_parse_key :: "string \<Rightarrow> 'k option result"
  pki_matches :: "'k \<Rightarrow> 'c \<Rightarrow> bool"
  pki_block :: "string \<Rightarrow> string \<Rightarrow> string"
  pki_decode :: "string \<Rightarrow> string option"

definition caCommonName :: string where "caCommonName = ''easyshift local CA''"
definition caValidity :: int where "caValidity = 10 * 365 * 24 * 3600 * 1000"
definition leafValidity :: int where "leafValidity = 825 * 24 * 3600 * 1000"

definition caCertPath :: "string \<Rightarrow> string" where "caCertPath dir = path_join [dir, ''ca.crt'']"
definition caKeyPath :: "string \<Rightarrow> string" where "caKeyPath dir = path_join [dir, ''ca.key'']"

definition randomSerial :: "('x, 'c, 'k) pki \<Rightarrow> ('x sys, nat result) io" where
  "randomSerial pk = io_bind (pki_random pk) (\<lambda>r. io_ret (case r of
     Inl e \<Rightarrow> Inl (Wrapf ''generate serial: %w'' [] e) | Inr n \<Rightarrow> Inr n))"

definition wrap_left :: "string \<Rightarrow> 'a result \<Rightarrow> 'a result" where
  "wrap_left f r = (case r of Inl e \<Rightarrow> Inl (Wrapf f [] e) | Inr x \<Rightarrow> Inr x)"

definition parse_ca :: "('x, 'c, 'k) pki \<Rightarrow> string \<Rightarrow> string \<Rightarrow> string \<Rightarrow> ('c \<times> 'k) result" where
  "parse_ca pk dir certBytes keyBytes =
     (case (pki_decode pk certBytes, pki_decode pk keyBytes) of
        (Some certBlock, Some keyBlock) \<Rightarrow>
          (case pki_parse_cert pk certBlock of
             Inl e \<Rightarrow> Inl (Wrapf ''parse local CA cert: %w'' [] e)
           | Inr cert \<Rightarrow>
               (case pki_parse_key pk keyBlock of
                  Inl e \<Rightarrow> Inl (Wrapf ''parse local CA key: %w'' [] e)
                | Inr None \<Rightarrow> Inl (Errorf ''local CA key is not ECDSA'' [])
                | Inr (Some key) \<Rightarrow>
                    if \<not> pki_matches pk key cert
                    then Inl (Errorf ''corrupt local CA in %s (cert/key mismatch; remove ca.crt and ca.key to regenerate)'' [dir])
                    else Inr (cert, key)))
      | _ \<Rightarrow> Inl (Errorf ''corrupt local CA in %s (remove ca.crt/ca.key to regenerate)'' [dir]))"

definition template_now :: "'x rt \<Rightarrow> nat \<Rightarrow> string \<Rightarrow> int \<Rightarrow> bool \<Rightarrow> string list \<Rightarrow> 'x sys \<Rightarrow> cert_template" where
  "template_now rt serial cn validity ca domains s =
     (let now = int (rt_now rt (rest s)) in
      \<lparr>ctSerial = serial, ctCommonName = cn, ctNotBefore = now - 5 * 60 * 1000, ctNotAfter = now + validity,
       ctKeyUsage = (if ca then [CertSign, CRLSign] else [DigitalSignature]), ctServerAuth = \<not> ca, ctIsCA = ca,
       ctDNSNames = domains\<rparr>)"

definition sign_now :: "'x rt \<Rightarrow> ('x, 'c, 'k) pki \<Rightarrow> nat \<Rightarrow> string \<Rightarrow> int \<Rightarrow> string list \<Rightarrow> 'c option \<Rightarrow> 'k \<Rightarrow> 'k \<Rightarrow>
    ('x sys, string result) io" where
  "sign_now rt pk serial cn validity domains parent pub priv s =
     pki_sign pk (template_now rt serial cn validity (parent = None) domains s) parent pub priv s"

text \<open>Writing a new CA: both encodings exist before the first file is written.\<close>

definition persist_ca :: "'x rt \<Rightarrow> ('x, 'c, 'k) pki \<Rightarrow> string \<Rightarrow> 'k \<Rightarrow> string \<Rightarrow> string \<Rightarrow> ('x sys, ('c \<times> 'k) result) io" where
  "persist_ca rt pk dir key der keyDER =
     io_bind (io_seq
         (wrap_err ''write ca.crt: %w'' [] (os_write rt (caCertPath dir) (Raw (pki_block pk ''CERTIFICATE'' der))))
         (wrap_err ''write ca.key: %w'' [] (os_write rt (caKeyPath dir) (Raw (pki_block pk ''PRIVATE KEY'' keyDER))))) (\<lambda>e.
       io_ret (case e of Some e \<Rightarrow> Inl e | None \<Rightarrow> map_sum id (\<lambda>cert. (cert, key)) (pki_parse_cert pk der)))"

definition create_ca :: "'x rt \<Rightarrow> ('x, 'c, 'k) pki \<Rightarrow> string \<Rightarrow> ('x sys, ('c \<times> 'k) result) io" where
  "create_ca rt pk dir =
     io_bind (os_mkdirall rt dir) (\<lambda>e. case e of
       Some e \<Rightarrow> io_ret (Inl (Wrapf ''create CA dir: %w'' [] e))
     | None \<Rightarrow>
       io_try (io_bind (pki_gen_key pk) (\<lambda>r. io_ret (wrap_left ''generate CA key: %w'' r))) (\<lambda>key.
       io_try (randomSerial pk) (\<lambda>serial.
       io_try (io_bind (sign_now rt pk serial caCommonName caValidity [] None key key)
                 (\<lambda>r. io_ret (wrap_left ''self-sign CA: %w'' r))) (\<lambda>der.
       io_try (io_ret (wrap_left ''marshal CA key: %w'' (pki_marshal_key pk key))) (\<lambda>keyDER.
         persist_ca rt pk dir key der keyDER)))))"

text \<open>Any error of reading either file, not only its absence, leads to a new CA.\<close>

definition loadOrCreateCA :: "'x rt \<Rightarrow> ('x, 'c, 'k) pki \<Rightarrow> string \<Rightarrow> ('x sys, ('c \<times> 'k) result) io" where
  "loadOrCreateCA rt pk dir =
     io_bind (os_read_bytes rt (caCertPath dir)) (\<lambda>c.
     io_bind (os_read_bytes rt (caKeyPath dir)) (\<lambda>k. case (c, k) of
       (Inr certBytes, Inr keyBytes) \<Rightarrow> io_ret (parse_ca pk dir certBytes keyBytes)
     | _ \<Rightarrow> create_ca rt pk dir))"

definition EnsureCA :: "'x rt \<Rightarrow> ('x, 'c, 'k) pki \<Rightarrow> string \<Rightarrow> ('x sys, string result) io" where
  "EnsureCA rt pk dir = io_try (loadOrCreateCA rt pk dir) (\<lambda>_. io_ret (Inr (caCertPath dir)))"

definition EnsureLocalCA :: "'x rt \<Rightarrow> ('x, 'c, 'k) pki \<Rightarrow> mem \<Rightarrow> ('x sys, string result) io" where
  "EnsureLocalCA rt pk m = EnsureCA rt pk (LocalCADir (ConfigDir m))"

definition ca_Issue :: "'x rt \<Rightarrow> ('x, 'c, 'k) pki \<Rightarrow> string \<Rightarrow> ('x sys) cert_issuer" where
  "ca_Issue rt pk dir domains =
     (if domains = [] then io_ret (Inl (Errorf ''no domains to issue for'' []))
      else
        io_try (loadOrCreateCA rt pk dir) (\<lambda>(caCert, caKey).
        io_try (io_bind (pki_gen_key pk) (\<lambda>r. io_ret (wrap_left ''generate leaf key: %w'' r))) (\<lambda>leafKey.
        io_try (randomSerial pk) (\<lambda>serial.
        io_try (io_bind (sign_now rt pk serial (hd domains) leafValidity domains (Some caCert) leafKey caKey)
                  (\<lambda>r. io_ret (wrap_left ''sign leaf cert: %w'' r))) (\<lambda>der.
        io_try (io_ret (wrap_left ''marshal leaf key: %w'' (pki_marshal_key pk leafKey))) (\<lambda>keyDER.
          io_ret (Inr (pki_block pk ''CERTIFICATE'' der @ pki_block pk ''CERTIFICATE'' (pki_raw pk caCert),
                       pki_block pk ''PRIVATE KEY'' keyDER))))))))"

section \<open>Let's Encrypt\<close>

text \<open>
  \<open>'r\<close> are registrations, \<open>'l\<close> clients of \<open>lego\<close>. \<open>acme_json\<close> and \<open>acme_of_json\<close> are
  \<open>json.MarshalIndent\<close> and \<open>json.Unmarshal\<close> on the account, whose registration is a type of \<open>lego\<close>.
\<close>

record ('k, 'r) acme_user =
  auEmail :: string
  auRegistration :: "'r option"
  auKey :: 'k

record ('x, 'k, 'r, 'l) acme =
  acme_gen_key :: "('x sys, 'k result) io"
  acme_marshal_key :: "'k \<Rightarrow> string result"
  acme_parse_key :: "string \<Rightarrow> 'k result"
  acme_block :: "string \<Rightarrow> string \<Rightarrow> string"
  acme_decode :: "string \<Rightarrow> string option"
  acme_json :: "('k, 'r) acme_user \<Rightarrow> string result"
  acme_of_json :: "string \<Rightarrow> ('k, 'r) acme_user \<Rightarrow> ('k, 'r) acme_user result"
  lego_client :: "('k, 'r) acme_user \<Rightarrow> bool \<Rightarrow> ('x sys, 'l result) io"
  cloudflare_provider :: "string \<Rightarrow> string result"
  lego_set_dns01 :: "'l \<Rightarrow> string \<Rightarrow> error option"
  lego_register :: "'l \<Rightarrow> ('x sys, 'r result) io"
  lego_obtain :: "'l \<Rightarrow> string list \<Rightarrow> ('x sys, (string \<times> string) result) io"

definition accountKeyPath :: "string \<Rightarrow> string" where "accountKeyPath dir = path_join [dir, ''account.key'']"
definition accountJSONPath :: "string \<Rightarrow> string" where "accountJSONPath dir = path_join [dir, ''account.json'']"

definition loadOrCreateACMEUser :: "'x rt \<Rightarrow> ('x, 'k, 'r, 'l) acme \<Rightarrow> string \<Rightarrow> string \<Rightarrow>
    ('x sys, ('k, 'r) acme_user result) io" where
  "loadOrCreateACMEUser rt ac dir email =
     io_bind (os_mkdirall rt dir) (\<lambda>e. case e of Some e \<Rightarrow> io_ret (Inl e) | None \<Rightarrow>
     io_bind (os_read_bytes rt (accountKeyPath dir)) (\<lambda>r. case r of
       Inr keyBytes \<Rightarrow>
         (case acme_decode ac keyBytes of
            None \<Rightarrow> io_ret (Inl (Errorf ''acme account.key: invalid PEM'' []))
          | Some block \<Rightarrow>
              (case acme_parse_key ac block of
                 Inl e \<Rightarrow> io_ret (Inl (Wrapf ''parse acme account key: %w'' [] e))
               | Inr key \<Rightarrow>
                   (let u = \<lparr>auEmail = email, auRegistration = None, auKey = key\<rparr> in
                    io_bind (os_read_bytes rt (accountJSONPath dir)) (\<lambda>j. io_ret (case j of
                      Inl _ \<Rightarrow> Inr u
                    | Inr dat \<Rightarrow>
                        (case acme_of_json ac dat u of
                           Inl e \<Rightarrow> Inl (Wrapf ''parse acme account.json: %w'' [] e)
                         | Inr u' \<Rightarrow> Inr (u'\<lparr>auEmail := email\<rparr>)))))))
     | Inl e \<Rightarrow>
         if \<not> error_is e ErrNotExist then io_ret (Inl e)
         else
           io_try (io_bind (acme_gen_key ac) (\<lambda>r. io_ret (wrap_left ''generate acme key: %w'' r))) (\<lambda>key.
           io_try (io_ret (acme_marshal_key ac key)) (\<lambda>der.
             io_bind (os_write rt (accountKeyPath dir) (Raw (acme_block ac ''EC PRIVATE KEY'' der))) (\<lambda>e.
               io_ret (case e of
                 Some e \<Rightarrow> Inl (Wrapf ''write acme account.key: %w'' [] e)
               | None \<Rightarrow> Inr \<lparr>auEmail = email, auRegistration = None, auKey = key\<rparr>))))))"

definition saveACMEUser :: "'x rt \<Rightarrow> ('x, 'k, 'r, 'l) acme \<Rightarrow> string \<Rightarrow> ('k, 'r) acme_user \<Rightarrow> ('x sys, error option) io" where
  "saveACMEUser rt ac dir u =
     (case acme_json ac u of Inl e \<Rightarrow> io_ret (Some e) | Inr dat \<Rightarrow> os_write rt (accountJSONPath dir) (Raw dat))"

definition newACMEDNSProvider :: "('x, 'k, 'r, 'l) acme \<Rightarrow> string \<Rightarrow> string \<Rightarrow> string result" where
  "newACMEDNSProvider ac provider token =
     (if provider = DNSProviderCloudflare
      then wrap_left ''cloudflare dns-01 provider: %w'' (cloudflare_provider ac token)
      else Inl (Errorf ''unsupported tls dns provider %q (supported: %s)'' [quoted provider, DNSProviderCloudflare]))"

definition lego_Issue :: "('x, 'k, 'r, 'l) acme \<Rightarrow> 'l \<Rightarrow> ('x sys) cert_issuer" where
  "lego_Issue ac client domains =
     (if domains = [] then io_ret (Inl (Errorf ''issue: at least one domain required'' []))
      else io_bind (lego_obtain ac client domains) (\<lambda>r. io_ret (case r of
        Inl e \<Rightarrow> Inl (Wrapf ''obtain cert for %v: %w'' [strs_text domains] e) | Inr c \<Rightarrow> Inr c)))"

definition ensure_registered :: "'x rt \<Rightarrow> ('x, 'k, 'r, 'l) acme \<Rightarrow> string \<Rightarrow> ('k, 'r) acme_user \<Rightarrow> 'l \<Rightarrow>
    ('x sys, error option) io" where
  "ensure_registered rt ac dir user client =
     (if auRegistration user \<noteq> None then io_ret None
      else io_bind (lego_register ac client) (\<lambda>r. case r of
        Inl e \<Rightarrow> io_ret (Some (Wrapf ''acme register: %w'' [] e))
      | Inr reg \<Rightarrow> wrap_err ''save acme user: %w'' [] (saveACMEUser rt ac dir (user\<lparr>auRegistration := Some reg\<rparr>))))"

definition NewIssuer :: "'x rt \<Rightarrow> ('x, 'k, 'r, 'l) acme \<Rightarrow> cert_issuer_opts \<Rightarrow> ('x sys, ('x sys) cert_issuer result) io" where
  "NewIssuer rt ac opts =
     (if coEmail opts = [] then io_ret (Inl (Errorf ''cert issuer: email required'' []))
      else if coAccountDir opts = [] then io_ret (Inl (Errorf ''cert issuer: account dir required'' []))
      else if coToken opts = [] then io_ret (Inl (Errorf ''cert issuer: dns token required'' []))
      else
        io_try (io_bind (loadOrCreateACMEUser rt ac (coAccountDir opts) (coEmail opts)) (\<lambda>r. io_ret (wrap_left ''acme user: %w'' r))) (\<lambda>user.
        io_try (io_bind (lego_client ac user (coStaging opts)) (\<lambda>r. io_ret (wrap_left ''lego client: %w'' r))) (\<lambda>client.
        io_try (io_ret (newACMEDNSProvider ac (coDNSProvider opts) (coToken opts))) (\<lambda>prov.
          case lego_set_dns01 ac client prov of
            Some e \<Rightarrow> io_ret (Inl (Wrapf ''set dns-01 provider: %w'' [] e))
          | None \<Rightarrow>
              io_bind (ensure_registered rt ac (coAccountDir opts) user client) (\<lambda>e. io_ret (case e of
                Some e \<Rightarrow> Inl e | None \<Rightarrow> Inr (lego_Issue ac client)))))))"

section \<open>The CA is stable\<close>

text \<open>What the encodings promise: PEM and the two DER formats are read back as written, and a
  certificate signed with a key by itself carries that key.\<close>

definition lawful_pki :: "('x, 'c, 'k) pki \<Rightarrow> bool" where
  "lawful_pki pk \<longleftrightarrow>
     (\<forall>t d. pki_decode pk (pki_block pk t d) = Some d) \<and>
     (\<forall>k der. pki_marshal_key pk k = Inr der \<longrightarrow> pki_parse_key pk der = Inr (Some k)) \<and>
     (\<forall>t k s der c. res (pki_sign pk t None k k) s = Inr der \<longrightarrow> pki_parse_cert pk der = Inr c \<longrightarrow> pki_matches pk k c)"

definition readable :: "'x rt \<Rightarrow> bool" where
  "readable rt \<longleftrightarrow> (\<forall>p x. fst (os_fault rt (OpRead p) x) = None)"

lemma read_bytes_plain:
  "readable rt \<Longrightarrow> res (os_read_bytes rt p) s =
     (case files s p of None \<Rightarrow> Inl ErrNotExist | Some Dir \<Rightarrow> Inl (ExtErr (''read '' @ p @ '': is a directory''))
      | Some (File c) \<Rightarrow> Inr (content_bytes c))"
  "readable rt \<Longrightarrow> files (after (os_read_bytes rt p) s) = files s"
  unfolding readable_def
  by (cases "os_fault rt (OpRead p) (rest s)";
      auto simp: os_read_bytes_def os_read_def os_call_def res_def after_def io_bind_def io_ret_def
        split: option.splits node.splits dest!: spec [of _ p] spec [of _ "rest s"])+

lemma ca_paths: "caCertPath dir \<noteq> caKeyPath dir"
proof (cases "dir = []")
  case True
  have "path_join [[], ''ca.crt''] \<noteq> path_join [[], ''ca.key'']" by code_simp
  with True show ?thesis by (simp add: caCertPath_def caKeyPath_def)
next
  case False
  then obtain p q where "caCertPath dir = p @ ''ca.crt''" "caKeyPath dir = q @ ''ca.key''"
    using path_join_file [of "''ca.crt''" "[dir]"] path_join_file [of "''ca.key''" "[dir]"]
    by (auto simp: caCertPath_def caKeyPath_def)
  then have "last (caCertPath dir) = CHR ''t''" "last (caKeyPath dir) = CHR ''y''" by simp_all
  then show ?thesis by fastforce
qed

lemma persist_ca_files:
  assumes "res (persist_ca rt pk dir key der keyDER) s = Inr (cert, key')"
  shows "key' = key \<and> pki_parse_cert pk der = Inr cert \<and>
    files (after (persist_ca rt pk dir key der keyDER) s) (caCertPath dir) = Some (File (Raw (pki_block pk ''CERTIFICATE'' der))) \<and>
    files (after (persist_ca rt pk dir key der keyDER) s) (caKeyPath dir) = Some (File (Raw (pki_block pk ''PRIVATE KEY'' keyDER)))"
proof -
  let ?c = "os_write rt (caCertPath dir) (Raw (pki_block pk ''CERTIFICATE'' der))"
  let ?k = "os_write rt (caKeyPath dir) (Raw (pki_block pk ''PRIVATE KEY'' keyDER))"
  have w: "res ?c s = None" "res ?k (after ?c s) = None" "pki_parse_cert pk der = Inr cert" "key' = key"
    using assms by (auto simp: persist_ca_def split: option.splits) (cases "pki_parse_cert pk der"; simp)+
  have "files (after ?k (after ?c s)) = (files s)(caCertPath dir \<mapsto> File (Raw (pki_block pk ''CERTIFICATE'' der)),
      caKeyPath dir \<mapsto> File (Raw (pki_block pk ''PRIVATE KEY'' keyDER)))"
    using os_write_None [OF w(1)] os_write_None [OF w(2)] by simp
  then show ?thesis using w ca_paths [of dir] by (simp add: persist_ca_def)
qed

lemma create_ca_files:
  assumes "res (create_ca rt pk dir) s = Inr (cert, key)"
  shows "\<exists>t s1 der keyDER. res (pki_sign pk t None key key) s1 = Inr der \<and> pki_marshal_key pk key = Inr keyDER \<and>
    pki_parse_cert pk der = Inr cert \<and>
    files (after (create_ca rt pk dir) s) (caCertPath dir) = Some (File (Raw (pki_block pk ''CERTIFICATE'' der))) \<and>
    files (after (create_ca rt pk dir) s) (caKeyPath dir) = Some (File (Raw (pki_block pk ''PRIVATE KEY'' keyDER)))"
proof -
  let ?s1 = "after (os_mkdirall rt dir) s"
  have m: "res (os_mkdirall rt dir) s = None" using assms by (auto simp: create_ca_def split: option.splits)
  obtain k where k: "res (pki_gen_key pk) ?s1 = Inr k"
    using assms m by (cases "res (pki_gen_key pk) ?s1") (simp_all add: create_ca_def wrap_left_def)
  let ?s2 = "after (pki_gen_key pk) ?s1"
  obtain n where n: "res (randomSerial pk) ?s2 = Inr n"
    using assms m k by (cases "res (randomSerial pk) ?s2") (simp_all add: create_ca_def wrap_left_def)
  let ?s3 = "after (randomSerial pk) ?s2"
  let ?sign = "sign_now rt pk n caCommonName caValidity [] None k k"
  obtain der where der: "res ?sign ?s3 = Inr der"
    using assms m k n by (cases "res ?sign ?s3") (simp_all add: create_ca_def wrap_left_def)
  obtain kd where kd: "pki_marshal_key pk k = Inr kd"
    using assms m k n der by (cases "pki_marshal_key pk k") (simp_all add: create_ca_def wrap_left_def)
  have s: "\<exists>t. res (pki_sign pk t None k k) ?s3 = Inr der" using der by (auto simp: sign_now_def res_def)
  have e: "res (create_ca rt pk dir) s = res (persist_ca rt pk dir k der kd) (after ?sign ?s3)"
    "after (create_ca rt pk dir) s = after (persist_ca rt pk dir k der kd) (after ?sign ?s3)"
    using m k n der kd by (simp_all add: create_ca_def wrap_left_def)
  from persist_ca_files [OF assms [unfolded e(1)]] s kd show ?thesis by (auto simp: e(2))
qed

text \<open>C14. The local CA is created once: whatever \<open>loadOrCreateCA\<close> returned, found or generated,
  the next call returns the same certificate and key and writes nothing.\<close>

theorem ca_reload:
  assumes "lawful_pki pk" "readable rt" "res (loadOrCreateCA rt pk dir) s = Inr ca"
  shows "res (loadOrCreateCA rt pk dir) (after (loadOrCreateCA rt pk dir) s) = Inr ca \<and>
    files (after (loadOrCreateCA rt pk dir) (after (loadOrCreateCA rt pk dir) s)) = files (after (loadOrCreateCA rt pk dir) s)"
proof -
  note r = read_bytes_plain [OF assms(2)]
  let ?load = "loadOrCreateCA rt pk dir"
  have again: "res ?load t = parse_ca pk dir c k \<and> files (after ?load t) = files t"
    if "files t (caCertPath dir) = Some (File cc)" "content_bytes cc = c"
      "files t (caKeyPath dir) = Some (File kc)" "content_bytes kc = k" for t c k cc kc
    using that by (simp add: loadOrCreateCA_def r)
  show ?thesis
  proof (cases "\<exists>c k. files s (caCertPath dir) = Some (File c) \<and> files s (caKeyPath dir) = Some (File k)")
    case True
    then obtain c k where f: "files s (caCertPath dir) = Some (File c)" "files s (caKeyPath dir) = Some (File k)" by blast
    note a = again [OF f(1) refl f(2) refl]
    then have "files (after ?load s) = files s" by simp
    with again [of "after ?load s" c _ k, OF _ refl _ refl] f a assms(3) show ?thesis by simp
  next
    case False
    let ?s2 = "after (os_read_bytes rt (caKeyPath dir)) (after (os_read_bytes rt (caCertPath dir)) s)"
    have c: "res ?load s = res (create_ca rt pk dir) ?s2" "after ?load s = after (create_ca rt pk dir) ?s2"
      using False by (auto simp: loadOrCreateCA_def r split: option.splits node.splits)
    obtain cert key where ca: "ca = (cert, key)" by (cases ca)
    obtain t s1 der kd where p: "res (pki_sign pk t None key key) s1 = Inr der" "pki_marshal_key pk key = Inr kd"
        "pki_parse_cert pk der = Inr cert"
        "files (after ?load s) (caCertPath dir) = Some (File (Raw (pki_block pk ''CERTIFICATE'' der)))"
        "files (after ?load s) (caKeyPath dir) = Some (File (Raw (pki_block pk ''PRIVATE KEY'' kd)))"
      using create_ca_files [of rt pk dir ?s2 cert key] assms(3) c ca by auto
    have "parse_ca pk dir (pki_block pk ''CERTIFICATE'' der) (pki_block pk ''PRIVATE KEY'' kd) = Inr ca"
      using assms(1) p(1-3) by (auto simp: lawful_pki_def parse_ca_def ca)
    with again [OF p(4) refl p(5) refl] show ?thesis by (simp add: content_bytes_def)
  qed
qed

text \<open>Keys that are numbers, certificates that are as many letters.\<close>

definition sample_pki :: "('x, string, nat) pki" where
  "sample_pki =
     \<lparr>pki_gen_key = io_ret (Inr 3), pki_random = io_ret (Inr 7),
      pki_sign = (\<lambda>t parent pub priv. io_ret (Inr (replicate pub CHR ''x''))),
      pki_raw = id, pki_parse_cert = Inr, pki_marshal_key = (\<lambda>k. Inr (replicate k CHR ''x'')),
      pki_parse_key = (\<lambda>d. Inr (Some (length d))), pki_matches = (\<lambda>k c. length c = k),
      pki_block = (\<lambda>t d. hd t # d), pki_decode = (\<lambda>b. case b of [] \<Rightarrow> None | _ # d \<Rightarrow> Some d)\<rparr>"

lemma sample_pki_lawful: "lawful_pki sample_pki"
  by (simp add: lawful_pki_def sample_pki_def)

lemma sample_rt_readable: "readable sample_rt"
  by (simp add: readable_def sample_rt_def)

lemma sample_ca: "res (loadOrCreateCA sample_rt sample_pki ''/ca'') (sample_sys ()) = Inr (''xxx'', 3)"
proof -
  have w: "res (os_write sample_rt p c) s = None" "res (os_mkdirall sample_rt ''/ca'') (sample_sys ()) = None" for p c s
    by (simp_all add: os_write_def os_mkdirall_def os_call_def sample_rt_def sample_sys_def res_def io_bind_def io_ret_def err_of_def)
  have f: "files (sample_sys ()) = (\<lambda>_. None)" "after (os_read_bytes sample_rt p) (sample_sys ()) = sample_sys ()" for p
    by (simp_all add: sample_sys_def os_read_bytes_def os_read_def os_call_def sample_rt_def after_def io_bind_def io_ret_def)
  have p: "res (pki_gen_key sample_pki) s = Inr 3" "res (randomSerial sample_pki) s = Inr 7" "pki_parse_cert sample_pki d = Inr d"
    "res (sign_now sample_rt sample_pki n cn v ds pa 3 3) s = Inr ''xxx''" "pki_marshal_key sample_pki 3 = Inr ''xxx''" for s d n cn v ds pa
    by (simp_all add: sample_pki_def sign_now_def [abs_def] randomSerial_def res_def io_bind_def io_ret_def numeral_3_eq_3)
  show ?thesis
    by (simp add: loadOrCreateCA_def read_bytes_plain [OF sample_rt_readable] f create_ca_def w p wrap_left_def persist_ca_def)
qed

lemma ca_reload_witness:
  "res (loadOrCreateCA sample_rt sample_pki ''/ca'') (after (loadOrCreateCA sample_rt sample_pki ''/ca'') (sample_sys ())) = Inr (''xxx'', 3)"
  using ca_reload [OF sample_pki_lawful sample_rt_readable sample_ca] by simp

end
