(* ===== verification/Wiring.thy ===== *)
theory Wiring
  imports Libvirt Vfkit Dns OdfFacts Redhat Truststore Certificates
begin

text \<open>
  \<open>app/deps.go\<close> and \<open>providers/fileserver\<close>: the production dependencies, assembled from the
  providers. \<open>platform\<close> collects everything outside the repository that the providers use.

  The fetcher of the pull secret is an object with state; \<open>pf_fetcher\<close> and \<open>pf_set_fetcher\<close> say
  where it lives in the rest of the world.
\<close>

record ('x, 'z, 'c, 'k, 'u, 'g, 'l) platform =
  pf_rt :: "'x rt"
  pf_exec :: "'x exec_rt"
  pf_host :: "'x host_rt"
  pf_http :: "'x http_client"
  pf_combined :: "string \<Rightarrow> string list \<Rightarrow> ('x sys, string \<times> error option) io"
  pf_split :: "string \<Rightarrow> string list \<Rightarrow> ('x sys, (string \<times> string) \<times> error option) io"
  pf_walk :: "string \<Rightarrow> ('x sys, nat list result) io"
  pf_look :: "string \<Rightarrow> ('x sys, string result) io"
  pf_glob :: "string \<Rightarrow> ('x sys, string list) io"
  pf_st_size :: "node \<Rightarrow> int"
  pf_tmp :: string
  pf_libdns :: "'z libdns"
  pf_cloudflare :: "string \<Rightarrow> ('x sys, 'z) libdns_provider"
  pf_pki :: "('x, 'c, 'k) pki"
  pf_acme :: "('x, 'u, 'g, 'l) acme"
  pf_fetcher :: "'x \<Rightarrow> fetcher"
  pf_set_fetcher :: "fetcher \<Rightarrow> 'x \<Rightarrow> 'x"

section \<open>The file server\<close>

record http_file_server =
  hfRootDir :: string
  hfPort :: int
  hfHost :: string

definition NewHTTPFileServer :: "'x rt \<Rightarrow> string \<Rightarrow> string \<Rightarrow> int \<Rightarrow> ('x sys, http_file_server result) io" where
  "NewHTTPFileServer rt rootDir host port =
     io_bind (os_mkdirall rt rootDir) (\<lambda>e. io_ret (case e of
       Some e \<Rightarrow> Inl (Wrapf ''create HTTP root: %w'' [] e)
     | None \<Rightarrow> Inr \<lparr>hfRootDir = rootDir, hfPort = port, hfHost = host\<rparr>))"

definition BaseURL :: "http_file_server \<Rightarrow> string" where
  "BaseURL f = ''http://'' @ hfHost f @ '':'' @ int_str (hfPort f)"

definition fs_EnsureClusterDir :: "'x rt \<Rightarrow> http_file_server \<Rightarrow> string \<Rightarrow> ('x sys, string result) io" where
  "fs_EnsureClusterDir rt f clusterName =
     (let dir = path_join [hfRootDir f, clusterName] in
      io_bind (os_mkdirall rt dir) (\<lambda>e. io_ret (case e of Some e \<Rightarrow> Inl e | None \<Rightarrow> Inr dir)))"

text \<open>
  Serving goes on in the background: \<open>Start\<close> only begins it, and \<open>Stop\<close> ends it. A request is answered from
  the files by \<open>http.FileServer(http.Dir(rootDir))\<close>: its path is cleaned below the root. Directory
  listings and the redirect of \<open>index.html\<close> are left out.
\<close>

definition fs_Start :: "http_file_server \<Rightarrow> ('s, error option) io" where
  "fs_Start f = io_ret None"

definition http_get :: "http_file_server \<Rightarrow> (string \<Rightarrow> node option) \<Rightarrow> string \<Rightarrow> content option" where
  "http_get f fs p =
     (case fs (path_join [hfRootDir f, path_clean (''/'' @ p)]) of Some (File c) \<Rightarrow> Some c | _ \<Rightarrow> None)"

definition http_file_server_view :: "http_file_server \<Rightarrow> file_server" where
  "http_file_server_view f = \<lparr>Fs_RootDir = hfRootDir f, Fs_BaseURL = BaseURL f\<rparr>"

section \<open>The dependencies\<close>

definition on_fetcher :: "('x, 'z, 'c, 'k, 'u, 'g, 'l) platform \<Rightarrow> (fetcher \<Rightarrow> ('x sys, 'a \<times> fetcher) io) \<Rightarrow> ('x sys, 'a) io" where
  "on_fetcher p act s =
     (case act (pf_fetcher p (rest s)) s of ((a, f), t, s') \<Rightarrow> (a, t, s'\<lparr>rest := pf_set_fetcher p f (rest s')\<rparr>))"

definition redhat_fetcher :: "('x, 'z, 'c, 'k, 'u, 'g, 'l) platform \<Rightarrow> ('x sys) pull_secret_fetcher" where
  "redhat_fetcher p =
     \<lparr>Ps_StartDeviceAuth = on_fetcher p (StartDeviceAuth (pf_rt p) (pf_http p)),
      Ps_WaitAndFetch = on_fetcher p (WaitAndFetch (pf_rt p) (pf_http p))\<rparr>"

definition platform_cmd :: "('x, 'z, 'c, 'k, 'u, 'g, 'l) platform \<Rightarrow> ('x sys) command_runner" where
  "platform_cmd p = ExecCommandRunner (pf_combined p) (pf_split p)"

text \<open>\<open>baseDeps\<close> leaves the machines and the network to its caller: they are arguments here.\<close>

definition baseDeps :: "('x, 'z, 'c, 'k, 'u, 'g, 'l) platform \<Rightarrow> mem \<Rightarrow> string \<Rightarrow> ('x sys) vm_manager \<Rightarrow>
    ('x sys) network_provisioner \<Rightarrow> ('x sys, ('x sys) deps result) io" where
  "baseDeps p cfg hostIP vm net =
     (let rt = pf_rt p; cmd = platform_cmd p in
      io_bind (NewHTTPFileServer rt (path_join [ConfigDir cfg, ''http'']) hostIP (WebPort cfg)) (\<lambda>r. case r of
        Inl e \<Rightarrow> io_ret (Inl (Wrapf ''init file server: %w'' [] e))
      | Inr fsrv \<Rightarrow>
        io_bind (newProductionDNSManager rt (pf_libdns p) (pf_cloudflare p) (ConfigDir cfg)) (\<lambda>dm.
        io_bind (on_fetcher p (\<lambda>_. io_ret ((), NewFetcher DefaultSSORealmURL DefaultAPIURL))) (\<lambda>_.
        io_ret (Inr
          \<lparr>Cmd = cmd,
           Download = HTTPDownloader rt (pf_host p),
           VM = vm, Net = net,
           Installer = OpenShiftInstaller rt cmd,
           ImageBaker = OpenShiftImageBaker rt (pf_walk p) (pf_look p) cmd,
           ODF = oc_odf_installer rt cmd,
           Files = http_file_server_view fsrv,
           CSR = OCCSRApprover cmd,
           Hostname = SSHHostnameInjector cmd,
           Host = SystemHostInspector rt (pf_exec p) (pf_host p),
           DNS = \<lparr>Dns_Resolve = dig_Resolve cmd\<rparr>,
           DNSManager = dm,
           PullSecret = redhat_fetcher p,
           TrustStore = truststore_installer (new_truststore rt (pf_host p) (pf_glob p) cmd),
           NewCertIssuer = NewIssuer rt (pf_acme p),
           NewLocalCertIssuer = (\<lambda>caDir. io_ret (Inr (ca_Issue rt (pf_pki p) caDir)))\<rparr>)))))"

definition newLinuxDeps :: "('x, 'z, 'c, 'k, 'u, 'g, 'l) platform \<Rightarrow> mem \<Rightarrow> string \<Rightarrow> ('x sys, ('x sys) deps result) io" where
  "newLinuxDeps p cfg hostIP =
     baseDeps p cfg hostIP (libvirt_vm_manager (pf_rt p) (platform_cmd p) (pf_st_size p))
       (libvirt_network_provisioner (pf_rt p) (platform_cmd p) (pf_tmp p))"

definition NewDarwinDeps :: "('y mac, 'z, 'c, 'k, 'u, 'g, 'l) platform \<Rightarrow> mem \<Rightarrow> string \<Rightarrow>
    ('y msys, ('y msys) deps result) io" where
  "NewDarwinDeps p cfg hostIP =
     baseDeps p cfg hostIP
       (vfkit_vm_manager (pf_rt p) (pf_exec p) (Some (sidecar_launcher (pf_rt p) (pf_exec p)))
          (path_join [ConfigDir cfg, ''vfkit'']))
       (vmnet_network_provisioner (pf_rt p) (pf_exec p) (platform_cmd p))"

definition NewProductionDeps :: "('y mac, 'z, 'c, 'k, 'u, 'g, 'l) platform \<Rightarrow> mem \<Rightarrow> string \<Rightarrow>
    ('y msys, ('y msys) deps result) io" where
  "NewProductionDeps p cfg hostIP =
     (if GOOS (pf_rt p) = ''darwin'' then NewDarwinDeps p cfg hostIP else newLinuxDeps p cfg hostIP)"

end
