(* ===== verification/Status.thy ===== *)
theory Status
  imports Manager
begin

text \<open>
  \<open>app/status.go\<close>: the read-only diagnosis of a cluster and its printed report.
\<close>

record status_check =
  scName :: string
  scOK :: bool
  scDetail :: string
  scHint :: string

record status_report =
  srCluster :: cluster_config
  srFQDN :: string
  srChecks :: "status_check list"
  srInstallerLogTail :: string

abbreviation failed_check :: "string \<Rightarrow> string \<Rightarrow> string \<Rightarrow> status_check" where
  "failed_check n d h \<equiv> \<lparr>scName = n, scOK = False, scDetail = d, scHint = h\<rparr>"

abbreviation passed_check :: "string \<Rightarrow> string \<Rightarrow> status_check" where
  "passed_check n d \<equiv> \<lparr>scName = n, scOK = True, scDetail = d, scHint = []\<rparr>"

section \<open>The checks\<close>

definition checkVMState :: "'s vm_manager \<Rightarrow> cluster_config \<Rightarrow> ('s, status_check) io" where
  "checkVMState vm c =
     (let vmName = ''master-0-'' @ cName c in
      io_bind (VM_IsRunning vm vmName) (\<lambda>(running, err). io_ret (case err of
        Some _ \<Rightarrow> failed_check ''VM exists'' (''could not query VM '' @ vmName @ '' state'')
          ''inspect the hypervisor (libvirt: `sudo virsh list --all`; vfkit: check the easyshift VM state dir)''
      | None \<Rightarrow>
          if \<not> running
          then failed_check ''VM running'' ''not running'' (''start the cluster with `easyshift start '' @ cName c @ ''`'')
          else passed_check ''VM running'' ''running'')))"

definition checkARP :: "'s host_inspector \<Rightarrow> cluster_config \<Rightarrow> ('s, status_check) io" where
  "checkARP host c =
     (let name = ''ARP for master MAC''; mac = cMasterMAC c; want = cMasterIP c in
      io_bind (Ho_ARPLookup host mac) (\<lambda>(ip, err). io_ret (case err of
        Some e \<Rightarrow> failed_check name (error_text e) []
      | None \<Rightarrow>
          if ip = [] then failed_check name ''no entry (host has not seen this MAC)''
            (''try `ping -c2 '' @ want @ ''` to populate ARP, then re-run status'')
          else if ip \<noteq> want then failed_check name (''MAC '' @ mac @ '' is at '' @ ip @ '', expected '' @ want)
            (''the router did not honor your DHCP reservation; fix the reservation so MAC '' @ mac @ '' leases '' @ want)
          else passed_check name (mac @ '' -> '' @ ip))))"

text \<open>\<open>containsStr\<close> is membership.\<close>

definition resolve_problem :: "string \<Rightarrow> string \<Rightarrow> string list result \<Rightarrow> string list" where
  "resolve_problem want name r =
     (case r of
        Inl e \<Rightarrow> [name @ '': lookup failed: '' @ error_text e]
      | Inr ips \<Rightarrow>
          if ips = [] then [name @ '': no records'']
          else if want \<notin> set ips then [name @ '': '' @ strs_text ips @ '' (want '' @ want @ '')'']
          else [])"

fun bad_names :: "'s dns_resolver \<Rightarrow> string \<Rightarrow> string list \<Rightarrow> ('s, string list) io" where
  "bad_names dns want [] = io_ret []"
| "bad_names dns want (name # names) =
     io_bind (Dns_Resolve dns name) (\<lambda>r.
     io_bind (bad_names dns want names) (\<lambda>bad. io_ret (resolve_problem want name r @ bad)))"

definition checkDNS :: "'s dns_resolver \<Rightarrow> cluster_config \<Rightarrow> string \<Rightarrow> ('s, status_check) io" where
  "checkDNS dns c fqdn =
     io_bind (bad_names dns (cMasterIP c) (ClusterDNSNames fqdn)) (\<lambda>bad. io_ret (
       if bad = [] then passed_check ''DNS records'' (''all 3 records resolve to '' @ cMasterIP c)
       else failed_check ''DNS records'' (joined ''; '' bad)
         (''add A records for api.<fqdn>, api-int.<fqdn>, *.apps.<fqdn> pointing at '' @ cMasterIP c @
          '' (and, optionally per OpenShift docs, a PTR for '' @ cMasterIP c @ '' -> master-0.<fqdn>)'')))"

definition dial_check :: "'s host_inspector \<Rightarrow> string \<Rightarrow> string \<Rightarrow> string \<Rightarrow> ('s, status_check) io" where
  "dial_check host name addr hint =
     io_bind (Ho_DialTCP host addr 3000) (\<lambda>e. io_ret (case e of
       Some e \<Rightarrow> failed_check name (error_text e) hint
     | None \<Rightarrow> passed_check name (''connected to '' @ addr)))"

definition checkAPIPort :: "'s host_inspector \<Rightarrow> string \<Rightarrow> ('s, status_check) io" where
  "checkAPIPort host masterIP =
     dial_check host ''API port 6443 (by IP)'' (masterIP @ '':6443'')
       ''if the VM is up, the API may still be bootstrapping; check `sudo virsh console master-0-<cluster>` for kubelet/etcd progress''"

definition checkAPIDNSEnd2End :: "'s host_inspector \<Rightarrow> string \<Rightarrow> ('s, status_check) io" where
  "checkAPIDNSEnd2End host fqdn =
     dial_check host ''API via DNS'' (''api.'' @ fqdn @ '':6443'')
       ''either DNS is wrong or the IP is unreachable; see the DNS-records and API-port checks above''"

definition installerLogPath :: "string \<Rightarrow> string \<Rightarrow> string" where
  "installerLogPath configDir clusterName = configDir @ ''/clusters/'' @ clusterName @ ''/.openshift_install.log''"

definition last_lines :: "nat \<Rightarrow> string \<Rightarrow> string" where
  "last_lines n text =
     (let ls = split_on (CHR 0x0A) (trim_right_by (\<lambda>c. c = CHR 0x0A) text) in
      joined nl (if n < length ls then drop (length ls - n) ls else ls))"

definition tailFile :: "'x rt \<Rightarrow> string \<Rightarrow> nat \<Rightarrow> ('x sys, string) io" where
  "tailFile rt path n = io_bind (os_read_bytes rt path) (\<lambda>r. io_ret (case r of Inl _ \<Rightarrow> [] | Inr dat \<Rightarrow> last_lines n dat))"

section \<open>The report\<close>

fun run_checks :: "('s, status_check) io list \<Rightarrow> ('s, status_check list) io" where
  "run_checks [] = io_ret []"
| "run_checks (k # ks) = io_bind k (\<lambda>a. io_bind (run_checks ks) (\<lambda>as. io_ret (a # as)))"

definition status_checks :: "'s deps \<Rightarrow> cluster_config \<Rightarrow> ('s, status_check) io list" where
  "status_checks d c =
     [checkVMState (VM d) c] @
     (if cNetworkMode c = NetworkModeBridge then [checkARP (Host d) c, checkDNS (DNS d) c (FQDN c)] else []) @
     (if PrimaryMasterIP c \<noteq> [] then [checkAPIPort (Host d) (PrimaryMasterIP c)] else []) @
     [checkAPIDNSEnd2End (Host d) (FQDN c)]"

definition Status :: "'x rt \<Rightarrow> ('x sys) deps \<Rightarrow> string \<Rightarrow> mem \<Rightarrow> ('x sys, status_report result) io" where
  "Status rt d name m =
     (case find_cluster m name of
        None \<Rightarrow> io_ret (Inl (not_found name))
      | Some q \<Rightarrow>
          let c = heap m q in
          io_bind (run_checks (status_checks d c)) (\<lambda>checks.
          io_bind (tailFile rt (installerLogPath (ConfigDir m) (cName c)) 20) (\<lambda>log.
            io_ret (Inr \<lparr>srCluster = c, srFQDN = FQDN c, srChecks = checks, srInstallerLogTail = log\<rparr>))))"

definition print_check :: "status_check \<Rightarrow> string" where
  "print_check k =
     ''  '' @ (if scOK k then ''[ OK ]'' else ''[FAIL]'') @ ''  '' @ scName k @ '': '' @ scDetail k @ nl @
     (if \<not> scOK k \<and> scHint k \<noteq> [] then ''         hint: '' @ scHint k @ nl else [])"

definition Print :: "status_report \<Rightarrow> string" where
  "Print r =
     (let c = srCluster r in
      ''Cluster: '' @ cName c @ '' ('' @ cNetworkMode c @ '' mode)'' @ nl @
      ''FQDN:    '' @ srFQDN r @ nl @
      (if cMasterIP c \<noteq> [] then ''Master:  '' @ cMasterIP c @ ''  '' @ cMasterMAC c @ nl else []) @
      nl @ ''Checks:'' @ nl @
      concat (map print_check (srChecks r)) @
      (if srInstallerLogTail r \<noteq> []
       then nl @ ''Last '' @ nat_str (length (filter (\<lambda>ch. ch = CHR 0x0A) (srInstallerLogTail r)) + 1) @
            '' lines of .openshift_install.log:'' @ nl @ srInstallerLogTail r @ nl
       else []))"

section \<open>When the report is clean\<close>

text \<open>A query that leaves the world as it was.\<close>

definition steady :: "('s, 'a) io \<Rightarrow> bool" where
  "steady m \<longleftrightarrow> (\<forall>s. after m s = s)"

definition steady_probes :: "'s deps \<Rightarrow> bool" where
  "steady_probes d \<longleftrightarrow>
     (\<forall>v. steady (VM_IsRunning (VM d) v)) \<and> (\<forall>mac. steady (Ho_ARPLookup (Host d) mac)) \<and>
     (\<forall>n. steady (Dns_Resolve (DNS d) n)) \<and> (\<forall>a t. steady (Ho_DialTCP (Host d) a t))"

lemma steadyD: "steady m \<Longrightarrow> after m s = s"
  by (simp add: steady_def)

lemma bad_names_steady:
  assumes "\<And>n. steady (Dns_Resolve dns n)"
  shows "steady (bad_names dns want names) \<and>
    (res (bad_names dns want names) s = [] \<longleftrightarrow>
       (\<forall>n \<in> set names. \<exists>ips. res (Dns_Resolve dns n) s = Inr ips \<and> want \<in> set ips))"
proof (induction names)
  case Nil
  show ?case by (simp add: steady_def)
next
  case (Cons n names)
  have "steady (bad_names dns want (n # names))"
    using Cons assms [of n] by (simp add: steady_def)
  moreover have "res (bad_names dns want (n # names)) s = [] \<longleftrightarrow>
      resolve_problem want n (res (Dns_Resolve dns n) s) = [] \<and> res (bad_names dns want names) s = []"
    using assms [of n] by (simp add: steadyD)
  moreover have "resolve_problem want n r = [] \<longleftrightarrow> (\<exists>ips. r = Inr ips \<and> want \<in> set ips)" for r
    by (auto simp: resolve_problem_def split: sum.splits)
  ultimately show ?case using Cons by simp
qed

lemma run_checks_steady:
  "(\<And>k. k \<in> set ks \<Longrightarrow> steady k) \<Longrightarrow> res (run_checks ks) s = map (\<lambda>k. res k s) ks"
  by (induction ks arbitrary: s) (simp_all add: steadyD)

lemma checks_steady:
  assumes "steady_probes d" "k \<in> set (status_checks d c)"
  shows "steady k"
  using assms bad_names_steady [of "DNS d" "cMasterIP c" "ClusterDNSNames (FQDN c)"]
  by (auto simp: steady_probes_def status_checks_def checkVMState_def checkARP_def checkDNS_def checkAPIPort_def
      checkAPIDNSEnd2End_def dial_check_def Let_def steady_def split: if_splits prod.splits)

lemma check_verdicts:
  "scOK (res (checkVMState vm c) s) \<longleftrightarrow> res (VM_IsRunning vm (''master-0-'' @ cName c)) s = (True, None)"
  "scOK (res (checkARP host c) s) \<longleftrightarrow> res (Ho_ARPLookup host (cMasterMAC c)) s = (cMasterIP c, None) \<and> cMasterIP c \<noteq> []"
  "scOK (res (checkDNS dns c fqdn) s) \<longleftrightarrow> res (bad_names dns (cMasterIP c) (ClusterDNSNames fqdn)) s = []"
  "scOK (res (dial_check host name addr hint) s) \<longleftrightarrow> res (Ho_DialTCP host addr 3000) s = None"
  by (auto simp: checkVMState_def checkARP_def checkDNS_def dial_check_def Let_def split: prod.splits option.splits if_splits)

text \<open>C38. The report has no failed check exactly if the master runs, and in bridge mode its MAC
  is seen at its address and the three names resolve to it, and the API port answers at the address
  (where there is one) and under the name.\<close>

theorem status_healthy:
  assumes "find_cluster m name = Some q" "steady_probes d" "res (Status rt d name m) s = Inr rep"
  shows "(\<forall>k \<in> set (srChecks rep). scOK k) \<longleftrightarrow>
    (let c = heap m q in
     res (VM_IsRunning (VM d) (''master-0-'' @ cName c)) s = (True, None) \<and>
     (cNetworkMode c = NetworkModeBridge \<longrightarrow>
        res (Ho_ARPLookup (Host d) (cMasterMAC c)) s = (cMasterIP c, None) \<and> cMasterIP c \<noteq> [] \<and>
        (\<forall>n \<in> set (ClusterDNSNames (FQDN c)). \<exists>ips. res (Dns_Resolve (DNS d) n) s = Inr ips \<and> cMasterIP c \<in> set ips)) \<and>
     (PrimaryMasterIP c \<noteq> [] \<longrightarrow> res (Ho_DialTCP (Host d) (PrimaryMasterIP c @ '':6443'') 3000) s = None) \<and>
     res (Ho_DialTCP (Host d) (''api.'' @ FQDN c @ '':6443'') 3000) s = None)"
proof -
  let ?c = "heap m q"
  have "srChecks rep = res (run_checks (status_checks d ?c)) s" using assms by (auto simp: Status_def Let_def)
  also have "\<dots> = map (\<lambda>k. res k s) (status_checks d ?c)" using checks_steady [OF assms(2)] by (rule run_checks_steady)
  finally have c: "srChecks rep = map (\<lambda>k. res k s) (status_checks d ?c)" .
  have "\<And>n. steady (Dns_Resolve (DNS d) n)" using assms(2) by (simp add: steady_probes_def)
  note b = bad_names_steady [OF this, of "cMasterIP ?c" "ClusterDNSNames (FQDN ?c)" s]
  have "(\<forall>k \<in> set (srChecks rep). scOK k) \<longleftrightarrow> list_all (\<lambda>k. scOK (res k s)) (status_checks d ?c)"
    by (simp add: c list_all_iff)
  then show ?thesis
    by (cases "cNetworkMode ?c = NetworkModeBridge"; cases "PrimaryMasterIP ?c = []")
      (simp_all add: status_checks_def check_verdicts b checkAPIPort_def checkAPIDNSEnd2End_def Let_def)
qed

definition healthy :: "'s deps \<Rightarrow> 's deps" where
  "healthy d =
     d\<lparr>VM := (VM d)\<lparr>VM_IsRunning := (\<lambda>_. io_ret (True, None))\<rparr>,
       Host := (Host d)\<lparr>Ho_ARPLookup := (\<lambda>_. io_ret (''10.0.0.5'', None)), Ho_DialTCP := (\<lambda>_ _. io_ret None)\<rparr>,
       DNS := \<lparr>Dns_Resolve = (\<lambda>_. io_ret (Inr [''10.0.0.5'']))\<rparr>\<rparr>"

definition sample_status_mem :: mem where
  "sample_status_mem = sample_mem [(sample_cluster ''one'')\<lparr>cNetworkMode := NetworkModeBridge, cMasterIP := ''10.0.0.5''\<rparr>]"

lemma status_healthy_witness:
  "\<forall>d. \<exists>rep. res (Status sample_rt (healthy d) ''one'' sample_status_mem) (sample_sys ()) = Inr rep \<and> list_all scOK (srChecks rep)"
proof
  fix d :: "unit sys deps"
  have f: "find_cluster sample_status_mem ''one'' = Some 0" by code_simp
  have p: "steady_probes (healthy d)" by (simp add: steady_probes_def healthy_def steady_def)
  obtain rep where r: "res (Status sample_rt (healthy d) ''one'' sample_status_mem) (sample_sys ()) = Inr rep"
    by (simp add: Status_def f Let_def)
  have "\<forall>k \<in> set (srChecks rep). scOK k"
    unfolding status_healthy [OF f p r] by (simp add: healthy_def sample_status_mem_def sample_mem_def)
  with r show "\<exists>rep. res (Status sample_rt (healthy d) ''one'' sample_status_mem) (sample_sys ()) = Inr rep \<and> list_all scOK (srChecks rep)"
    by (auto simp: list_all_iff)
qed

text \<open>The tail of the log: nothing is lost of a short log, and a long one keeps its last lines.\<close>

lemma last_lines_short:
  "length (split_on (CHR 0x0A) (trim_right_by (\<lambda>c. c = CHR 0x0A) text)) \<le> n \<Longrightarrow>
     last_lines n text = trim_right_by (\<lambda>c. c = CHR 0x0A) text"
  by (simp add: last_lines_def Let_def joined_split)

end
