(* ===== verification/Cli.thy ===== *)
theory Cli
  imports Wiring Status NATReset Operations
begin

text \<open>
  The command line (\<open>cmd/easyshift\<close>): every subcommand, the pull-secret and trust flows, the
  summary of a creation, and \<open>main\<close>'s choice between production and simulation. Parsing of the
  flags and the help texts are those of \<open>cobra\<close>; a command line is a value of \<open>command\<close>, whose
  \<open>create\<close> carries the cluster built from the flags.

  A command returns its error, what it printed, and the configuration object it leaves.
\<close>

definition cli_fail :: "('s, error option) io \<Rightarrow> mem \<Rightarrow> ('s, error option \<times> string \<times> mem) io \<Rightarrow> ('s, error option \<times> string \<times> mem) io" where
  "cli_fail m cfg k = io_bind m (\<lambda>e. case e of Some e \<Rightarrow> io_ret (Some e, [], cfg) | None \<Rightarrow> k)"

definition cli_say :: "string \<Rightarrow> ('s, error option \<times> string \<times> mem) io \<Rightarrow> ('s, error option \<times> string \<times> mem) io" where
  "cli_say text k = io_bind k (\<lambda>(e, out, cfg). io_ret (e, text @ out, cfg))"

definition cli_done :: "string \<Rightarrow> mem \<Rightarrow> ('s, error option \<times> string \<times> mem) io" where
  "cli_done text cfg = io_ret (None, text, cfg)"

section \<open>The pull secret\<close>

definition pullSecretConsoleURL :: string where
  "pullSecretConsoleURL = ''https://console.redhat.com/openshift/install/pull-secret''"

definition pullSecretExplanation :: string where
  "pullSecretExplanation =
     unlines
       [''No pull secret configured.'', [],
        ''A pull secret is a free credential from your Red Hat account that lets the'',
        ''installer download OpenShift container images. Two ways to set it up:'', [],
        ''  1. Log in to your Red Hat account now (recommended) '' @ emdash @ '' you'' @ [CHR 0x27] @ ''ll get a short'',
        ''     code to enter at a Red Hat URL from any browser, e.g. your laptop.'',
        ''  2. Download it yourself from'',
        ''     '' @ pullSecretConsoleURL,
        ''     and run: easyshift pull-secret set <file>'']"

definition manualFallback :: string where
  "manualFallback = ''fallback: download the pull secret from '' @ pullSecretConsoleURL @ '' and run `easyshift pull-secret set <file>`''"

definition with_fallback :: "string \<Rightarrow> error \<Rightarrow> error" where
  "with_fallback f e = Wrapf (f @ nl @ nl @ ''%s'') [manualFallback] e"

definition fetchAndStorePullSecret :: "'x rt \<Rightarrow> ('x sys) pull_secret_fetcher \<Rightarrow> mem \<Rightarrow> ('x sys, error option \<times> string \<times> mem) io" where
  "fetchAndStorePullSecret rt fetcher cfg =
     io_bind (Ps_StartDeviceAuth fetcher) (\<lambda>r. case r of
       Inl e \<Rightarrow> io_ret (Some (with_fallback ''%w'' e), [], cfg)
     | Inr prompt \<Rightarrow>
       cli_say (nl @ ''  On any device, open:  '' @ dapVerificationURI prompt @ nl @
                ''  and enter the code:   '' @ dapUserCode prompt @ nl @ nl @ ''Waiting for authorization...'' @ nl)
        (io_bind (Ps_WaitAndFetch fetcher) (\<lambda>r. case r of
           Inl e \<Rightarrow> io_ret (Some (with_fallback ''%w'' e), [], cfg)
         | Inr dat \<Rightarrow>
             (case ValidatePullSecretBytes dat of
                Some e \<Rightarrow> io_ret (Some (with_fallback ''pull secret from Red Hat was unusable: %w'' e), [], cfg)
              | None \<Rightarrow>
                  cli_fail (WritePullSecret rt (ConfigDir cfg) dat) cfg
                    (cli_done (''Pull secret stored at '' @ PullSecretPath (ConfigDir cfg) @ nl) cfg)))))"

text \<open>The answer is the first line of the standard input.\<close>

definition first_line :: "string \<Rightarrow> string" where
  "first_line text = to_lower (trim_space (takeWhile (\<lambda>c. c \<noteq> CHR 0x0A) text))"

definition ensurePullSecret :: "'x rt \<Rightarrow> ('x sys) pull_secret_fetcher \<Rightarrow> string \<Rightarrow> bool \<Rightarrow> mem \<Rightarrow>
    ('x sys, error option \<times> string \<times> mem) io" where
  "ensurePullSecret rt fetcher stdin isTTY cfg =
     io_bind (EnsurePullSecret rt (ConfigDir cfg)) (\<lambda>e.
       if e = None then cli_done [] cfg
       else if \<not> isTTY then
         io_ret (Some (Errorf (''%s'' @ nl @ ''then re-run this command (or run `easyshift pull-secret login` from an interactive terminal)'')
                        [pullSecretExplanation]), [], cfg)
       else
         cli_say (pullSecretExplanation @ nl @ ''Log in and fetch it now? [Y/n] '')
          (let answer = first_line stdin in
           if answer \<noteq> [] \<and> answer \<noteq> ''y'' \<and> answer \<noteq> ''yes''
           then io_ret (Some (Errorf ''pull secret not configured: download it from %s and run `easyshift pull-secret set <file>`''
                              [pullSecretConsoleURL]), [], cfg)
           else fetchAndStorePullSecret rt fetcher cfg))"

section \<open>Trusting the local CA\<close>

definition runTrust :: "'x rt \<Rightarrow> ('x, 'c, 'k) pki \<Rightarrow> ('x sys) trust_store_installer \<Rightarrow> bool \<Rightarrow> mem \<Rightarrow>
    ('x sys, error option \<times> string \<times> mem) io" where
  "runTrust rt pk ts uninstall cfg =
     io_bind (EnsureLocalCA rt pk cfg) (\<lambda>r. case r of
       Inl e \<Rightarrow> io_ret (Some e, [], cfg)
     | Inr caPath \<Rightarrow>
       let marker = LocalCATrustedMarkerPath (ConfigDir cfg) in
       if uninstall then
         cli_fail (Ts_Uninstall ts caPath) cfg
           (io_bind (os_remove rt marker) (\<lambda>_.
              cli_done (''easyshift local CA removed from the host trust stores'' @ nl) cfg))
       else
         cli_fail (Ts_Install ts caPath) cfg
           (io_bind (os_write rt marker (Raw (''trusted'' @ nl))) (\<lambda>_.
              cli_done (''easyshift local CA ('' @ caPath @ '') installed into the host trust stores'' @ nl @
                        ''Browsers now trust the console of every easyshift cluster on this host.'' @ nl) cfg)))"

section \<open>The summary of a creation\<close>

definition printCreateSummary :: "'x rt \<Rightarrow> mem \<Rightarrow> cluster_config \<Rightarrow> ('x sys, string) io" where
  "printCreateSummary rt cfg c =
     (let txt = nl @ ''Cluster '' @ cName c @ '' is ready.'' @ nl @
        ''  kubectl/oc: context '' @ quoted (cName c) @ '' is in your kubeconfig (current context)'' @ nl @
        ''  console:    https://console-openshift-console.apps.'' @ FQDN c @ nl @
        ''  kubeadmin:  password file '' @
          path_join [ClusterDir (ConfigDir cfg) (cName c), ''auth'', ''kubeadmin-password''] @ nl @
        ''  note:       the API may flap for a few minutes while the apiserver rolls out its serving cert'' @ nl in
      if cTLSEmail c = []
      then io_bind (os_exists rt (LocalCATrustedMarkerPath (ConfigDir cfg))) (\<lambda>b. io_ret (
             if b then txt
             else txt @ ''  tip:        run `easyshift trust` once to remove browser TLS warnings (uses sudo)'' @ nl))
      else io_ret txt)"

section \<open>The commands\<close>

datatype command =
    CmdCreate cluster_config | CmdStart string | CmdStop string | CmdDelete string | CmdList | CmdStatus string
  | CmdNATReset bool bool | CmdSecretSet string | CmdSecretShow | CmdSecretLogin
  | CmdDNSSet string string | CmdDNSShow string | CmdTrust bool

text \<open>The cluster \<open>create --name n\<close> asks for when no other flag is given.\<close>

definition flag_defaults :: "string \<Rightarrow> cluster_config" where
  "flag_defaults n =
     \<lparr>cName = n, cDomain = [], cOCPVersion = DefaultOCPVersion, cMasterCount = 1, cWorkerCount = 0,
      cMasterRAM = 32768, cWorkerRAM = 16384, cMasterCPUs = 4, cWorkerCPUs = 0, cMasterDiskGB = 120, cWorkerDiskGB = 0,
      cNetworkMode = NetworkModeNAT, cBridge = [], cMasterMAC = [], cMasterIP = [], cMachineCIDR = [], cGateway = [],
      cDNS = [], cStoragePool = DefaultStoragePool, cDNSProvider = [], cDNSZone = [], cTLSEmail = [], cTLSStaging = False,
      cMagicDNS = MagicDNSAuto, cBakeImages = False, cODF = False, cODFDiskGB = 0, cNetworkSubnet = [], cIPAddresses = [],
      cMACAddresses = [], cState = [], cBootISOVolPath = [], cInstallKernelCmdline = [], cKubeconfigTarget = []\<rparr>"

text \<open>
  What \<open>main\<close> hands to the commands: the environment, the dependencies, the certificates, the
  standard input, the hook that a simulation runs before a creation, and the directory of the
  configuration that was loaded at the start, which only \<open>newDNSCommand\<close> captures.
\<close>

record ('x, 'b, 'c, 'k) session =
  se_env :: "('x, 'b) env"
  se_deps :: "('x sys) deps"
  se_pki :: "('x, 'c, 'k) pki"
  se_stdin :: string
  se_tty :: bool
  se_prepare :: "cluster_config \<Rightarrow> ('x sys, unit) io"
  se_loaded_dir :: string

definition allocate_request :: "cluster_config \<Rightarrow> mem \<Rightarrow> nat \<times> mem" where
  "allocate_request c cfg = (next_ref cfg, cfg\<lparr>heap := (heap cfg)(next_ref cfg := c), next_ref := next_ref cfg + 1\<rparr>)"

definition run_create :: "('x, 'b, 'c, 'k) session \<Rightarrow> cluster_config \<Rightarrow> mem \<Rightarrow> ('x sys, error option \<times> string \<times> mem) io" where
  "run_create se c cfg =
     (let rt = env_rt (se_env se) in
      io_bind (se_prepare se c) (\<lambda>_.
      io_bind (ensurePullSecret rt (PullSecret (se_deps se)) (se_stdin se) (se_tty se) cfg) (\<lambda>(e, out, cfg). case e of
        Some e \<Rightarrow> io_ret (Some e, out, cfg)
      | None \<Rightarrow>
        (case allocate_request c cfg of (r, cfg) \<Rightarrow>
        io_bind (Create (se_env se) (se_deps se) r cfg) (\<lambda>(e, cfg). case e of
          Some e \<Rightarrow> io_ret (Some e, out, cfg)
        | None \<Rightarrow>
          (case find_cluster cfg (cName c) of
             None \<Rightarrow> io_ret (None, out, cfg)
           | Some q \<Rightarrow> io_bind (printCreateSummary rt cfg (heap cfg q)) (\<lambda>txt. io_ret (None, out @ txt, cfg))))))))"

definition manage :: "string \<Rightarrow> ('s, error option \<times> mem) io \<Rightarrow> ('s, error option \<times> string \<times> mem) io" where
  "manage txt m = io_bind m (\<lambda>(e, cfg). io_ret (e, if e = None then txt else [], cfg))"

definition list_text :: "cluster_config list \<Rightarrow> string" where
  "list_text cs =
     (if cs = [] then ''No clusters found'' @ nl
      else ''Clusters:'' @ nl @ concat (map (\<lambda>c. ''- '' @ cName c @ ''.'' @ cDomain c @ ''  state='' @ cState c @
        ''  version='' @ cOCPVersion c @ ''  nodes='' @ int_str (cMasterCount c) @ ''m/'' @ int_str (cWorkerCount c) @ ''w'' @ nl) cs))"

definition run_nat_reset :: "'x rt \<Rightarrow> ('x sys) deps \<Rightarrow> bool \<Rightarrow> bool \<Rightarrow> mem \<Rightarrow> ('x sys, error option \<times> string \<times> mem) io" where
  "run_nat_reset rt d dryRun force cfg =
     io_bind (PlanNATReset d force cfg) (\<lambda>r. case r of
       Inl e \<Rightarrow> io_ret (Some e, [], cfg)
     | Inr plan \<Rightarrow>
         if dryRun \<or> \<not> HasWork plan then cli_done (plan_text plan False) cfg
         else manage (plan_text plan True) (ApplyNATReset rt d plan cfg))"

text \<open>\<open>-\<close> names the standard input.\<close>

definition read_source :: "'x rt \<Rightarrow> string \<Rightarrow> string \<Rightarrow> ('x sys, string result) io" where
  "read_source rt stdin src = (if src = ''-'' then io_ret (Inr stdin) else os_read_bytes rt src)"

definition run_set :: "'x rt \<Rightarrow> string \<Rightarrow> string \<Rightarrow> string \<Rightarrow> (string \<Rightarrow> ('x sys, error option) io) \<Rightarrow> string \<Rightarrow> mem \<Rightarrow>
    ('x sys, error option \<times> string \<times> mem) io" where
  "run_set rt stdin src what store said cfg =
     io_bind (read_source rt stdin src) (\<lambda>r. case r of
       Inl e \<Rightarrow> io_ret (Some (Wrapf what [] e), [], cfg)
     | Inr dat \<Rightarrow> cli_fail (store dat) cfg (cli_done said cfg))"

definition run_start :: "('x, 'b, 'c, 'k) session \<Rightarrow> string \<Rightarrow> mem \<Rightarrow> ('x sys, error option \<times> string \<times> mem) io" where
  "run_start se n cfg =
     manage (''cluster '' @ n @ '' started: API up, node Ready, CSRs approved'' @ nl) (Start (se_env se) (se_deps se) n cfg)"

definition run_stop :: "('x, 'b, 'c, 'k) session \<Rightarrow> string \<Rightarrow> mem \<Rightarrow> ('x sys, error option \<times> string \<times> mem) io" where
  "run_stop se n cfg = manage [] (Stop (se_env se) (se_deps se) n cfg)"

definition run_delete :: "('x, 'b, 'c, 'k) session \<Rightarrow> string \<Rightarrow> mem \<Rightarrow> ('x sys, error option \<times> string \<times> mem) io" where
  "run_delete se n cfg = manage [] (Delete (se_env se) (se_deps se) n cfg)"

definition run_list :: "mem \<Rightarrow> ('s, error option \<times> string \<times> mem) io" where
  "run_list cfg = cli_done (list_text (List_clusters cfg)) cfg"

definition run_status :: "('x, 'b, 'c, 'k) session \<Rightarrow> string \<Rightarrow> mem \<Rightarrow> ('x sys, error option \<times> string \<times> mem) io" where
  "run_status se n cfg =
     io_bind (Status (env_rt (se_env se)) (se_deps se) n cfg) (\<lambda>r. io_ret (case r of
       Inl e \<Rightarrow> (Some e, [], cfg) | Inr rep \<Rightarrow> (None, Print rep, cfg)))"

definition run_secret_set :: "('x, 'b, 'c, 'k) session \<Rightarrow> string \<Rightarrow> mem \<Rightarrow> ('x sys, error option \<times> string \<times> mem) io" where
  "run_secret_set se src cfg =
     (let rt = env_rt (se_env se); dir = ConfigDir cfg in
      run_set rt (se_stdin se) src ''read pull secret source: %w'' (WritePullSecret rt dir)
        (''pull secret stored at '' @ PullSecretPath dir @ nl) cfg)"

definition run_secret_show :: "('x, 'b, 'c, 'k) session \<Rightarrow> mem \<Rightarrow> ('x sys, error option \<times> string \<times> mem) io" where
  "run_secret_show se cfg =
     cli_fail (EnsurePullSecret (env_rt (se_env se)) (ConfigDir cfg)) cfg (cli_done (PullSecretPath (ConfigDir cfg) @ nl) cfg)"

text \<open>The two \<open>dns\<close> commands use the directory that \<open>newDNSCommand\<close> captured.\<close>

definition run_dns_set :: "('x, 'b, 'c, 'k) session \<Rightarrow> string \<Rightarrow> string \<Rightarrow> mem \<Rightarrow> ('x sys, error option \<times> string \<times> mem) io" where
  "run_dns_set se provider src cfg =
     (let rt = env_rt (se_env se); dir = se_loaded_dir se in
      run_set rt (se_stdin se) src ''read token source: %w'' (WriteDNSToken rt dir provider)
        (provider @ '' token stored at '' @ DNSTokenPath dir provider @ nl) cfg)"

definition run_dns_show :: "('x, 'b, 'c, 'k) session \<Rightarrow> string \<Rightarrow> mem \<Rightarrow> ('x sys, error option \<times> string \<times> mem) io" where
  "run_dns_show se provider cfg =
     cli_fail (EnsureDNSToken (env_rt (se_env se)) (se_loaded_dir se) provider) cfg
       (cli_done (DNSTokenPath (se_loaded_dir se) provider @ nl) cfg)"

definition run_command :: "('x, 'b, 'c, 'k) session \<Rightarrow> command \<Rightarrow> mem \<Rightarrow> ('x sys, error option \<times> string \<times> mem) io" where
  "run_command se c cfg =
     (let d = se_deps se; rt = env_rt (se_env se) in
      case c of
        CmdCreate cl \<Rightarrow> run_create se cl cfg
      | CmdStart n \<Rightarrow> run_start se n cfg
      | CmdStop n \<Rightarrow> run_stop se n cfg
      | CmdDelete n \<Rightarrow> run_delete se n cfg
      | CmdList \<Rightarrow> run_list cfg
      | CmdStatus n \<Rightarrow> run_status se n cfg
      | CmdNATReset dry force \<Rightarrow> run_nat_reset rt d dry force cfg
      | CmdSecretSet src \<Rightarrow> run_secret_set se src cfg
      | CmdSecretShow \<Rightarrow> run_secret_show se cfg
      | CmdSecretLogin \<Rightarrow> fetchAndStorePullSecret rt (PullSecret d) cfg
      | CmdDNSSet provider src \<Rightarrow> run_dns_set se provider src cfg
      | CmdDNSShow provider \<Rightarrow> run_dns_show se provider cfg
      | CmdTrust uninstall \<Rightarrow> runTrust rt (se_pki se) (TrustStore d) uninstall cfg)"

section \<open>Starting up\<close>

text \<open>\<open>tmpdir\<close> is \<open>os.TempDir\<close>.\<close>

definition DefaultConfigDir :: "'x rt \<Rightarrow> string \<Rightarrow> string" where
  "DefaultConfigDir rt tmpdir =
     (case UserHomeDir rt of Inr home \<Rightarrow> path_join [home, DefaultRelConfigDir] | Inl _ \<Rightarrow> path_join [tmpdir, ''easyshift''])"

text \<open>Opening the log: a missing file is created, the messages themselves are not modelled.\<close>

definition open_log :: "'x rt \<Rightarrow> string \<Rightarrow> ('x sys, error option) io" where
  "open_log rt p =
     io_bind (os_call rt (OpWrite p) (\<lambda>fs. case fs p of
        None \<Rightarrow> (Inr (), fs(p \<mapsto> File (Raw [])))
      | Some (File _) \<Rightarrow> (Inr (), fs)
      | Some Dir \<Rightarrow> (Inl (ExtErr (''open '' @ p @ '': is a directory'')), fs))) (\<lambda>r. io_ret (err_of r))"

definition InitLogging :: "'x rt \<Rightarrow> string \<Rightarrow> ('x sys, error option) io" where
  "InitLogging rt logFile =
     io_seq (wrap_err ''create log dir: %w'' [] (os_mkdirall rt (path_dir logFile)))
       (wrap_err ''open log file: %w'' [] (open_log rt logFile))"

text \<open>The addresses of the interfaces; \<open>None\<close> stands for an address that is not an \<open>*net.IPNet\<close>.\<close>

definition is_loopback :: "nat list \<Rightarrow> bool" where
  "is_loopback ip \<longleftrightarrow> (case to4 ip of Some v4 \<Rightarrow> hd v4 = 127 | None \<Rightarrow> ip = replicate 15 0 @ [1])"

fun first_ipv4 :: "nat list option list \<Rightarrow> string result" where
  "first_ipv4 [] = Inl (Errorf ''no non-loopback IPv4 address found'' [])"
| "first_ipv4 (a # as) =
     (case a of
        None \<Rightarrow> first_ipv4 as
      | Some ip \<Rightarrow>
          if is_loopback ip then first_ipv4 as
          else (case to4 ip of Some v4 \<Rightarrow> Inr (ipv4_str v4) | None \<Rightarrow> first_ipv4 as))"

definition primaryHostIP :: "nat list option list result \<Rightarrow> string result" where
  "primaryHostIP addrs = (case addrs of Inl e \<Rightarrow> Inl e | Inr as \<Rightarrow> first_ipv4 as)"

text \<open>A bridge simulation pretends that the master came up at its address.\<close>

definition sim_prepare :: "cluster_config \<Rightarrow> (sim, unit) io" where
  "sim_prepare c =
     (if cNetworkMode c = NetworkModeBridge
      then sim_op (\<lambda>b. ((), bHost_update (fxARPTable_update (\<lambda>_. [(cMasterMAC c, cMasterIP c)])) b))
      else io_ret ())"

text \<open>
  A run of the program without and with \<open>--simulate\<close>: its error and its output. A simulation
  prints its trace after a command that succeeded.
\<close>

definition main_production :: "('y mac, 'z, 'c, 'k, 'u, 'g, 'l) platform \<Rightarrow> ('y mac, 'b) env \<Rightarrow> string \<Rightarrow>
    nat list option list result \<Rightarrow> string \<Rightarrow> bool \<Rightarrow> command \<Rightarrow> ('y msys, error option \<times> string) io" where
  "main_production p v tmpdir addrs stdin isTTY c =
     (let rt = env_rt v in
      io_bind (LoadConfig rt (DefaultConfigDir rt tmpdir)) (\<lambda>r. case r of
        Inl e \<Rightarrow> io_ret (Some (Wrapf ''load config: %w'' [] e), [])
      | Inr cfg \<Rightarrow>
      io_bind (InitLogging rt (LogFile cfg)) (\<lambda>e. case e of Some e \<Rightarrow> io_ret (Some e, []) | None \<Rightarrow>
      (case primaryHostIP addrs of
         Inl e \<Rightarrow> io_ret (Some (Wrapf ''detect host IP: %w'' [] e), [])
       | Inr host \<Rightarrow>
      io_bind (NewProductionDeps p cfg host) (\<lambda>r. case r of
        Inl e \<Rightarrow> io_ret (Some e, [])
      | Inr d \<Rightarrow>
      io_bind (run_command
          \<lparr>se_env = v, se_deps = d, se_pki = pf_pki p, se_stdin = stdin, se_tty = isTTY,
           se_prepare = (\<lambda>_. io_ret ()), se_loaded_dir = ConfigDir cfg\<rparr> c cfg) (\<lambda>(e, out, _). io_ret (e, out)))))))"

definition sim_session :: "(fake_bundle, 'b) env \<Rightarrow> string \<Rightarrow> (fake_bundle, 'c, 'k) pki \<Rightarrow> string \<Rightarrow> bool \<Rightarrow> mem \<Rightarrow>
    (fake_bundle, 'b, 'c, 'k) session" where
  "sim_session v root pk stdin isTTY loaded =
     \<lparr>se_env = v, se_deps = fake_deps (env_rt v) root, se_pki = pk, se_stdin = stdin, se_tty = isTTY,
      se_prepare = sim_prepare, se_loaded_dir = ConfigDir loaded\<rparr>"

definition with_trace :: "error option \<times> string \<times> mem \<Rightarrow> (sim, error option \<times> string) io" where
  "with_trace r s =
     (case r of (e, out, _) \<Rightarrow> ((e, if e = None then out @ nl @ trace_text (rest s) else out), 0, s))"

lemma with_trace_simps [simp]: "after (with_trace r) s = s" "fst (res (with_trace r) s) = fst r"
  by (auto simp: with_trace_def after_def res_def split: prod.splits)

definition main_simulate :: "(fake_bundle, 'b) env \<Rightarrow> string \<Rightarrow> string \<Rightarrow> string \<Rightarrow> (fake_bundle, 'c, 'k) pki \<Rightarrow>
    string \<Rightarrow> bool \<Rightarrow> command \<Rightarrow> (sim, error option \<times> string) io" where
  "main_simulate v tmpdir simdir root pk stdin isTTY c =
     (let rt = env_rt v in
      io_bind (LoadConfig rt (DefaultConfigDir rt tmpdir)) (\<lambda>r. case r of
        Inl e \<Rightarrow> io_ret (Some (Wrapf ''load config: %w'' [] e), [])
      | Inr loaded \<Rightarrow>
      io_bind (newSimulationEnv rt loaded simdir) (\<lambda>r. case r of
        Inl e \<Rightarrow> io_ret (Some (Wrapf ''simulate: %w'' [] e), [])
      | Inr cfg \<Rightarrow>
      io_bind (InitLogging rt (LogFile cfg)) (\<lambda>e. case e of Some e \<Rightarrow> io_ret (Some e, []) | None \<Rightarrow>
      io_bind (run_command (sim_session v root pk stdin isTTY loaded) c cfg) with_trace))))"

end
