(* ===== verification/CliFacts.thy ===== *)
theory CliFacts
  imports Cli InstallFacts
begin

text \<open>What the command line does to the host: the pull secret it stores, and the reach of a simulation.\<close>

section \<open>The stored pull secret\<close>

lemma WriteDNSToken_file:
  "res (WriteDNSToken rt dir provider dat) s = None \<Longrightarrow>
     files (after (WriteDNSToken rt dir provider dat) s) (DNSTokenPath dir provider) = Some (File (Raw (trim_space dat)))"
  by (auto simp: WriteDNSToken_def Let_def os_write_None split: if_splits option.splits)

lemma WritePullSecret_file:
  "res (WritePullSecret rt dir dat) s = None \<Longrightarrow>
     files (after (WritePullSecret rt dir dat) s) (PullSecretPath dir) = Some (File (Raw dat))"
  by (auto simp: WritePullSecret_def os_write_None split: option.splits)

text \<open>A login that reports success has stored a pull secret that passes the validation of \<open>create\<close>.\<close>

lemma login_stores_valid:
  assumes "res (fetchAndStorePullSecret rt fetcher cfg) s = (None, out, cfg')"
  shows "\<exists>dat. ValidatePullSecretBytes dat = None \<and>
    files (after (fetchAndStorePullSecret rt fetcher cfg) s) (PullSecretPath (ConfigDir cfg)) = Some (File (Raw dat))"
proof -
  obtain prompt where p: "res (Ps_StartDeviceAuth fetcher) s = Inr prompt"
    using assms by (cases "res (Ps_StartDeviceAuth fetcher) s") (auto simp: fetchAndStorePullSecret_def)
  let ?s1 = "after (Ps_StartDeviceAuth fetcher) s"
  obtain dat where d: "res (Ps_WaitAndFetch fetcher) ?s1 = Inr dat"
    using assms p by (cases "res (Ps_WaitAndFetch fetcher) ?s1") (auto simp: fetchAndStorePullSecret_def cli_say_def)
  let ?s2 = "after (Ps_WaitAndFetch fetcher) ?s1"
  have v: "ValidatePullSecretBytes dat = None"
    using assms p d by (cases "ValidatePullSecretBytes dat") (auto simp: fetchAndStorePullSecret_def cli_say_def)
  have w: "res (WritePullSecret rt (ConfigDir cfg) dat) ?s2 = None"
    using assms p d v by (cases "res (WritePullSecret rt (ConfigDir cfg) dat) ?s2")
      (auto simp: fetchAndStorePullSecret_def cli_say_def cli_fail_def)
  have "after (fetchAndStorePullSecret rt fetcher cfg) s = after (WritePullSecret rt (ConfigDir cfg) dat) ?s2"
    using p d v w by (simp add: fetchAndStorePullSecret_def cli_say_def cli_fail_def cli_done_def)
  with WritePullSecret_file [OF w] v show ?thesis by auto
qed

section \<open>The reach of a simulation\<close>

text \<open>A simulated \<open>dns set\<close> that succeeds stores the token in the configuration directory that was loaded at
  the start, the real one, not in that of the simulation.\<close>

lemma simulated_dns_set_is_real:
  assumes "res (main_simulate v tmpdir simdir root pk stdin isTTY (CmdDNSSet provider ''-'')) s = (None, out)"
  shows "\<exists>loaded. res (LoadConfig (env_rt v) (DefaultConfigDir (env_rt v) tmpdir)) s = Inr loaded \<and>
    files (after (main_simulate v tmpdir simdir root pk stdin isTTY (CmdDNSSet provider ''-'')) s)
      (DNSTokenPath (ConfigDir loaded) provider) = Some (File (Raw (trim_space stdin)))"
proof -
  let ?rt = "env_rt v"
  let ?load = "LoadConfig ?rt (DefaultConfigDir ?rt tmpdir)"
  obtain loaded where l: "res ?load s = Inr loaded"
    using assms by (cases "res ?load s") (auto simp: main_simulate_def Let_def)
  let ?sim = "newSimulationEnv ?rt loaded simdir" and ?s1 = "after ?load s"
  obtain cfg where c: "res ?sim ?s1 = Inr cfg"
    using assms l by (cases "res ?sim ?s1") (auto simp: main_simulate_def Let_def)
  let ?log = "InitLogging ?rt (LogFile cfg)" and ?s2 = "after ?sim ?s1"
  have g: "res ?log ?s2 = None"
    using assms l c by (cases "res ?log ?s2") (auto simp: main_simulate_def Let_def)
  let ?w = "WriteDNSToken ?rt (ConfigDir loaded) provider stdin" and ?s3 = "after ?log ?s2"
  let ?run = "run_command (sim_session v root pk stdin isTTY loaded) (CmdDNSSet provider ''-'') cfg"
  have r: "?run = cli_fail ?w cfg (cli_done (provider @ '' token stored at '' @ DNSTokenPath (ConfigDir loaded) provider @ nl) cfg)"
    by (simp add: run_command_def run_dns_set_def sim_session_def run_set_def read_source_def Let_def)
  have e: "fst (res ?run ?s3) = None"
    using arg_cong [OF assms, of fst] l c g by (simp add: main_simulate_def Let_def)
  then have w: "res ?w ?s3 = None"
    by (cases "res ?w ?s3") (simp_all add: r cli_fail_def)
  have "after (main_simulate v tmpdir simdir root pk stdin isTTY (CmdDNSSet provider ''-'')) s = after ?run ?s3"
    using l c g by (simp add: main_simulate_def Let_def)
  also have "\<dots> = after ?w ?s3" using w by (simp add: r cli_fail_def cli_done_def)
  finally show ?thesis using l WriteDNSToken_file [OF w] by simp
qed

text \<open>In a bridge simulation the lookup of a MAC written with an upper-case letter always misses, so the
  stage \<open>verify-master-ip\<close> never passes.\<close>

lemma simulated_uppercase_mac:
  assumes "cNetworkMode c = NetworkModeBridge" "to_lower (cMasterMAC c) \<noteq> cMasterMAC c" "cMasterIP c \<noteq> []"
    and "\<And>d x. snd (snd (rt_wait rt d x)) = x"
  shows "res (verify rt (Host (fake_deps rt root)) (cMasterMAC c) (cMasterIP c)) (after (sim_prepare c) s) \<noteq> None"
proof -
  let ?host = "Host (fake_deps rt root)"
  let ?inv = "\<lambda>s :: sim. fxARPTable (bHost (rest s)) = [(cMasterMAC c, cMasterIP c)]"
  have miss: "fst (res (fake_ARPLookup (cMasterMAC c)) s) = []" if "?inv s" for s
    using that assms(2) by (auto simp: fake_ARPLookup_def split: option.splits)
  have keep: "fxARPTable (bHost (rest (after (fake_ARPLookup mac) s))) = fxARPTable (bHost (rest s))"
    "fxARPTable (bHost (rest (after (fake_DialTCP a d) s))) = fxARPTable (bHost (rest s))" for s mac a d
    by (auto simp: fake_ARPLookup_def fake_DialTCP_def split: option.splits)
  have loop: "deadline_loop rt (\<lambda>_. verify_probe ?host (cMasterMAC c) (cMasterIP c)) ?inv (\<lambda>v. v \<noteq> None)"
  proof
    show "?inv (after (verify_probe ?host (cMasterMAC c) (cMasterIP c)) s)" if "?inv s" for s
      using that by (simp add: verify_probe_def keep split: prod.splits)
    show "?inv (after (pause rt d) s)" if "?inv s" for s d
      using that assms(4) [of d "rest s"] by (auto simp: pause_def after_def split: prod.splits)
    show "v \<noteq> None" if "?inv s" "res (verify_probe ?host (cMasterMAC c) (cMasterIP c)) s = Inr v" for s v
      using that assms(3) miss [of "after (fake_DialTCP (JoinHostPort (cMasterIP c) ''22'') 3000) s"] by (auto simp: verify_probe_def keep split: prod.splits if_splits)
  qed
  have "?inv (after (sim_prepare c) s)" using assms(1) by (simp add: sim_prepare_def)
  then show ?thesis
    using deadline_loop.loop_result [OF loop, of "after (sim_prepare c) s" verify_timeout verify_poll
        "verify_give_up (cMasterMAC c) (cMasterIP c)" "Some ErrCanceled" "[]" 0]
      io_split [of "verify rt ?host (cMasterMAC c) (cMasterIP c)" "after (sim_prepare c) s"]
    by (auto simp: verify_def verify_give_up_def)
qed

definition sample_login :: "'s pull_secret_fetcher" where
  "sample_login =
     \<lparr>Ps_StartDeviceAuth = io_ret (Inr \<lparr>dapVerificationURI = ''u'', dapUserCode = ''c''\<rparr>),
      Ps_WaitAndFetch = io_ret (Inr (json_text (JObj [(''auths'', JObj [])])))\<rparr>"

lemma sample_login_ok:
  "fst (res (fetchAndStorePullSecret sample_rt sample_login (NewDefaultConfig ''/c'')) (sample_sys ())) = None"
  by code_simp

definition sim_blank :: sim where
  "sim_blank = \<lparr>files = (\<lambda>_. None), rest = fresh_bundle ''/http''\<rparr>"

definition sim_dns_set :: "(sim, error option \<times> string) io" where
  "sim_dns_set =
     main_simulate sim_env ''/tmp'' ''/sim'' ''/http'' sample_pki ''tok'' False
       (CmdDNSSet DNSProviderCloudflare ''-'')"

lemma sim_dns_set_ok: "fst (res sim_dns_set sim_blank) = None"
  by code_simp

lemma login_stores_valid_witness:
  "\<exists>dat. ValidatePullSecretBytes dat = None \<and>
     files (after (fetchAndStorePullSecret sample_rt sample_login (NewDefaultConfig ''/c'')) (sample_sys ())) (PullSecretPath ''/c'') =
       Some (File (Raw dat))"
proof -
  obtain out cfg' where "res (fetchAndStorePullSecret sample_rt sample_login (NewDefaultConfig ''/c'')) (sample_sys ()) = (None, out, cfg')"
    using sample_login_ok by (metis prod.collapse)
  from login_stores_valid [OF this] show ?thesis by (simp add: NewDefaultConfig_def)
qed

lemma simulated_dns_set_is_real_witness:
  "\<exists>loaded. res (LoadConfig (env_rt sim_env) (DefaultConfigDir (env_rt sim_env) ''/tmp'')) sim_blank = Inr loaded \<and>
     files (after sim_dns_set sim_blank) (DNSTokenPath (ConfigDir loaded) DNSProviderCloudflare) = Some (File (Raw (trim_space ''tok'')))"
proof -
  obtain out where "res sim_dns_set sim_blank = (None, out)" using sim_dns_set_ok by (metis prod.collapse)
  from simulated_dns_set_is_real [OF this [unfolded sim_dns_set_def]] show ?thesis by (simp only: sim_dns_set_def)
qed

lemma simulated_uppercase_mac_witness:
  "res (verify sample_rt (Host (fake_deps sample_rt ''/http'')) ''AA:00:00:00:00:01'' ''10.0.0.5'')
     (after (sim_prepare ((sample_cluster ''one'')\<lparr>cNetworkMode := NetworkModeBridge, cMasterMAC := ''AA:00:00:00:00:01'',
        cMasterIP := ''10.0.0.5''\<rparr>)) sim_blank) \<noteq> None"
proof -
  have l: "to_lower ''AA:00:00:00:00:01'' \<noteq> ''AA:00:00:00:00:01''" by code_simp
  let ?c = "(sample_cluster ''one'')\<lparr>cNetworkMode := NetworkModeBridge, cMasterMAC := ''AA:00:00:00:00:01'', cMasterIP := ''10.0.0.5''\<rparr>"
  show ?thesis
    using simulated_uppercase_mac [of ?c sample_rt "''/http''" sim_blank] l by (simp add: sample_rt_def)
qed

end
