(* ===== verification/SimulatedRun.thy ===== *)
theory SimulatedRun
  imports Operations
begin

text \<open>
  A whole run of the pipeline of \<open>create\<close> on the doubles of \<open>providers/fakes\<close>: with no injected error
  every stage succeeds, and the cluster ends up running.

  \<open>yields I Q p\<close>: from a state in \<open>I\<close>, \<open>p\<close> stays in \<open>I\<close> and its result satisfies \<open>Q\<close>; its rules
  follow the combinators of the effects.
\<close>

section \<open>Effects that keep an invariant and succeed\<close>

definition yields :: "('s \<Rightarrow> bool) \<Rightarrow> ('a \<Rightarrow> bool) \<Rightarrow> ('s, 'a) io \<Rightarrow> bool" where
  "yields I Q p \<longleftrightarrow> (\<forall>x. I x \<longrightarrow> Q (res p x) \<and> I (after p x))"

abbreviation succeeds :: "('s \<Rightarrow> bool) \<Rightarrow> ('s, error option) io \<Rightarrow> bool" where
  "succeeds I p \<equiv> yields I (\<lambda>e. e = None) p"

abbreviation returns :: "('s \<Rightarrow> bool) \<Rightarrow> ('a \<Rightarrow> bool) \<Rightarrow> ('s, 'a result) io \<Rightarrow> bool" where
  "returns I P p \<equiv> yields I (\<lambda>r. \<exists>a. r = Inr a \<and> P a) p"

abbreviation applies :: "('s \<Rightarrow> bool) \<Rightarrow> (mem \<Rightarrow> bool) \<Rightarrow> ('s, error option \<times> mem) io \<Rightarrow> bool" where
  "applies I M p \<equiv> yields I (\<lambda>r. fst r = None \<and> M (snd r)) p"

named_theorems yields_intros "effects that keep an invariant and succeed"

lemma yields_ret [yields_intros]: "Q a \<Longrightarrow> yields I Q (io_ret a)"
  by (simp add: yields_def)

lemma yields_bind: "yields I R p \<Longrightarrow> (\<And>a. R a \<Longrightarrow> yields I Q (k a)) \<Longrightarrow> yields I Q (io_bind p k)"
  by (simp add: yields_def)

lemma yields_weaken: "yields I R p \<Longrightarrow> (\<And>a. R a \<Longrightarrow> Q a) \<Longrightarrow> yields I Q p"
  by (simp add: yields_def)

lemma yields_if [yields_intros]:
  "(b \<Longrightarrow> yields I Q p) \<Longrightarrow> (\<not> b \<Longrightarrow> yields I Q q) \<Longrightarrow> yields I Q (if b then p else q)"
  by simp

lemma succeeds_seq [yields_intros]: "succeeds I p \<Longrightarrow> succeeds I q \<Longrightarrow> succeeds I (io_seq p q)"
  unfolding io_seq_def by (erule yields_bind) auto

lemma succeeds_wrap [yields_intros]: "succeeds I p \<Longrightarrow> succeeds I (wrap_err f args p)"
  unfolding wrap_err_def by (erule yields_bind) (auto intro: yields_ret)

lemma returns_wrap [yields_intros]: "returns I P p \<Longrightarrow> returns I P (wrap_res f args p)"
  unfolding wrap_res_def by (erule yields_bind) (auto intro: yields_ret)

lemma applies_keep [yields_intros]: "succeeds I p \<Longrightarrow> M m \<Longrightarrow> applies I M (keep_mem m p)"
  unfolding keep_mem_def by (erule yields_bind) (auto intro: yields_ret)

lemma applies_check [yields_intros]: "succeeds I p \<Longrightarrow> applies I M k \<Longrightarrow> applies I M (act_check m p k)"
  unfolding act_check_def by (erule yields_bind) auto

lemma applies_bind: "returns I P p \<Longrightarrow> (\<And>a. P a \<Longrightarrow> applies I M (k a)) \<Longrightarrow> applies I M (act_bind m p k)"
  unfolding act_bind_def by (erule yields_bind) auto

section \<open>The doubles without injected errors\<close>

definition clean :: "fake_bundle \<Rightarrow> bool" where
  "clean b \<longleftrightarrow> fcErr (bCmd b) = None \<and> fcOutput (bCmd b) = [] \<and> fcRunFunc (bCmd b) = None \<and> fcStreamStdout (bCmd b) = [] \<and>
     fdErr (bDownload b) = None \<and> fvErr (bVM b) = None \<and> fnErr (bNet b) = None \<and> fiErr (bInstaller b) = None \<and>
     fiWaitForInstallTimeouts (bInstaller b) = 0 \<and> fyErr (bLocalCertIssuer b) = None"

definition sim_dirs :: "string list" where
  "sim_dirs = [''/sim/clusters/one'', ''/sim/bin/4.17.3'', ''/sim/rhcos/4.17.3'', ''/sim/clusters/one/tls'',
     ''/sim/clusters/one/auth'', ''/home/user/.kube'']"

abbreviation sim_key :: string where "sim_key \<equiv> ''/sim/clusters/one/id_rsa''"
abbreviation sim_pub :: string where "sim_pub \<equiv> ''/sim/clusters/one/id_rsa.pub''"
abbreviation sim_kubeconfig :: string where "sim_kubeconfig \<equiv> ''/sim/clusters/one/auth/kubeconfig''"
abbreviation sim_secret :: string where "sim_secret \<equiv> ''/sim/pull-secret''"

text \<open>\<open>keyed\<close>: the SSH key has been generated.\<close>

definition sim_inv :: "bool \<Rightarrow> sim \<Rightarrow> bool" where
  "sim_inv keyed x \<longleftrightarrow> clean (rest x) \<and> (\<forall>d \<in> set sim_dirs. files x d \<in> {None, Some Dir}) \<and>
     files x sim_kubeconfig = None \<and> (\<exists>t. files x sim_secret = Some (File (Raw t))) \<and>
     (if keyed then \<exists>t. files x sim_pub = Some (File (Raw t)) else files x sim_key = None)"

definition free_path :: "string \<Rightarrow> bool" where
  "free_path p \<longleftrightarrow> p \<notin> set sim_dirs \<and> p \<notin> {sim_kubeconfig, sim_secret, sim_key, sim_pub}"

lemma clean_op: "(\<And>b. clean b \<Longrightarrow> Q (fst (f b)) \<and> clean (snd (f b))) \<Longrightarrow> yields (sim_inv k) Q (sim_op f)"
  by (auto simp: yields_def sim_inv_def)

lemma yields_write [yields_intros]: "free_path p \<Longrightarrow> succeeds (sim_inv k) (os_write sample_rt p c)"
  by (auto simp: yields_def sim_inv_def free_path_def os_write_def os_call_def sample_rt_def res_def after_def io_bind_def
      io_ret_def err_of_def)

lemma yields_mkdir [yields_intros]: "d \<in> set sim_dirs \<Longrightarrow> succeeds (sim_inv k) (os_mkdirall sample_rt d)"
proof -
  assume d: "d \<in> set sim_dirs"
  then have n: "d \<notin> {sim_kubeconfig, sim_secret, sim_key, sim_pub}" by (auto simp: sim_dirs_def)
  show ?thesis
    using d n by (auto simp: yields_def sim_inv_def os_mkdirall_def os_call_def sample_rt_def res_def after_def io_bind_def
      io_ret_def err_of_def split: option.splits node.splits)
qed

lemma yields_remove: "free_path p \<Longrightarrow> yields (sim_inv k) (\<lambda>_. True) (os_remove sample_rt p)"
  by (auto simp: yields_def sim_inv_def free_path_def os_remove_def os_call_def sample_rt_def res_def after_def io_bind_def
      io_ret_def err_of_def split: option.splits node.splits)

lemma yields_exists: "yields (sim_inv k) (\<lambda>_. True) (os_exists sample_rt p)"
  by (auto simp: yields_def os_exists_def os_stat_def os_call_def sample_rt_def res_def after_def io_bind_def io_ret_def sim_inv_def)

lemma no_kubeconfig: "yields (sim_inv k) (\<lambda>b. \<not> b) (os_exists sample_rt sim_kubeconfig)"
  by (auto simp: yields_def os_exists_def os_stat_def os_call_def sample_rt_def res_def after_def io_bind_def io_ret_def sim_inv_def)

lemma clean_simps [simp]:
  "clean (bCmd_update (fcCalls_update f) b) = clean b" "clean (bDownload_update (fdCalls_update g) b) = clean b"
  by (simp_all add: clean_def)

lemma yields_note [yields_intros]: "yields (sim_inv k) (\<lambda>_. True) (note_call c)"
  unfolding note_call_def by (rule clean_op) simp

text \<open>A command that is not \<open>ssh-keygen\<close> prints nothing, or \<open>True\<close> to a readiness probe.\<close>

lemma yields_run: "n \<noteq> ''ssh-keygen'' \<Longrightarrow> yields (sim_inv k) (\<lambda>r. snd r = None) (fake_Run sample_rt n args)"
  unfolding fake_Run_def
  by (rule yields_bind, rule yields_note, rule yields_bind [where R = "\<lambda>_. True"], simp add: fake_key_files_def yields_ret,
      rule clean_op) (simp add: fake_answer_def clean_def)


lemma yields_chk [yields_intros]: "n \<noteq> ''ssh-keygen'' \<Longrightarrow> Cmd_Run cmd = fake_Run sample_rt \<Longrightarrow> succeeds (sim_inv k) (run_checked cmd f as n args)"
  unfolding run_checked_def
  by (rule succeeds_wrap) (simp, rule yields_bind, erule yields_run, auto intro: yields_ret)

lemma yields_download [yields_intros]:
  "path_dir p \<in> set sim_dirs \<Longrightarrow> free_path p \<Longrightarrow> succeeds (sim_inv k) (fake_Download sample_rt url p)"
  unfolding fake_Download_def
  by (rule yields_bind [where R = "\<lambda>r. fst r = None"], rule clean_op, simp add: clean_def)
     (auto intro!: yields_intros)

lemma double_ops [yields_intros]:
  "succeeds (sim_inv k) (fake_VM_Create v)" "succeeds (sim_inv k) (fake_VM_Start n)" "succeeds (sim_inv k) (fake_EnsureNetwork w)"
  "succeeds (sim_inv k) (fake_AddHost net h)" "succeeds (sim_inv k) (fake_WriteInstallConfig spec)"
  "succeeds (sim_inv k) (fake_EmbedIgnitionInISO spec a b c)" "succeeds (sim_inv k) (fake_EmbedNetworkKeyfileInISO spec a b)"
  "succeeds (sim_inv k) (fake_WaitForInstallComplete spec)"
  "returns (sim_inv k) (\<lambda>_. True) (fake_VM_ImportISO pool vol src)" "returns (sim_inv k) (\<lambda>_. True) (fake_CoreOSLiveISOURL spec)"
  "returns (sim_inv k) (\<lambda>_. True) (fake_local_Issue ds)"
  "yields (sim_inv k) (\<lambda>r. snd r = None) (fake_VM_IsRunning n)"
  "yields (sim_inv k) (\<lambda>_. True) (fake_csr_Turn a b)" "yields (sim_inv k) (\<lambda>_. True) (fake_hostname_Turn a b c)"
  unfolding fake_VM_Create_def fake_VM_Start_def vm_op_def fake_EnsureNetwork_def fake_AddHost_def net_op_def
    fake_WriteInstallConfig_def fake_EmbedIgnitionInISO_def fake_EmbedNetworkKeyfileInISO_def installer_op_def
    fake_WaitForInstallComplete_def fake_VM_ImportISO_def fake_CoreOSLiveISOURL_def installer_get_def fake_local_Issue_def
    fake_VM_IsRunning_def fake_csr_Turn_def fake_hostname_Turn_def
  by (rule clean_op; simp add: clean_def pool_volume_def fake_issue_def note_step_def Let_def)+

lemma yields_ignition [yields_intros]:
  "isClusterDir spec = ''/sim/clusters/one'' \<Longrightarrow> succeeds (sim_inv k) (fake_CreateSingleNodeIgnition sample_rt spec)"
proof -
  have p: "path_join [''/sim/clusters/one'', ''bootstrap-in-place-for-live-iso.ign''] = ''/sim/clusters/one/bootstrap-in-place-for-live-iso.ign''"
    by code_simp
  have o: "succeeds (sim_inv k) (installer_op spec f)" if "\<And>i. fiErr (f i) = fiErr i" "\<And>i. fiWaitForInstallTimeouts (f i) = fiWaitForInstallTimeouts i" for f
    unfolding installer_op_def by (rule clean_op) (simp add: clean_def that)
  assume "isClusterDir spec = ''/sim/clusters/one''"
  then show ?thesis
    unfolding fake_CreateSingleNodeIgnition_def
    by (auto intro!: yields_intros o simp: p note_step_def) (simp_all add: sim_dirs_def free_path_def)
qed


section \<open>The paths of the run\<close>

definition sim_mem_ok :: "bool \<Rightarrow> mem \<Rightarrow> bool" where
  "sim_mem_ok allocated m \<longleftrightarrow> ConfigDir m = ''/sim'' \<and> cName (heap m 0) = ''one'' \<and> cOCPVersion (heap m 0) = ''4.17.3'' \<and>
     cNetworkMode (heap m 0) = NetworkModeNAT \<and> cDNSProvider (heap m 0) = [] \<and> \<not> cBakeImages (heap m 0) \<and> \<not> cODF (heap m 0) \<and>
     cTLSEmail (heap m 0) = [] \<and> cMasterCount (heap m 0) = 1 \<and> cWorkerCount (heap m 0) = 0 \<and>
     cMasterMAC (heap m 0) = [] \<and> cMasterIP (heap m 0) = [] \<and>
     (if allocated
      then (\<exists>mac macs ip ips. cMACAddresses (heap m 0) = mac # macs \<and> mac \<noteq> [] \<and> cIPAddresses (heap m 0) = ip # ips \<and>
              ip \<noteq> [] \<and> cMachineCIDR (heap m 0) = BaseNetworkRange @ ''.0/24'')
      else UsedIPs m = [] \<and> UsedMACs m = [] \<and> cMACAddresses (heap m 0) = [])"

lemma joined_paths:
  "path_join [''/sim'', ''config.json''] = ''/sim/config.json''" "path_join [''/sim'', DefaultPullSecret] = ''/sim/pull-secret''"
  "path_join [''/sim'', ''clusters'', ''one''] = ''/sim/clusters/one''" "path_join [''/sim'', ''bin'', ''4.17.3''] = ''/sim/bin/4.17.3''"
  "path_join [''/sim'', ''rhcos'', ''4.17.3''] = ''/sim/rhcos/4.17.3''"
  "path_join [''/sim/rhcos/4.17.3'', ''rhcos-live.iso''] = ''/sim/rhcos/4.17.3/rhcos-live.iso''"
  "path_join [''/sim/bin/4.17.3'', ''oc''] = ''/sim/bin/4.17.3/oc''"
  "path_join [''/sim/bin/4.17.3'', ''openshift-install''] = ''/sim/bin/4.17.3/openshift-install''"
  "path_join [''/sim/bin/4.17.3'', ''coreos-installer''] = ''/sim/bin/4.17.3/coreos-installer''"
  "path_join [''/sim/bin/4.17.3'', ''_download.tar.gz''] = ''/sim/bin/4.17.3/_download.tar.gz''"
  "path_join [''/sim/clusters/one'', ''master.iso''] = ''/sim/clusters/one/master.iso''"
  "path_join [''/sim/clusters/one'', ''master.nmconnection''] = ''/sim/clusters/one/master.nmconnection''"
  "path_join [''/sim/clusters/one'', ''bootstrap-in-place-for-live-iso.ign''] = ''/sim/clusters/one/bootstrap-in-place-for-live-iso.ign''"
  "path_join [''/sim/clusters/one'', ''id_rsa''] = sim_key" "path_join [''/sim/clusters/one'', ''id_rsa.pub''] = sim_pub"
  "path_join [''/sim/clusters/one'', ''auth'', ''kubeconfig''] = sim_kubeconfig"
  "path_join [''/sim/clusters/one'', ''auth''] = ''/sim/clusters/one/auth''" "path_join [''/sim/clusters/one'', ''tls''] = ''/sim/clusters/one/tls''"
  "path_join [''/sim'', ''ca''] = ''/sim/ca''" "path_join [''/sim/ca'', ''ca.crt''] = ''/sim/ca/ca.crt''"
  "path_join [''/sim/clusters/one/auth'', ''client.crt''] = ''/sim/clusters/one/auth/client.crt''"
  "path_join [''/sim/clusters/one/auth'', ''client.key''] = ''/sim/clusters/one/auth/client.key''"
  "path_join [''/sim/clusters/one/auth'', ''ca-bundle.crt''] = ''/sim/clusters/one/auth/ca-bundle.crt''"
  "path_join [''/sim/clusters/one/tls'', ''api.crt''] = ''/sim/clusters/one/tls/api.crt''"
  "path_join [''/sim/clusters/one/tls'', ''api.key''] = ''/sim/clusters/one/tls/api.key''"
  "path_join [''/sim/clusters/one/tls'', ''apps.crt''] = ''/sim/clusters/one/tls/apps.crt''"
  "path_join [''/sim/clusters/one/tls'', ''apps.key''] = ''/sim/clusters/one/tls/apps.key''"
  "path_join [''/sim/clusters/one/tls'', ''one-api-cert.secret.yaml''] = ''/sim/clusters/one/tls/one-api-cert.secret.yaml''"
  "path_join [''/sim/clusters/one/tls'', ''one-apps-cert.secret.yaml''] = ''/sim/clusters/one/tls/one-apps-cert.secret.yaml''"
  by code_simp+

lemma parent_paths:
  "path_dir ''/sim/clusters/one/state.json'' = ''/sim/clusters/one''" "path_dir ''/sim/bin/4.17.3/_download.tar.gz'' = ''/sim/bin/4.17.3''"
  "path_dir ''/sim/bin/4.17.3/coreos-installer'' = ''/sim/bin/4.17.3''" "path_dir ''/sim/rhcos/4.17.3/rhcos-live.iso'' = ''/sim/rhcos/4.17.3''"
  "path_dir ''/sim/clusters/one/tls/api.crt'' = ''/sim/clusters/one/tls''" "path_dir ''/sim/clusters/one/tls/apps.crt'' = ''/sim/clusters/one/tls''"
  "path_dir ''/home/user/.kube/config'' = ''/home/user/.kube''" "targetKubeconfig sample_rt = Inr ''/home/user/.kube/config''"
  by code_simp+

lemma sim_run_paths:
  assumes "sim_mem_ok a m"
  shows "sc_ClusterDir m (heap m 0) = ''/sim/clusters/one''" "sc_OCBinaryPath m (heap m 0) = ''/sim/bin/4.17.3/oc''"
    "sc_MasterISOPath m (heap m 0) = ''/sim/clusters/one/master.iso''"
    "sc_RHCOSLiveISOPath m (heap m 0) = ''/sim/rhcos/4.17.3/rhcos-live.iso''" "sc_KubeconfigPath m (heap m 0) = sim_kubeconfig"
    "BinariesDir (ConfigDir m) (cOCPVersion (heap m 0)) = ''/sim/bin/4.17.3''" "PullSecretPath (ConfigDir m) = sim_secret"
    "config_path (ConfigDir m) = ''/sim/config.json''" "statePath (ConfigDir m) (cName (heap m 0)) = ''/sim/clusters/one/state.json''"
    "LocalCADir (ConfigDir m) = ''/sim/ca''" "LocalCACertPath (ConfigDir m) = ''/sim/ca/ca.crt''"
  using assms sim_paths(1)
  by (simp_all add: sim_mem_ok_def sc_ClusterDir_def ClusterDir_def sc_OCBinaryPath_def BinariesDir_def sc_MasterISOPath_def
      sc_RHCOSLiveISOPath_def RHCOSCacheDir_def sc_KubeconfigPath_def PullSecretPath_def config_path_def joined_paths
      LocalCADir_def LocalCACertPath_def)

lemmas sim_places = sim_dirs_def free_path_def

lemma yields_Save [yields_intros]: "sim_mem_ok a m \<Longrightarrow> succeeds (sim_inv k) (Save sample_rt m)"
  unfolding Save_def by (auto intro!: yields_intros simp: sim_run_paths sim_places)

lemma yields_save_mem [yields_intros]: "sim_mem_ok a m \<Longrightarrow> M m \<Longrightarrow> applies (sim_inv k) M (save_mem sample_rt m)"
  unfolding save_mem_def by (intro yields_intros)

lemma yields_saveState: "succeeds (sim_inv k) (saveState sample_rt ''/sim'' ''one'' st)"
  unfolding saveState_def Let_def by (auto intro!: yields_intros simp: sim_paths sim_places)

lemma yields_missing [yields_intros]: "succeeds (sim_inv k) p \<Longrightarrow> succeeds (sim_inv k) (unless_exists sample_rt q p)"
  unfolding unless_exists_def by (rule yields_bind, rule yields_exists) (auto intro: yields_intros)

section \<open>The stages\<close>

lemma run_register: "sim_mem_ok False m \<Longrightarrow> applies (sim_inv k) (sim_mem_ok False) (registercluster_Apply sample_rt 0 m)"
  unfolding registercluster_Apply_def
  by (auto intro!: yields_intros yields_save_mem [where a = False]) (simp_all add: sim_mem_ok_def)

lemma run_clusterdir: "sim_mem_ok a m \<Longrightarrow> applies (sim_inv k) (sim_mem_ok a) (ensureclusterdir_Apply sample_rt 0 m)"
  unfolding ensureclusterdir_Apply_def by (auto intro!: yields_intros simp: sim_run_paths sim_places)

lemma run_dns: "sim_mem_ok a m \<Longrightarrow> applies (sim_inv k) (sim_mem_ok a) (upsertdns_Apply dns 0 m)"
  unfolding upsertdns_Apply_def Let_def by (auto intro!: yields_intros simp: sim_mem_ok_def)

lemma run_binaries:
  "sim_mem_ok a m \<Longrightarrow> applies (sim_inv k) (sim_mem_ok a)
     (downloadbinaries_Apply sample_rt (Download (fake_deps sample_rt root)) (Cmd (fake_deps sample_rt root)) 0 m)"
  unfolding downloadbinaries_Apply_def Let_def downloadTarball_def
  by (auto intro!: yields_intros yields_bind [OF yields_chk] yields_bind [OF yields_remove] simp: sim_run_paths sim_places joined_paths parent_paths)


lemma run_rhcos:
  "sim_mem_ok a m \<Longrightarrow> applies (sim_inv k) (sim_mem_ok a)
     (downloadrhcos_Apply sample_rt gz (Installer (fake_deps sample_rt root)) (Download (fake_deps sample_rt root)) 0 m)"
  unfolding downloadrhcos_Apply_def downloadrhcos_ISO_def Let_def
  by (auto intro!: yields_intros yields_bind [OF double_ops(10)] simp: sim_run_paths sim_places parent_paths fake_deps_def sample_rt_def [THEN arg_cong [where f = GOOS]])

lemma run_bake: "sim_mem_ok a m \<Longrightarrow> applies (sim_inv k) (sim_mem_ok a) (bakeimagestore_Apply sample_rt baker 0 m)"
  unfolding bakeimagestore_Apply_def Let_def by (auto intro!: yields_intros simp: sim_mem_ok_def)

lemma run_network:
  "sim_mem_ok a m \<Longrightarrow> applies (sim_inv k) (sim_mem_ok a) (createnetwork_Apply (Net (fake_deps sample_rt root)) 0 m)"
  unfolding createnetwork_Apply_def Let_def by (auto intro!: yields_intros)

lemma run_vms: "sim_mem_ok a m \<Longrightarrow> applies (sim_inv k) (sim_mem_ok a) (createmastervms_Apply sample_rt fake_vm_manager 0 m)"
proof -
  have "succeeds (sim_inv k) (createMasterVM sample_rt fake_vm_manager m (heap m 0) i)" if "sim_mem_ok a m" for i
    using that unfolding createMasterVM_def Let_def
    by (auto intro!: yields_intros simp: sim_mem_ok_def bake_disks_def odf_disks_def io_try_def)
  moreover have "sim_mem_ok a m \<Longrightarrow> cMasterCount (heap m 0) = 1" by (simp add: sim_mem_ok_def)
  ultimately show "sim_mem_ok a m \<Longrightarrow> ?thesis"
    unfolding createmastervms_Apply_def by (auto intro!: yields_intros)
qed

lemma run_verify: "sim_mem_ok a m \<Longrightarrow> applies (sim_inv k) (sim_mem_ok a) (verifymasterip_Apply sample_rt host 0 m)"
  unfolding verifymasterip_Apply_def Let_def by (auto intro!: yields_intros simp: sim_mem_ok_def)

lemma run_odf: "sim_mem_ok a m \<Longrightarrow> applies (sim_inv k) (sim_mem_ok a) (installodf_Apply odf 0 m)"
  unfolding installodf_Apply_def Let_def by (auto intro!: yields_intros simp: sim_mem_ok_def)

lemma run_finalize: "sim_mem_ok a m \<Longrightarrow> applies (sim_inv k) (sim_mem_ok a) (finalize_Apply sample_rt 0 m)"
  unfolding finalize_Apply_def by (rule yields_save_mem [where a = a]) (auto simp: sim_mem_ok_def)

lemma keyfile_exists: "sim_mem_ok True m \<Longrightarrow> \<exists>t. StaticNetworkKeyfile (heap m 0) = Inr t"
proof -
  assume a: "sim_mem_ok True m"
  then have "PrimaryMasterMAC (heap m 0) \<noteq> []" "PrimaryMasterIP (heap m 0) \<noteq> []" "cMachineCIDR (heap m 0) = BaseNetworkRange @ ''.0/24''"
    by (auto simp: sim_mem_ok_def PrimaryMasterMAC_def PrimaryMasterIP_def)
  from StaticNetworkKeyfile_ok [OF this] show ?thesis by (simp add: Let_def)
qed

lemma run_media:
  assumes "sim_mem_ok True m"
  shows "applies (sim_inv k) (sim_mem_ok True) (embedignitioniso_Apply sample_rt (Installer (fake_deps sample_rt root)) fake_vm_manager 0 m)"
proof -
  obtain t where t: "StaticNetworkKeyfile (heap m 0) = Inr t" using keyfile_exists [OF assms] by blast
  have u: "sim_mem_ok True (set_cluster 0 (cBootISOVolPath_update (\<lambda>_. v)) m)" for v using assms by (simp add: sim_mem_ok_def)
  have b: "\<not> cBakeImages (heap m 0)" using assms by (simp add: sim_mem_ok_def)
  show ?thesis
    unfolding embedignitioniso_Apply_def Let_def
    using assms b u by (auto intro!: yields_intros applies_bind [OF double_ops(9)] yields_save_mem [OF u] simp: t sim_run_paths joined_paths sim_places fake_deps_def)
qed


lemma run_wait:
  assumes "sim_mem_ok a m"
  shows "applies (sim_inv k) (sim_mem_ok a)
    (waitforinstall_Apply sample_rt (Installer (fake_deps sample_rt root)) (CSR (fake_deps sample_rt root))
      (Hostname (fake_deps sample_rt root)) fake_vm_manager sched 0 m)"
proof -
  let ?turn = "helper_turn (CSR (fake_deps sample_rt root)) (Hostname (fake_deps sample_rt root)) fake_vm_manager m (heap m 0)"
  have w: "yields (sim_inv k) (\<lambda>_. True) (watchdog_turn fake_vm_manager n)" for n
    unfolding watchdog_turn_def fake_vm_simps
    by (rule yields_bind, rule double_ops(12)) (auto intro!: yields_intros yields_bind [OF double_ops(2)])
  have t: "yields (sim_inv k) (\<lambda>_. True) (helper_turns ?turn hs)" for hs
    by (induction hs) (auto intro!: yields_intros w yields_bind [where R = "\<lambda>_. True"] simp: helper_turn_def split: helper.split)
  have l: "succeeds (sim_inv k) (wait_loop (Installer (fake_deps sample_rt root)) spec (\<lambda>k. helper_turns ?turn (sched k)) (Suc n) e)" for spec n e
    by (simp, rule yields_bind, rule t, rule yields_bind [where R = "\<lambda>e. e = None"], simp add: fake_deps_def double_ops)
      (auto intro: yields_ret)
  show ?thesis
    unfolding waitforinstall_Apply_def Let_def waitWithRetry_def
    by (rule yields_bind, simp only: numeral_3_eq_3, rule l, rule yields_bind, rule t) (use assms in \<open>auto intro: yields_ret\<close>)
qed

lemma yields_step [yields_intros]:
  "succeeds (sim_inv k) (oc_steps (Cmd (fake_deps sample_rt root)) ''/sim/bin/4.17.3/oc'' steps)"
  by (induction steps) (auto intro!: yields_intros)

text \<open>What the fake commands print decodes as base64.\<close>

lemma yields_jsonpath:
  "returns (sim_inv k) (\<lambda>v. v \<in> {[], ''True''}) (jsonpath (Cmd (fake_deps sample_rt root)) ''/sim/bin/4.17.3/oc'' kc expr)"
proof -
  have t: "trim_space ''True'' = ''True''" "trim_space [] = []" by code_simp+
  have r: "yields (sim_inv k) (\<lambda>r. snd r = None \<and> fst r \<in> {[], ''True''}) (fake_Run sample_rt ''/sim/bin/4.17.3/oc'' args)" for args
    unfolding fake_Run_def
    by (rule yields_bind, rule yields_note, rule yields_bind [where R = "\<lambda>_. True"], simp add: fake_key_files_def yields_ret,
      rule clean_op) (simp add: fake_answer_def clean_def)
  show ?thesis
    unfolding jsonpath_def fake_deps_simps by (rule yields_bind, rule r) (auto intro!: yields_ret simp: t)
qed

lemma yields_writeB64: "v \<in> {[], ''True''} \<Longrightarrow> free_path p \<Longrightarrow> succeeds (sim_inv k) (writeB64 sample_rt p v)"
proof -
  have d: "base64_decode [] \<noteq> None" "base64_decode ''True'' \<noteq> None" by code_simp+
  assume "v \<in> {[], ''True''}" "free_path p"
  with d show ?thesis by (auto simp: writeB64_def intro!: yields_intros)
qed

lemma run_kubeconfig:
  assumes "sim_mem_ok a m"
  shows "applies (sim_inv k) (sim_mem_ok a) (mergekubeconfig_Apply sample_rt (Cmd (fake_deps sample_rt root)) 0 m)"
proof -
  let ?m = "set_cluster 0 (cKubeconfigTarget_update (\<lambda>_. ''/home/user/.kube/config'')) m"
  have m: "sim_mem_ok a ?m" using assms by (cases a) (simp_all add: sim_mem_ok_def)
  note p = sim_run_paths [OF m]
  show ?thesis
    unfolding mergekubeconfig_Apply_def parent_paths(8) sum.case Let_def p joined_paths parent_paths
    using m by (auto intro!: yields_intros applies_bind [OF yields_jsonpath] yields_writeB64 simp: sim_places)
qed

lemma yields_secret:
  "path_join [path_dir c, n @ ''.secret.yaml''] = tmp \<Longrightarrow> free_path tmp \<Longrightarrow>
   succeeds (sim_inv k) (applyTLSSecret sample_rt (Cmd (fake_deps sample_rt root)) ''/sim/bin/4.17.3/oc'' kc ns n c key)"
  unfolding applyTLSSecret_def Let_def fake_deps_simps
  by (rule yields_bind, rule yields_run, simp) (auto intro!: yields_intros)

lemma run_tls:
  assumes "sim_mem_ok a m" "\<And>t. pem_decode pem t = None"
  shows "applies (sim_inv k) (sim_mem_ok a) (applytlscerts_Apply sample_rt pem (NewCertIssuer (fake_deps sample_rt root))
    (NewLocalCertIssuer (fake_deps sample_rt root)) (Cmd (fake_deps sample_rt root)) 0 m)"
proof -
  have i: "returns (sim_inv k) (\<lambda>i. i = fake_local_Issue) (choose_issuer sample_rt (NewCertIssuer (fake_deps sample_rt root))
      (NewLocalCertIssuer (fake_deps sample_rt root)) m (heap m 0))"
    using assms(1) by (simp add: choose_issuer_def sim_mem_ok_def fake_deps_def yields_def wrap_res_def)
  have f: "succeeds (sim_inv k) (issueToFiles sample_rt fake_local_Issue ds c key)" if "free_path c" "free_path key" for ds c key
    unfolding issueToFiles_def by (rule yields_bind, rule double_ops(11)) (use that in \<open>auto intro!: yields_intros\<close>)
  have r: "yields (sim_inv k) (\<lambda>_. True) (os_read_bytes sample_rt q)" for q
    by (auto simp: yields_def os_read_bytes_def os_read_def os_call_def sample_rt_def res_def after_def io_bind_def io_ret_def sim_inv_def)
  have l: "yields (sim_inv k) (\<lambda>e. e \<noteq> None) (appendLocalCAToKubeconfig sample_rt pem cmd oc kc e q)" for cmd oc kc e q
    unfolding appendLocalCAToKubeconfig_def assms(2)
    by (rule yields_bind, rule r) (auto intro: yields_ret split: sum.split)
  have x: "succeeds (sim_inv k) (fix_kubeconfig sample_rt pem (Cmd (fake_deps sample_rt root)) m (heap m 0))"
    unfolding fix_kubeconfig_def Let_def sim_run_paths [OF assms(1)]
    using assms(1) by (auto simp: sim_mem_ok_def intro!: yields_bind [OF l] yields_bind [OF no_kubeconfig] yields_ret)
  have n: "cName (heap m 0) = ''one''" using assms(1) by (simp add: sim_mem_ok_def)
  show ?thesis
    unfolding applytlscerts_Apply_def Let_def sim_run_paths [OF assms(1)] joined_paths
    using assms(1) by (auto intro!: yields_intros applies_bind [OF i] f x yields_secret simp: n sim_places joined_paths parent_paths)
qed


lemma run_allocate:
  assumes "sim_mem_ok False m"
  shows "applies (sim_inv k) (sim_mem_ok True) (allocatenetwork_Apply sample_rt (env_rand sim_env) 0 m)"
proof -
  let ?mac = "mac_text 1 2 171" and ?ip = "ip_text 5"
  have r: "env_rand sim_env = (\<lambda>s. (Inr (1, 2, 171), 0, s))" by (simp add: sim_env_def)
  have g: "generateMAC (env_rand sim_env) = io_ret (Inr ?mac)"
    by (rule ext) (simp add: generateMAC_def r io_bind_def io_ret_def)
  note f = assms [unfolded sim_mem_ok_def]
  have a: "allocate_macs (env_rand sim_env) 0 (nat 1) m = io_ret (Inr [?mac], mark_mac ?mac m)"
    using f by (simp add: allocateMAC_def g numeral_eq_Suc map_get_def)
  let ?m2 = "set_cluster 0 (cMACAddresses_update (\<lambda>_. [?mac])) (mark_mac ?mac m)"
  have b: "allocate_ips 0 (nat 1) ?m2 = (Inr [?ip], mark_ip ?ip ?m2)"
    using f by (simp add: allocateIP_def NetworkStart_def NetworkEnd_def upt_conv_Cons map_get_def mark_mac_def)
  let ?m3 = "set_cluster 0 (\<lambda>c. c\<lparr>cIPAddresses := [?ip], cNetworkSubnet := BaseNetworkRange\<rparr>) (mark_ip ?ip ?m2)"
  have c: "allocate (env_rand sim_env) 0 m = io_ret (None, ?m3)"
    using f a b by (simp add: allocate_def Let_def)
  have n: "?mac \<noteq> []" "?ip \<noteq> []" by (simp_all add: mac_text_def ip_text_def)
  let ?f = "\<lambda>c. deriveMagicDomain (c\<lparr>cMachineCIDR := cNetworkSubnet c @ ''.0/24''\<rparr>)"
  have d: "deriveMagicDomain x = x \<or> (\<exists>t. deriveMagicDomain x = x\<lparr>cDomain := t\<rparr>)" for x
    by (auto simp: deriveMagicDomain_def)
  have m: "sim_mem_ok True (set_cluster 0 ?f ?m3)"
    using f n d [of "(heap ?m3 0)\<lparr>cMachineCIDR := cNetworkSubnet (heap ?m3 0) @ ''.0/24''\<rparr>"]
    by (auto simp: sim_mem_ok_def mark_mac_def mark_ip_def)
  have "allocatenetwork_Apply sample_rt (env_rand sim_env) 0 m = save_mem sample_rt (set_cluster 0 ?f ?m3)"
    using f by (simp add: allocatenetwork_Apply_def Let_def c)
  then show ?thesis using yields_save_mem [where M = "sim_mem_ok True", OF m m] by simp
qed

text \<open>\<open>generate-ssh-key\<close> leaves the public key for the stages that follow.\<close>

lemma run_key:
  assumes "sim_mem_ok a m" "sim_inv False x"
  shows "res (generatesshkey_Apply sample_rt (Cmd (fake_deps sample_rt root)) 0 m) x = (None, m)"
    "sim_inv True (after (generatesshkey_Apply sample_rt (Cmd (fake_deps sample_rt root)) 0 m) x)"
proof -
  let ?args = "[''-t'', ''rsa'', ''-b'', ''4096'', ''-f'', sim_key, ''-N'', [], ''-q'']"
  let ?y = "after (note_call \<lparr>ccName = ''ssh-keygen'', ccArgs = ?args, ccStreaming = False\<rparr>) x"
  have p: "ssh_key_path m (heap m 0) = sim_key"
    by (simp only: ssh_key_path_def sim_run_paths [OF assms(1)] joined_paths)
  have e: "res (os_exists sample_rt sim_key) x = False" "after (os_exists sample_rt sim_key) x = x"
    using assms(2) by (simp_all add: os_exists_def os_stat_def os_call_def sample_rt_def res_def after_def io_bind_def io_ret_def sim_inv_def)
  have y: "sim_inv False ?y" using yields_note [of False] assms(2) by (simp add: yields_def)
  let ?z = "after (fake_key_files sample_rt ''ssh-keygen'' ?args) ?y"
  have z: "sim_inv True ?z"
    using y by (auto simp: fake_key_files_def sim_inv_def os_write_def os_call_def sample_rt_def res_def after_def io_bind_def
      io_ret_def sim_dirs_def)
  have a: "snd (fake_answer (bCmd (rest ?z)) ''ssh-keygen'' ?args) = None"
    using z by (simp add: fake_answer_def sim_inv_def clean_def)
  have r: "snd (res (fake_Run sample_rt ''ssh-keygen'' ?args) x) = None" "after (fake_Run sample_rt ''ssh-keygen'' ?args) x = ?z"
    using a by (simp_all add: fake_Run_def)
  show "res (generatesshkey_Apply sample_rt (Cmd (fake_deps sample_rt root)) 0 m) x = (None, m)"
    "sim_inv True (after (generatesshkey_Apply sample_rt (Cmd (fake_deps sample_rt root)) 0 m) x)"
    using r z by (simp_all add: generatesshkey_Apply_def Let_def p e keep_mem_def case_prod_beta)
qed

lemma run_ignition:
  assumes "sim_mem_ok a m"
  shows "applies (sim_inv True) (sim_mem_ok a) (generateignition_Apply sample_rt (Installer (fake_deps sample_rt root)) 0 m)"
proof -
  have r: "returns (sim_inv True) (\<lambda>_. True) (os_read_bytes sample_rt q)" if "q \<in> {sim_secret, sim_pub}" for q
    using that by (auto simp: yields_def os_read_bytes_def os_read_def os_call_def sample_rt_def res_def after_def io_bind_def
      io_ret_def sim_inv_def)
  have s: "returns (sim_inv True) (\<lambda>_. True) (ReadPullSecret sample_rt (ConfigDir m))"
    unfolding ReadPullSecret_def sim_run_paths [OF assms] by (rule yields_bind, rule r) (auto intro: yields_ret)
  have g: "GOOS sample_rt = ''linux''" "\<not> cBakeImages (heap m 0)" "isClusterDir (sc_InstallerSpec sample_rt m (heap m 0)) = ''/sim/clusters/one''"
    using assms by (simp_all add: sample_rt_def sim_mem_ok_def sc_InstallerSpec_def Let_def sim_run_paths [OF assms])
  show ?thesis
    unfolding generateignition_Apply_def Let_def sim_run_paths [OF assms] joined_paths
    using assms by (auto intro!: yields_intros applies_bind [OF s] applies_bind [OF returns_wrap [OF r]] simp: g fake_deps_def)
qed


section \<open>The whole pipeline\<close>

text \<open>
  A chain of invariants, one before each stage, carries a loop over stages none of which is recorded
  to its end.
\<close>

lemma apply_loop_chain:
  assumes stages: "\<And>i m x. i < length ss \<Longrightarrow> chain i m x \<Longrightarrow>
      fst (res (Apply (ss ! i) r m) x) = None \<and> chain (Suc i) (snd (res (Apply (ss ! i) r m) x)) (after (Apply (ss ! i) r m) x)"
    and now: "\<And>i m x. chain i m x \<Longrightarrow> chain i m (after now x)"
    and save: "\<And>i m x st. chain i m x \<Longrightarrow> res (save (cName (heap m r)) st) x = None \<and> chain i m (after (save (cName (heap m r)) st) x)"
    and "chain 0 m x" "distinct (map Name ss)" "Name ` set ss \<inter> recorded st = {}"
  shows "fst (res (apply_loop save now r ss st m) x) = None"
  using assms
proof (induction ss arbitrary: chain st m x)
  case (Cons S ss)
  obtain m1 where a: "res (Apply S r m) x = (None, m1)" "chain 1 m1 (after (Apply S r m) x)"
    using Cons.prems(1) [of 0 m x] Cons.prems(4) by (cases "res (Apply S r m) x") auto
  let ?y = "after now (after (Apply S r m) x)" and ?st = "mark_applied (Name S) (res now (after (Apply S r m) x)) st"
  have s: "res (save (cName (heap m1 r)) ?st) ?y = None" "chain 1 m1 (after (save (cName (heap m1 r)) ?st) ?y)"
    using Cons.prems(3) [OF Cons.prems(2) [OF a(2)]] by auto
  have "fst (res (apply_loop save now r ss ?st m1) (after (save (cName (heap m1 r)) ?st) ?y)) = None"
  proof (rule Cons.IH [of "\<lambda>i. chain (Suc i)"])
    show "fst (res (Apply (ss ! i) r m) x) = None \<and> chain (Suc (Suc i)) (snd (res (Apply (ss ! i) r m) x)) (after (Apply (ss ! i) r m) x)"
      if "i < length ss" "chain (Suc i) m x" for i m x using Cons.prems(1) [of "Suc i"] that by simp
  qed (use Cons.prems(2,3,5,6) s in auto)
  moreover have "map_of st (Name S) = None" using Cons.prems(6) by (auto simp: recorded_def)
  ultimately show ?case using a s by simp
qed simp

lemma appliesD: "applies I M (f m) \<Longrightarrow> I x \<Longrightarrow> fst (res (f m) x) = None \<and> M (snd (res (f m) x)) \<and> I (after (f m) x)"
  by (simp add: yields_def)

text \<open>\<open>carries\<close>: the stage succeeds, and takes the memory and the doubles from one phase to another.\<close>

definition carries :: "bool \<Rightarrow> bool \<Rightarrow> bool \<Rightarrow> bool \<Rightarrow> sim stage \<Rightarrow> bool" where
  "carries a k a' k' S \<longleftrightarrow> (\<forall>m x. sim_mem_ok a m \<longrightarrow> sim_inv k x \<longrightarrow>
     fst (res (Apply S 0 m) x) = None \<and> sim_mem_ok a' (snd (res (Apply S 0 m) x)) \<and> sim_inv k' (after (Apply S 0 m) x))"

lemma carriesI: "(\<And>m. sim_mem_ok a m \<Longrightarrow> applies (sim_inv k) (sim_mem_ok a') (Apply S 0 m)) \<Longrightarrow> carries a k a' k S"
  by (simp add: carries_def yields_def)

abbreviation sim_deps :: "sim deps" where "sim_deps \<equiv> fake_deps sample_rt ''/http''"

lemma stages_carry:
  "carries False False False False (registercluster sample_rt)"
  "carries False False True False (allocatenetwork sample_rt (env_rand sim_env))"
  "carries True False True False (upsertdns sample_rt (DNSManager sim_deps))"
  "carries True False True False (ensureclusterdir sample_rt)"
  "carries True False True False (downloadbinaries sample_rt (Download sim_deps) (Cmd sim_deps) (Host sim_deps))"
  "carries True False True False (downloadrhcos sample_rt (env_gunzip sim_env) (Installer sim_deps) (Download sim_deps))"
  "carries True False True False (bakeimagestore sample_rt (ImageBaker sim_deps) (Host sim_deps))"
  "carries True False True True (generatesshkey sample_rt (Cmd sim_deps) (Host sim_deps))"
  "carries True True True True (generateignition sample_rt (Installer sim_deps) (DNS sim_deps) (Host sim_deps))"
  "carries True True True True (embedignitioniso sample_rt (Installer sim_deps) fake_vm_manager)"
  "carries True True True True (createnetwork (Net sim_deps) fake_vm_manager)"
  "carries True True True True (createmastervms sample_rt fake_vm_manager (Host sim_deps))"
  "carries True True True True (verifymasterip sample_rt (Host sim_deps))"
  "carries True True True True (waitforinstall sample_rt (Installer sim_deps) (CSR sim_deps) (Hostname sim_deps) fake_vm_manager (env_sched sim_env))"
  "carries True True True True (applytlscerts sample_rt (env_pem sim_env) (NewCertIssuer sim_deps) (NewLocalCertIssuer sim_deps) (Cmd sim_deps))"
  "carries True True True True (mergekubeconfig sample_rt (Cmd sim_deps))"
  "carries True True True True (installodf (ODF sim_deps))"
  "carries True True True True (finalize sample_rt)"
proof -
  show "carries True False True True (generatesshkey sample_rt (Cmd sim_deps) (Host sim_deps))"
    using run_key by (simp add: carries_def generatesshkey_def)
  have "pem_decode (env_pem sim_env) t = None" for t by (simp add: sim_env_def)
  then show "carries True True True True (applytlscerts sample_rt (env_pem sim_env) (NewCertIssuer sim_deps) (NewLocalCertIssuer sim_deps) (Cmd sim_deps))"
    by (intro carriesI) (simp add: applytlscerts_def run_tls)
qed (rule carriesI, simp add: stage_defs run_register run_allocate run_dns run_clusterdir run_binaries run_rhcos run_bake run_ignition run_media
  run_network run_vms run_verify run_wait run_kubeconfig run_odf run_finalize)+

lemma sim_stages:
  "buildStages sim_env sim_deps =
     [registercluster sample_rt, allocatenetwork sample_rt (env_rand sim_env), upsertdns sample_rt (DNSManager sim_deps),
      ensureclusterdir sample_rt, downloadbinaries sample_rt (Download sim_deps) (Cmd sim_deps) (Host sim_deps),
      downloadrhcos sample_rt (env_gunzip sim_env) (Installer sim_deps) (Download sim_deps),
      bakeimagestore sample_rt (ImageBaker sim_deps) (Host sim_deps), generatesshkey sample_rt (Cmd sim_deps) (Host sim_deps),
      generateignition sample_rt (Installer sim_deps) (DNS sim_deps) (Host sim_deps),
      embedignitioniso sample_rt (Installer sim_deps) fake_vm_manager, createnetwork (Net sim_deps) fake_vm_manager,
      createmastervms sample_rt fake_vm_manager (Host sim_deps), verifymasterip sample_rt (Host sim_deps),
      waitforinstall sample_rt (Installer sim_deps) (CSR sim_deps) (Hostname sim_deps) fake_vm_manager (env_sched sim_env),
      applytlscerts sample_rt (env_pem sim_env) (NewCertIssuer sim_deps) (NewLocalCertIssuer sim_deps) (Cmd sim_deps),
      mergekubeconfig sample_rt (Cmd sim_deps), installodf (ODF sim_deps), finalize sample_rt]"
proof -
  have "env_rt sim_env = sample_rt" by (simp add: sim_env_def)
  then show ?thesis by (simp add: buildStages_def Let_def boot_media_def sample_rt_def)
qed

lemma sim_stage_carries:
  assumes "i < length (buildStages sim_env sim_deps)"
  shows "carries (2 \<le> i) (8 \<le> i) (2 \<le> Suc i) (8 \<le> Suc i) (buildStages sim_env sim_deps ! i)"
proof -
  have "length (buildStages sim_env sim_deps) = 18" by (simp add: sim_stages)
  with assms have "i < 18" by simp
  then have "i \<in> {0, 1, 2, 3, 4, 5, 6, 7, 8, 9, 10, 11, 12, 13, 14, 15, 16, 17}" unfolding insert_iff empty_iff by presburger
  then show ?thesis unfolding sim_stages by (elim insertE) (simp_all add: stages_carry)
qed


lemma sim_start_ok: "sim_inv False sim_start" "holds_state ''/sim'' ''one'' [] sim_start"
proof -
  have p: "ConfigDir (NewDefaultConfig ''/sim'') = ''/sim''" "PullSecretPath ''/sim'' = sim_secret"
    "DNSTokenPath ''/sim'' DNSProviderCloudflare = ''/sim/cloudflare-token''" "trim_space ''simulated-token'' = ''simulated-token''"
    by code_simp+
  let ?s = "json_text (JObj [(''auths'', JObj [(''sim'', JObj [(''auth'', JStr ''c2ltdWxhdGVk'')])])])"
  have f: "files sim_start = [''/sim'' \<mapsto> Dir, sim_secret \<mapsto> File (Raw ?s), ''/sim/cloudflare-token'' \<mapsto> File (Raw ''simulated-token'')]"
    "rest sim_start = fresh_bundle ''/http''"
    by (simp_all add: sim_start_def newSimulationEnv_def Let_def p WritePullSecret_def WriteDNSToken_def os_mkdirall_def os_write_def
      os_call_def sample_rt_def res_def [of "os_call _ _ _"] after_def [of "os_call _ _ _"] err_of_def)
  show "sim_inv False sim_start" "holds_state ''/sim'' ''one'' [] sim_start"
    by (simp_all add: sim_inv_def f clean_def fresh_bundle_def sim_dirs_def holds_state_def sim_paths)
qed

text \<open>No stage of the run fails.\<close>

lemma sim_run_ok:
  "fst (res (runner_Apply sample_rt ''/sim'' 0 (sim_mem (sample_cluster ''one'')) (buildStages sim_env sim_deps)) sim_start) = None"
proof -
  let ?m = "sim_mem (sample_cluster ''one'')" and ?ss = "buildStages sim_env sim_deps"
  have m: "sim_mem_ok False ?m" by (simp add: sim_mem_ok_def sim_mem_def sample_cluster_def NewDefaultConfig_def)
  have n: "cName (heap ?m 0) = ''one''" using m by (simp add: sim_mem_ok_def)
  have l: "loadState sample_rt ''/sim'' ''one'' sim_start = (Inr [], 0, sim_start)"
    using sim_start_ok(2)
    by (auto simp: loadState_def sim_paths holds_state_def os_read_def os_call_def sample_rt_def io_bind_def io_ret_def
        stages_of_def split: option.splits node.splits content.splits)
  have "fst (res (apply_loop (saveState sample_rt ''/sim'') (clock_now sample_rt) 0 ?ss [] ?m) sim_start) = None"
  proof (rule apply_loop_chain [where chain = "\<lambda>i m x. sim_mem_ok (2 \<le> i) m \<and> sim_inv (8 \<le> i) x"])
    show "fst (res (Apply (?ss ! i) 0 m) x) = None \<and> sim_mem_ok (2 \<le> Suc i) (snd (res (Apply (?ss ! i) 0 m) x)) \<and>
        sim_inv (8 \<le> Suc i) (after (Apply (?ss ! i) 0 m) x)"
      if "i < length ?ss" "sim_mem_ok (2 \<le> i) m \<and> sim_inv (8 \<le> i) x" for i m x
      using sim_stage_carries [OF that(1)] that(2) unfolding carries_def by blast
    show "res (saveState sample_rt ''/sim'' (cName (heap m 0)) st) x = None \<and> sim_mem_ok (2 \<le> i) m \<and>
        sim_inv (8 \<le> i) (after (saveState sample_rt ''/sim'' (cName (heap m 0)) st) x)"
      if "sim_mem_ok (2 \<le> i) m \<and> sim_inv (8 \<le> i) x" for i :: nat and m x st
    proof -
      have "cName (heap m 0) = ''one''" using that by (simp add: sim_mem_ok_def)
      then show ?thesis using that yields_saveState [of "8 \<le> i" st] by (simp add: yields_def)
    qed
    show "sim_mem_ok (2 \<le> (0 :: nat)) ?m \<and> sim_inv (8 \<le> (0 :: nat)) sim_start" using m sim_start_ok(1) by simp
    show "distinct (map Name ?ss)" by (rule distinct_stages)
  qed (simp_all add: recorded_def)
  then show ?thesis by (simp add: runner_Apply_def n res_def [of "loadState _ _ _"] after_def [of "loadState _ _ _"] l)
qed


end
