(* ===== verification/CreateFacts.thy ===== *)
theory CreateFacts
  imports SimulatedRun Admission Dns
begin

text \<open>
  Two ways in which \<open>create\<close> cannot succeed although its checks pass: a DNS provider with a NAT
  cluster, and resuming on macOS after \<open>publish-pxe-assets\<close>.
\<close>

section \<open>A DNS provider for a NAT cluster\<close>

lemma accepted_nat_address:
  assumes "validateNew m c = None" "cNetworkMode c = NetworkModeNAT"
  shows "cMasterIP c = []"
  using validateNew_fields(7) [OF assms(1)] assms(2) by (auto simp: validate_nat_def split: if_split_asm)


definition nat_cloudflare :: cluster_config where
  "nat_cloudflare = (sample_cluster ''one'')\<lparr>cDNSProvider := ''cloudflare''\<rparr>"

definition no_libdns :: "unit libdns" where
  "no_libdns = \<lparr>RelativeName = (\<lambda>fqn zone. fqn), Address = (\<lambda>_ _ _. ()), RR_Name = (\<lambda>_. []), RR_Type = (\<lambda>_. ''A'')\<rparr>"

definition no_provider :: "(unit, unit) libdns_provider" where
  "no_provider = \<lparr>GetRecords = (\<lambda>_. io_ret (Inr [])), SetRecords = (\<lambda>_ rs. io_ret (Inr rs)), DeleteRecords = (\<lambda>_ rs. io_ret (Inr rs))\<rparr>"


section \<open>Resuming after publish-pxe-assets\<close>

lemma path_clean_nonempty: "path_clean p \<noteq> []"
  by (simp add: path_clean_def Let_def)

lemma file_ends:
  assumes "d \<noteq> []" "CHR ''/'' \<notin> set f" "f \<noteq> []" "f \<noteq> ''.''" "f \<noteq> ''..''"
  shows "\<exists>p. path_join [d, f] = p @ f"
  using path_join_file [OF assms(2-5), of "[d]"] assms(1) by simp

lemma img_json: "rev (p @ ''rootfs.img'') \<noteq> rev (q @ ''config.json'')"
  and ign_json: "rev (p @ ''config.ign'') \<noteq> rev (q @ ''config.json'')"
  by simp_all

lemma published_paths:
  assumes "n \<noteq> []"
  shows "path_join [path_join [root, n], ''rootfs.img''] \<noteq> config_path cd" "path_join [path_join [root, n], ''config.ign''] \<noteq> config_path cd"
proof -
  have d: "path_join [root, n] \<noteq> []" using assms path_clean_nonempty by (simp add: path_join_def Let_def)
  obtain p q u where "path_join [path_join [root, n], ''rootfs.img''] = p @ ''rootfs.img''"
    "path_join [path_join [root, n], ''config.ign''] = q @ ''config.ign''" "config_path cd = u @ ''config.json''"
    using file_ends [OF d, of "''rootfs.img''"] file_ends [OF d, of "''config.ign''"] config_path_file [of cd] by auto
  then show "path_join [path_join [root, n], ''rootfs.img''] \<noteq> config_path cd" "path_join [path_join [root, n], ''config.ign''] \<noteq> config_path cd"
    using img_json [of p u] ign_json [of q u] by simp_all
qed

lemma mkdirall_keeps_file: "files x q = Some (File c) \<Longrightarrow> files (after (os_mkdirall rt p) x) q = Some (File c)"
  by (auto simp: os_mkdirall_def os_call_def after_def io_bind_def io_ret_def split: prod.splits option.splits node.splits)

lemma publish_effect:
  assumes ok: "res (publishpxeassets_Apply rt fs inst r m) x = (None, m')"
    and "cName (heap m r) \<noteq> []" "\<not> cBakeImages (heap m r)" "files x (config_path cd) = Some (File c)"
  shows "m' = set_cluster r (cInstallKernelCmdline_update (\<lambda>_. KernelCmdline (Fs_BaseURL fs) (cName (heap m r)))) m"
    "files (after (publishpxeassets_Apply rt fs inst r m) x) (config_path cd) = Some (File c)"
proof -
  let ?dst = "path_join [Fs_RootDir fs, cName (heap m r)]"
  let ?c = "heap m r" and ?p1 = "path_join [?dst, ''rootfs.img'']" and ?p2 = "path_join [?dst, ''config.ign'']"
  note n = published_paths [OF assms(2), of "Fs_RootDir fs" cd]
  have w: "files (after (os_write rt p b) y) (config_path cd) = files y (config_path cd)" if "p \<noteq> config_path cd" for p b y
    using that by (cases "res (os_write rt p b) y") (simp_all add: os_write_None os_write_Some)
  have k: "files (after (copyFile rt src ?p1) y) (config_path cd) = files y (config_path cd)" for src y
    using n(1) by (simp add: copyFile_def w split: sum.split)
  have b: "files (after (os_read_bytes rt p) y) = files y" for p y by (simp add: os_read_bytes_def)
  note d = mkdirall_keeps_file [OF assms(4), of rt ?dst]
  show "m' = set_cluster r (cInstallKernelCmdline_update (\<lambda>_. KernelCmdline (Fs_BaseURL fs) (cName (heap m r)))) m"
    using ok assms(3) by (auto simp: publishpxeassets_Apply_def Let_def split: option.splits sum.splits)
  show "files (after (publishpxeassets_Apply rt fs inst r m) x) (config_path cd) = Some (File c)"
    using n(2) assms(3) d by (simp add: publishpxeassets_Apply_def Let_def k b w split: option.split sum.split)
qed


lemma LoadConfig_thaw:
  assumes "files y (config_path cd) = Some (File (ConfigDoc d))" "res (LoadConfig rt cd) y = Inr l"
  shows "l = thaw d"
proof -
  have k: "files (after (os_mkdirall rt cd) y) (config_path cd) = Some (File (ConfigDoc d))"
    by (rule mkdirall_keeps_file [OF assms(1)])
  have "error_is e ErrNotExist \<Longrightarrow> res (os_read rt (config_path cd)) (after (os_mkdirall rt cd) y) \<noteq> Inl e" for e
    using os_read_cases [of rt "config_path cd" "after (os_mkdirall rt cd) y" e] k by auto
  then show ?thesis
    using assms(2) k
    by (auto simp: LoadConfig_def Let_def split: option.splits sum.splits content.splits if_splits dest!: os_read_Inr)
qed

text \<open>C35. On macOS \<open>publish-pxe-assets\<close> keeps the kernel command line only in memory: \<open>config.json\<close> is as
  before, although the runner records the stage. A process that resumes the create loads the empty command
  line, skips the stage, and gives the machine of \<open>create-master-vms\<close> no kernel arguments.\<close>

theorem publish_lost_on_resume:
  assumes mac: "GOOS rt = ''darwin''"
    and ok: "res (publishpxeassets_Apply rt fs inst r m) x = (None, m')"
    and c: "cName (heap m r) \<noteq> []" "\<not> cBakeImages (heap m r)"
    and disk: "files x (config_path cd) = Some (File (ConfigDoc d))" "i < length (dClusters d)"
      "cInstallKernelCmdline (dClusters d ! i) = []"
    and resumed: "files y (config_path cd) = files (after (publishpxeassets_Apply rt fs inst r m) x) (config_path cd)"
      "res (LoadConfig rt cd) y = Inr l" "''publish-pxe-assets'' \<in> recorded st"
  shows "vKernelArgs (master_spec rt m' (heap m' r) n mac_addr disks) = KernelCmdline (Fs_BaseURL fs) (cName (heap m r)) \<and>
    apply_loop save now i (publishpxeassets rt fs inst # ss) st l = apply_loop save now i ss st l \<and>
    vKernelArgs (master_spec rt l (heap l i) n mac_addr disks) = []"
proof -
  note e = publish_effect [OF ok c disk(1)]
  have "files y (config_path cd) = Some (File (ConfigDoc d))" using resumed(1) e(2) by simp
  from LoadConfig_thaw [OF this resumed(2)] have "heap l i = dClusters d ! i" using disk(2) by (simp add: thaw_def split: prod.splits)
  moreover have "map_of st ''publish-pxe-assets'' \<noteq> None" using resumed(3) recorded_iff by blast
  ultimately show ?thesis
    using mac disk(3) e(1) by (auto simp: master_spec_def Let_def publishpxeassets_def)
qed

definition mac_rt :: "'x rt" where "mac_rt = sample_rt\<lparr>GOOS := ''darwin''\<rparr>"

definition mac_mem :: mem where
  "mac_mem = (sample_mem [(sample_cluster ''one'')\<lparr>cIPAddresses := [''192.168.126.5''], cMACAddresses := [''52:54:00:00:00:01'']\<rparr>])
     \<lparr>ConfigDir := ''/sim''\<rparr>"

definition mac_sys :: sim where
  "mac_sys = \<lparr>files = [''/sim/config.json'' \<mapsto> File (ConfigDoc (snapshot mac_mem)), ''/sim/rhcos/4.17.3/rootfs.img'' \<mapsto> File (Raw ''rootfs''),
     ''/sim/clusters/one/bootstrap-in-place-for-live-iso.ign'' \<mapsto> File (Raw fake_ignition)], rest = fresh_bundle ''/http''\<rparr>"

definition mac_fs :: file_server where
  "mac_fs = \<lparr>Fs_RootDir = ''/http'', Fs_BaseURL = ''http://10.0.0.2:9393''\<rparr>"

lemma mac_publish:
  "fst (res (publishpxeassets_Apply mac_rt mac_fs (Installer (fake_deps sample_rt ''/http'')) 0 mac_mem) mac_sys) = None"
  "files (after (publishpxeassets_Apply mac_rt mac_fs (Installer (fake_deps sample_rt ''/http'')) 0 mac_mem) mac_sys) ''/sim'' = None"
proof -
  have p: "path_join [''/http'', ''one''] = ''/http/one''" "path_join [''/http/one'', ''rootfs.img''] = ''/http/one/rootfs.img''"
    "path_join [''/http/one'', ''config.ign''] = ''/http/one/config.ign''"
    "path_join [''/sim/rhcos/4.17.3'', ''rootfs.img''] = ''/sim/rhcos/4.17.3/rootfs.img''" by code_simp+
  have j: "\<exists>t. injectStaticNetwork fake_ignition c = Inr t" for c
  proof -
    have "json_parse fake_ignition = Some (JObj [(''ignition'', JObj [(''version'', JStr ''3.4.0'')])])" by code_simp
    then show ?thesis by (simp add: injectStaticNetwork_def)
  qed
  then obtain t where t: "injectStaticNetwork fake_ignition (heap mac_mem 0) = Inr t" by blast
  have c: "cName (heap mac_mem 0) = ''one''" "cOCPVersion (heap mac_mem 0) = ''4.17.3''" "\<not> cBakeImages (heap mac_mem 0)" "ConfigDir mac_mem = ''/sim''"
    by (simp_all add: mac_mem_def sample_mem_def sample_cluster_def)
  have q: "sc_ClusterDir mac_mem (heap mac_mem 0) = ''/sim/clusters/one''" "sc_RHCOSRootfsPath mac_mem (heap mac_mem 0) = ''/sim/rhcos/4.17.3/rootfs.img''"
    by (simp_all add: sc_ClusterDir_def ClusterDir_def sc_RHCOSRootfsPath_def sc_rhcosCache_def RHCOSCacheDir_def c joined_paths p)
  show "fst (res (publishpxeassets_Apply mac_rt mac_fs (Installer (fake_deps sample_rt ''/http'')) 0 mac_mem) mac_sys) = None"
    "files (after (publishpxeassets_Apply mac_rt mac_fs (Installer (fake_deps sample_rt ''/http'')) 0 mac_mem) mac_sys) ''/sim'' = None"
    by (simp_all add: publishpxeassets_Apply_def Let_def q c mac_fs_def p joined_paths copyFile_def os_read_bytes_def os_read_def os_write_def
      os_mkdirall_def os_call_def mac_rt_def sample_rt_def mac_sys_def res_def after_def io_bind_def io_ret_def err_of_def act_check_def
      act_bind_def wrap_err_def wrap_res_def content_bytes_def t)
qed


theorem publish_lost_on_resume_witness:
  "\<exists>m' l. fst (publishpxeassets_Apply mac_rt mac_fs (Installer (fake_deps sample_rt ''/http'')) 0 mac_mem mac_sys) = (None, m') \<and>
     vKernelArgs (master_spec (mac_rt :: fake_bundle rt) m' (heap m' 0) ''master-0-one'' [] []) = KernelCmdline ''http://10.0.0.2:9393'' ''one'' \<and>
     res (LoadConfig mac_rt ''/sim'') (after (publishpxeassets_Apply mac_rt mac_fs (Installer (fake_deps sample_rt ''/http'')) 0 mac_mem) mac_sys) = Inr l \<and>
     vKernelArgs (master_spec (mac_rt :: fake_bundle rt) l (heap l 0) ''master-0-one'' [] []) = []"
proof -
  let ?a = "publishpxeassets_Apply mac_rt mac_fs (Installer (fake_deps sample_rt ''/http'')) 0 mac_mem" and ?d = "snapshot mac_mem"
  let ?y = "after ?a mac_sys"
  obtain m' where ok: "res ?a mac_sys = (None, m')" using mac_publish(1) by (metis prod.collapse)
  have g: "GOOS mac_rt = ''darwin''" by (simp add: mac_rt_def)
  have c: "cName (heap mac_mem 0) \<noteq> []" "\<not> cBakeImages (heap mac_mem 0)" "cName (heap mac_mem 0) = ''one''"
    by (simp_all add: mac_mem_def sample_mem_def sample_cluster_def)
  have p: "config_path ''/sim'' = ''/sim/config.json''" by code_simp
  have d: "files mac_sys (config_path ''/sim'') = Some (File (ConfigDoc ?d))" "0 < length (dClusters ?d)"
    "cInstallKernelCmdline (dClusters ?d ! 0) = []"
    by (simp_all add: p mac_sys_def snapshot_def cluster_list_def mac_mem_def sample_mem_def sample_cluster_def)
  note e = publish_effect [OF ok c(1,2) d(1)]
  have l: "res (LoadConfig mac_rt ''/sim'') ?y = Inr (thaw ?d)"
    using e(2) mac_publish(2)
    by (simp add: LoadConfig_def Let_def p os_mkdirall_def os_read_def os_call_def mac_rt_def sample_rt_def res_def after_def
      io_bind_def io_ret_def err_of_def)
  have r: "''publish-pxe-assets'' \<in> recorded [(''publish-pxe-assets'', \<lparr>srAppliedAt = 0, srOutcome = StageOutcomeOK\<rparr>)]"
    by (simp add: recorded_def)
  note t = publish_lost_on_resume [OF g ok c(1,2) d refl l r]
  have "vKernelArgs (master_spec (mac_rt :: fake_bundle rt) m' (heap m' 0) ''master-0-one'' [] []) = KernelCmdline ''http://10.0.0.2:9393'' ''one''"
    using t [THEN conjunct1] by (simp add: c(3) mac_fs_def)
  moreover have "vKernelArgs (master_spec (mac_rt :: fake_bundle rt) (thaw ?d) (heap (thaw ?d) 0) ''master-0-one'' [] []) = []"
    by (rule t [THEN conjunct2, THEN conjunct2])
  moreover have "fst (?a mac_sys) = (None, m')" using ok by (simp add: res_def)
  ultimately show ?thesis using l by blast
qed

end
