(* ===== verification/RegistrySpec.thy ===== *)
theory RegistrySpec
  imports Registry
begin

text \<open>
  What the cluster manager promises about the registry, as an abstract machine over the names of
  the clusters and the addresses each of them holds, and the refinement: every run of the manager
  (\<open>app/manager.go\<close>, \<open>app/natreset.go\<close>), with the reload of its configuration file, is a run of
  that machine.
\<close>

section \<open>The abstract registry\<close>

text \<open>A registry maps the name of each cluster to the IP and MAC addresses it holds of the pools.\<close>

type_synonym address = "string + string"
type_synonym registry = "string \<Rightarrow> address set option"

text \<open>
  A create of \<open>n\<close> adds \<open>n\<close>, if there is room, or gives \<open>n\<close> new addresses, which no other cluster
  holds; a delete of \<open>n\<close> takes \<open>n\<close> out or shrinks what it holds; nothing else changes anything.
\<close>

inductive reg_step :: "reg_event \<Rightarrow> registry \<Rightarrow> registry \<Rightarrow> bool" where
  idle: "reg_step e g g"
| hold: "n \<in> dom g \<or> card (dom g) < DefaultClustersMax \<Longrightarrow> (\<And>k B. k \<noteq> n \<Longrightarrow> g k = Some B \<Longrightarrow> A \<inter> B = {}) \<Longrightarrow>
    reg_step (Creates n) g (g(n \<mapsto> A))"
| leave: "n \<in> dom g \<Longrightarrow> reg_step (Deletes n) g (g(n := None))"
| shrink: "g n = Some B \<Longrightarrow> A \<subseteq> B \<Longrightarrow> reg_step (Deletes n) g (g(n \<mapsto> A))"

inductive_simps keeps_step [simp]: "reg_step Keeps g g'"

inductive reg_run :: "reg_event list \<Rightarrow> registry \<Rightarrow> bool" where
  start: "reg_run [] Map.empty"
| step: "reg_run es g \<Longrightarrow> reg_step e g g' \<Longrightarrow> reg_run (es @ [e]) g'"

text \<open>The machine isolates the clusters from each other, by its definition alone.\<close>

lemma reg_step_other: "reg_step e g g' \<Longrightarrow> e \<noteq> Creates n \<Longrightarrow> e \<noteq> Deletes n \<Longrightarrow> g' n = g n"
  by (induction rule: reg_step.induct) auto

section \<open>The abstraction\<close>

definition held :: "cluster_config \<Rightarrow> address set" where
  "held c = (if is_nat c then Inl ` set (cIPAddresses c) \<union> Inr ` set (cMACAddresses c) else {})"

definition reg_of :: "mem \<Rightarrow> registry" where
  "reg_of m n = map_option (\<lambda>q. held (heap m q)) (find_cluster m n)"

lemma find_cluster_unique:
  assumes "registry_ok m" "q \<in> set (Clusters m)"
  shows "find_cluster m (cName (heap m q)) = Some q"
proof -
  obtain p where p: "find_cluster m (cName (heap m q)) = Some p"
    using assms(2) find_cluster_simps(2) [of m "cName (heap m q)"]
    by (cases "find_cluster m (cName (heap m q))") (auto simp: is_registered_def list_ex_iff)
  with find_cluster_simps(1) [OF p] assms show ?thesis
    by (auto simp: registry_ok_def distinct_map dest: inj_onD)
qed

lemma reg_of_Some:
  "registry_ok m \<Longrightarrow> reg_of m n = Some A \<longleftrightarrow> (\<exists>q \<in> set (Clusters m). cName (heap m q) = n \<and> A = held (heap m q))"
  by (auto simp: reg_of_def find_cluster_unique dest: find_cluster_simps(1))

lemma reg_of_None: "reg_of m n = None \<longleftrightarrow> \<not> is_registered m n"
  by (simp add: reg_of_def find_cluster_simps(2))

lemma reg_of_dom: "dom (reg_of m) = (\<lambda>q. cName (heap m q)) ` set (Clusters m)"
  by (auto simp: dom_def reg_of_None is_registered_def list_ex_iff simp flip: not_None_eq)

lemma reg_of_card: "registry_ok m \<Longrightarrow> card (dom (reg_of m)) = length (Clusters m)"
  by (simp add: reg_of_dom registry_ok_def distinct_card flip: set_map)

lemma reg_of_disjoint:
  assumes ok: "registry_ok m" and kl: "reg_of m k = Some A" "reg_of m l = Some B" "k \<noteq> l"
  shows "A \<inter> B = {}"
proof -
  obtain p q where "p \<in> set (Clusters m)" "cName (heap m p) = k" "A = held (heap m p)"
    "q \<in> set (Clusters m)" "cName (heap m q) = l" "B = held (heap m q)"
    using kl by (auto simp: reg_of_Some [OF ok])
  with kl(3) pool_ok_disjoint [of "set (Clusters m)" m p q] ok show ?thesis
    by (auto simp: held_def registry_ok_def)
qed

text \<open>What only touches the cluster named \<open>n\<close> changes the abstract registry at \<open>n\<close> only.\<close>

lemma reg_of_at:
  assumes ok: "registry_ok m" "registry_ok m'"
    and n: "n = cName (heap m q)" and same: "\<forall>p. p \<noteq> q \<longrightarrow> heap m' p = heap m p"
    and named: "\<And>p. cName (heap m' p) = n \<longleftrightarrow> cName (heap m p) = n"
    and regs: "\<And>p. cName (heap m p) \<noteq> n \<Longrightarrow> p \<in> set (Clusters m') \<longleftrightarrow> p \<in> set (Clusters m)"
  shows "reg_of m' = (reg_of m)(n := reg_of m' n)"
proof -
  have "reg_of m' k = Some A \<longleftrightarrow> reg_of m k = Some A" if "k \<noteq> n" for k A
    unfolding reg_of_Some [OF ok(1)] reg_of_Some [OF ok(2)] using that n same named regs by metis
  then have "reg_of m' k = reg_of m k" if "k \<noteq> n" for k using that by (metis option.exhaust)
  then show ?thesis by auto
qed

section \<open>The operations refine the machine\<close>

lemma registry_step_refines:
  assumes s: "registry_step q m m'" and ok: "registry_ok m" "registry_ok m'"
    and room: "is_registered m (cName (heap m q)) \<or> length (Clusters m) < DefaultClustersMax"
  shows "reg_step (Creates (cName (heap m q))) (reg_of m) (reg_of m')"
proof -
  let ?n = "cName (heap m q)"
  have n: "cName (heap m' p) = cName (heap m p)" for p
    using s step_names [of q m m'] by (simp add: registry_step_def)
  have at: "reg_of m' = (reg_of m)(?n := reg_of m' ?n)"
    by (rule reg_of_at [OF ok refl]) (use s n in \<open>auto simp: registry_step_def\<close>)
  show ?thesis
  proof (cases "reg_of m' ?n")
    case None
    then have "reg_of m ?n = None" using s n by (auto simp: reg_of_None registry_step_def is_registered_def)
    with None at have "reg_of m' = reg_of m" by (metis fun_upd_triv)
    then show ?thesis by (simp add: idle)
  next
    case (Some A)
    have "A \<inter> B = {}" if "k \<noteq> ?n" "reg_of m k = Some B" for k B
      using reg_of_disjoint [OF ok(2) Some, of k B] fun_cong [OF at, of k] that by simp
    moreover have "?n \<in> dom (reg_of m) \<or> card (dom (reg_of m)) < DefaultClustersMax"
      using room by (auto simp: reg_of_card [OF ok(1)] reg_of_None simp flip: not_None_eq)
    ultimately have "reg_step (Creates ?n) (reg_of m) ((reg_of m)(?n \<mapsto> A))" by (rule hold [rotated])
    with at Some show ?thesis by simp
  qed
qed

lemma retire_step_refines:
  assumes s: "retire_step q m m'" and ok: "registry_ok m" "registry_ok m'" and q: "q \<in> set (Clusters m)"
  shows "reg_step (Deletes (cName (heap m q))) (reg_of m) (reg_of m')"
proof -
  let ?n = "cName (heap m q)"
  have n: "cName (heap m' p) = cName (heap m p)" for p
    using s step_names [of q m m'] by (simp add: retire_step_def)
  have sub: "set (Clusters m') \<subseteq> set (Clusters m)"
    using s list_emb_set [of "(=)" "Clusters m'" "Clusters m"] by (auto simp: retire_step_def)
  have at: "reg_of m' = (reg_of m)(?n := reg_of m' ?n)"
    by (rule reg_of_at [OF ok refl]) (use s n sub in \<open>auto simp: retire_step_def\<close>)
  have old: "reg_of m ?n = Some (held (heap m q))" using q by (auto simp: reg_of_Some [OF ok(1)])
  show ?thesis
  proof (cases "reg_of m' ?n")
    case None
    with at leave [of ?n "reg_of m"] old show ?thesis by (simp add: domI)
  next
    case (Some A)
    then obtain p where p: "p \<in> set (Clusters m')" "cName (heap m p) = ?n" "A = held (heap m' p)"
      by (auto simp: reg_of_Some [OF ok(2)] n)
    then have "p = q" using find_cluster_unique [OF ok(1)] q sub by (metis option.inject subsetD)
    then have "A \<subseteq> held (heap m q)" using p s by (auto simp: held_def retire_step_def)
    with shrink [of "reg_of m" ?n "held (heap m q)" A] old at Some show ?thesis by simp
  qed
qed

lemma reg_of_quiet:
  assumes "quiet_step q m m'"
  shows "reg_of m' = reg_of m"
proof -
  have f: "cName (heap m' p) = cName (heap m p)" "held (heap m' p) = held (heap m p)" for p
    using assms by (cases "p = q"; simp add: quiet_step_def held_def)+
  show ?thesis using assms by (intro ext) (simp add: reg_of_def find_cluster_def f quiet_step_def)
qed

lemma reg_of_cong:
  assumes "Clusters m' = Clusters m" "\<And>q. q \<in> set (Clusters m) \<Longrightarrow> heap m' q = heap m q"
  shows "reg_of m' = reg_of m"
proof
  fix n
  have "find_cluster m' n = find_cluster m n" unfolding find_cluster_def assms(1) by (rule find_cong) (simp_all add: assms(2))
  then show "reg_of m' n = reg_of m n"
    by (cases "find_cluster m n") (use find_cluster_simps(1) in \<open>auto simp: reg_of_def assms(2)\<close>)
qed

lemma Create_refines:
  assumes ok: "registry_ok m" and new: "r \<notin> set (Clusters m)"
    "cIPAddresses (heap m r) = []" "cMACAddresses (heap m r) = []"
  shows "reg_step (Creates (cName (heap m r))) (reg_of m) (reg_of (snd (res (Create v d r m) x)))"
proof (cases "find_cluster m (cName (heap m r))")
  case (Some q)
  have q: "q \<in> set (Clusters m)" "cName (heap m q) = cName (heap m r)" using find_cluster_simps(1) [OF Some] by auto
  then have reg: "is_registered m (cName (heap m r))" by (auto simp: is_registered_def list_ex_iff)
  have "snd (res (Create v d r m) x) = m \<or> registry_step q m (snd (res (Create v d r m) x))"
    using Some ends_inD [OF ends_pipeline [OF registry.R_refl [of q m], of v d]]
    by (auto simp: Create_def split: option.splits)
  with registry_step_refines [of q m, OF _ ok Create_registry [OF ok new]] q reg show ?thesis
    by (auto simp: idle)
next
  case None
  let ?m1 = "set_cluster r applyDefaults m"
  have h: "heap ?m1 q = heap m q" if "q \<in> set (Clusters m)" for q using that new(1) by (cases "q = r") auto
  have same: "reg_of ?m1 = reg_of m" by (rule reg_of_cong) (simp_all add: h)
  have ok1: "registry_ok ?m1" using ok h by (simp add: registry_ok_def pool_ok_on_def cong: map_cong)
  have "snd (res (Create v d r m) x) \<in> {m, ?m1} \<or>
      registry_step r ?m1 (snd (res (Create v d r m) x)) \<and> validateNew ?m1 (heap ?m1 r) = None"
    using None ends_inD [OF ends_pipeline [OF registry.R_refl [of r ?m1], of v d]]
    by (auto simp: Create_def Let_def split: option.splits)
  moreover have "length (Clusters ?m1) < DefaultClustersMax" if "validateNew ?m1 (heap ?m1 r) = None"
    using that by (auto simp: validateNew_def split: if_splits)
  ultimately show ?thesis
    using registry_step_refines [of r ?m1, OF _ ok1 Create_registry [OF ok new]] same
    by (auto simp: idle)
qed

lemma Delete_refines:
  assumes ok: "registry_ok m" and nat: "\<And>q. find_cluster m n = Some q \<Longrightarrow> is_nat (heap m q)"
  shows "reg_step (Deletes n) (reg_of m) (reg_of (snd (res (Delete v d n m) x)))"
proof (cases "find_cluster m n")
  case (Some q)
  with find_cluster_simps(1) [OF Some]
    retire_step_refines [OF ends_inD [OF ends_Delete [OF Some]] ok Delete_ok [OF ok nat]]
  show ?thesis by auto
qed (simp add: Delete_def idle)

lemma reload_refines:
  assumes "registry_ok m"
  shows "reg_of (thaw (snapshot m)) = reg_of m"
proof -
  let ?m = "thaw (snapshot m)"
  have c: "Clusters ?m = [0..<length (Clusters m)]" "i < length (Clusters m) \<Longrightarrow> heap ?m i = heap m (Clusters m ! i)" for i
    by (simp_all add: thaw_def snapshot_def cluster_list_def)
  have "reg_of ?m n = Some A \<longleftrightarrow> reg_of m n = Some A" for n A
    unfolding reg_of_Some [OF assms] reg_of_Some [OF reload_ok [OF assms]]
    by (auto simp: c in_set_conv_nth Bex_def)
  then show ?thesis by (intro ext) (metis option.exhaust)
qed

lemma nat_reset_refines: "reg_of (snd (res (ApplyNATReset rt d plan m) s)) = reg_of m"
  by (auto simp: ApplyNATReset_def prune_def split: option.splits intro!: reg_of_cong)

section \<open>Runs of the manager\<close>

lemma mgr_step_refines: "mgr_step v d e m m' \<Longrightarrow> registry_ok m \<Longrightarrow> reg_step e (reg_of m) (reg_of m')"
proof (induction rule: mgr_step.induct)
  case (create r m c x)
  let ?m = "m\<lparr>heap := (heap m)(r := c)\<rparr>"
  have "reg_of ?m = reg_of m" by (rule reg_of_cong) (use create in auto)
  with Create_refines [OF request_ok [OF create(4,1), of c], of r v d x] create show ?case by simp
next
  case (start m n x)
  then show ?case using Start_quiet reg_of_quiet by (metis idle)
next
  case (stop m n x)
  then show ?case by (cases "find_cluster m n") (auto simp: Stop_None dest!: reg_of_quiet [OF Stop_quiet])
qed (auto simp: reload_refines nat_reset_refines intro: Delete_refines)

text \<open>What one step of the manager does leaves every other cluster's entry alone.\<close>

lemma mgr_step_isolates:
  "mgr_step v d e m m' \<Longrightarrow> registry_ok m \<Longrightarrow> e \<noteq> Creates n \<Longrightarrow> e \<noteq> Deletes n \<Longrightarrow> reg_of m' n = reg_of m n"
  using mgr_step_refines reg_step_other by blast



end
