(* ===== verification/JsonText.thy ===== *)
theory JsonText
  imports Json
begin

text \<open>
  \<open>json.MarshalIndent(v, "", "  ")\<close> of \<open>encoding/json\<close>, and the round trip of the text: reading
  back what was printed gives the value.
\<close>

section \<open>The indented encoding\<close>

definition ind :: "nat \<Rightarrow> string" where
  "ind d = replicate (2 * d) (CHR '' '')"

fun json_indent :: "nat \<Rightarrow> json \<Rightarrow> string" where
  "json_indent d JNull = ''null''"
| "json_indent d (JBool b) = bool_str b"
| "json_indent d (JNum n) = n"
| "json_indent d (JStr s) = json_quote s"
| "json_indent d (JArr vs) =
     (if vs = [] then ''[]''
      else ''['' @ nl @ joined ('','' @ nl) (map (\<lambda>v. ind (Suc d) @ json_indent (Suc d) v) vs) @ nl @ ind d @ '']'')"
| "json_indent d (JObj m) =
     (if m = [] then ''{}''
      else ''{'' @ nl @ joined ('','' @ nl) (map (\<lambda>(k, v). ind (Suc d) @ json_quote k @ '': '' @ json_indent (Suc d) v) m) @
           nl @ ind d @ ''}'')"

text \<open>The values Go encodes: numbers are integers in decimal, no key occurs twice.\<close>

fun json_ok :: "json \<Rightarrow> bool" where
  "json_ok (JNum n) \<longleftrightarrow> n \<in> range int_str"
| "json_ok (JArr vs) \<longleftrightarrow> list_all json_ok vs"
| "json_ok (JObj m) \<longleftrightarrow> distinct (map fst m) \<and> list_all (\<lambda>(k, v). json_ok v) m"
| "json_ok _ \<longleftrightarrow> True"

section \<open>Numbers\<close>

text \<open>What may follow a value: the end, a comma or a line break.\<close>

definition stops :: "string \<Rightarrow> bool" where
  "stops r \<longleftrightarrow> r = [] \<or> hd r = CHR '','' \<or> hd r = CHR 0x0A"

lemma stops_simps [simp]: "stops []" "stops (CHR '','' # r)" "stops (CHR 0x0A # r)"
  by (simp_all add: stops_def)

lemma nat_str_zero: "nat_str n = CHR ''0'' # r \<Longrightarrow> n = 0 \<and> r = []"
proof (induction n arbitrary: r rule: nat_str.induct)
  case (1 n)
  show ?case
  proof (cases "n < 10")
    case True
    then have "digit_char n = CHR ''0''" "r = []" using 1(2) by (simp_all add: nat_str_small)
    then have "digit_val (digit_char n) = 0" by (simp add: digit_val_def)
    with True \<open>r = []\<close> show ?thesis by simp
  next
    case False
    then obtain q where "nat_str (n div 10) = CHR ''0'' # q"
      using 1(2) by (subst (asm) nat_str.simps) (cases "nat_str (n div 10)"; simp)
    with 1(1) False have "n div 10 = 0" by blast
    with False show ?thesis by simp
  qed
qed

lemma stops_not_digit: "stops r \<Longrightarrow> r = [] \<or> \<not> is_digit (hd r) \<and> hd r \<noteq> CHR ''.'' \<and> hd r \<noteq> CHR ''e'' \<and> hd r \<noteq> CHR ''E''"
  by (auto simp: stops_def is_digit_def char_le_iff)

lemma span_nat_str: "stops r \<Longrightarrow> span_digits (nat_str n @ r) = (nat_str n, r)"
proof -
  assume s: "stops r"
  have d: "list_all is_digit (nat_str n)" by (rule nat_str_digits)
  from stops_not_digit [OF s] d show ?thesis
    by (cases r) (auto simp: span_digits_def list_all_iff takeWhile_append dropWhile_append)
qed

lemma json_num_unsigned:
  assumes "stops r"
  shows "json_num (nat_str n @ r) = Some (nat_str n, r)"
    and "json_num (CHR ''-'' # nat_str n @ r) = Some (CHR ''-'' # nat_str n, r)"
proof -
  obtain c q where c: "nat_str n = c # q" by (cases "nat_str n") auto
  have m: "c \<noteq> CHR ''-''" using nat_str_digits [of n] by (auto simp: c is_digit_def char_le_iff)
  have z: "c = CHR ''0'' \<Longrightarrow> q = []" using nat_str_zero [of n q] c by simp
  have sp: "span_digits (c # q @ r) = (c # q, r)" using span_nat_str [OF assms, of n] by (simp add: c)
  have t: "r = [] \<or> (\<exists>e r'. r = e # r' \<and> e \<noteq> CHR ''.'' \<and> e \<noteq> CHR ''e'' \<and> e \<noteq> CHR ''E'')"
    using stops_not_digit [OF assms] by (cases r) auto
  have "json_num (c # q @ r) = Some (c # q, r) \<and> json_num (CHR ''-'' # c # q @ r) = Some (CHR ''-'' # c # q, r)"
  proof (cases "c = CHR ''0''")
    case True
    with z t show ?thesis by (elim disjE exE conjE) (simp_all add: json_num_def)
  next
    case False
    with m sp t show ?thesis by (elim disjE exE conjE) (simp_all add: json_num_def)
  qed
  then show "json_num (nat_str n @ r) = Some (nat_str n, r)" "json_num (CHR ''-'' # nat_str n @ r) = Some (CHR ''-'' # nat_str n, r)"
    by (simp_all add: c)
qed

lemma json_num_int_str: "stops r \<Longrightarrow> json_num (int_str i @ r) = Some (int_str i, r)"
  using json_num_unsigned by (simp add: int_str_def)

lemma int_str_Cons: "\<exists>c q. int_str i = c # q \<and> (c = CHR ''-'' \<or> is_digit c)"
proof -
  have "\<exists>c q. nat_str n = c # q \<and> is_digit c" for n
    using nat_str_digits [of n] by (cases "nat_str n") auto
  from this [of "nat i"] show ?thesis by (cases "i < 0") (auto simp: int_str_def)
qed

section \<open>Reading back\<close>

lemma skip_ws_append: "list_all is_ws w \<Longrightarrow> skip_ws (w @ s) = skip_ws s"
  by (simp add: list_all_iff dropWhile_append2)

lemma ws_ind [simp]: "list_all is_ws (ind d)"
  by (simp add: ind_def list_all_iff is_ws_def)

lemma is_ws_simps [simp]:
  "is_ws (CHR '' '')" "is_ws (CHR 0x0A)" "\<not> is_ws (CHR 0x22)" "\<not> is_ws (CHR ''['')" "\<not> is_ws (CHR '']'')"
  "\<not> is_ws (CHR ''{'')" "\<not> is_ws (CHR ''}'')" "\<not> is_ws (CHR '','')" "\<not> is_ws (CHR '':'')"
  by (simp_all add: is_ws_def)

lemma json_val_ws: "list_all is_ws w \<Longrightarrow> json_val k (w @ s) = json_val k s"
  by (cases k) (simp_all add: skip_ws_append)

lemma json_val_ind [simp]: "json_val k (ind d @ s) = json_val k s" "json_val k (CHR '' '' # s) = json_val k s"
  "json_val k (CHR 0x0A # s) = json_val k s"
  using json_val_ws [of "ind d" k s] json_val_ws [of "'' ''" k s] json_val_ws [of nl k s] by simp_all

text \<open>The first byte of a value selects how it is read.\<close>

lemma json_val_lit:
  "json_val (Suc k) (''null'' @ r) = Some (JNull, r)" "json_val (Suc k) (bool_str b @ r) = Some (JBool b, r)"
  by (simp_all add: is_ws_def bool_str_def)

lemma json_val_str: "json_val (Suc k) (json_quote s @ r) = Some (JStr s, r)"
  using json_str_quote [of s r] by (simp add: json_quote_def)

lemma json_val_num:
  assumes "stops r"
  shows "json_val (Suc k) (int_str i @ r) = Some (JNum (int_str i), r)"
proof -
  obtain c q where c: "int_str i = c # q" "c = CHR ''-'' \<or> is_digit c" using int_str_Cons by blast
  have "c \<noteq> CHR ''n''" "c \<noteq> CHR ''t''" "c \<noteq> CHR ''f''" "\<not> is_ws c" "c \<noteq> CHR 0x22" "c \<noteq> CHR ''[''" "c \<noteq> CHR ''{''"
    using c(2) by (auto simp: is_digit_def is_ws_def char_le_iff)
  with json_num_int_str [OF assms, of i] show ?thesis by (simp add: c(1))
qed

lemma json_val_arr:
  "skip_ws s = c # q \<Longrightarrow> c \<noteq> CHR '']'' \<Longrightarrow> json_val (Suc k) (CHR ''['' # s) = map_option (map_prod JArr id) (json_arr k s)"
  "json_val (Suc k) (''[]'' @ r) = Some (JArr [], r)"
  by simp_all

lemma json_val_obj:
  "skip_ws s = c # q \<Longrightarrow> c \<noteq> CHR ''}'' \<Longrightarrow>
     json_val (Suc k) (CHR ''{'' # s) = map_option (map_prod (\<lambda>m. JObj (last_wins m)) id) (json_obj k s)"
  "json_val (Suc k) (''{}'' @ r) = Some (JObj [], r)"
  by simp_all

lemma text_head:
  assumes "json_ok v"
  shows "\<exists>c q. json_indent d v = c # q \<and> \<not> is_ws c \<and> c \<noteq> CHR '']'' \<and> c \<noteq> CHR ''}''"
proof (cases v)
  case (JNum n)
  with assms obtain i where "n = int_str i" by auto
  with JNum int_str_Cons [of i] show ?thesis by (auto simp: is_digit_def is_ws_def char_le_iff)
qed (simp_all add: bool_str_def json_quote_def is_ws_def)

lemma text_length: "json_ok v \<Longrightarrow> 0 < length (json_indent d v)"
  using text_head [of v d] by auto

text \<open>A printed value is read back with the text that follows it.\<close>

definition reads_back :: "json \<Rightarrow> bool" where
  "reads_back v \<longleftrightarrow>
     (\<forall>d k r. stops r \<longrightarrow> 2 * length (json_indent d v) \<le> k \<longrightarrow> json_val k (json_indent d v @ r) = Some (v, r))"

lemma reads_backD:
  "reads_back v \<Longrightarrow> stops r \<Longrightarrow> 2 * length (json_indent d v) \<le> k \<Longrightarrow> json_val k (json_indent d v @ r) = Some (v, r)"
  by (simp add: reads_back_def)

lemma elements_read_back:
  assumes "vs \<noteq> []" "\<forall>v \<in> set vs. reads_back v" "list_all is_ws w"
    "2 * length (joined ('','' @ nl) (map (\<lambda>v. ind d @ json_indent d v) vs)) < k"
  shows "json_arr k (w @ joined ('','' @ nl) (map (\<lambda>v. ind d @ json_indent d v) vs) @ nl @ ind e @ '']'' @ r) = Some (vs, r)"
  using assms
proof (induction vs arbitrary: w k rule: list_nonempty_induct)
  case (single v)
  then obtain k' where k: "k = Suc k'" by (cases k) auto
  have "json_val k' (json_indent d v @ nl @ ind e @ '']'' @ r) = Some (v, nl @ ind e @ '']'' @ r)"
    using single by (intro reads_backD) (auto simp: k)
  with single show ?case by (simp add: k json_val_ws skip_ws_append)
next
  case (cons v vs)
  then obtain k' where k: "k = Suc k'" by (cases k) auto
  obtain y ys where vs: "vs = y # ys" using cons(1) by (cases vs) auto
  let ?rest = "joined ('','' @ nl) (map (\<lambda>v. ind d @ json_indent d v) vs)"
  have l: "joined ('','' @ nl) (map (\<lambda>v. ind d @ json_indent d v) (v # vs)) = ind d @ json_indent d v @ '','' @ nl @ ?rest"
    by (simp add: vs)
  have b: "2 * length (json_indent d v) \<le> k'" "2 * length ?rest < k'"
    using cons.prems(3) unfolding l k by simp_all
  have "json_val k' (json_indent d v @ '','' @ nl @ ?rest @ nl @ ind e @ '']'' @ r)
      = Some (v, '','' @ nl @ ?rest @ nl @ ind e @ '']'' @ r)"
    using cons.prems b by (intro reads_backD) auto
  moreover have "json_arr k' (nl @ ?rest @ nl @ ind e @ '']'' @ r) = Some (vs, r)"
    using cons.prems b by (intro cons.IH) auto
  ultimately show ?case using cons.prems(2) unfolding l k by (simp add: json_val_ws)
qed

abbreviation member_text :: "nat \<Rightarrow> string \<times> json \<Rightarrow> string" where
  "member_text d \<equiv> (\<lambda>(k, v). ind d @ json_quote k @ '': '' @ json_indent d v)"

lemma member_reads_back:
  assumes "reads_back v" "list_all is_ws w" "stops r" "2 * length (json_indent d v) \<le> k"
  shows "json_obj (Suc k) (w @ member_text d (key, v) @ r) =
     (case skip_ws r of [] \<Rightarrow> None | e # q \<Rightarrow>
        if e = CHR ''}'' then Some ([(key, v)], q)
        else if e = CHR '','' then map_option (map_prod ((#) (key, v)) id) (json_obj k q) else None)"
  using reads_backD [OF assms(1,3,4)] json_str_quote [of key "'': '' @ json_indent d v @ r"] assms(2)
  by (simp add: skip_ws_append json_quote_def)

lemma members_read_back:
  assumes "m \<noteq> []" "\<forall>v \<in> snd ` set m. reads_back v" "list_all is_ws w"
    "2 * length (joined ('','' @ nl) (map (member_text d) m)) < k"
  shows "json_obj k (w @ joined ('','' @ nl) (map (member_text d) m) @ nl @ ind e @ ''}'' @ r) = Some (m, r)"
  using assms
proof (induction m arbitrary: w k rule: list_nonempty_induct)
  case (single kv)
  then obtain k' where k: "k = Suc k'" by (cases k) auto
  obtain key v where kv: "kv = (key, v)" by force
  show ?case
    using single member_reads_back [of v w "nl @ ind e @ ''}'' @ r" d k' key] by (simp add: k kv skip_ws_append)
next
  case (cons kv m)
  then obtain k' where k: "k = Suc k'" by (cases k) auto
  obtain key v where kv: "kv = (key, v)" by force
  let ?rest = "joined ('','' @ nl) (map (member_text d) m)"
  have l: "joined ('','' @ nl) (map (member_text d) (kv # m)) = member_text d kv @ '','' @ nl @ ?rest"
    using cons(1) by (cases m) simp_all
  have b: "2 * length (json_indent d v) \<le> k'" "2 * length ?rest < k'"
    using cons.prems(3) unfolding l k by (simp_all add: kv)
  have "json_obj k' (nl @ ?rest @ nl @ ind e @ ''}'' @ r) = Some (m, r)"
    using cons.prems b by (intro cons.IH) auto
  with member_reads_back [of v w "'','' @ nl @ ?rest @ nl @ ind e @ ''}'' @ r" d k' key] cons.prems b show ?case
    unfolding l k by (simp add: kv)
qed

lemma last_wins_distinct: "distinct (map fst m) \<Longrightarrow> last_wins m = m"
  by (induction m rule: last_wins.induct) auto

text \<open>A value without parts needs one unit of fuel only.\<close>

lemma reads_back_flat:
  assumes "json_ok v" "\<And>d k r. stops r \<Longrightarrow> json_val (Suc k) (json_indent d v @ r) = Some (v, r)"
  shows "reads_back v"
  unfolding reads_back_def
proof (intro allI impI)
  fix d k r
  assume "stops r" "2 * length (json_indent d v) \<le> k"
  with assms(2) [of r "k - 1" d] text_length [OF assms(1), of d] show "json_val k (json_indent d v @ r) = Some (v, r)"
    by (cases k) simp_all
qed

lemma reads_back_all: "json_ok v \<Longrightarrow> reads_back v"
proof (induction v)
  case (JNum n)
  then show ?case using json_val_num by (intro reads_back_flat) (auto simp del: json_val.simps)
next
  case (JArr vs)
  show ?case
  proof (cases "vs = []")
    case True
    then show ?thesis by (intro reads_back_flat) simp_all
  next
    case False
    then obtain y ys where vs: "vs = y # ys" by (cases vs) auto
    have rb: "\<forall>v \<in> set vs. reads_back v" using JArr by (auto simp: list_all_iff)
    show ?thesis
      unfolding reads_back_def
    proof (intro allI impI)
      fix d k r
      assume k: "2 * length (json_indent d (JArr vs)) \<le> k" and s: "stops r"
      let ?body = "joined ('','' @ nl) (map (\<lambda>v. ind (Suc d) @ json_indent (Suc d) v) vs)"
      let ?s = "nl @ ?body @ nl @ ind d @ '']'' @ r"
      obtain k' where k': "k = Suc k'" "2 * length ?body < k'" using k False by (cases k) auto
      obtain c q where c: "json_indent (Suc d) y = c # q" "\<not> is_ws c" "c \<noteq> CHR '']''"
        using text_head [of y "Suc d"] JArr.prems by (auto simp: vs)
      have "\<exists>q. skip_ws ?s = c # q"
        using c by (cases ys) (simp_all add: vs skip_ws_append)
      with c(3) json_val_arr(1) [of ?s] elements_read_back [OF False rb, of nl "Suc d" k' d r] k'(2)
      have "json_val (Suc k') (CHR ''['' # ?s) = Some (JArr vs, r)" by auto
      then show "json_val k (json_indent d (JArr vs) @ r) = Some (JArr vs, r)"
        using False by (simp add: k'(1))
    qed
  qed
next
  case (JObj m)
  show ?case
  proof (cases "m = []")
    case True
    then show ?thesis by (intro reads_back_flat) simp_all
  next
    case False
    have rb: "\<forall>v \<in> snd ` set m. reads_back v" using JObj by (fastforce simp: list_all_iff)
    show ?thesis
      unfolding reads_back_def
    proof (intro allI impI)
      fix d k r
      assume k: "2 * length (json_indent d (JObj m)) \<le> k" and s: "stops r"
      let ?body = "joined ('','' @ nl) (map (member_text (Suc d)) m)"
      let ?s = "nl @ ?body @ nl @ ind d @ ''}'' @ r"
      obtain k' where k': "k = Suc k'" "2 * length ?body < k'" using k False by (cases k) auto
      have "\<exists>q. skip_ws ?s = CHR 0x22 # q"
        using False by (cases m; cases "tl m") (auto simp: skip_ws_append json_quote_def)
      with json_val_obj(1) [of ?s] members_read_back [OF False rb, of nl "Suc d" k' d r] k'(2) JObj.prems
      have "json_val (Suc k') (CHR ''{'' # ?s) = Some (JObj m, r)" by (auto simp: last_wins_distinct)
      then show "json_val k (json_indent d (JObj m) @ r) = Some (JObj m, r)"
        using False by (simp add: k'(1))
    qed
  qed
next
  case JNull
  show ?case by (intro reads_back_flat) (simp_all add: is_ws_def)
qed (intro reads_back_flat; simp add: json_val_lit json_val_str del: json_val.simps)+

definition MarshalIndent :: "json \<Rightarrow> string" where
  "MarshalIndent v = json_indent 0 v"

lemma json_parse_MarshalIndent:
  assumes "json_ok v"
  shows "json_parse (MarshalIndent v) = Some v"
  using reads_backD [OF reads_back_all [OF assms], of "[]" 0 "2 * length (MarshalIndent v) + 2"]
  by (simp add: json_parse_def MarshalIndent_def)

end
