(* ===== verification/ConfigCodec.thy ===== *)
theory ConfigCodec
  imports JsonText World
begin

text \<open>
  The file \<open>config.json\<close>: what \<open>json.MarshalIndent\<close> makes of \<open>config.Config\<close> by its struct tags,
  what \<open>json.Unmarshal\<close> reads into the default configuration, and the round trip. World keeps the
  file as the document \<open>ConfigDoc\<close>; this theory shows that its text determines the document.

  A struct is a table of fields, and a field pairs a key with an encoder (\<open>None\<close>: left out by
  \<open>omitempty\<close>) and a decoder (of \<open>None\<close>: the key is missing). Strings are taken to be valid UTF-8.
  A \<open>null\<close> among the clusters would be a nil pointer, which the model has not; it is not decoded.
\<close>

section \<open>Values\<close>

definition dec_str :: "string \<Rightarrow> json option \<Rightarrow> string option" where
  "dec_str z j = (case j of None \<Rightarrow> Some z | Some JNull \<Rightarrow> Some z | Some (JStr s) \<Rightarrow> Some s | _ \<Rightarrow> None)"

definition dec_int :: "int \<Rightarrow> json option \<Rightarrow> int option" where
  "dec_int z j = (case j of None \<Rightarrow> Some z | Some JNull \<Rightarrow> Some z | Some (JNum n) \<Rightarrow> atoi n | _ \<Rightarrow> None)"

definition dec_bool :: "bool \<Rightarrow> json option \<Rightarrow> bool option" where
  "dec_bool z j = (case j of None \<Rightarrow> Some z | Some JNull \<Rightarrow> Some z | Some (JBool b) \<Rightarrow> Some b | _ \<Rightarrow> None)"

definition dec_slice :: "(json \<Rightarrow> 'a option) \<Rightarrow> json option \<Rightarrow> 'a list option" where
  "dec_slice f j =
     (case j of None \<Rightarrow> Some [] | Some JNull \<Rightarrow> Some [] | Some (JArr vs) \<Rightarrow> those (map f vs) | _ \<Rightarrow> None)"

text \<open>A nil slice is \<open>null\<close>, an empty one \<open>[]\<close>; the model's lists do not tell them apart: \<open>e\<close> is either.\<close>

definition enc_slice :: "json \<Rightarrow> ('a \<Rightarrow> json) \<Rightarrow> 'a list \<Rightarrow> json" where
  "enc_slice e f xs = (if xs = [] then e else JArr (map f xs))"

text \<open>A \<open>map[string]bool\<close> is written with its keys sorted.\<close>

definition canon :: "bool_map \<Rightarrow> bool_map" where
  "canon m = map (\<lambda>k. (k, map_get m k)) (sort (remdups (map fst m)))"

definition enc_map :: "bool_map option \<Rightarrow> json" where
  "enc_map x = (case x of None \<Rightarrow> JNull | Some m \<Rightarrow> JObj (map (\<lambda>(k, b). (k, JBool b)) (canon m)))"

definition dec_map :: "bool_map option \<Rightarrow> json option \<Rightarrow> bool_map option option" where
  "dec_map z j =
     (case j of None \<Rightarrow> Some z | Some JNull \<Rightarrow> Some None
      | Some (JObj m) \<Rightarrow> map_option Some (those (map (\<lambda>(k, v). map_option (Pair k) (dec_bool False (Some v))) m))
      | _ \<Rightarrow> None)"

section \<open>Structs\<close>

record 'a field =
  jf_name :: string
  jf_enc :: "'a \<Rightarrow> json option"
  jf_dec :: "json option \<Rightarrow> 'a \<Rightarrow> 'a option"

definition mk_field :: "string \<Rightarrow> ('v \<Rightarrow> json option) \<Rightarrow> (json option \<Rightarrow> 'v option) \<Rightarrow>
    ('a \<Rightarrow> 'v) \<Rightarrow> (('v \<Rightarrow> 'v) \<Rightarrow> 'a \<Rightarrow> 'a) \<Rightarrow> 'a field" where
  "mk_field k enc dec get upd =
     \<lparr>jf_name = k, jf_enc = (\<lambda>x. enc (get x)), jf_dec = (\<lambda>j x. map_option (\<lambda>v. upd (\<lambda>_. v) x) (dec j))\<rparr>"

fun members :: "'a field list \<Rightarrow> 'a \<Rightarrow> (string \<times> json) list" where
  "members [] x = []"
| "members (f # fs) x =
     (case jf_enc f x of None \<Rightarrow> members fs x | Some j \<Rightarrow> (jf_name f, j) # members fs x)"

definition enc_struct :: "'a field list \<Rightarrow> 'a \<Rightarrow> json" where
  "enc_struct fs x = JObj (members fs x)"

definition dec_struct :: "'a field list \<Rightarrow> json \<Rightarrow> 'a \<Rightarrow> 'a option" where
  "dec_struct fs j x =
     (case j of JObj _ \<Rightarrow> fold (\<lambda>f r. Option.bind r (jf_dec f (struct_field j (jf_name f)))) fs (Some x) | _ \<Rightarrow> None)"

section \<open>The tables of the structs in \<open>config.go\<close>\<close>

definition str_field :: "string \<Rightarrow> ('a \<Rightarrow> string) \<Rightarrow> ((string \<Rightarrow> string) \<Rightarrow> 'a \<Rightarrow> 'a) \<Rightarrow> 'a field" where
  "str_field k = mk_field k (\<lambda>s. Some (JStr s)) (dec_str [])"

definition int_field :: "string \<Rightarrow> ('a \<Rightarrow> int) \<Rightarrow> ((int \<Rightarrow> int) \<Rightarrow> 'a \<Rightarrow> 'a) \<Rightarrow> 'a field" where
  "int_field k = mk_field k (\<lambda>i. Some (JNum (int_str i))) (dec_int 0)"

definition omit_str :: "string \<Rightarrow> ('a \<Rightarrow> string) \<Rightarrow> ((string \<Rightarrow> string) \<Rightarrow> 'a \<Rightarrow> 'a) \<Rightarrow> 'a field" where
  "omit_str k = mk_field k (\<lambda>s. if s = [] then None else Some (JStr s)) (dec_str [])"

definition omit_int :: "string \<Rightarrow> ('a \<Rightarrow> int) \<Rightarrow> ((int \<Rightarrow> int) \<Rightarrow> 'a \<Rightarrow> 'a) \<Rightarrow> 'a field" where
  "omit_int k = mk_field k (\<lambda>i. if i = 0 then None else Some (JNum (int_str i))) (dec_int 0)"

definition omit_bool :: "string \<Rightarrow> ('a \<Rightarrow> bool) \<Rightarrow> ((bool \<Rightarrow> bool) \<Rightarrow> 'a \<Rightarrow> 'a) \<Rightarrow> 'a field" where
  "omit_bool k = mk_field k (\<lambda>b. if b then Some (JBool b) else None) (dec_bool False)"

definition strs_field :: "json \<Rightarrow> string \<Rightarrow> ('a \<Rightarrow> string list) \<Rightarrow> ((string list \<Rightarrow> string list) \<Rightarrow> 'a \<Rightarrow> 'a) \<Rightarrow> 'a field" where
  "strs_field e k = mk_field k (\<lambda>xs. Some (enc_slice e JStr xs)) (dec_slice (\<lambda>v. dec_str [] (Some v)))"

definition cluster_fields :: "json \<Rightarrow> cluster_config field list" where
  "cluster_fields e =
     [str_field ''name'' cName cName_update,
      str_field ''domain'' cDomain cDomain_update,
      str_field ''ocpVersion'' cOCPVersion cOCPVersion_update,
      int_field ''masterCount'' cMasterCount cMasterCount_update,
      int_field ''workerCount'' cWorkerCount cWorkerCount_update,
      int_field ''masterRAM'' cMasterRAM cMasterRAM_update,
      int_field ''workerRAM'' cWorkerRAM cWorkerRAM_update,
      int_field ''masterCPUs'' cMasterCPUs cMasterCPUs_update,
      int_field ''workerCPUs'' cWorkerCPUs cWorkerCPUs_update,
      int_field ''masterDiskGB'' cMasterDiskGB cMasterDiskGB_update,
      int_field ''workerDiskGB'' cWorkerDiskGB cWorkerDiskGB_update,
      str_field ''networkMode'' cNetworkMode cNetworkMode_update,
      omit_str ''bridge'' cBridge cBridge_update,
      omit_str ''masterMAC'' cMasterMAC cMasterMAC_update,
      omit_str ''masterIP'' cMasterIP cMasterIP_update,
      omit_str ''machineCIDR'' cMachineCIDR cMachineCIDR_update,
      omit_str ''gateway'' cGateway cGateway_update,
      omit_str ''dns'' cDNS cDNS_update,
      omit_str ''storagePool'' cStoragePool cStoragePool_update,
      omit_str ''dnsProvider'' cDNSProvider cDNSProvider_update,
      omit_str ''dnsZone'' cDNSZone cDNSZone_update,
      omit_str ''tlsEmail'' cTLSEmail cTLSEmail_update,
      omit_bool ''tlsStaging'' cTLSStaging cTLSStaging_update,
      omit_str ''magicDNS'' cMagicDNS cMagicDNS_update,
      omit_bool ''bakeImages'' cBakeImages cBakeImages_update,
      omit_bool ''odf'' cODF cODF_update,
      omit_int ''odfDiskGB'' cODFDiskGB cODFDiskGB_update,
      str_field ''networkSubnet'' cNetworkSubnet cNetworkSubnet_update,
      strs_field e ''ipAddresses'' cIPAddresses cIPAddresses_update,
      strs_field e ''macAddresses'' cMACAddresses cMACAddresses_update,
      str_field ''state'' cState cState_update,
      omit_str ''bootISOVolPath'' cBootISOVolPath cBootISOVolPath_update,
      omit_str ''installKernelCmdline'' cInstallKernelCmdline cInstallKernelCmdline_update,
      omit_str ''kubeconfigTarget'' cKubeconfigTarget cKubeconfigTarget_update]"

definition zero_cluster :: cluster_config where
  "zero_cluster =
     \<lparr>cName = [], cDomain = [], cOCPVersion = [], cMasterCount = 0, cWorkerCount = 0, cMasterRAM = 0, cWorkerRAM = 0,
      cMasterCPUs = 0, cWorkerCPUs = 0, cMasterDiskGB = 0, cWorkerDiskGB = 0, cNetworkMode = [], cBridge = [],
      cMasterMAC = [], cMasterIP = [], cMachineCIDR = [], cGateway = [], cDNS = [], cStoragePool = [],
      cDNSProvider = [], cDNSZone = [], cTLSEmail = [], cTLSStaging = False, cMagicDNS = [], cBakeImages = False,
      cODF = False, cODFDiskGB = 0, cNetworkSubnet = [], cIPAddresses = [], cMACAddresses = [], cState = [],
      cBootISOVolPath = [], cInstallKernelCmdline = [], cKubeconfigTarget = []\<rparr>"

text \<open>\<open>GlobalState\<close>; decoding starts from the empty maps of \<open>NewDefaultConfig\<close>.\<close>

type_synonym global_state = "bool_map option \<times> bool_map option \<times> string"

definition global_fields :: "global_state field list" where
  "global_fields =
     [mk_field ''usedIPs'' (\<lambda>x. Some (enc_map x)) (dec_map (Some [])) fst apfst,
      mk_field ''usedMACs'' (\<lambda>x. Some (enc_map x)) (dec_map (Some [])) (\<lambda>g. fst (snd g)) (\<lambda>f. apsnd (apfst f)),
      mk_field ''activeCluster'' (\<lambda>s. Some (JStr s)) (dec_str []) (\<lambda>g. snd (snd g)) (\<lambda>f. apsnd (apsnd f))]"

definition enc_global :: "global_state option \<Rightarrow> json" where
  "enc_global x = (case x of None \<Rightarrow> JNull | Some g \<Rightarrow> enc_struct global_fields g)"

definition dec_global :: "json option \<Rightarrow> global_state option option" where
  "dec_global j =
     (case j of None \<Rightarrow> Some (Some (Some [], Some [], []))
      | Some JNull \<Rightarrow> Some None
      | Some v \<Rightarrow> map_option Some (dec_struct global_fields v (Some [], Some [], [])))"

definition config_fields :: "json \<Rightarrow> disk_config \<Rightarrow> disk_config field list" where
  "config_fields e z =
     [mk_field ''configDir'' (\<lambda>s. Some (JStr s)) (dec_str (dConfigDir z)) dConfigDir dConfigDir_update,
      mk_field ''logFile'' (\<lambda>s. Some (JStr s)) (dec_str (dLogFile z)) dLogFile dLogFile_update,
      mk_field ''webPort'' (\<lambda>i. Some (JNum (int_str i))) (dec_int (dWebPort z)) dWebPort dWebPort_update,
      mk_field ''debug'' (\<lambda>b. Some (JBool b)) (dec_bool (dDebug z)) dDebug dDebug_update,
      mk_field ''clusters'' (\<lambda>cs. Some (enc_slice e (enc_struct (cluster_fields e)) cs))
        (dec_slice (\<lambda>v. dec_struct (cluster_fields e) v zero_cluster)) dClusters dClusters_update,
      mk_field ''globalState'' (\<lambda>g. Some (enc_global g)) dec_global dGlobalState dGlobalState_update]"

text \<open>The bytes \<open>Save\<close> writes and what \<open>LoadConfig\<close> makes of bytes, starting from its defaults.\<close>

definition config_text :: "json \<Rightarrow> disk_config \<Rightarrow> string" where
  "config_text e d = MarshalIndent (enc_struct (config_fields e d) d)"

definition parse_config :: "string \<Rightarrow> string \<Rightarrow> disk_config option" where
  "parse_config configDir s =
     (let z = snapshot (NewDefaultConfig configDir)
      in Option.bind (json_parse s) (\<lambda>j. dec_struct (config_fields JNull z) j z))"

section \<open>The contract of a value's codec\<close>

locale value_codec =
  fixes enc :: "'v \<Rightarrow> json option" and dec :: "json option \<Rightarrow> 'v option" and fits :: "'v \<Rightarrow> bool"
  assumes dec_enc: "fits v \<Longrightarrow> dec (enc v) = Some v"
    and enc_ok: "fits v \<Longrightarrow> enc v = Some j \<Longrightarrow> json_ok j"
begin

lemma reads: "fits (get x) \<Longrightarrow> jf_dec (mk_field k enc' dec get upd) (enc (get x)) y = Some (upd (\<lambda>_. get x) y)"
  by (simp add: mk_field_def dec_enc)

lemma writes: "fits (get x) \<Longrightarrow> jf_enc (mk_field k enc dec' get upd) x = Some j \<Longrightarrow> json_ok j"
  by (simp add: mk_field_def enc_ok)

end

definition int64 :: "int \<Rightarrow> bool" where
  "int64 i \<longleftrightarrow> - (2 ^ 63) \<le> i \<and> i < 2 ^ 63"

lemma atoi_int_str:
  assumes "int64 i"
  shows "atoi (int_str i) = Some i"
proof (cases "i < 0")
  case True
  with assms show ?thesis by (simp add: atoi_def int_str_def int64_def nat_le_iff)
next
  case False
  with assms show ?thesis by (simp add: int_str_def int64_def atoi_nat_str nat_less_iff)
qed

interpretation str_codec: value_codec "\<lambda>s. Some (JStr s)" "dec_str z" "\<lambda>_. True"
  by unfold_locales (auto simp: dec_str_def)

interpretation omit_str_codec: value_codec "\<lambda>s. if s = [] then None else Some (JStr s)" "dec_str []" "\<lambda>_. True"
  by unfold_locales (auto simp: dec_str_def split: if_splits)

interpretation int_codec: value_codec "\<lambda>i. Some (JNum (int_str i))" "dec_int z" int64
  by unfold_locales (auto simp: dec_int_def atoi_int_str)

interpretation omit_int_codec: value_codec "\<lambda>i. if i = 0 then None else Some (JNum (int_str i))" "dec_int 0" int64
  by unfold_locales (auto simp: dec_int_def atoi_int_str split: if_splits)

interpretation bool_codec: value_codec "\<lambda>b. Some (JBool b)" "dec_bool z" "\<lambda>_. True"
  by unfold_locales (auto simp: dec_bool_def)

interpretation omit_bool_codec: value_codec "\<lambda>b. if b then Some (JBool b) else None" "dec_bool False" "\<lambda>_. True"
  by unfold_locales (auto simp: dec_bool_def split: if_splits)

lemma those_map: "(\<And>x. x \<in> set xs \<Longrightarrow> f (g x) = Some x) \<Longrightarrow> those (map f (map g xs)) = Some xs"
  by (induction xs) auto

lemma slice_reads:
  "e \<in> {JNull, JArr []} \<Longrightarrow> (\<And>x. x \<in> set xs \<Longrightarrow> f (g x) = Some x) \<Longrightarrow> dec_slice f (Some (enc_slice e g xs)) = Some xs"
  using those_map [of xs f g] by (auto simp: dec_slice_def enc_slice_def)

lemma slice_ok: "e \<in> {JNull, JArr []} \<Longrightarrow> (\<And>x. x \<in> set xs \<Longrightarrow> json_ok (g x)) \<Longrightarrow> json_ok (enc_slice e g xs)"
  by (auto simp: enc_slice_def list_all_iff)

interpretation strs_codec: value_codec "\<lambda>xs. Some (enc_slice e JStr xs)" "dec_slice (\<lambda>v. dec_str [] (Some v))"
  "\<lambda>_. e \<in> {JNull, JArr []}"
  by unfold_locales (auto intro!: slice_reads slice_ok simp: dec_str_def)

lemma canon_keys: "map fst (canon m) = sort (remdups (map fst m))"
  by (simp add: canon_def o_def)

lemma map_get_canon [simp]: "map_get (canon m) = map_get m"
proof -
  have "map_of (canon m) k = (if k \<in> set (map fst m) then Some (map_get m k) else None)" for k
    by (simp add: canon_def map_of_map_restrict restrict_map_def)
  moreover have "map_get m k \<Longrightarrow> k \<in> set (map fst m)" for k
    by (auto simp: map_get_def image_iff dest!: map_of_SomeD intro!: bexI)
  ultimately show ?thesis by (auto simp: map_get_def [of "canon m"] fun_eq_iff)
qed

lemma canon_canon [simp]: "canon (canon m) = canon m"
proof -
  have "sort (remdups (map fst (canon m))) = sort (remdups (map fst m))"
    by (simp add: canon_keys distinct_remdups_id sorted_sort_id)
  then show ?thesis by (simp only: canon_def [of "canon m"] map_get_canon) (simp add: canon_def)
qed

interpretation map_codec: value_codec "\<lambda>x. Some (enc_map x)" "dec_map z" "\<lambda>x. map_option canon x = x"
proof
  fix v :: "bool_map option"
  assume v: "map_option canon v = v"
  then show "dec_map z (Some (enc_map v)) = Some v"
    by (cases v) (auto simp: dec_map_def enc_map_def dec_bool_def o_def split_def those_map [where g = "\<lambda>x. x", simplified])
next
  fix v j
  assume "Some (enc_map v) = Some j"
  then show "json_ok j"
    by (auto simp: enc_map_def list_all_iff o_def split_def canon_keys split: option.splits)
qed

section \<open>Reading a struct back\<close>

lemma map_of_rev_distinct: "distinct (map fst xs) \<Longrightarrow> map_of (rev xs) = map_of xs"
  using map_of_inject_set [of "rev xs" xs] by (simp add: rev_map [symmetric])

definition keys_distinct :: "'a field list \<Rightarrow> bool" where
  "keys_distinct fs \<longleftrightarrow> distinct (map (\<lambda>f. to_lower (jf_name f)) fs)"

lemma in_members: "(k, j) \<in> set (members fs x) \<longleftrightarrow> (\<exists>f \<in> set fs. k = jf_name f \<and> jf_enc f x = Some j)"
  by (induction fs) (auto split: option.splits)

lemma members_distinct: "keys_distinct fs \<Longrightarrow> distinct (map (\<lambda>(k, v). to_lower k) (members fs x))"
  by (induction fs) (auto simp: keys_distinct_def in_members image_iff split: option.splits)

lemma struct_lookup:
  assumes d: "keys_distinct fs" and f: "f \<in> set fs"
  shows "struct_field (enc_struct fs x) (jf_name f) = jf_enc f x"
proof -
  let ?low = "map (\<lambda>(k, v). (to_lower k, v)) (members fs x)"
  have l: "distinct (map fst ?low)" using members_distinct [OF d, of x] by (simp add: o_def split_def)
  have "map_of ?low (to_lower (jf_name f)) = Some j \<longleftrightarrow> jf_enc f x = Some j" for j
  proof -
    have "map_of ?low (to_lower (jf_name f)) = Some j \<longleftrightarrow> (\<exists>k. (k, j) \<in> set (members fs x) \<and> to_lower k = to_lower (jf_name f))"
      using l by (force simp: map_of_eq_Some_iff)
    also have "\<dots> \<longleftrightarrow> (\<exists>g \<in> set fs. to_lower (jf_name g) = to_lower (jf_name f) \<and> jf_enc g x = Some j)"
      by (auto simp: in_members)
    also have "\<dots> \<longleftrightarrow> jf_enc f x = Some j"
      using d f by (auto simp: keys_distinct_def distinct_map dest: inj_onD)
    finally show ?thesis .
  qed
  then have "map_of ?low (to_lower (jf_name f)) = jf_enc f x" by (metis option.exhaust)
  then show ?thesis by (simp add: struct_field_def enc_struct_def map_of_rev_distinct [OF l])
qed

lemma struct_ok:
  assumes d: "keys_distinct fs" and ok: "\<And>f j. f \<in> set fs \<Longrightarrow> jf_enc f x = Some j \<Longrightarrow> json_ok j"
  shows "json_ok (enc_struct fs x)"
proof -
  have "distinct (map to_lower (map fst (members fs x)))"
    using members_distinct [OF d, of x] by (simp add: o_def split_def)
  then have "distinct (map fst (members fs x))" by (simp only: distinct_map [of to_lower])
  then show ?thesis
    using ok by (auto simp: enc_struct_def list_all_iff in_members)
qed

lemma struct_fields:
  "keys_distinct fs \<Longrightarrow> \<forall>f \<in> set fs. struct_field (enc_struct fs x) (jf_name f) = jf_enc f x"
  by (simp add: struct_lookup)

section \<open>The round trip\<close>

text \<open>Go's \<open>int\<close> has 64 bits.\<close>

definition ints_fit :: "cluster_config \<Rightarrow> bool" where
  "ints_fit c \<longleftrightarrow> int64 (cMasterCount c) \<and> int64 (cWorkerCount c) \<and> int64 (cMasterRAM c) \<and> int64 (cWorkerRAM c) \<and>
     int64 (cMasterCPUs c) \<and> int64 (cWorkerCPUs c) \<and> int64 (cMasterDiskGB c) \<and> int64 (cWorkerDiskGB c) \<and>
     int64 (cODFDiskGB c)"

lemmas field_defs = str_field_def int_field_def omit_str_def omit_int_def omit_bool_def strs_field_def

lemma mk_field_simps:
  "jf_name (mk_field k enc dec get upd) = k" "jf_enc (mk_field k enc dec get upd) x = enc (get x)"
  by (simp_all add: mk_field_def)

lemma keys_distinct_names: "keys_distinct fs \<longleftrightarrow> distinct (map to_lower (map jf_name fs))"
  by (simp add: keys_distinct_def o_def)

lemma cluster_keys: "keys_distinct (cluster_fields e)"
proof -
  have "map jf_name (cluster_fields e) = map jf_name (cluster_fields JNull)"
    by (simp add: cluster_fields_def field_defs mk_field_simps)
  moreover have "distinct (map to_lower (map jf_name (cluster_fields JNull)))" by code_simp
  ultimately show ?thesis by (simp only: keys_distinct_names)
qed

lemma cluster_reads_back:
  assumes e: "e \<in> {JNull, JArr []}" and c: "ints_fit c"
  shows "dec_struct (cluster_fields JNull) (enc_struct (cluster_fields e) c) zero_cluster = Some c"
proof -
  obtain m where J: "enc_struct (cluster_fields e) c = JObj m" by (simp add: enc_struct_def)
  have l: "\<forall>f \<in> set (cluster_fields e). struct_field (JObj m) (jf_name f) = jf_enc f c"
    unfolding J [symmetric] by (rule struct_fields [OF cluster_keys])
  note l = l [unfolded cluster_fields_def field_defs list.set ball_simps mk_field_simps]
  show ?thesis
    unfolding J dec_struct_def json.case
    using c by (simp add: cluster_fields_def field_defs mk_field_simps l str_codec.reads int_codec.reads omit_str_codec.reads
        omit_int_codec.reads omit_bool_codec.reads strs_codec.reads [OF e] ints_fit_def)
qed

lemma cluster_json_ok:
  assumes e: "e \<in> {JNull, JArr []}" and c: "ints_fit c"
  shows "json_ok (enc_struct (cluster_fields e) c)"
proof (rule struct_ok [OF cluster_keys])
  have "\<forall>f \<in> set (cluster_fields e). \<forall>j. jf_enc f c = Some j \<longrightarrow> json_ok j"
    using slice_ok [OF e, of "cIPAddresses c" JStr] slice_ok [OF e, of "cMACAddresses c" JStr]
    by (simp add: cluster_fields_def field_defs mk_field_simps)
  then show "json_ok j" if "f \<in> set (cluster_fields e)" "jf_enc f c = Some j" for f j
    using that by blast
qed

interpretation clusters_codec: value_codec "\<lambda>cs. Some (enc_slice e (enc_struct (cluster_fields e)) cs)"
  "dec_slice (\<lambda>v. dec_struct (cluster_fields JNull) v zero_cluster)" "\<lambda>cs. e \<in> {JNull, JArr []} \<and> list_all ints_fit cs"
  by unfold_locales (auto intro!: slice_reads slice_ok cluster_reads_back cluster_json_ok simp: list_all_iff)

text \<open>Maps come back with their keys in order.\<close>

definition canon_global :: "global_state option \<Rightarrow> global_state option" where
  "canon_global = map_option (\<lambda>(i, m, a). (map_option canon i, map_option canon m, a))"

lemma global_keys: "keys_distinct global_fields"
  unfolding keys_distinct_names by code_simp

lemma global_reads_back:
  assumes "map_option canon i = i" "map_option canon m = m"
  shows "dec_struct global_fields (enc_struct global_fields (i, m, a)) z = Some (i, m, a)"
proof -
  obtain ms where J: "enc_struct global_fields (i, m, a) = JObj ms" by (simp add: enc_struct_def)
  have l: "\<forall>f \<in> set global_fields. struct_field (JObj ms) (jf_name f) = jf_enc f (i, m, a)"
    unfolding J [symmetric] by (rule struct_fields [OF global_keys])
  note l = l [unfolded global_fields_def list.set ball_simps mk_field_simps]
  obtain z1 z2 z3 where z: "z = (z1, z2, z3)" by (cases z)
  show ?thesis
    unfolding J dec_struct_def json.case
    using assms map_codec.dec_enc [of i] map_codec.dec_enc [of m] str_codec.dec_enc [of "[]" a] l
    by (simp add: global_fields_def mk_field_def z)
qed

lemma global_json_ok: "json_ok (enc_struct global_fields g)"
proof (rule struct_ok [OF global_keys])
  have "json_ok (enc_map x)" for x
    by (auto simp: enc_map_def list_all_iff o_def split_def canon_keys split: option.splits)
  then show "json_ok j" if "f \<in> set global_fields" "jf_enc f g = Some j" for f j
    using that by (auto simp: global_fields_def mk_field_simps)
qed

interpretation global_codec: value_codec "\<lambda>g. Some (enc_global g)" dec_global "\<lambda>g. canon_global g = g"
proof
  fix v :: "global_state option"
  assume v: "canon_global v = v"
  then show "dec_global (Some (enc_global v)) = Some v"
  proof (cases v)
    case (Some g)
    obtain i m a where g: "g = (i, m, a)" by (cases g)
    from v have "dec_struct global_fields (enc_struct global_fields g) (Some [], Some [], []) = Some g"
      unfolding g by (intro global_reads_back) (simp_all add: Some g canon_global_def)
    then show ?thesis by (simp add: dec_global_def enc_global_def Some enc_struct_def)
  qed (simp add: dec_global_def enc_global_def)
next
  fix v j
  assume "Some (enc_global v) = Some j"
  then show "json_ok j" using global_json_ok by (auto simp: enc_global_def split: option.splits)
qed

lemma config_keys: "keys_distinct (config_fields e z)"
  by (simp add: keys_distinct_names config_fields_def mk_field_simps) code_simp

definition doc_fits :: "disk_config \<Rightarrow> bool" where
  "doc_fits d \<longleftrightarrow> int64 (dWebPort d) \<and> list_all ints_fit (dClusters d)"

definition canon_doc :: "disk_config \<Rightarrow> disk_config" where
  "canon_doc = dGlobalState_update canon_global"

lemma enc_global_canon: "enc_global (canon_global g) = enc_global g"
proof -
  have "enc_map (map_option canon x) = enc_map x" for x by (cases x) (simp_all add: enc_map_def)
  then show ?thesis
    by (auto simp: enc_global_def canon_global_def enc_struct_def global_fields_def mk_field_def split: option.splits)
qed

lemma canon_global_idem: "canon_global (canon_global g) = canon_global g"
  by (cases g) (auto simp: canon_global_def option.map_comp o_def)

lemma config_reads_back:
  assumes e: "e \<in> {JNull, JArr []}" and d: "doc_fits d" "canon_global (dGlobalState d) = dGlobalState d"
  shows "dec_struct (config_fields JNull z) (enc_struct (config_fields e d) d) z = Some d"
    and "json_ok (enc_struct (config_fields e d) d)"
proof -
  obtain ms where J: "enc_struct (config_fields e d) d = JObj ms" by (simp add: enc_struct_def)
  have l: "\<forall>f \<in> set (config_fields e d). struct_field (JObj ms) (jf_name f) = jf_enc f d"
    unfolding J [symmetric] by (rule struct_fields [OF config_keys])
  note l = l [unfolded config_fields_def list.set ball_simps mk_field_simps]
  show "dec_struct (config_fields JNull z) (enc_struct (config_fields e d) d) z = Some d"
    unfolding J dec_struct_def json.case
    using d e by (simp add: config_fields_def mk_field_simps l doc_fits_def str_codec.reads int_codec.reads
        bool_codec.reads clusters_codec.reads [of e] global_codec.reads)
  show "json_ok (enc_struct (config_fields e d) d)"
  proof (rule struct_ok [OF config_keys])
    show "json_ok j" if "f \<in> set (config_fields e d)" "jf_enc f d = Some j" for f j
      using that d e clusters_codec.enc_ok [of e "dClusters d"] global_codec.enc_ok [of "dGlobalState d"]
      by (auto simp: config_fields_def mk_field_simps doc_fits_def)
  qed
qed

lemma config_document_roundtrip:
  assumes "e \<in> {JNull, JArr []}" "doc_fits d"
  shows "parse_config configDir (config_text e d) = Some (canon_doc d)"
proof -
  let ?d = "canon_doc d"
  have t: "config_text e d = config_text e ?d"
    by (simp add: config_text_def enc_struct_def config_fields_def mk_field_def canon_doc_def enc_global_canon)
  have "doc_fits ?d" "canon_global (dGlobalState ?d) = dGlobalState ?d"
    using assms(2) by (simp_all add: canon_doc_def doc_fits_def canon_global_idem)
  then show ?thesis
    unfolding t by (simp add: config_text_def parse_config_def Let_def json_parse_MarshalIndent config_reads_back [OF assms(1)])
qed

text \<open>Missing keys keep the defaults, and a null state is replaced by an empty one.\<close>

lemma parse_config_empty: "parse_config configDir ''{}'' = Some (snapshot (NewDefaultConfig configDir))"
proof -
  have "json_parse ''{}'' = Some (JObj [])" by code_simp
  then show ?thesis
    by (simp add: parse_config_def dec_struct_def config_fields_def mk_field_def struct_field_def dec_str_def
        dec_int_def dec_bool_def dec_slice_def dec_global_def snapshot_def NewDefaultConfig_def cluster_list_def)
qed

lemma thaw_clusters [simp]: "cluster_list (thaw d) = dClusters d"
  by (rule nth_equalityI) (simp_all add: thaw_def cluster_list_def split: option.splits prod.splits)

definition sample_config :: mem where
  "sample_config =
     (NewDefaultConfig ''/cfg'')\<lparr>Clusters := [0], UsedIPs := [(''192.168.126.5'', True)],
       heap := \<lambda>_. zero_cluster\<lparr>cName := ''one'', cMasterRAM := - 1, cIPAddresses := [''192.168.126.5'']\<rparr>\<rparr>"

text \<open>C12. The bytes Save writes to \<open>config.json\<close> give back the configuration when LoadConfig reads them:
  with the keys of the struct tags, the fields \<open>omitempty\<close> leaves out, the escapes and the indentation of
  \<open>encoding/json\<close>, and whether empty slices are nil or not, decoding them over the defaults yields the same
  settings, the same clusters and, for every address, the same answer of the two address maps.\<close>

theorem config_file_roundtrip:
  assumes "e \<in> {JNull, JArr []}" "int64 (WebPort m)" "\<forall>c \<in> set (cluster_list m). ints_fit c"
  shows "\<exists>d. parse_config configDir (config_text e (snapshot m)) = Some d \<and> cluster_list (thaw d) = cluster_list m \<and>
      ConfigDir (thaw d) = ConfigDir m \<and> LogFile (thaw d) = LogFile m \<and> WebPort (thaw d) = WebPort m \<and>
      Debug (thaw d) = Debug m \<and> ActiveCluster (thaw d) = ActiveCluster m \<and>
      map_get (UsedIPs (thaw d)) = map_get (UsedIPs m) \<and> map_get (UsedMACs (thaw d)) = map_get (UsedMACs m)"
proof -
  have "doc_fits (snapshot m)" using assms(2,3) by (simp add: doc_fits_def snapshot_def list_all_iff)
  from config_document_roundtrip [OF assms(1) this, of configDir] show ?thesis
    by (intro exI [of _ "canon_doc (snapshot m)"] conjI)
      (simp_all add: thaw_clusters, simp_all add: canon_doc_def canon_global_def thaw_def snapshot_def)
qed

theorem config_file_roundtrip_witness:
  "\<exists>d. parse_config ''/cfg'' (config_text JNull (snapshot sample_config)) = Some d \<and>
    cluster_list (thaw d) = [zero_cluster\<lparr>cName := ''one'', cMasterRAM := - 1, cIPAddresses := [''192.168.126.5'']\<rparr>] \<and>
    map_get (UsedIPs (thaw d)) ''192.168.126.5''"
proof -
  have "map_get (UsedIPs sample_config) ''192.168.126.5''" by (simp add: sample_config_def map_get_def)
  moreover have "cluster_list sample_config = [zero_cluster\<lparr>cName := ''one'', cMasterRAM := - 1, cIPAddresses := [''192.168.126.5'']\<rparr>]"
    by (simp add: sample_config_def cluster_list_def)
  moreover have "int64 (WebPort sample_config)" "\<forall>c \<in> set (cluster_list sample_config). ints_fit c"
    by (simp_all add: sample_config_def NewDefaultConfig_def cluster_list_def int64_def ints_fit_def zero_cluster_def)
  ultimately show ?thesis using config_file_roundtrip [of JNull sample_config "''/cfg''"] by auto
qed

end
