(* ===== verification/TimeText.thy ===== *)
theory TimeText
  imports Prelude
begin

text \<open>
  \<open>time.Time\<close> in JSON: the layout RFC 3339 with nanoseconds, in UTC, and its inverse. A time is the number
  of nanoseconds since 1970. Offsets other than \<open>Z\<close> and years before 1970, which the program never
  writes, are not read.
\<close>

section \<open>The calendar\<close>

definition leap :: "nat \<Rightarrow> bool" where
  "leap y \<longleftrightarrow> y mod 4 = 0 \<and> (y mod 100 \<noteq> 0 \<or> y mod 400 = 0)"

definition year_days :: "nat \<Rightarrow> nat" where
  "year_days y = (if leap y then 366 else 365)"

definition months :: "nat \<Rightarrow> nat list" where
  "months y = [31, if leap y then 29 else 28, 31, 30, 31, 30, 31, 31, 30, 31, 30, 31]"

function year_of :: "nat \<Rightarrow> nat \<Rightarrow> nat \<times> nat" where
  "year_of y d = (if d < year_days y then (y, d) else year_of (Suc y) (d - year_days y))"
  by pat_completeness auto
termination by (relation "measure snd") (auto simp: year_days_def)

declare year_of.simps [simp del]

fun month_of :: "nat list \<Rightarrow> nat \<Rightarrow> nat \<times> nat" where
  "month_of [] d = (0, d)"
| "month_of (l # ls) d = (if d < l then (0, d) else map_prod Suc id (month_of ls (d - l)))"

definition days_before :: "nat \<Rightarrow> nat" where
  "days_before y = sum_list (map year_days [1970..<y])"

lemma year_of_days: "year_of y d = (y', d') \<Longrightarrow> 1970 \<le> y \<Longrightarrow> days_before y + d = days_before y' + d' \<and> d' < year_days y' \<and> y \<le> y'"
proof (induction y d rule: year_of.induct)
  case (1 y d)
  show ?case
  proof (cases "d < year_days y")
    case True
    with 1 show ?thesis by (simp add: year_of.simps [of y d])
  next
    case False
    moreover have "days_before (Suc y) = days_before y + year_days y" using 1(3) by (simp add: days_before_def)
    ultimately show ?thesis using 1 by (simp add: year_of.simps [of y d])
  qed
qed

lemma month_of_days:
  "month_of ls d = (k, d') \<Longrightarrow> d < sum_list ls \<Longrightarrow> sum_list (take k ls) + d' = d \<and> k < length ls \<and> d' < ls ! k"
proof (induction ls d arbitrary: k rule: month_of.induct)
  case (2 l ls d)
  show ?case
  proof (cases "d < l")
    case False
    then obtain j where "k = Suc j" "month_of ls (d - l) = (j, d')" using 2(2) by (cases "month_of ls (d - l)") auto
    moreover from this 2(1) [of j] 2(3) False
    have "sum_list (take j ls) + d' = d - l" "j < length ls" "d' < ls ! j" by auto
    ultimately show ?thesis using False by simp
  qed (use 2 in auto)
qed simp

lemma sum_months: "sum_list (months y) = year_days y"
  by (simp add: months_def year_days_def)

lemma months_length: "length (months y) = 12"
  by (simp add: months_def)

lemma month_length: "k < 12 \<Longrightarrow> months y ! k \<le> 31"
  by (auto simp: months_def less_Suc_eq numeral_eq_Suc)

section \<open>Digits of a fixed width\<close>

definition pad :: "nat \<Rightarrow> nat \<Rightarrow> string" where
  "pad w n = replicate (w - length (nat_str n)) (CHR ''0'') @ nat_str n"

lemma nat_str_length: "n < 10 ^ w \<Longrightarrow> 0 < w \<Longrightarrow> length (nat_str n) \<le> w"
proof (induction w arbitrary: n)
  case (Suc w)
  show ?case
  proof (cases "n < 10")
    case True
    then show ?thesis by (simp add: nat_str_small)
  next
    case False
    then have "0 < w" "n div 10 < 10 ^ w" using Suc.prems by (cases w; auto)+
    with Suc.IH [of "n div 10"] False show ?thesis by (subst nat_str.simps) simp
  qed
qed simp

lemma pad_length: "n < 10 ^ w \<Longrightarrow> 0 < w \<Longrightarrow> length (pad w n) = w"
  using nat_str_length [of n w] by (simp add: pad_def)

lemma parse_zeros: "parse_digits (replicate k (CHR ''0'') @ nat_str n) = Some n"
proof -
  have "foldl (\<lambda>n c. 10 * n + digit_val c) 0 (replicate k (CHR ''0'') @ s) = foldl (\<lambda>n c. 10 * n + digit_val c) 0 s" for s
    by (induction k) (simp_all add: digit_val_def)
  moreover have "list_all is_digit (replicate k (CHR ''0''))" by (simp add: list_all_iff is_digit_def)
  ultimately show ?thesis using parse_digits_nat_str [of n] by (simp add: parse_digits_def nat_str_digits)
qed

lemma parse_pad: "parse_digits (pad w n) = Some n"
  by (simp add: pad_def parse_zeros)

text \<open>The next \<open>w\<close> digits and the rest, after which a separator is expected.\<close>

definition take_num :: "nat \<Rightarrow> string \<Rightarrow> (nat \<times> string) option" where
  "take_num w s = (if length s < w then None else map_option (\<lambda>n. (n, drop w s)) (parse_digits (take w s)))"

definition skip_char :: "char \<Rightarrow> string \<Rightarrow> string option" where
  "skip_char c s = (case s of [] \<Rightarrow> None | d # r \<Rightarrow> if d = c then Some r else None)"

lemma take_num_pad: "n < 10 ^ w \<Longrightarrow> 0 < w \<Longrightarrow> take_num w (pad w n @ r) = Some (n, r)"
  by (simp add: take_num_def pad_length parse_pad)

section \<open>The layout\<close>

text \<open>The fraction without its trailing zeros, none for a whole second.\<close>

definition frac_text :: "nat \<Rightarrow> string" where
  "frac_text ns = (if ns = 0 then [] else CHR ''.'' # rev (dropWhile ((=) (CHR ''0'')) (rev (pad 9 ns))))"

definition second_ns :: nat where "second_ns = 1000000000"

definition time_text :: "nat \<Rightarrow> string" where
  "time_text t =
     (let s = t div second_ns;
          (y, d) = year_of 1970 (s div 86400);
          (mo, dd) = month_of (months y) d;
          q = s mod 86400
      in pad 4 y @ ''-'' @ pad 2 (Suc mo) @ ''-'' @ pad 2 (Suc dd) @ ''T'' @ pad 2 (q div 3600) @ '':'' @
         pad 2 (q div 60 mod 60) @ '':'' @ pad 2 (q mod 60) @ frac_text (t mod second_ns) @ ''Z'')"

definition frac_parse :: "string \<Rightarrow> nat option" where
  "frac_parse s =
     (if s = ''Z'' then Some 0
      else case s of
        c # r \<Rightarrow>
          if c = CHR ''.'' \<and> r \<noteq> [] \<and> last r = CHR ''Z'' \<and> 2 \<le> length r \<and> length r \<le> 10
          then parse_digits (butlast r @ replicate (10 - length r) (CHR ''0'')) else None
      | [] \<Rightarrow> None)"

definition time_parse :: "string \<Rightarrow> nat option" where
  "time_parse x =
     (case take_num 4 x of None \<Rightarrow> None | Some (y, x) \<Rightarrow>
      case Option.bind (skip_char (CHR ''-'') x) (take_num 2) of None \<Rightarrow> None | Some (mo, x) \<Rightarrow>
      case Option.bind (skip_char (CHR ''-'') x) (take_num 2) of None \<Rightarrow> None | Some (dd, x) \<Rightarrow>
      case Option.bind (skip_char (CHR ''T'') x) (take_num 2) of None \<Rightarrow> None | Some (h, x) \<Rightarrow>
      case Option.bind (skip_char (CHR '':'') x) (take_num 2) of None \<Rightarrow> None | Some (mi, x) \<Rightarrow>
      case Option.bind (skip_char (CHR '':'') x) (take_num 2) of None \<Rightarrow> None | Some (s, x) \<Rightarrow>
      case frac_parse x of None \<Rightarrow> None | Some ns \<Rightarrow>
        if 1970 \<le> y \<and> 1 \<le> mo \<and> mo \<le> 12 \<and> 1 \<le> dd \<and> dd \<le> months y ! (mo - 1) \<and> h < 24 \<and> mi < 60 \<and> s < 60
        then Some (((days_before y + sum_list (take (mo - 1) (months y)) + (dd - 1)) * 86400 +
               h * 3600 + mi * 60 + s) * second_ns + ns)
        else None)"

text \<open>\<open>MarshalJSON\<close> fails for a year beyond 9999.\<close>

definition time_fits :: "nat \<Rightarrow> bool" where
  "time_fits t \<longleftrightarrow> fst (year_of 1970 (t div second_ns div 86400)) < 10000"

lemma zero_digit: "digit_char 0 = CHR ''0''"
  by code_simp

lemma frac_reads_back:
  assumes "ns < second_ns"
  shows "frac_parse (frac_text ns @ ''Z'') = Some ns"
proof (cases "ns = 0")
  case False
  let ?p = "pad 9 ns" and ?z = "(=) (CHR ''0'')"
  let ?s = "rev (dropWhile ?z (rev ?p))"
  have l: "length ?p = 9" using assms by (intro pad_length) (simp_all add: second_ns_def)
  have z: "\<exists>k. ?p = ?s @ replicate k (CHR ''0'')"
  proof -
    have "takeWhile ?z (rev ?p) = replicate (length (takeWhile ?z (rev ?p))) (CHR ''0'')"
      by (intro replicate_eqI) (auto dest: set_takeWhileD)
    then have "?p = ?s @ replicate (length (takeWhile ?z (rev ?p))) (CHR ''0'')"
      by (metis rev_append rev_replicate rev_rev_ident takeWhile_dropWhile_id)
    then show ?thesis by blast
  qed
  then obtain k where k: "?p = ?s @ replicate k (CHR ''0'')" by blast
  have "?s \<noteq> []"
  proof
    assume "?s = []"
    with k have p: "?p = replicate k (CHR ''0'')" by (metis append_Nil)
    with l have "?p = replicate (Suc 8) (CHR ''0'')" by simp
    also have "\<dots> = replicate 8 (CHR ''0'') @ nat_str 0"
      using zero_digit by (simp only: replicate_Suc replicate_append_same [symmetric]) (simp add: nat_str_small)
    finally have "parse_digits ?p = Some 0" by (simp only: parse_zeros)
    with False parse_pad [of 9 ns] show False by simp
  qed
  moreover have "length p = 9 \<Longrightarrow> p = s @ replicate k c \<Longrightarrow> p = s @ replicate (9 - length s) c" for p s and c :: char
    by auto
  from this [OF l k] have "?p = ?s @ replicate (9 - length ?s) (CHR ''0'')" .
  then have "parse_digits (?s @ replicate (9 - length ?s) (CHR ''0'')) = Some ns" using parse_pad [of 9 ns] by simp
  moreover have "length ?s \<le> 9" using length_dropWhile_le [of ?z "rev ?p"] l by simp
  ultimately show ?thesis
    using False by (cases ?s) (simp_all add: frac_parse_def frac_text_def butlast_append)
qed (simp add: frac_text_def frac_parse_def)

text \<open>A time that is written is read back to the nanosecond.\<close>

lemma time_reads_back:
  assumes "time_fits t"
  shows "time_parse (time_text t) = Some t"
proof -
  let ?s = "t div second_ns"
  let ?q = "?s mod 86400"
  obtain y d where y: "year_of 1970 (?s div 86400) = (y, d)" by force
  obtain mo dd where m: "month_of (months y) d = (mo, dd)" by force
  have yd: "?s div 86400 = days_before y + d" "d < year_days y" "1970 \<le> y" "y < 10000"
    using year_of_days [OF y] assms y by (auto simp: time_fits_def days_before_def)
  have md: "sum_list (take mo (months y)) + dd = d" "mo < 12" "dd < months y ! mo"
    using month_of_days [OF m] yd(2) by (simp_all add: sum_months months_length)
  have dl: "dd < 31" using md(3) month_length [OF md(2), of y] by simp
  have t: "?s = (?s div 86400) * 86400 + (?q div 3600) * 3600 + (?q div 60 mod 60) * 60 + ?q mod 60"
  proof -
    have "?q div 3600 = ?q div 60 div 60" by (simp flip: div_mult2_eq)
    then show ?thesis
      using div_mult_mod_eq [of ?s 86400] div_mult_mod_eq [of ?q 60] div_mult_mod_eq [of "?q div 60" 60] by linarith
  qed
  have T: "t = ?s * second_ns + t mod second_ns" by simp
  have ns: "t mod second_ns < second_ns" by (simp add: second_ns_def)
  have b: "?q div 3600 < 24" "?q div 60 mod 60 < 60" "?q mod 60 < 60" by simp_all
  have tx: "time_text t = pad 4 y @ ''-'' @ pad 2 (Suc mo) @ ''-'' @ pad 2 (Suc dd) @ ''T'' @ pad 2 (?q div 3600) @ '':'' @
      pad 2 (?q div 60 mod 60) @ '':'' @ pad 2 (?q mod 60) @ frac_text (t mod second_ns) @ ''Z''"
    by (simp add: time_text_def Let_def y m)
  have "time_parse (time_text t) = Some (((days_before y + sum_list (take mo (months y)) + dd) * 86400 +
      ?q div 3600 * 3600 + ?q div 60 mod 60 * 60 + ?q mod 60) * second_ns + t mod second_ns)"
    unfolding tx using yd md b dl
    by (simp add: time_parse_def skip_char_def take_num_pad frac_reads_back [OF ns])
  also have "days_before y + sum_list (take mo (months y)) + dd = ?s div 86400" using yd(1) md(1) by simp
  finally show ?thesis using t T by simp
qed

lemma time_text_example: "time_text 68212445006700000 = ''1972-02-29T11:54:05.0067Z''"
  by (simp add: time_text_def second_ns_def year_of.simps year_days_def leap_def months_def pad_def frac_text_def
      nat_str.simps digit_char_def, code_simp)

end
