(* ===== verification/Documents.thy ===== *)
theory Documents
  imports ConfigCodec TimeText Runner
begin

text \<open>
  The other two documents the program writes as JSON and reads back: \<open>state.json\<close>, the progress of the runner
  (\<open>app/runner.go\<close>, \<open>interfaces.ClusterState\<close>), and vfkit's \<open>spec.json\<close> (\<open>launchSpec\<close>). World keeps
  them as \<open>StateDoc\<close> and \<open>SpecDoc\<close>; here are their bytes and the round trips. Go reads a record without
  a time, or with another outcome than its two, as the zero time or that text; they are not decoded here.
\<close>

section \<open>Progress\<close>

definition outcome_text :: "stage_outcome \<Rightarrow> string" where
  "outcome_text x = (case x of StageOutcomeOK \<Rightarrow> ''ok'' | StageOutcomeFailed \<Rightarrow> ''failed'')"

definition dec_outcome :: "json option \<Rightarrow> stage_outcome option" where
  "dec_outcome j =
     (case j of Some (JStr s) \<Rightarrow>
          if s = ''ok'' then Some StageOutcomeOK else if s = ''failed'' then Some StageOutcomeFailed else None
      | _ \<Rightarrow> None)"

definition dec_time :: "json option \<Rightarrow> nat option" where
  "dec_time j = (case j of Some (JStr s) \<Rightarrow> time_parse s | _ \<Rightarrow> None)"

definition record_fields :: "stage_record field list" where
  "record_fields =
     [mk_field ''appliedAt'' (\<lambda>t. Some (JStr (time_text t))) dec_time srAppliedAt srAppliedAt_update,
      mk_field ''outcome'' (\<lambda>x. Some (JStr (outcome_text x))) dec_outcome srOutcome srOutcome_update]"

definition dec_record :: "json \<Rightarrow> stage_record option" where
  "dec_record j = dec_struct record_fields j \<lparr>srAppliedAt = 0, srOutcome = StageOutcomeOK\<rparr>"

definition canon_progress :: "progress \<Rightarrow> progress" where
  "canon_progress st = map (\<lambda>k. (k, the (map_of st k))) (sort (remdups (map fst st)))"

definition enc_stages :: "progress option \<Rightarrow> json" where
  "enc_stages x =
     (case x of None \<Rightarrow> JNull | Some st \<Rightarrow> JObj (map (\<lambda>(k, r). (k, enc_struct record_fields r)) (canon_progress st)))"

definition dec_stages :: "json option \<Rightarrow> progress option option" where
  "dec_stages j =
     (case j of None \<Rightarrow> Some None | Some JNull \<Rightarrow> Some None
      | Some (JObj m) \<Rightarrow> map_option Some (those (map (\<lambda>(k, v). map_option (Pair k) (dec_record v)) m))
      | _ \<Rightarrow> None)"

definition state_fields :: "cluster_state field list" where
  "state_fields = [mk_field ''stages'' (\<lambda>x. Some (enc_stages x)) dec_stages csStages csStages_update]"

definition state_text :: "cluster_state \<Rightarrow> string" where
  "state_text d = MarshalIndent (enc_struct state_fields d)"

definition parse_state :: "string \<Rightarrow> cluster_state option" where
  "parse_state s = Option.bind (json_parse s) (\<lambda>j. dec_struct state_fields j \<lparr>csStages = None\<rparr>)"

interpretation time_codec: value_codec "\<lambda>t. Some (JStr (time_text t))" dec_time time_fits
  by unfold_locales (auto simp: dec_time_def time_reads_back)

interpretation outcome_codec: value_codec "\<lambda>x. Some (JStr (outcome_text x))" dec_outcome "\<lambda>_. True"
  by unfold_locales (auto simp: dec_outcome_def outcome_text_def split: stage_outcome.splits)

lemma record_keys: "keys_distinct record_fields"
  by (simp add: keys_distinct_names record_fields_def mk_field_simps) code_simp

lemma record_reads_back:
  assumes "time_fits (srAppliedAt r)"
  shows "dec_record (enc_struct record_fields r) = Some r" "json_ok (enc_struct record_fields r)"
proof -
  obtain m where J: "enc_struct record_fields r = JObj m" by (simp add: enc_struct_def)
  have l: "\<forall>f \<in> set record_fields. struct_field (JObj m) (jf_name f) = jf_enc f r"
    unfolding J [symmetric] by (rule struct_fields [OF record_keys])
  note l = l [unfolded record_fields_def list.set ball_simps mk_field_simps]
  show "dec_record (enc_struct record_fields r) = Some r"
    unfolding J dec_record_def dec_struct_def json.case
    using assms by (simp add: record_fields_def mk_field_simps l time_codec.reads outcome_codec.reads)
  show "json_ok (enc_struct record_fields r)"
    by (rule struct_ok [OF record_keys]) (auto simp: record_fields_def mk_field_simps)
qed

lemma map_of_canon_progress: "map_of (canon_progress st) = map_of st"
proof
  fix k
  show "map_of (canon_progress st) k = map_of st k"
    using map_of_eq_None_iff [of st k]
    by (cases "k \<in> set (map fst st)") (auto simp: canon_progress_def map_of_map_restrict restrict_map_def)
qed

lemma canon_progress_in: "(k, r) \<in> set (canon_progress st) \<Longrightarrow> (k, r) \<in> set st"
  by (auto simp: canon_progress_def) (metis map_of_SomeD map_of_eq_None_iff option.exhaust_sel image_eqI fst_conv)

lemma progress_reads_back:
  assumes "\<forall>(k, r) \<in> set st. time_fits (srAppliedAt r)"
  shows "dec_stages (Some (enc_stages (Some st))) = Some (Some (canon_progress st))" "json_ok (enc_stages (Some st))"
proof -
  have fits: "time_fits (srAppliedAt r)" if "(k, r) \<in> set (canon_progress st)" for k r
    using canon_progress_in [OF that] assms by auto
  have "those (map (\<lambda>(k, v). map_option (Pair k) (dec_record v)) (map (\<lambda>(k, r). (k, enc_struct record_fields r)) (canon_progress st)))
      = Some (canon_progress st)"
    by (rule those_map) (auto simp: record_reads_back fits)
  then show "dec_stages (Some (enc_stages (Some st))) = Some (Some (canon_progress st))"
    by (simp only: dec_stages_def enc_stages_def option.case json.case option.map)
  have "distinct (map fst (canon_progress st))" by (simp add: canon_progress_def o_def)
  then show "json_ok (enc_stages (Some st))"
    by (auto simp: enc_stages_def list_all_iff record_reads_back fits o_def split_def)
qed

text \<open>C13. The bytes the runner writes to \<open>state.json\<close> give back its progress when it reads them: every stage
  is recorded as before, with its outcome and the time of its application to the nanosecond, as long as the
  times lie before the year 10000, where Go's encoder gives up.\<close>

theorem state_file_roundtrip:
  assumes "\<forall>(k, r) \<in> set st. time_fits (srAppliedAt r)"
  shows "\<exists>d. parse_state (state_text \<lparr>csStages = Some st\<rparr>) = Some d \<and> map_of (stages_of d) = map_of st"
proof -
  let ?d = "\<lparr>csStages = Some st\<rparr>"
  have k: "keys_distinct state_fields" by (simp add: keys_distinct_def state_fields_def)
  obtain m where J: "enc_struct state_fields ?d = JObj m" by (simp add: enc_struct_def)
  have "\<forall>f \<in> set state_fields. struct_field (JObj m) (jf_name f) = jf_enc f ?d"
    unfolding J [symmetric] by (rule struct_fields [OF k])
  then have "dec_struct state_fields (JObj m) \<lparr>csStages = None\<rparr> = Some \<lparr>csStages = Some (canon_progress st)\<rparr>"
    using progress_reads_back(1) [OF assms] by (simp add: dec_struct_def state_fields_def mk_field_def)
  moreover have "json_ok (enc_struct state_fields ?d)"
    by (rule struct_ok [OF k]) (auto simp: state_fields_def mk_field_simps progress_reads_back(2) [OF assms])
  ultimately have "parse_state (state_text ?d) = Some \<lparr>csStages = Some (canon_progress st)\<rparr>"
    by (simp add: parse_state_def state_text_def json_parse_MarshalIndent J)
  then show ?thesis by (simp add: stages_of_def map_of_canon_progress)
qed

theorem state_file_roundtrip_witness:
  "\<exists>d. parse_state (state_text \<lparr>csStages = Some (mark_applied ''b'' 7 (mark_applied ''a'' 8 []))\<rparr>) = Some d \<and>
     map_of (stages_of d) ''b'' = Some \<lparr>srAppliedAt = 7, srOutcome = StageOutcomeOK\<rparr>"
proof -
  have "\<forall>(k, r) \<in> set (mark_applied ''b'' 7 (mark_applied ''a'' 8 [])). time_fits (srAppliedAt r)"
    by (simp add: mark_applied_def time_fits_def second_ns_def year_of.simps year_days_def)
  from state_file_roundtrip [OF this] show ?thesis by (auto simp: mark_applied_def)
qed

section \<open>The launch specification of vfkit\<close>

definition disk_fields :: "extra_disk field list" where
  "disk_fields =
     [str_field ''Path'' edPath edPath_update,
      mk_field ''ReadOnly'' (\<lambda>b. Some (JBool b)) (dec_bool False) edReadOnly edReadOnly_update,
      mk_field ''Shareable'' (\<lambda>b. Some (JBool b)) (dec_bool False) edShareable edShareable_update]"

definition spec_fields :: "json \<Rightarrow> vm_spec field list" where
  "spec_fields e =
     [str_field ''Name'' vName vName_update,
      int_field ''MemoryMiB'' vMemoryMiB vMemoryMiB_update,
      int_field ''VCPUs'' vVCPUs vVCPUs_update,
      int_field ''DiskSizeGiB'' vDiskSizeGiB vDiskSizeGiB_update,
      str_field ''StoragePool'' vStoragePool vStoragePool_update,
      str_field ''MAC'' vMAC vMAC_update,
      str_field ''NetworkArg'' vNetworkArg vNetworkArg_update,
      str_field ''BootISO'' vBootISO vBootISO_update,
      str_field ''KernelArgs'' vKernelArgs vKernelArgs_update,
      str_field ''KernelPath'' vKernelPath vKernelPath_update,
      str_field ''InitrdPath'' vInitrdPath vInitrdPath_update,
      mk_field ''ExtraDisks'' (\<lambda>ds. Some (enc_slice e (enc_struct disk_fields) ds))
        (dec_slice (\<lambda>v. dec_struct disk_fields v \<lparr>edPath = [], edReadOnly = False, edShareable = False\<rparr>))
        vExtraDisks vExtraDisks_update]"

definition zero_spec :: vm_spec where
  "zero_spec =
     \<lparr>vName = [], vMemoryMiB = 0, vVCPUs = 0, vDiskSizeGiB = 0, vStoragePool = [], vMAC = [], vNetworkArg = [],
      vBootISO = [], vKernelArgs = [], vKernelPath = [], vInitrdPath = [], vExtraDisks = []\<rparr>"

definition dec_spec :: "json option \<Rightarrow> vm_spec option" where
  "dec_spec j =
     (case j of None \<Rightarrow> Some zero_spec | Some JNull \<Rightarrow> Some zero_spec | Some v \<Rightarrow> dec_struct (spec_fields JNull) v zero_spec)"

definition launch_fields :: "json \<Rightarrow> (vm_spec \<times> string) field list" where
  "launch_fields e =
     [mk_field ''Spec'' (\<lambda>s. Some (enc_struct (spec_fields e) s)) dec_spec fst apfst,
      str_field ''DiskPath'' snd apsnd]"

definition spec_text :: "json \<Rightarrow> vm_spec \<times> string \<Rightarrow> string" where
  "spec_text e ls = MarshalIndent (enc_struct (launch_fields e) ls)"

definition parse_spec :: "string \<Rightarrow> (vm_spec \<times> string) option" where
  "parse_spec s = Option.bind (json_parse s) (\<lambda>j. dec_struct (launch_fields JNull) j (zero_spec, []))"

definition spec_fits :: "vm_spec \<Rightarrow> bool" where
  "spec_fits s \<longleftrightarrow> int64 (vMemoryMiB s) \<and> int64 (vVCPUs s) \<and> int64 (vDiskSizeGiB s)"

lemma disk_keys: "keys_distinct disk_fields"
  unfolding keys_distinct_names by code_simp

lemma disk_reads_back:
  "dec_struct disk_fields (enc_struct disk_fields d) z = Some d" "json_ok (enc_struct disk_fields d)"
proof -
  obtain m where J: "enc_struct disk_fields d = JObj m" by (simp add: enc_struct_def)
  have l: "\<forall>f \<in> set disk_fields. struct_field (JObj m) (jf_name f) = jf_enc f d"
    unfolding J [symmetric] by (rule struct_fields [OF disk_keys])
  note l = l [unfolded disk_fields_def field_defs list.set ball_simps mk_field_simps]
  show "dec_struct disk_fields (enc_struct disk_fields d) z = Some d"
    unfolding J dec_struct_def json.case
    by (simp add: disk_fields_def field_defs mk_field_simps l str_codec.reads bool_codec.reads)
  show "json_ok (enc_struct disk_fields d)"
    by (rule struct_ok [OF disk_keys]) (auto simp: disk_fields_def field_defs mk_field_simps)
qed

lemma spec_keys: "keys_distinct (spec_fields e)"
  by (simp add: keys_distinct_names spec_fields_def field_defs mk_field_simps) code_simp

interpretation disks_codec: value_codec "\<lambda>ds. Some (enc_slice e (enc_struct disk_fields) ds)"
  "dec_slice (\<lambda>v. dec_struct disk_fields v \<lparr>edPath = [], edReadOnly = False, edShareable = False\<rparr>)"
  "\<lambda>_. e \<in> {JNull, JArr []}"
  by unfold_locales (auto intro!: slice_reads slice_ok simp: disk_reads_back)

interpretation spec_codec: value_codec "\<lambda>s. Some (enc_struct (spec_fields e) s)" dec_spec
  "\<lambda>s. e \<in> {JNull, JArr []} \<and> spec_fits s"
proof
  fix s
  assume s: "e \<in> {JNull, JArr []} \<and> spec_fits s"
  obtain m where J: "enc_struct (spec_fields e) s = JObj m" by (simp add: enc_struct_def)
  have l: "\<forall>f \<in> set (spec_fields e). struct_field (JObj m) (jf_name f) = jf_enc f s"
    unfolding J [symmetric] by (rule struct_fields [OF spec_keys])
  note l = l [unfolded spec_fields_def field_defs list.set ball_simps mk_field_simps]
  show "dec_spec (Some (enc_struct (spec_fields e) s)) = Some s"
    unfolding J dec_spec_def dec_struct_def json.case option.case
    using s by (simp add: spec_fields_def field_defs mk_field_simps l spec_fits_def str_codec.reads int_codec.reads
        disks_codec.reads [of e])
next
  fix s j
  assume s: "e \<in> {JNull, JArr []} \<and> spec_fits s" "Some (enc_struct (spec_fields e) s) = Some j"
  have "json_ok (enc_struct (spec_fields e) s)"
  proof (rule struct_ok [OF spec_keys])
    show "json_ok v" if "f \<in> set (spec_fields e)" "jf_enc f s = Some v" for f v
      using that s disks_codec.enc_ok [of e "vExtraDisks s"]
      by (auto simp: spec_fields_def field_defs mk_field_simps)
  qed
  with s(2) show "json_ok j" by simp
qed

text \<open>What \<open>Create\<close> of the vfkit manager writes to \<open>spec.json\<close>, every later start of the machine reads back.\<close>

lemma spec_file_roundtrip:
  assumes "e \<in> {JNull, JArr []}" "spec_fits s"
  shows "parse_spec (spec_text e (s, disk)) = Some (s, disk)"
proof -
  have k: "keys_distinct (launch_fields e)"
    by (simp add: keys_distinct_names launch_fields_def field_defs mk_field_simps) code_simp
  obtain m where J: "enc_struct (launch_fields e) (s, disk) = JObj m" by (simp add: enc_struct_def)
  have l: "\<forall>f \<in> set (launch_fields e). struct_field (JObj m) (jf_name f) = jf_enc f (s, disk)"
    unfolding J [symmetric] by (rule struct_fields [OF k])
  note l = l [unfolded launch_fields_def field_defs list.set ball_simps mk_field_simps]
  have "dec_struct (launch_fields JNull) (JObj m) (zero_spec, []) = Some (s, disk)"
    unfolding dec_struct_def json.case
    using assms spec_codec.dec_enc [of e s] by (simp add: launch_fields_def field_defs mk_field_def l dec_str_def)
  moreover have "json_ok (enc_struct (launch_fields e) (s, disk))"
    by (rule struct_ok [OF k])
      (use assms spec_codec.enc_ok [of e s] in \<open>auto simp: launch_fields_def field_defs mk_field_simps\<close>)
  ultimately show ?thesis by (simp add: parse_spec_def spec_text_def json_parse_MarshalIndent J)
qed

end
