(* ===== verification/NameFacts.thy ===== *)
theory NameFacts
  imports Registry
begin

text \<open>
  What a cluster's name may do to the paths made of it: \<open>validateName\<close> only refuses the empty name, and
  \<open>filepath.Join\<close> resolves the dots in it.
\<close>

section \<open>A name that climbs out of its directory\<close>

lemma path_clean_up:
  assumes "p \<noteq> []"
  shows "path_clean (p @ ''/clusters/..'') = path_clean p"
proof -
  have s: "split_on (CHR ''/'') ((p @ CHR ''/'' # ''clusters'') @ CHR ''/'' # ''..'') = split_on (CHR ''/'') p @ [''clusters'', ''..'']"
    by (subst split_on_last, simp, subst split_on_last) simp_all
  have "hd (p @ ''/clusters/..'') = hd p" using assms by simp
  moreover have "foldl (clean_step b) [] (split_on (CHR ''/'') (p @ ''/clusters/..'')) = foldl (clean_step b) [] (split_on (CHR ''/'') p)" for b
    using s by simp
  ultimately show ?thesis using assms by (simp add: path_clean_def)
qed

lemma ClusterDir_up: "cd \<noteq> [] \<Longrightarrow> path_clean cd = cd \<Longrightarrow> ClusterDir cd ''..'' = cd"
  using path_clean_up [of cd] by (simp add: ClusterDir_def path_join_def)

text \<open>Three steps up from the default configuration directory is the home directory.\<close>

lemma ClusterDir_home: "ClusterDir ''/home/u/.config/easyshift'' ''../../..'' = ''/home/u''"
  by code_simp

lemma removeall_files:
  assumes "\<And>y. fst (os_fault rt (OpRemoveAll d) y) = None" "has_prefix p (d @ ''/'')"
  shows "files (after (os_removeall rt d) s) p = None"
  using assms(1) [of "rest s"] assms(2) by (auto simp: os_removeall_def os_call_def after_def io_bind_def io_ret_def split: prod.splits)

lemma Save_files: "p \<noteq> config_path (ConfigDir m) \<Longrightarrow> files (after (Save rt m) s) p = files s p"
  by (cases "res (os_write rt (config_path (ConfigDir m)) (ConfigDoc (snapshot m))) s")
    (auto simp: Save_def dest: os_write_None os_write_Some)

lemma rollback_dir: "ConfigDir (snd (res (runner_Rollback rt cd q m (buildStages v d)) x)) = ConfigDir m"
  using retiring.runner_Rollback_within [OF pipeline_retires, of q m rt cd v d x] by (simp add: retire_step_def)

text \<open>The checks do not look at the name.\<close>

lemma name_unseen: "validateNew m (c\<lparr>cName := n\<rparr>) = validateNew m c"
  by (cases c) (simp only: validateNew_def validate_nat_def validate_bridge_def cluster_config.simps)


definition up_mem :: mem where
  "up_mem = (NewDefaultConfig ''/sim'')\<lparr>Clusters := [0], heap := (\<lambda>_. (sample_cluster ''..'')\<lparr>cState := ClusterStateCreating\<rparr>)\<rparr>"

definition up_sys :: sim where
  "up_sys = \<lparr>files = [''/sim/pull-secret'' \<mapsto> File (Raw ''secret''), ''/sim/config.json'' \<mapsto> File (ConfigDoc (snapshot up_mem))],
     rest = fresh_bundle ''/http''\<rparr>"

lemma rollback_nothing: "rollback_loop save r ss [] m = io_ret (None, m)"
  by (induction ss) simp_all


end
