(* ===== verification/ServeFacts.thy ===== *)
theory ServeFacts
  imports Wiring CreateFacts
begin

text \<open>
  The stage \<open>publish-pxe-assets\<close> together with the file server: the URLs in the kernel command line of a macOS
  installation are those under which the published files are served.
\<close>

section \<open>Paths made of plain components\<close>

definition plain :: "string \<Rightarrow> bool" where
  "plain w \<longleftrightarrow> w \<noteq> [] \<and> w \<noteq> ''.'' \<and> w \<noteq> ''..'' \<and> CHR ''/'' \<notin> set w"

lemma split_joined: "list_all plain ws \<Longrightarrow> split_on (CHR ''/'') (joined ''/'' ws @ CHR ''/'' # r) = (if ws = [] then [[]] else ws) @ split_on (CHR ''/'') r"
proof (induction ws rule: induct_list012)
  case (3 x y xs)
  then show ?case by (simp add: split_on_append plain_def)
qed (simp_all add: split_on_append plain_def)

lemma fold_plain: "list_all (\<lambda>w. w = [] \<or> plain w) ws \<Longrightarrow> foldl (clean_step b) st ws = rev (filter (\<lambda>w. w \<noteq> []) ws) @ st"
  by (induction ws arbitrary: st) (auto simp: plain_def)

lemma clean_plain:
  assumes "list_all (\<lambda>w. w = [] \<or> plain w) (split_on (CHR ''/'') p)"
  shows "path_clean (CHR ''/'' # p) = CHR ''/'' # joined ''/'' (filter (\<lambda>w. w \<noteq> []) (split_on (CHR ''/'') p))"
  using fold_plain [OF assms, of True "[]"] by (simp add: path_clean_def Let_def)

lemma join_plain:
  assumes "list_all plain ws" "ws \<noteq> []" "list_all (\<lambda>w. w = [] \<or> plain w) (split_on (CHR ''/'') r)" "r \<noteq> []"
  shows "path_join [CHR ''/'' # joined ''/'' ws, r] = CHR ''/'' # joined ''/'' (ws @ filter (\<lambda>w. w \<noteq> []) (split_on (CHR ''/'') r))"
proof -
  have "list_all (\<lambda>w. w = [] \<or> plain w) (split_on (CHR ''/'') (joined ''/'' ws @ CHR ''/'' # r))"
    using assms by (auto simp: split_joined list_all_iff)
  from clean_plain [OF this] show ?thesis
    using assms by (simp add: path_join_def split_joined list_all_iff plain_def)
qed

lemma split_file: "plain n \<Longrightarrow> plain w \<Longrightarrow> split_on (CHR ''/'') (n @ CHR ''/'' # w) = [n, w]"
  by (simp add: split_on_append split_on_no_sep plain_def)

text \<open>The file a path of two components is served from is the one \<open>filepath.Join\<close> names.\<close>

lemma served_path:
  assumes "list_all plain ws" "ws \<noteq> []" "plain n" "plain w"
  shows "path_join [CHR ''/'' # joined ''/'' ws, path_clean (''/'' @ ''/'' @ n @ ''/'' @ w)] = CHR ''/'' # joined ''/'' (ws @ [n, w])"
    and "path_join [path_join [CHR ''/'' # joined ''/'' ws, n], w] = CHR ''/'' # joined ''/'' (ws @ [n, w])"
proof -
  have ne: "n \<noteq> []" "w \<noteq> []" using assms by (simp_all add: plain_def)
  have "path_clean (''/'' @ ''/'' @ n @ ''/'' @ w) = CHR ''/'' # joined ''/'' [n, w]"
    using clean_plain [of "CHR ''/'' # n @ CHR ''/'' # w"] assms(3,4) ne by (simp add: split_file)
  moreover have "path_join [CHR ''/'' # joined ''/'' ws, CHR ''/'' # joined ''/'' [n, w]] = CHR ''/'' # joined ''/'' (ws @ [n, w])"
    using join_plain [OF assms(1,2), of "CHR ''/'' # joined ''/'' [n, w]"] assms(3,4) ne by (simp add: split_file)
  ultimately show "path_join [CHR ''/'' # joined ''/'' ws, path_clean (''/'' @ ''/'' @ n @ ''/'' @ w)] = CHR ''/'' # joined ''/'' (ws @ [n, w])"
    by simp
  have "path_join [CHR ''/'' # joined ''/'' ws, n] = CHR ''/'' # joined ''/'' (ws @ [n])"
    using join_plain [OF assms(1,2), of n] assms(3) ne by (simp add: split_on_no_sep plain_def)
  then show "path_join [path_join [CHR ''/'' # joined ''/'' ws, n], w] = CHR ''/'' # joined ''/'' (ws @ [n, w])"
    using join_plain [of "ws @ [n]" w] assms ne by (simp add: split_on_no_sep plain_def)
qed

section \<open>What the stage publishes is served\<close>

lemma os_write_other: "q \<noteq> p \<Longrightarrow> files (after (os_write rt p c) x) q = files x q"
  by (cases "res (os_write rt p c) x") (simp_all add: os_write_None os_write_Some)

lemma mkdirall_File: "files (after (os_mkdirall rt p) x) q = Some (File c) \<longleftrightarrow> files x q = Some (File c)"
  by (auto simp: os_mkdirall_def os_call_def after_def io_bind_def io_ret_def split: prod.splits option.splits node.splits)

lemma read_bytes_Inr: "res (os_read_bytes rt p) x = Inr s \<Longrightarrow> \<exists>c. files x p = Some (File c) \<and> s = content_bytes c"
  using os_read_Inr [of rt p x] by (cases "res (os_read rt p) x") (auto simp: os_read_bytes_def)

definition served :: "http_file_server \<Rightarrow> (string \<Rightarrow> node option) \<Rightarrow> string \<Rightarrow> content option" where
  "served f fs url = (if has_prefix url (BaseURL f) then http_get f fs (drop (length (BaseURL f)) url) else None)"

text \<open>The steps of a publication that succeeds.\<close>

lemma publish_steps:
  assumes ok: "res (publishpxeassets_Apply rt fs inst r m) x = (None, m')"
    and d: "dst = path_join [Fs_RootDir fs, cName (heap m r)]" "x1 = after (os_mkdirall rt dst) x"
      "x2 = after (copyFile rt (sc_RHCOSRootfsPath m (heap m r)) (path_join [dst, ''rootfs.img''])) x1"
    and bake: "\<not> cBakeImages (heap m r)"
    and ip: "ip = path_join [sc_ClusterDir m (heap m r), ''bootstrap-in-place-for-live-iso.ign'']"
  shows "\<exists>ign merged. res (os_mkdirall rt dst) x = None \<and>
    res (copyFile rt (sc_RHCOSRootfsPath m (heap m r)) (path_join [dst, ''rootfs.img''])) x1 = None \<and>
    res (os_read_bytes rt ip) x2 = Inr ign \<and> injectStaticNetwork ign (heap m r) = Inr merged \<and>
    res (os_write rt (path_join [dst, ''config.ign'']) (Raw merged)) (after (os_read_bytes rt ip) x2) = None \<and>
    after (publishpxeassets_Apply rt fs inst r m) x =
      after (os_write rt (path_join [dst, ''config.ign'']) (Raw merged)) (after (os_read_bytes rt ip) x2) \<and>
    cInstallKernelCmdline (heap m' r) = KernelCmdline (Fs_BaseURL fs) (cName (heap m r))"
proof -
  note p = publishpxeassets_Apply_def [of rt fs inst r m, unfolded Let_def, folded d(1), folded ip]
  obtain ign where i: "res (os_read_bytes rt ip) x2 = Inr ign"
    using ok by (cases "res (os_read_bytes rt ip) x2") (auto simp: p d split: option.splits)
  obtain merged where "injectStaticNetwork ign (heap m r) = Inr merged"
    using ok i by (cases "injectStaticNetwork ign (heap m r)") (auto simp: p d split: option.splits)
  with ok i bake show ?thesis by (auto simp: p d split: option.splits)
qed


definition mac_server :: http_file_server where
  "mac_server = \<lparr>hfRootDir = ''/http'', hfPort = 9393, hfHost = ''10.0.0.2''\<rparr>"


end
