(* ===== verification/Spec2Isabelle.thy ===== *)
theory Spec2Isabelle
  imports BootFacts InstallFacts Admission Operations VfkitFacts LibvirtFacts Dns HostProviders CliFacts CreateFacts
    RegistrySpec Documents NameFacts ServeFacts
begin

text \<open>
  EasyShift installs single-node OpenShift clusters in local virtual machines (libvirt on Linux,
  vfkit on macOS). This development models its Go sources and proves what its parts guarantee.

  \<^bold>\<open>The program.\<close> The command line (\<open>cmd/easyshift\<close>) loads \<open>config.json\<close>, assembles the production
  dependencies (\<open>app/deps.go\<close>) or the doubles of \<open>--simulate\<close> (\<open>providers/fakes\<close>), and calls the cluster
  manager (\<open>app/manager.go\<close>). A create validates the request, fills in defaults, and hands a list of 18
  stages (\<open>stages/*\<close>) to the runner (\<open>app/runner.go\<close>), which runs the preflight checks, applies the stages
  in order and records each in \<open>state.json\<close>, so that a later create resumes; a delete rolls the recorded
  stages back in reverse order. A stage sees the cluster, the configuration and the side-effect interfaces
  (\<open>interfaces/*.go\<close>), which the providers (\<open>providers/*\<close>) implement.

  \<^bold>\<open>How the model is made.\<close>
  \<^item> A \<open>config.Config\<close> is a \<open>mem\<close>: the slice of cluster pointers is a list of references into
    \<open>heap\<close>, so that the stages and the manager share the clusters as they do in Go. Pointers into it are
    the references \<open>r\<close>, \<open>q\<close>.
  \<^item> The world outside is a \<open>sys\<close>: the files, and the rest (of any type \<open>'x\<close>). Every effect is an \<open>io\<close>: a
    function from a state to a result, the time it took in nanoseconds, and the state after it.
    Any call of the operating system may fail (\<open>os_fault\<close>), any command may answer anything.
  \<^item> Errors are values of \<open>error\<close> with the constructors the source uses (\<open>fmt.Errorf\<close> with and without
    \<open>%w\<close>, \<open>errors.Join\<close>, sentinels), so that \<open>errors.Is\<close> is a function; fallible code returns
    \<open>error + 'a\<close> or \<open>error option\<close>. A handler that also changes the configuration returns both.
  \<^item> An interface of Go is a record of operations; the parameters \<open>rt\<close>, \<open>env\<close>, \<open>exec_rt\<close>, \<open>host_rt\<close>,
    \<open>pki\<close> and \<open>platform\<close> stand for the Go runtime, the schedules of goroutines, processes, sockets,
    cryptography and third-party libraries, about which only the named hypotheses are assumed.
  \<^item> Go strings are lists of bytes; 64-bit arithmetic is \<open>64 word\<close> where it can wrap around
    (\<open>checkHostMemory\<close>) and \<open>int\<close> elsewhere.

  \<^bold>\<open>The theories,\<close> each after those it uses.
  \<^item> Prelude: strings, \<open>strings\<close>, \<open>strconv\<close>, \<open>fmt\<close>, errors, effects. NetAddr: \<open>net\<close> and
    \<open>net/netip\<close>. Json: \<open>encoding/json\<close>, decoding and compact encoding. JsonText: its indented encoding,
    and that decoding inverts it.
  \<^item> Config (\<open>config/\<close>): the records and the rules for addresses, names and paths. World (\<open>interfaces/\<close>,
    \<open>config/\<close>): files, \<open>Save\<close>, \<open>LoadConfig\<close>, tokens, the side-effect interfaces and the stage
    context. ConfigCodec: \<open>config.json\<close> byte by byte, with the locale \<open>value_codec\<close>. TimeText:
    times in RFC 3339. Documents: \<open>state.json\<close> and vfkit's \<open>spec.json\<close> byte by byte.
  \<^item> Polling: the deadline loop all waits share, with the locale \<open>deadline_loop\<close>.
  \<^item> OpenShift (\<open>providers/openshift/\<close>): mirrors and versions, the image baker, the installer,
    systemd escaping, the Rosetta machine config.
  \<^item> Allocator (\<open>stages/allocatenetwork\<close>), StagesCore, StagesBoot, StagesInstall (the other stages, in the
    order of the pipeline); Runner (\<open>app/runner.go\<close>); Manager (\<open>app/manager.go\<close>, \<open>app/converge.go\<close>);
    NATReset (\<open>app/natreset.go\<close>); Status (\<open>app/status.go\<close>).
  \<^item> Fakes (\<open>providers/fakes\<close>): the doubles as an executable bundle of dependencies, which also serve as the
    concrete instance of most witnesses.
  \<^item> Processes, Sidecar (\<open>providers/vmnethelper\<close>), Vfkit (\<open>providers/vfkit\<close>), Libvirt
    (\<open>providers/libvirt\<close>), Dns (\<open>providers/dns\<close>), HostProviders (\<open>providers/host\<close>, \<open>providers/csr\<close>,
    \<open>providers/exec\<close>), Odf (\<open>providers/odf\<close>), Redhat (\<open>providers/redhat\<close>), Truststore
    (\<open>providers/truststore\<close>), Certificates (\<open>providers/localca\<close>, \<open>providers/tls\<close>, \<open>app/localca.go\<close>),
    Wiring (\<open>app/deps.go\<close>, \<open>providers/fileserver\<close>), Cli (\<open>cmd/easyshift\<close>).
  \<^item> Lifecycle, Registry, RegistrySpec, Pipeline, Admission, Operations, BootFacts, InstallFacts, OdfFacts,
    VfkitFacts, LibvirtFacts, CliFacts, CreateFacts, ServeFacts, NameFacts, SimulatedRun: theorems across components.

  \<^bold>\<open>What the lemmas show.\<close>
  \<^item> Runner: an apply runs exactly the stages that are not recorded, in order, stops at the first error and
    records what it did; a resumed apply repeats no recorded stage; a rollback undoes the recorded stages in
    reverse and clears the record.
  \<^item> Allocator and Registry: allocation is fresh, within the reserved band and distinct; release undoes it;
    in every reachable state at most three clusters have distinct names and share no address. RegistrySpec
    states the contract as an abstract registry, and every run of the manager refines it.
  \<^item> Pipeline, SimulatedRun, Operations: a create from scratch ends with the cluster registered, addressed,
    running and recorded, and such a run exists (the simulated one); a delete gives back
    name and addresses; a stop leaves the machines off; the wait after a start ends.
  \<^item> Admission: the shape of every cluster that validation lets through, and the requests it lets
    through although they cannot be built.
  \<^item> ConfigCodec, Documents, Certificates, Dns, LibvirtFacts, OpenShift: what is written is read back
    (configuration file, progress file, launch specification, certificate authority, DNS records, network definition, escaped unit names).
  \<^item> BootFacts, InstallFacts, OdfFacts, Redhat: bounds of the kernel decompression (equal to a reference),
    the memory guard on words, the verdict and the time of the waits, the order of the ODF manifests, the
    liveness of their waits, the soundness of the device login.
  \<^item> ServeFacts: the URLs in the kernel command line of a macOS installation are those under which the file
    server serves what was published. NameFacts, CreateFacts: names and requests that are accepted although
    they do harm or cannot succeed.
  \<^item> Vfkit, Sidecar: the boot phases of a macOS machine refine a two-phase machine, a start boots the
    installed disk, only the machine's own helper processes are matched; two races of the watcher with
    the operations are proved as they are.

  \<^bold>\<open>Interfaces.\<close> A contract between components is a locale, and every locale is interpreted on the model:
  \<open>address_pool\<close> (the IP and the MAC allocator), \<open>progress_store\<close> (the runner's \<open>state.json\<close>),
  \<open>idempotent_stage\<close> (register-cluster), \<open>deadline_loop\<close> (verify-master-ip), \<open>stage_relation\<close> (the
  effects of the stages on the registry, of the rollbacks, and of the stages that leave it alone), \<open>vm_power\<close>
  (the simulated machines), \<open>value_codec\<close> (each kind of field of the three JSON documents).

  \<^bold>\<open>Bounds and fuel.\<close> The allocator makes 100 attempts at a MAC address and the install stage 3, as in the
  source. The polling loops are total: a wait takes at least a millisecond, and the loop recurs on what is
  left of the deadline. The JSON parser takes two units of fuel per byte, and two more, which the
  lemma \<open>reads_back_all\<close> shows to be enough for every printed value; the certificate bundle is searched with one unit more
  than its length. A loop without a deadline (the watcher, the approver, the hostname injector) is a turn,
  and a schedule of turns is a parameter.

  \<^bold>\<open>Not modelled.\<close> The parsing of flags and the help of \<open>cobra\<close>; log messages and the tee of a command's
  output into a log file; of \<open>net/http\<close>'s server only which file answers a request is modelled; mutexes, since each critical section is one step;
  the parts of \<open>context.Context\<close> other than cancellation during a wait; the test helper
  \<open>config/testing.go\<close>; the replacement of invalid UTF-8 by \<open>encoding/json\<close>, its nesting limit, and a
  null among the clusters. Outside programs (\<open>virsh\<close>, \<open>vfkit\<close>, \<open>openshift-install\<close>, \<open>oc\<close>, \<open>dig\<close> and so
  on), DNS and ACME libraries, gzip and cryptography are parameters. In the file system of the model the three
  documents are kept decoded (\<open>ConfigDoc\<close>, \<open>StateDoc\<close>, \<open>SpecDoc\<close>), which ConfigCodec and Documents justify;
  a text the program would decode but not write (a hand-written one) is not such a document.
\<close>

end
